(* ===== verification/Prelude.thy ===== *)
theory Prelude
  imports Main "HOL-Library.Word"
begin

unbundle bit_operations_syntax

text \<open>
  Shared vocabulary of the development.
  \<^item> \<open>exec\<close>: the type of an operation that may change a state, return a value, or end the
    simulation with an error; \<open>ret\<close>, \<open>bnd\<close>, \<open>fail\<close>, \<open>gets\<close>, \<open>modify\<close> and
    \<open>onto\<close> (run an operation of a part on the whole) build such operations.
  \<^item> \<open>sc_range\<close>, \<open>sc_bit\<close>: the field selections \<open>x.range(hi, lo)\<close> and \<open>x[n]\<close>
    the code takes on \<open>sc_uint\<close> values.
  \<^item> \<open>le_bytes\<close>, \<open>of_bytes\<close>: the little endian byte image of an integer, which is what
    the code's pointer casts and \<open>memcpy\<close> calls see on the hosts it is built for.
  \<^item> the collections \<open>exec_simps\<close> (evaluation of operations) and \<open>bit_blast\<close> (bit by
    bit comparison of words).
\<close>

named_theorems exec_simps "unfold an operation to its effect on the state"
named_theorems bit_blast "the value of a single bit of a word expression"

section \<open>Operations with state and failure\<close>

text \<open>
  The ways an operation does not return: an error report of the kernel (which throws), a
  copy that runs over the end of an array, a shift by at least the width of its operand (no
  value is defined for it in C++), a signed division whose quotient does not fit (the
  host traps), the exceptions of the string functions and a read past the end of a string,
  a file that cannot be opened, and an access through a null pointer.
\<close>

datatype sim_error =
    SC_report_error "64 word"
  | Array_overrun "64 word" nat
  | Shift_undefined nat
  | Division_overflow
  | Out_of_range
  | Invalid_argument
  | String_overrun
  | Length_error
  | Open_file_error
  | Null_pointer

type_synonym ('s, 'a) exec = "'s \<Rightarrow> sim_error + 'a \<times> 's"

definition ret :: "'a \<Rightarrow> ('s, 'a) exec" where
  "ret x = (\<lambda>s. Inr (x, s))"

definition bnd :: "('s, 'a) exec \<Rightarrow> ('a \<Rightarrow> ('s, 'b) exec) \<Rightarrow> ('s, 'b) exec" where
  "bnd m f = (\<lambda>s. case m s of Inl e \<Rightarrow> Inl e | Inr (x, t) \<Rightarrow> f x t)"

definition fail :: "sim_error \<Rightarrow> ('s, 'a) exec" where
  "fail e = (\<lambda>s. Inl e)"

definition gets :: "('s \<Rightarrow> 'a) \<Rightarrow> ('s, 'a) exec" where
  "gets f = (\<lambda>s. Inr (f s, s))"

definition modify :: "('s \<Rightarrow> 's) \<Rightarrow> ('s, unit) exec" where
  "modify f = (\<lambda>s. Inr ((), f s))"

text \<open>Runs an operation of a part of the state, given how to read and replace that part.\<close>

definition onto :: "('s \<Rightarrow> 'p) \<Rightarrow> ('p \<Rightarrow> 's \<Rightarrow> 's) \<Rightarrow> ('p, 'a) exec \<Rightarrow> ('s, 'a) exec" where
  "onto get put m = (\<lambda>s. case m (get s) of Inl e \<Rightarrow> Inl e | Inr (x, p) \<Rightarrow> Inr (x, put p s))"

lemma ret_run [exec_simps, simp]: "ret x s = Inr (x, s)"
  by (simp add: ret_def)

lemma fail_run [exec_simps, simp]: "fail e s = Inl e"
  by (simp add: fail_def)

lemma gets_run [exec_simps, simp]: "gets f s = Inr (f s, s)"
  by (simp add: gets_def)

lemma modify_run [exec_simps, simp]: "modify f s = Inr ((), f s)"
  by (simp add: modify_def)

lemma bnd_run [exec_simps]:
  "bnd m f s = (case m s of Inl e \<Rightarrow> Inl e | Inr (x, t) \<Rightarrow> f x t)"
  by (simp add: bnd_def)

lemma onto_run [exec_simps]:
  "onto get put m s =
     (case m (get s) of Inl e \<Rightarrow> Inl e | Inr (x, p) \<Rightarrow> Inr (x, put p s))"
  by (simp add: onto_def)

lemma bnd_Inr_iff:
  "bnd m f s = Inr r \<longleftrightarrow> (\<exists>x t. m s = Inr (x, t) \<and> f x t = Inr r)"
  by (auto simp: bnd_run split: sum.splits)

lemma onto_Inr_iff:
  "onto get put m s = Inr (x, t) \<longleftrightarrow> (\<exists>p. m (get s) = Inr (x, p) \<and> t = put p s)"
  by (auto simp: onto_run split: sum.splits)

lemma if_run [exec_simps]: "(if c then m else n) s = (if c then m s else n s)"
  by simp

section \<open>What an operation keeps\<close>

text \<open>
  \<open>keeps I m\<close>: whatever state satisfying \<open>I\<close> the operation \<open>m\<close> starts in, the state
  it returns in satisfies \<open>I\<close>.
\<close>

definition keeps :: "('s \<Rightarrow> bool) \<Rightarrow> ('s, 'a) exec \<Rightarrow> bool" where
  "keeps I m \<longleftrightarrow> (\<forall>s x t. I s \<longrightarrow> m s = Inr (x, t) \<longrightarrow> I t)"

named_theorems keeps_intros "composition of operations that keep a predicate"

lemma keepsI: "(\<And>s x t. I s \<Longrightarrow> m s = Inr (x, t) \<Longrightarrow> I t) \<Longrightarrow> keeps I m"
  by (auto simp: keeps_def)

lemma keepsD: "keeps I m \<Longrightarrow> I s \<Longrightarrow> m s = Inr (x, t) \<Longrightarrow> I t"
  by (auto simp: keeps_def)

lemma keeps_ret [keeps_intros]: "keeps I (ret x)"
  by (auto simp: keeps_def)

lemma keeps_fail [keeps_intros]: "keeps I (fail e)"
  by (auto simp: keeps_def)

lemma keeps_gets [keeps_intros]: "keeps I (gets f)"
  by (auto simp: keeps_def)

lemma keeps_bnd [keeps_intros]: "keeps I m \<Longrightarrow> (\<And>x. keeps I (f x)) \<Longrightarrow> keeps I (bnd m f)"
  unfolding keeps_def bnd_Inr_iff by blast

lemma keeps_if [keeps_intros]: "keeps I m \<Longrightarrow> keeps I n \<Longrightarrow> keeps I (if c then m else n)"
  by simp

lemma keeps_let [keeps_intros]: "(\<And>y. keeps I (f y)) \<Longrightarrow> keeps I (let y = x in f y)"
  by simp

lemma keeps_case_prod [keeps_intros]: "(\<And>a b. keeps I (f a b)) \<Longrightarrow> keeps I (case_prod f p)"
  by (cases p) simp

lemma keeps_onto:
  assumes "keeps I m" "\<And>p s. I (get (put p s)) \<longleftrightarrow> I p"
  shows "keeps (\<lambda>s. I (get s)) (onto get put m)"
  using assms unfolding keeps_def onto_Inr_iff by blast

text \<open>Running a sequence on a part is a sequence of runs on the part.\<close>

lemma onto_bnd:
  assumes "\<And>p s. get (put p s) = p" "\<And>p q s. put q (put p s) = put q s"
  shows "onto get put (bnd m f) = bnd (onto get put m) (\<lambda>x. onto get put (f x))"
  by (rule ext) (auto simp: onto_run bnd_run assms split: sum.splits)

section \<open>Fields of words\<close>

definition sc_range :: "nat \<Rightarrow> nat \<Rightarrow> 'a::len word \<Rightarrow> 'a word" where
  "sc_range hi lo w = take_bit (Suc hi - lo) (drop_bit lo w)"

definition sc_bit :: "nat \<Rightarrow> 'a::len word \<Rightarrow> 'a word" where
  "sc_bit n w = of_bool (bit w n)"

text \<open>Assignment to a field, as in \<open>x.range(hi, lo) = v\<close>.\<close>

definition sc_set_range :: "nat \<Rightarrow> nat \<Rightarrow> 'a::len word \<Rightarrow> 'a word \<Rightarrow> 'a word" where
  "sc_set_range hi lo v w =
     (w AND NOT (push_bit lo (mask (Suc hi - lo)))) OR push_bit lo (take_bit (Suc hi - lo) v)"

lemma bit_sc_range [bit_blast]: "bit (sc_range hi lo w) n \<longleftrightarrow> n < Suc hi - lo \<and> bit w (lo + n)"
  by (auto simp: sc_range_def bit_simps)

lemma bit_sc_bit [bit_blast]: "bit (sc_bit k w) n \<longleftrightarrow> n = 0 \<and> bit w k"
  by (auto simp: sc_bit_def bit_simps)

lemma bit_sc_set_range [bit_blast]:
  "bit (sc_set_range hi lo v w) n \<longleftrightarrow>
     (if lo \<le> n \<and> n < lo + (Suc hi - lo) then n < LENGTH('a) \<and> bit v (n - lo) else bit w n)"
  for v w :: "'a::len word"
  by (auto simp: sc_set_range_def bit_simps dest: bit_imp_le_length)

lemma sc_bit_eq: "sc_bit n w = 1 \<longleftrightarrow> bit w n" "sc_bit n w = 0 \<longleftrightarrow> \<not> bit w n"
  by (auto simp: sc_bit_def)

lemma unat_sc_range_less: "unat (sc_range hi lo w) < 2 ^ (Suc hi - lo)"
  by (simp add: sc_range_def unsigned_take_bit_eq)

lemma sc_range_set_range:
  "Suc hi - lo \<le> LENGTH('a) - lo \<Longrightarrow>
    sc_range hi lo (sc_set_range hi lo v w) = take_bit (Suc hi - lo) v"
  for v w :: "'a::len word"
  by (rule bit_word_eqI) (auto simp: bit_blast bit_simps)

text \<open>Runs of ones, as the code writes them in binary.\<close>

lemma ones_32 [bit_blast]: "(0xFFFFFFFF :: 'a::len word) = mask 32"
  by (simp add: mask_eq_exp_minus_1)

lemma ones_26 [bit_blast]: "(0x3FFFFFF :: 'a::len word) = mask 26"
  by (simp add: mask_eq_exp_minus_1)

lemma ones_23 [bit_blast]: "(0x7FFFFF :: 'a::len word) = mask 23"
  by (simp add: mask_eq_exp_minus_1)

lemma ones_22 [bit_blast]: "(0x3FFFFF :: 'a::len word) = mask 22"
  by (simp add: mask_eq_exp_minus_1)

lemma ones_20 [bit_blast]: "(0xFFFFF :: 'a::len word) = mask 20"
  by (simp add: mask_eq_exp_minus_1)

lemma ones_15 [bit_blast]: "(0x7FFF :: 'a::len word) = mask 15"
  by (simp add: mask_eq_exp_minus_1)

lemma ones_12 [bit_blast]: "(0xFFF :: 'a::len word) = mask 12"
  by (simp add: mask_eq_exp_minus_1)

lemma bit_if [bit_blast]: "bit (if c then x else y) n = (if c then bit x n else bit y n)"
  by simp

lemmas bit_ops [bit_blast] =
  bit_push_bit_iff bit_drop_bit_eq bit_take_bit_iff bit_or_iff bit_and_iff bit_xor_iff
  bit_not_iff bit_mask_iff bit_unsigned_iff bit_signed_iff

text \<open>Two words are equal when they agree on each of their bits, listed one by one.\<close>

lemma word_eq_all_bits:
  "x = y \<longleftrightarrow> list_all (\<lambda>n. bit x n = bit y n) [0..<LENGTH('a)]" for x y :: "'a::len word"
  by (auto simp: list_all_iff bit_eq_iff dest: bit_imp_le_length)

lemma upt_bits:
  "[0..<7] = [0, 1, 2, 3, 4, 5, 6]"
  "[0..<8] = [0, 1, 2, 3, 4, 5, 6, 7]"
  "[0..<32] = [0, 1, 2, 3, 4, 5, 6, 7, 8, 9, 10, 11, 12, 13, 14, 15, 16, 17, 18, 19, 20, 21,
     22, 23, 24, 25, 26, 27, 28, 29, 30, 31]"
  "[0..<64] = [0, 1, 2, 3, 4, 5, 6, 7, 8, 9, 10, 11, 12, 13, 14, 15, 16, 17, 18, 19, 20, 21,
     22, 23, 24, 25, 26, 27, 28, 29, 30, 31, 32, 33, 34, 35, 36, 37, 38, 39, 40, 41, 42, 43,
     44, 45, 46, 47, 48, 49, 50, 51, 52, 53, 54, 55, 56, 57, 58, 59, 60, 61, 62, 63]"
  by (simp_all add: upt_rec)

lemmas word_bitwise_eq = word_eq_all_bits upt_bits

section \<open>Bytes\<close>

type_synonym byte = "8 word"

primrec le_bytes :: "nat \<Rightarrow> 'a::len word \<Rightarrow> byte list" where
  "le_bytes 0 w = []"
| "le_bytes (Suc n) w = ucast w # le_bytes n (drop_bit 8 w)"

primrec of_bytes :: "byte list \<Rightarrow> 'a::len word" where
  "of_bytes [] = 0"
| "of_bytes (b # bs) = ucast b OR push_bit 8 (of_bytes bs)"

lemma length_le_bytes [simp]: "length (le_bytes n w) = n"
  by (induction n arbitrary: w) simp_all

lemma bit_of_bytes_le_bytes:
  "bit (of_bytes (le_bytes n w) :: 'b::len word) k \<longleftrightarrow> k < LENGTH('b) \<and> k < 8 * n \<and> bit w k"
  for w :: "'a::len word"
  by (induction n arbitrary: w k) (auto simp: bit_simps not_less dest: bit_imp_le_length)

lemma of_bytes_le_bytes [simp]:
  "LENGTH('a) \<le> 8 * n \<Longrightarrow> of_bytes (le_bytes n w) = w" for w :: "'a::len word"
  by (rule bit_word_eqI) (auto simp: bit_of_bytes_le_bytes)

lemma nth_le_bytes: "i < n \<Longrightarrow> le_bytes n w ! i = ucast (drop_bit (8 * i) w)"
  by (induction n arbitrary: w i) (auto simp: nth_Cons' drop_bit_drop_bit algebra_simps)

lemma bit_of_bytes:
  "bit (of_bytes bs :: 'a::len word) k \<longleftrightarrow>
     k < LENGTH('a) \<and> k div 8 < length bs \<and> bit (bs ! (k div 8)) (k mod 8)"
proof (induction bs arbitrary: k)
  case Nil
  then show ?case by simp
next
  case (Cons b bs)
  show ?case
  proof (cases "k < 8")
    case True
    then show ?thesis by (auto simp: bit_simps)
  next
    case False
    then have "k div 8 = Suc ((k - 8) div 8)" "k mod 8 = (k - 8) mod 8"
      by (simp_all add: le_div_geq le_mod_geq)
    then show ?thesis
      using False Cons.IH [of "k - 8"] by (auto simp: bit_simps dest: bit_imp_le_length)
  qed
qed

lemma le_bytes_of_bytes:
  assumes "8 * length bs \<le> LENGTH('a)"
  shows "le_bytes (length bs) (of_bytes bs :: 'a::len word) = bs"
proof (rule nth_equalityI)
  fix i assume "i < length (le_bytes (length bs) (of_bytes bs :: 'a word))"
  then have i: "i < length bs" by simp
  then have "8 * i + k < LENGTH('a)" if "k < 8" for k
    using assms that by simp
  then show "le_bytes (length bs) (of_bytes bs :: 'a word) ! i = bs ! i"
    using i by (intro bit_word_eqI) (simp add: nth_le_bytes bit_simps bit_of_bytes)
qed simp

end
