(* ===== verification/ISA_Spec.thy ===== *)
theory ISA_Spec
  imports Prelude "HOL-Library.Signed_Division"
begin

text \<open>
  What the processor promises, written from the instruction set manual and not from the code:
  the instructions of RV32I, RV64I and M as a datatype, their 32-bit encodings, and what each
  does to an architectural state of registers, program counter and memory. The memory has
  \<open>2 ^ 24\<close> bytes, as the platform has; an access that leaves it, or an instruction that the
  register width does not have, is \<open>None\<close>: nothing is promised for it. \<open>isa_op\<close> is the manual's
  effect of an instruction, \<open>isa_exec\<close> the part of it the code has: it leaves out one pair of
  operands (\<open>host_traps\<close>). The execution theories show that the code refines \<open>isa_exec\<close>. The fence,
  the environment and the CSR instructions belong to System_Machine, and the word multiplications
  and divisions stand at the end, because their exceptions are different.
\<close>

section \<open>Instructions\<close>

type_synonym regno = "5 word"

datatype branch_op = B_EQ | B_NE | B_LT | B_GE | B_LTU | B_GEU
datatype load_op = L_B | L_H | L_W | L_BU | L_HU | L_WU | L_D
datatype store_op = S_B | S_H | S_W | S_D
datatype imm_op = I_ADD | I_SLT | I_SLTU | I_XOR | I_OR | I_AND
datatype shift_op = SH_LL | SH_RL | SH_RA
datatype alu_op = A_ADD | A_SUB | A_SLL | A_SLT | A_SLTU | A_XOR | A_SRL | A_SRA | A_OR | A_AND
datatype word_op = W_ADD | W_SUB | W_SLL | W_SRL | W_SRA
datatype md_op = M_MUL | M_MULH | M_MULHSU | M_MULHU | M_DIV | M_DIVU | M_REM | M_REMU

datatype insn =
    LUI regno "20 word"
  | AUIPC regno "20 word"
  | JAL regno "20 word"
  | JALR regno regno "12 word"
  | BRANCH branch_op regno regno "12 word"
  | LOAD load_op regno regno "12 word"
  | STORE store_op regno regno "12 word"
  | OP_IMM imm_op regno regno "12 word"
  | SHIFT shift_op regno regno "6 word"
  | OP alu_op regno regno regno
  | OP_IMM_W regno regno "12 word"
  | SHIFT_W shift_op regno regno "5 word"
  | OP_W word_op regno regno regno
  | MULDIV md_op regno regno regno

section \<open>Encoding\<close>

text \<open>A field placed at a bit position, and the formats of the manual as sums of fields.\<close>

definition field :: "nat \<Rightarrow> 'a::len word \<Rightarrow> 32 word" where
  "field lo w = push_bit lo (ucast w)"

text \<open>Bits \<open>lo\<close> and up of a word, as many as the result has.\<close>

definition part :: "nat \<Rightarrow> 'a::len word \<Rightarrow> 'b::len word" where
  "part lo w = ucast (drop_bit lo w)"

definition enc_R :: "7 word \<Rightarrow> regno \<Rightarrow> regno \<Rightarrow> 3 word \<Rightarrow> regno \<Rightarrow> 7 word \<Rightarrow> 32 word" where
  "enc_R f7 rs2 rs1 f3 rd op =
     field 25 f7 OR field 20 rs2 OR field 15 rs1 OR field 12 f3 OR field 7 rd OR field 0 op"

definition enc_I :: "12 word \<Rightarrow> regno \<Rightarrow> 3 word \<Rightarrow> regno \<Rightarrow> 7 word \<Rightarrow> 32 word" where
  "enc_I imm rs1 f3 rd op =
     field 20 imm OR field 15 rs1 OR field 12 f3 OR field 7 rd OR field 0 op"

definition enc_S :: "12 word \<Rightarrow> regno \<Rightarrow> regno \<Rightarrow> 3 word \<Rightarrow> 7 word \<Rightarrow> 32 word" where
  "enc_S imm rs2 rs1 f3 op =
     field 25 (part 5 imm :: 7 word) OR field 20 rs2 OR field 15 rs1 OR field 12 f3 OR
     field 7 (part 0 imm :: 5 word) OR field 0 op"

text \<open>The argument is the offset without its lowest bit, which is always 0.\<close>

definition enc_B :: "12 word \<Rightarrow> regno \<Rightarrow> regno \<Rightarrow> 3 word \<Rightarrow> 7 word \<Rightarrow> 32 word" where
  "enc_B off rs2 rs1 f3 op =
     field 31 (part 11 off :: 1 word) OR field 25 (part 4 off :: 6 word) OR field 20 rs2 OR
     field 15 rs1 OR field 12 f3 OR field 8 (part 0 off :: 4 word) OR
     field 7 (part 10 off :: 1 word) OR field 0 op"

definition enc_U :: "20 word \<Rightarrow> regno \<Rightarrow> 7 word \<Rightarrow> 32 word" where
  "enc_U imm rd op = field 12 imm OR field 7 rd OR field 0 op"

definition enc_J :: "20 word \<Rightarrow> regno \<Rightarrow> 7 word \<Rightarrow> 32 word" where
  "enc_J off rd op =
     field 31 (part 19 off :: 1 word) OR field 21 (part 0 off :: 10 word) OR
     field 20 (part 10 off :: 1 word) OR field 12 (part 11 off :: 8 word) OR
     field 7 rd OR field 0 op"

fun branch_f3 :: "branch_op \<Rightarrow> 3 word" where
  "branch_f3 B_EQ = 0" | "branch_f3 B_NE = 1" | "branch_f3 B_LT = 4"
| "branch_f3 B_GE = 5" | "branch_f3 B_LTU = 6" | "branch_f3 B_GEU = 7"

fun load_f3 :: "load_op \<Rightarrow> 3 word" where
  "load_f3 L_B = 0" | "load_f3 L_H = 1" | "load_f3 L_W = 2" | "load_f3 L_D = 3"
| "load_f3 L_BU = 4" | "load_f3 L_HU = 5" | "load_f3 L_WU = 6"

fun store_f3 :: "store_op \<Rightarrow> 3 word" where
  "store_f3 S_B = 0" | "store_f3 S_H = 1" | "store_f3 S_W = 2" | "store_f3 S_D = 3"

fun imm_f3 :: "imm_op \<Rightarrow> 3 word" where
  "imm_f3 I_ADD = 0" | "imm_f3 I_SLT = 2" | "imm_f3 I_SLTU = 3" | "imm_f3 I_XOR = 4"
| "imm_f3 I_OR = 6" | "imm_f3 I_AND = 7"

text \<open>A shift by an immediate keeps its kind in the top bits of the immediate.\<close>

fun shift_f3 :: "shift_op \<Rightarrow> 3 word" where
  "shift_f3 SH_LL = 1" | "shift_f3 SH_RL = 5" | "shift_f3 SH_RA = 5"

fun shift_f6 :: "shift_op \<Rightarrow> 6 word" where
  "shift_f6 SH_LL = 0" | "shift_f6 SH_RL = 0" | "shift_f6 SH_RA = 0b010000"

definition enc_shift :: "6 word \<Rightarrow> 6 word \<Rightarrow> regno \<Rightarrow> 3 word \<Rightarrow> regno \<Rightarrow> 7 word \<Rightarrow> 32 word" where
  "enc_shift f6 sh rs1 f3 rd op =
     field 26 f6 OR field 20 sh OR field 15 rs1 OR field 12 f3 OR field 7 rd OR field 0 op"

fun alu_f3 :: "alu_op \<Rightarrow> 3 word" where
  "alu_f3 A_ADD = 0" | "alu_f3 A_SUB = 0" | "alu_f3 A_SLL = 1" | "alu_f3 A_SLT = 2"
| "alu_f3 A_SLTU = 3" | "alu_f3 A_XOR = 4" | "alu_f3 A_SRL = 5" | "alu_f3 A_SRA = 5"
| "alu_f3 A_OR = 6" | "alu_f3 A_AND = 7"

fun alu_f7 :: "alu_op \<Rightarrow> 7 word" where
  "alu_f7 A_SUB = 0b0100000" | "alu_f7 A_SRA = 0b0100000" | "alu_f7 _ = 0"

fun word_f3 :: "word_op \<Rightarrow> 3 word" where
  "word_f3 W_ADD = 0" | "word_f3 W_SUB = 0" | "word_f3 W_SLL = 1" | "word_f3 W_SRL = 5"
| "word_f3 W_SRA = 5"

fun word_f7 :: "word_op \<Rightarrow> 7 word" where
  "word_f7 W_SUB = 0b0100000" | "word_f7 W_SRA = 0b0100000" | "word_f7 _ = 0"

fun md_f3 :: "md_op \<Rightarrow> 3 word" where
  "md_f3 M_MUL = 0" | "md_f3 M_MULH = 1" | "md_f3 M_MULHSU = 2" | "md_f3 M_MULHU = 3"
| "md_f3 M_DIV = 4" | "md_f3 M_DIVU = 5" | "md_f3 M_REM = 6" | "md_f3 M_REMU = 7"

fun encode :: "insn \<Rightarrow> 32 word" where
  "encode (LUI rd imm) = enc_U imm rd 0b0110111"
| "encode (AUIPC rd imm) = enc_U imm rd 0b0010111"
| "encode (JAL rd off) = enc_J off rd 0b1101111"
| "encode (JALR rd rs1 imm) = enc_I imm rs1 0 rd 0b1100111"
| "encode (BRANCH b rs1 rs2 off) = enc_B off rs2 rs1 (branch_f3 b) 0b1100011"
| "encode (LOAD l rd rs1 imm) = enc_I imm rs1 (load_f3 l) rd 0b0000011"
| "encode (STORE st rs1 rs2 imm) = enc_S imm rs2 rs1 (store_f3 st) 0b0100011"
| "encode (OP_IMM o' rd rs1 imm) = enc_I imm rs1 (imm_f3 o') rd 0b0010011"
| "encode (SHIFT k rd rs1 sh) = enc_shift (shift_f6 k) sh rs1 (shift_f3 k) rd 0b0010011"
| "encode (OP o' rd rs1 rs2) = enc_R (alu_f7 o') rs2 rs1 (alu_f3 o') rd 0b0110011"
| "encode (OP_IMM_W rd rs1 imm) = enc_I imm rs1 0 rd 0b0011011"
| "encode (SHIFT_W k rd rs1 sh) =
     enc_shift (shift_f6 k) (ucast sh) rs1 (shift_f3 k) rd 0b0011011"
| "encode (OP_W o' rd rs1 rs2) = enc_R (word_f7 o') rs2 rs1 (word_f3 o') rd 0b0111011"
| "encode (MULDIV o' rd rs1 rs2) = enc_R 1 rs2 rs1 (md_f3 o') rd 0b0110011"

section \<open>Architectural state\<close>

record (overloaded) 'a arch =
  X :: "nat \<Rightarrow> 'a word"
  PC :: "'a word"
  RAM :: "nat \<Rightarrow> byte"

definition RAM_SIZE :: nat where
  "RAM_SIZE = 2 ^ 24"

definition rX :: "'a::len arch \<Rightarrow> regno \<Rightarrow> 'a word" where
  "rX a r = (if r = 0 then 0 else X a (unat r))"

definition wX :: "regno \<Rightarrow> 'a::len word \<Rightarrow> 'a arch \<Rightarrow> 'a arch" where
  "wX r v a = (if r = 0 then a else a\<lparr>X := (X a)(unat r := v)\<rparr>)"

definition go :: "'a::len word \<Rightarrow> 'a arch \<Rightarrow> 'a arch" where
  "go pc a = a\<lparr>PC := pc\<rparr>"

definition ram_bytes :: "nat \<Rightarrow> nat \<Rightarrow> 'a::len arch \<Rightarrow> byte list" where
  "ram_bytes ea n a = map (RAM a) [ea..<ea + n]"

definition ram_write :: "nat \<Rightarrow> byte list \<Rightarrow> 'a::len arch \<Rightarrow> 'a arch" where
  "ram_write ea bs a =
     a\<lparr>RAM := (\<lambda>k. if ea \<le> k \<and> k < ea + length bs then bs ! (k - ea) else RAM a k)\<rparr>"

section \<open>Operations on values\<close>

fun branch_taken :: "branch_op \<Rightarrow> 'a::len word \<Rightarrow> 'a word \<Rightarrow> bool" where
  "branch_taken B_EQ a b \<longleftrightarrow> a = b"
| "branch_taken B_NE a b \<longleftrightarrow> a \<noteq> b"
| "branch_taken B_LT a b \<longleftrightarrow> sint a < sint b"
| "branch_taken B_GE a b \<longleftrightarrow> sint a \<ge> sint b"
| "branch_taken B_LTU a b \<longleftrightarrow> unat a < unat b"
| "branch_taken B_GEU a b \<longleftrightarrow> unat a \<ge> unat b"

text \<open>Shifts as multiplication and flooring division by powers of two.\<close>

fun shift :: "shift_op \<Rightarrow> nat \<Rightarrow> 'a::len word \<Rightarrow> 'a word" where
  "shift SH_LL n a = word_of_int (uint a * 2 ^ n)"
| "shift SH_RL n a = word_of_int (uint a div 2 ^ n)"
| "shift SH_RA n a = word_of_int (sint a div 2 ^ n)"

fun alu :: "alu_op \<Rightarrow> 'a::len word \<Rightarrow> 'a word \<Rightarrow> 'a word" where
  "alu A_ADD a b = a + b"
| "alu A_SUB a b = a - b"
| "alu A_SLL a b = shift SH_LL (unat b mod LENGTH('a)) a"
| "alu A_SLT a b = of_bool (sint a < sint b)"
| "alu A_SLTU a b = of_bool (unat a < unat b)"
| "alu A_XOR a b = a XOR b"
| "alu A_SRL a b = shift SH_RL (unat b mod LENGTH('a)) a"
| "alu A_SRA a b = shift SH_RA (unat b mod LENGTH('a)) a"
| "alu A_OR a b = a OR b"
| "alu A_AND a b = a AND b"

fun imm_alu :: "imm_op \<Rightarrow> alu_op" where
  "imm_alu I_ADD = A_ADD" | "imm_alu I_SLT = A_SLT" | "imm_alu I_SLTU = A_SLTU"
| "imm_alu I_XOR = A_XOR" | "imm_alu I_OR = A_OR" | "imm_alu I_AND = A_AND"

fun word_alu :: "word_op \<Rightarrow> alu_op" where
  "word_alu W_ADD = A_ADD" | "word_alu W_SUB = A_SUB" | "word_alu W_SLL = A_SLL"
| "word_alu W_SRL = A_SRL" | "word_alu W_SRA = A_SRA"

text \<open>The word operations of RV64 work on the low halves and extend the sign.\<close>

definition on_words :: "(32 word \<Rightarrow> 32 word \<Rightarrow> 32 word) \<Rightarrow> 'a::len word \<Rightarrow> 'a word \<Rightarrow> 'a word" where
  "on_words f a b = scast (f (ucast a) (ucast b))"

fun load_width :: "load_op \<Rightarrow> nat" where
  "load_width L_B = 1" | "load_width L_BU = 1" | "load_width L_H = 2" | "load_width L_HU = 2"
| "load_width L_W = 4" | "load_width L_WU = 4" | "load_width L_D = 8"

fun load_value :: "load_op \<Rightarrow> byte list \<Rightarrow> 'a::len word" where
  "load_value L_B bs = scast (of_bytes bs :: 8 word)"
| "load_value L_H bs = scast (of_bytes bs :: 16 word)"
| "load_value L_W bs = scast (of_bytes bs :: 32 word)"
| "load_value L_BU bs = of_bytes bs"
| "load_value L_HU bs = of_bytes bs"
| "load_value L_WU bs = of_bytes bs"
| "load_value L_D bs = of_bytes bs"

fun store_width :: "store_op \<Rightarrow> nat" where
  "store_width S_B = 1" | "store_width S_H = 2" | "store_width S_W = 4" | "store_width S_D = 8"

text \<open>
  Multiplication and division on integers: the high half of a product is its quotient by
  \<open>2 ^ XLEN\<close>, division truncates towards zero, and division by zero has a defined result. The
  signed quotient that does not fit wraps around to the dividend, as the manual requires.
\<close>

fun md :: "md_op \<Rightarrow> 'a::len word \<Rightarrow> 'a word \<Rightarrow> 'a word" where
  "md M_MUL a b = a * b"
| "md M_MULH a b = word_of_int (sint a * sint b div 2 ^ LENGTH('a))"
| "md M_MULHSU a b = word_of_int (sint a * uint b div 2 ^ LENGTH('a))"
| "md M_MULHU a b = word_of_int (uint a * uint b div 2 ^ LENGTH('a))"
| "md M_DIV a b = (if b = 0 then - 1 else word_of_int (sint a sdiv sint b))"
| "md M_DIVU a b = (if b = 0 then - 1 else word_of_int (uint a div uint b))"
| "md M_REM a b = (if b = 0 then a else word_of_int (sint a smod sint b))"
| "md M_REMU a b = (if b = 0 then a else word_of_int (uint a mod uint b))"

text \<open>The instructions only RV64 has, and the shift amounts only RV64 has.\<close>

fun has_insn :: "nat \<Rightarrow> insn \<Rightarrow> bool" where
  "has_insn xlen (LOAD l rd rs1 imm) = (xlen = 64 \<or> l \<noteq> L_D \<and> l \<noteq> L_WU)"
| "has_insn xlen (STORE st rs1 rs2 imm) = (xlen = 64 \<or> st \<noteq> S_D)"
| "has_insn xlen (SHIFT k rd rs1 sh) = (unat sh < xlen)"
| "has_insn xlen (OP_IMM_W rd rs1 imm) = (xlen = 64)"
| "has_insn xlen (SHIFT_W k rd rs1 sh) = (xlen = 64)"
| "has_insn xlen (OP_W o' rd rs1 rs2) = (xlen = 64)"
| "has_insn xlen _ = True"

section \<open>Execution\<close>

text \<open>
  \<open>len\<close> is the length of the encoding the instruction came from: 4, or 2 for a compressed one.
  It is what the program counter advances by and what a jump adds to its return address.
\<close>

definition seq_next :: "'a::len word \<Rightarrow> 'a arch \<Rightarrow> 'a arch" where
  "seq_next len a = go (PC a + len) a"

fun isa_op :: "'a::len word \<Rightarrow> insn \<Rightarrow> 'a arch \<Rightarrow> 'a arch option" where
  "isa_op len (LUI rd imm) a = Some (seq_next len (wX rd (scast (field 12 imm)) a))"
| "isa_op len (AUIPC rd imm) a = Some (seq_next len (wX rd (PC a + scast (field 12 imm)) a))"
| "isa_op len (JAL rd off) a = Some (go (PC a + 2 * scast off) (wX rd (PC a + len) a))"
| "isa_op len (JALR rd rs1 imm) a =
     Some (go ((rX a rs1 + scast imm) AND NOT 1) (wX rd (PC a + len) a))"
| "isa_op len (BRANCH b rs1 rs2 off) a =
     Some (if branch_taken b (rX a rs1) (rX a rs2) then go (PC a + 2 * scast off) a
           else seq_next len a)"
| "isa_op len (LOAD l rd rs1 imm) a =
     (let ea = unat (rX a rs1 + scast imm); n = load_width l in
      if RAM_SIZE < ea + n then None
      else Some (seq_next len (wX rd (load_value l (ram_bytes ea n a)) a)))"
| "isa_op len (STORE st rs1 rs2 imm) a =
     (let ea = unat (rX a rs1 + scast imm); n = store_width st in
      if RAM_SIZE < ea + n then None
      else Some (seq_next len (ram_write ea (le_bytes n (rX a rs2)) a)))"
| "isa_op len (OP_IMM o' rd rs1 imm) a =
     Some (seq_next len (wX rd (alu (imm_alu o') (rX a rs1) (scast imm)) a))"
| "isa_op len (SHIFT k rd rs1 sh) a =
     Some (seq_next len (wX rd (shift k (unat sh) (rX a rs1)) a))"
| "isa_op len (OP o' rd rs1 rs2) a =
     Some (seq_next len (wX rd (alu o' (rX a rs1) (rX a rs2)) a))"
| "isa_op len (OP_IMM_W rd rs1 imm) a =
     Some (seq_next len (wX rd (on_words (\<lambda>x _. x + scast imm) (rX a rs1) 0) a))"
| "isa_op len (SHIFT_W k rd rs1 sh) a =
     Some (seq_next len (wX rd (on_words (\<lambda>x _. shift k (unat sh) x) (rX a rs1) 0) a))"
| "isa_op len (OP_W o' rd rs1 rs2) a =
     Some (seq_next len (wX rd (on_words (alu (word_alu o')) (rX a rs1) (rX a rs2)) a))"
| "isa_op len (MULDIV o' rd rs1 rs2) a =
     Some (seq_next len (wX rd (md o' (rX a rs1) (rX a rs2)) a))"

text \<open>
  The one case of these instructions in which the code does not do what the manual says: on a 64-bit register the
  quotient of the most negative number by \<open>-1\<close> traps on the host of the simulation. Nothing
  is promised for it here; that the code does end there is proved of \<open>Exec_M_DIV\<close>.
\<close>

fun host_traps :: "insn \<Rightarrow> 'a::len arch \<Rightarrow> bool" where
  "host_traps (MULDIV o' rd rs1 rs2) a \<longleftrightarrow>
     (o' = M_DIV \<or> o' = M_REM) \<and> LENGTH('a) = 64 \<and>
     sint (rX a rs1) = - (2 ^ 63) \<and> rX a rs2 = - 1"
| "host_traps _ a \<longleftrightarrow> False"

definition isa_exec :: "insn \<Rightarrow> 'a::len arch \<Rightarrow> 'a arch option" where
  "isa_exec ins a =
     (if has_insn LENGTH('a) ins \<and> \<not> host_traps ins a then isa_op 4 ins a else None)"

section \<open>Multiplication and division of words\<close>

text \<open>
  The five instructions RV64M adds. The code's quotients differ from the manual's for one pair
  of operands each, which \<open>mdw_exec\<close> leaves out.
\<close>

datatype mdw_op = MW_MUL | MW_DIV | MW_DIVU | MW_REM | MW_REMU

fun mdw_md :: "mdw_op \<Rightarrow> md_op" where
  "mdw_md MW_MUL = M_MUL" | "mdw_md MW_DIV = M_DIV" | "mdw_md MW_DIVU = M_DIVU"
| "mdw_md MW_REM = M_REM" | "mdw_md MW_REMU = M_REMU"

definition enc_mdw :: "mdw_op \<Rightarrow> regno \<Rightarrow> regno \<Rightarrow> regno \<Rightarrow> 32 word" where
  "enc_mdw k rd rs1 rs2 = enc_R 1 rs2 rs1 (md_f3 (mdw_md k)) rd 0b0111011"

definition mdw_differs :: "mdw_op \<Rightarrow> 32 word \<Rightarrow> 32 word \<Rightarrow> bool" where
  "mdw_differs k x y \<longleftrightarrow> (k = MW_DIV \<or> k = MW_DIVU) \<and> x = 0x80000000 \<and> y = - 1"

definition mdw_exec :: "mdw_op \<Rightarrow> regno \<Rightarrow> regno \<Rightarrow> regno \<Rightarrow> 'a::len arch \<Rightarrow> 'a arch option" where
  "mdw_exec k rd rs1 rs2 a =
     (if LENGTH('a) \<noteq> 64 \<or> mdw_differs k (ucast (rX a rs1)) (ucast (rX a rs2)) then None
      else Some (seq_next 4 (wX rd (on_words (md (mdw_md k)) (rX a rs1) (rX a rs2)) a)))"

end
