(* ===== verification/C_Spec.thy ===== *)
theory C_Spec
  imports ISA_Spec
begin

text \<open>
  The compressed instructions from the manual: the ones of RV32C and RV64C without floating
  point and \<open>C.EBREAK\<close> as a datatype, the 16-bit encoding of each, and the instruction each abbreviates. An
  encoding is the low half of a word whose high half, \<open>hi\<close>, belongs to whatever follows.
\<close>

section \<open>Instructions\<close>

type_synonym regp = "3 word"

datatype calu = CA_SUB | CA_XOR | CA_OR | CA_AND

text \<open>Immediates are the bits the encoding has, without the zeros below and the sign above.\<close>

datatype (plugins only: size code) cinsn =
    C_ADDI4SPN regp "8 word"
  | C_LW regp regp "5 word"
  | C_SW regp regp "5 word"
  | C_LD regp regp "5 word"
  | C_SD regp regp "5 word"
  | C_ADDI regno "6 word"
  | C_JAL "11 word"
  | C_ADDIW regno "6 word"
  | C_LI regno "6 word"
  | C_ADDI16SP "6 word"
  | C_LUI regno "6 word"
  | C_SRLI regp "6 word"
  | C_SRAI regp "6 word"
  | C_ANDI regp "6 word"
  | C_ALU calu regp regp
  | C_SUBW regp regp
  | C_ADDW regp regp
  | C_J "11 word"
  | C_BEQZ regp "8 word"
  | C_BNEZ regp "8 word"
  | C_SLLI regno "6 word"
  | C_LWSP regno "6 word"
  | C_LDSP regno "6 word"
  | C_JR regno
  | C_MV regno regno
  | C_JALR regno
  | C_ADD regno regno
  | C_SWSP regno "6 word"
  | C_SDSP regno "6 word"

text \<open>The instructions a register width has, and the operands the manual does not reserve.\<close>

fun has_cinsn :: "nat \<Rightarrow> cinsn \<Rightarrow> bool" where
  "has_cinsn xlen (C_ADDI4SPN rd imm) = (imm \<noteq> 0)"
| "has_cinsn xlen (C_LD rd rs1 imm) = (xlen = 64)"
| "has_cinsn xlen (C_SD rs1 rs2 imm) = (xlen = 64)"
| "has_cinsn xlen (C_JAL off) = (xlen = 32)"
| "has_cinsn xlen (C_ADDIW rd imm) = (xlen = 64 \<and> rd \<noteq> 0)"
| "has_cinsn xlen (C_ADDI16SP imm) = (imm \<noteq> 0)"
| "has_cinsn xlen (C_LUI rd imm) = (rd \<noteq> 0 \<and> rd \<noteq> 2 \<and> imm \<noteq> 0)"
| "has_cinsn xlen (C_SRLI rd sh) = (unat sh < xlen)"
| "has_cinsn xlen (C_SRAI rd sh) = (unat sh < xlen)"
| "has_cinsn xlen (C_SLLI rd sh) = (unat sh < xlen)"
| "has_cinsn xlen (C_SUBW rd rs2) = (xlen = 64)"
| "has_cinsn xlen (C_ADDW rd rs2) = (xlen = 64)"
| "has_cinsn xlen (C_LWSP rd imm) = (rd \<noteq> 0)"
| "has_cinsn xlen (C_LDSP rd imm) = (xlen = 64 \<and> rd \<noteq> 0)"
| "has_cinsn xlen (C_SDSP rs2 imm) = (xlen = 64)"
| "has_cinsn xlen (C_JR rs1) = (rs1 \<noteq> 0)"
| "has_cinsn xlen (C_MV rd rs2) = (rs2 \<noteq> 0)"
| "has_cinsn xlen (C_JALR rs1) = (rs1 \<noteq> 0)"
| "has_cinsn xlen (C_ADD rd rs2) = (rs2 \<noteq> 0)"
| "has_cinsn xlen _ = True"

section \<open>Expansion\<close>

text \<open>The eight registers of the short formats are \<open>x8\<close> to \<open>x15\<close>.\<close>

definition rp :: "regp \<Rightarrow> regno" where
  "rp r = ucast r + 8"

fun calu_op :: "calu \<Rightarrow> alu_op" where
  "calu_op CA_SUB = A_SUB" | "calu_op CA_XOR = A_XOR" | "calu_op CA_OR = A_OR"
| "calu_op CA_AND = A_AND"

fun c_expand :: "cinsn \<Rightarrow> insn" where
  "c_expand (C_ADDI4SPN rd imm) = OP_IMM I_ADD (rp rd) 2 (push_bit 2 (ucast imm))"
| "c_expand (C_LW rd rs1 imm) = LOAD L_W (rp rd) (rp rs1) (push_bit 2 (ucast imm))"
| "c_expand (C_SW rs1 rs2 imm) = STORE S_W (rp rs1) (rp rs2) (push_bit 2 (ucast imm))"
| "c_expand (C_LD rd rs1 imm) = LOAD L_D (rp rd) (rp rs1) (push_bit 3 (ucast imm))"
| "c_expand (C_SD rs1 rs2 imm) = STORE S_D (rp rs1) (rp rs2) (push_bit 3 (ucast imm))"
| "c_expand (C_ADDI rd imm) = OP_IMM I_ADD rd rd (scast imm)"
| "c_expand (C_JAL off) = JAL 1 (scast off)"
| "c_expand (C_ADDIW rd imm) = OP_IMM_W rd rd (scast imm)"
| "c_expand (C_LI rd imm) = OP_IMM I_ADD rd 0 (scast imm)"
| "c_expand (C_ADDI16SP imm) = OP_IMM I_ADD 2 2 (push_bit 4 (scast imm))"
| "c_expand (C_LUI rd imm) = LUI rd (scast imm)"
| "c_expand (C_SRLI rd sh) = SHIFT SH_RL (rp rd) (rp rd) sh"
| "c_expand (C_SRAI rd sh) = SHIFT SH_RA (rp rd) (rp rd) sh"
| "c_expand (C_ANDI rd imm) = OP_IMM I_AND (rp rd) (rp rd) (scast imm)"
| "c_expand (C_ALU k rd rs2) = OP (calu_op k) (rp rd) (rp rd) (rp rs2)"
| "c_expand (C_SUBW rd rs2) = OP_W W_SUB (rp rd) (rp rd) (rp rs2)"
| "c_expand (C_ADDW rd rs2) = OP_W W_ADD (rp rd) (rp rd) (rp rs2)"
| "c_expand (C_J off) = JAL 0 (scast off)"
| "c_expand (C_BEQZ rs1 off) = BRANCH B_EQ (rp rs1) 0 (scast off)"
| "c_expand (C_BNEZ rs1 off) = BRANCH B_NE (rp rs1) 0 (scast off)"
| "c_expand (C_SLLI rd sh) = SHIFT SH_LL rd rd sh"
| "c_expand (C_LWSP rd imm) = LOAD L_W rd 2 (push_bit 2 (ucast imm))"
| "c_expand (C_LDSP rd imm) = LOAD L_D rd 2 (push_bit 3 (ucast imm))"
| "c_expand (C_JR rs1) = JALR 0 rs1 0"
| "c_expand (C_MV rd rs2) = OP A_ADD rd 0 rs2"
| "c_expand (C_JALR rs1) = JALR 1 rs1 0"
| "c_expand (C_ADD rd rs2) = OP A_ADD rd rd rs2"
| "c_expand (C_SWSP rs2 imm) = STORE S_W 2 rs2 (push_bit 2 (ucast imm))"
| "c_expand (C_SDSP rs2 imm) = STORE S_D 2 rs2 (push_bit 3 (ucast imm))"

section \<open>Encoding\<close>

text \<open>What every format has, and the middle of each.\<close>

definition cenc :: "16 word \<Rightarrow> 3 word \<Rightarrow> 2 word \<Rightarrow> 32 word \<Rightarrow> 32 word" where
  "cenc hi f3 op mid = field 16 hi OR field 13 f3 OR mid OR field 0 op"

definition mid_CI :: "regno \<Rightarrow> 6 word \<Rightarrow> 32 word" where
  "mid_CI rd imm = field 12 (part 5 imm :: 1 word) OR field 7 rd OR field 2 (part 0 imm :: 5 word)"

definition mid_CR :: "1 word \<Rightarrow> regno \<Rightarrow> regno \<Rightarrow> 32 word" where
  "mid_CR b rd rs2 = field 12 b OR field 7 rd OR field 2 rs2"

text \<open>The two arithmetic formats on the short registers, with the immediate or the register.\<close>

definition mid_CB :: "2 word \<Rightarrow> regp \<Rightarrow> 6 word \<Rightarrow> 32 word" where
  "mid_CB f2 rd imm = field 12 (part 5 imm :: 1 word) OR field 10 f2 OR field 7 rd OR
     field 2 (part 0 imm :: 5 word)"

definition mid_CA :: "1 word \<Rightarrow> regp \<Rightarrow> 2 word \<Rightarrow> regp \<Rightarrow> 32 word" where
  "mid_CA b rd g2 rs2 =
     field 12 b OR field 10 (3 :: 2 word) OR field 7 rd OR field 5 g2 OR field 2 rs2"

definition mid_W :: "regp \<Rightarrow> regp \<Rightarrow> 5 word \<Rightarrow> 32 word" where
  "mid_W rs1 r imm = field 10 (part 1 imm :: 3 word) OR field 7 rs1 OR
     field 6 (part 0 imm :: 1 word) OR field 5 (part 4 imm :: 1 word) OR field 2 r"

definition mid_D :: "regp \<Rightarrow> regp \<Rightarrow> 5 word \<Rightarrow> 32 word" where
  "mid_D rs1 r imm = field 10 (part 0 imm :: 3 word) OR field 7 rs1 OR
     field 5 (part 3 imm :: 2 word) OR field 2 r"

definition mid_CIW :: "regp \<Rightarrow> 8 word \<Rightarrow> 32 word" where
  "mid_CIW rd imm = field 11 (part 2 imm :: 2 word) OR field 7 (part 4 imm :: 4 word) OR
     field 6 (part 0 imm :: 1 word) OR field 5 (part 1 imm :: 1 word) OR field 2 rd"

definition mid_16SP :: "6 word \<Rightarrow> 32 word" where
  "mid_16SP imm = field 12 (part 5 imm :: 1 word) OR field 7 (2 :: 5 word) OR
     field 6 (part 0 imm :: 1 word) OR field 5 (part 2 imm :: 1 word) OR
     field 3 (part 3 imm :: 2 word) OR field 2 (part 1 imm :: 1 word)"

definition mid_CJ :: "11 word \<Rightarrow> 32 word" where
  "mid_CJ off = field 12 (part 10 off :: 1 word) OR field 11 (part 3 off :: 1 word) OR
     field 9 (part 7 off :: 2 word) OR field 8 (part 9 off :: 1 word) OR
     field 7 (part 5 off :: 1 word) OR field 6 (part 6 off :: 1 word) OR
     field 3 (part 0 off :: 3 word) OR field 2 (part 4 off :: 1 word)"

definition mid_CBZ :: "regp \<Rightarrow> 8 word \<Rightarrow> 32 word" where
  "mid_CBZ rs1 off = field 12 (part 7 off :: 1 word) OR field 10 (part 2 off :: 2 word) OR
     field 7 rs1 OR field 5 (part 5 off :: 2 word) OR field 3 (part 0 off :: 2 word) OR
     field 2 (part 4 off :: 1 word)"

definition mid_LWSP :: "regno \<Rightarrow> 6 word \<Rightarrow> 32 word" where
  "mid_LWSP rd imm = field 12 (part 3 imm :: 1 word) OR field 7 rd OR
     field 4 (part 0 imm :: 3 word) OR field 2 (part 4 imm :: 2 word)"

definition mid_LDSP :: "regno \<Rightarrow> 6 word \<Rightarrow> 32 word" where
  "mid_LDSP rd imm = field 12 (part 2 imm :: 1 word) OR field 7 rd OR
     field 5 (part 0 imm :: 2 word) OR field 2 (part 3 imm :: 3 word)"

definition mid_SWSP :: "regno \<Rightarrow> 6 word \<Rightarrow> 32 word" where
  "mid_SWSP rs2 imm = field 9 (part 0 imm :: 4 word) OR field 7 (part 4 imm :: 2 word) OR
     field 2 rs2"

definition mid_SDSP :: "regno \<Rightarrow> 6 word \<Rightarrow> 32 word" where
  "mid_SDSP rs2 imm = field 10 (part 0 imm :: 3 word) OR field 7 (part 3 imm :: 3 word) OR
     field 2 rs2"

fun calu_g2 :: "calu \<Rightarrow> 2 word" where
  "calu_g2 CA_SUB = 0" | "calu_g2 CA_XOR = 1" | "calu_g2 CA_OR = 2" | "calu_g2 CA_AND = 3"

fun c_encode :: "16 word \<Rightarrow> cinsn \<Rightarrow> 32 word" where
  "c_encode hi (C_ADDI4SPN rd imm) = cenc hi 0 0 (mid_CIW rd imm)"
| "c_encode hi (C_LW rd rs1 imm) = cenc hi 2 0 (mid_W rs1 rd imm)"
| "c_encode hi (C_LD rd rs1 imm) = cenc hi 3 0 (mid_D rs1 rd imm)"
| "c_encode hi (C_SW rs1 rs2 imm) = cenc hi 6 0 (mid_W rs1 rs2 imm)"
| "c_encode hi (C_SD rs1 rs2 imm) = cenc hi 7 0 (mid_D rs1 rs2 imm)"
| "c_encode hi (C_ADDI rd imm) = cenc hi 0 1 (mid_CI rd imm)"
| "c_encode hi (C_JAL off) = cenc hi 1 1 (mid_CJ off)"
| "c_encode hi (C_ADDIW rd imm) = cenc hi 1 1 (mid_CI rd imm)"
| "c_encode hi (C_LI rd imm) = cenc hi 2 1 (mid_CI rd imm)"
| "c_encode hi (C_ADDI16SP imm) = cenc hi 3 1 (mid_16SP imm)"
| "c_encode hi (C_LUI rd imm) = cenc hi 3 1 (mid_CI rd imm)"
| "c_encode hi (C_SRLI rd sh) = cenc hi 4 1 (mid_CB 0 rd sh)"
| "c_encode hi (C_SRAI rd sh) = cenc hi 4 1 (mid_CB 1 rd sh)"
| "c_encode hi (C_ANDI rd imm) = cenc hi 4 1 (mid_CB 2 rd imm)"
| "c_encode hi (C_ALU k rd rs2) = cenc hi 4 1 (mid_CA 0 rd (calu_g2 k) rs2)"
| "c_encode hi (C_SUBW rd rs2) = cenc hi 4 1 (mid_CA 1 rd 0 rs2)"
| "c_encode hi (C_ADDW rd rs2) = cenc hi 4 1 (mid_CA 1 rd 1 rs2)"
| "c_encode hi (C_J off) = cenc hi 5 1 (mid_CJ off)"
| "c_encode hi (C_BEQZ rs1 off) = cenc hi 6 1 (mid_CBZ rs1 off)"
| "c_encode hi (C_BNEZ rs1 off) = cenc hi 7 1 (mid_CBZ rs1 off)"
| "c_encode hi (C_SLLI rd sh) = cenc hi 0 2 (mid_CI rd sh)"
| "c_encode hi (C_LWSP rd imm) = cenc hi 2 2 (mid_LWSP rd imm)"
| "c_encode hi (C_LDSP rd imm) = cenc hi 3 2 (mid_LDSP rd imm)"
| "c_encode hi (C_JR rs1) = cenc hi 4 2 (mid_CR 0 rs1 0)"
| "c_encode hi (C_MV rd rs2) = cenc hi 4 2 (mid_CR 0 rd rs2)"
| "c_encode hi (C_JALR rs1) = cenc hi 4 2 (mid_CR 1 rs1 0)"
| "c_encode hi (C_ADD rd rs2) = cenc hi 4 2 (mid_CR 1 rd rs2)"
| "c_encode hi (C_SWSP rs2 imm) = cenc hi 6 2 (mid_SWSP rs2 imm)"
| "c_encode hi (C_SDSP rs2 imm) = cenc hi 7 2 (mid_SDSP rs2 imm)"

lemmas mid_defs = mid_CI_def mid_CR_def mid_CB_def mid_CA_def mid_W_def mid_D_def mid_CIW_def
  mid_16SP_def mid_CJ_def mid_CBZ_def mid_LWSP_def mid_LDSP_def mid_SWSP_def mid_SDSP_def

section \<open>Execution\<close>

text \<open>
  Where the code does not do what the manual says on a 64-bit register: it shifts by immediates
  of 32 and more without a defined result, and computes the targets and return addresses of
  \<open>C.J\<close>, \<open>C.JR\<close> and \<open>C.JALR\<close> in 32 bits. \<open>c_isa_exec\<close> is therefore not all of the manual: it is
  \<open>isa_op\<close> on the instruction meant, without those cases and without reserved operands.
\<close>

fun c_limited :: "cinsn \<Rightarrow> 'a::len arch \<Rightarrow> bool" where
  "c_limited (C_SRLI rd sh) a \<longleftrightarrow> 32 \<le> unat sh"
| "c_limited (C_SRAI rd sh) a \<longleftrightarrow> 32 \<le> unat sh"
| "c_limited (C_SLLI rd sh) a \<longleftrightarrow> 32 \<le> unat sh"
| "c_limited (C_J off) a \<longleftrightarrow> 2 ^ 32 \<le> unat (PC a + 2 * scast off)"
| "c_limited (C_JR rs1) a \<longleftrightarrow> 2 ^ 32 \<le> unat (rX a rs1)"
| "c_limited (C_JALR rs1) a \<longleftrightarrow> 2 ^ 32 \<le> unat (rX a rs1) \<or> 2 ^ 32 \<le> unat (PC a + 2)"
| "c_limited _ a \<longleftrightarrow> False"

definition c_isa_exec :: "cinsn \<Rightarrow> 'a::len arch \<Rightarrow> 'a arch option" where
  "c_isa_exec ci a =
     (if has_cinsn LENGTH('a) ci \<and> \<not> c_limited ci a then isa_op 2 (c_expand ci) a else None)"

end
