(* ===== verification/A_Spec.thy ===== *)
theory A_Spec
  imports ISA_Spec
begin

text \<open>
  The read-modify-write instructions of the A extension on words, from the manual: their
  encodings, the function each applies to the old word, and the result. \<open>amo_op\<close> has the eight that
  combine the old word with a register; the ninth, the exchange, is \<open>swap_manual\<close>, because the code
  does something else for it.
\<close>

section \<open>Instructions and encodings\<close>

datatype amo_op = AMO_ADD | AMO_XOR | AMO_AND | AMO_OR | AMO_MIN | AMO_MAX | AMO_MINU | AMO_MAXU

definition enc_A :: "5 word \<Rightarrow> 2 word \<Rightarrow> regno \<Rightarrow> regno \<Rightarrow> regno \<Rightarrow> 32 word" where
  "enc_A f5 aqrl rs2 rs1 rd =
     field 27 f5 OR field 25 aqrl OR field 20 rs2 OR field 15 rs1 OR field 12 (2 :: 3 word) OR
     field 7 rd OR field 0 (0b0101111 :: 7 word)"

fun amo_f5 :: "amo_op \<Rightarrow> 5 word" where
  "amo_f5 AMO_ADD = 0b00000" | "amo_f5 AMO_XOR = 0b00100" | "amo_f5 AMO_AND = 0b01100"
| "amo_f5 AMO_OR = 0b01000" | "amo_f5 AMO_MIN = 0b10000" | "amo_f5 AMO_MAX = 0b10100"
| "amo_f5 AMO_MINU = 0b11000" | "amo_f5 AMO_MAXU = 0b11100"

section \<open>Read, modify, write\<close>

text \<open>The new word, from the old one and the low word of \<open>rs2\<close>.\<close>

fun amo :: "amo_op \<Rightarrow> 32 word \<Rightarrow> 32 word \<Rightarrow> 32 word" where
  "amo AMO_ADD a b = a + b"
| "amo AMO_XOR a b = a XOR b"
| "amo AMO_AND a b = a AND b"
| "amo AMO_OR a b = a OR b"
| "amo AMO_MIN a b = word_of_int (min (sint a) (sint b))"
| "amo AMO_MAX a b = word_of_int (max (sint a) (sint b))"
| "amo AMO_MINU a b = min a b"
| "amo AMO_MAXU a b = max a b"

definition word_addr :: "regno \<Rightarrow> 'a::len arch \<Rightarrow> 32 word" where
  "word_addr rs1 a = ucast (rX a rs1)"

definition ram_word :: "32 word \<Rightarrow> 'a::len arch \<Rightarrow> 32 word" where
  "ram_word adr a = of_bytes (ram_bytes (unat adr) 4 a)"

definition amo_with :: "amo_op \<Rightarrow> regno \<Rightarrow> regno \<Rightarrow> 32 word \<Rightarrow> 'a::len arch \<Rightarrow> 'a arch" where
  "amo_with k rd rs1 b a =
     (let adr = word_addr rs1 a; old = ram_word adr a in
      seq_next 4 (ram_write (unat adr) (le_bytes 4 (amo k old b)) (wX rd (scast old) a)))"

text \<open>The manual: the operand is register \<open>rs2\<close> before the instruction.\<close>

definition amo_result :: "amo_op \<Rightarrow> regno \<Rightarrow> regno \<Rightarrow> regno \<Rightarrow> 'a::len arch \<Rightarrow> 'a arch" where
  "amo_result k rd rs1 rs2 a = amo_with k rd rs1 (ucast (rX a rs2)) a"

text \<open>The exchange (\<open>AMOSWAP\<close>) as the manual has it: the code also changes \<open>rs2\<close>.\<close>

definition swap_manual :: "regno \<Rightarrow> regno \<Rightarrow> regno \<Rightarrow> 'a::len arch \<Rightarrow> 'a arch" where
  "swap_manual rd rs1 rs2 a =
     (let adr = word_addr rs1 a; old = ram_word adr a; b = ucast (rX a rs2) :: 32 word in
      seq_next 4 (ram_write (unat adr) (le_bytes 4 b) (wX rd (scast old) a)))"

text \<open>
  The manual asks for an aligned address. The code writes the destination before it reads
  \<open>rs2\<close>, so an instruction with the same register in both places is left out.
\<close>

definition amo_exec :: "amo_op \<Rightarrow> regno \<Rightarrow> regno \<Rightarrow> regno \<Rightarrow> 'a::len arch \<Rightarrow> 'a arch option" where
  "amo_exec k rd rs1 rs2 a =
     (if RAM_SIZE < unat (rX a rs1) + 4 \<or> \<not> 4 dvd unat (rX a rs1) \<or> rd = rs2 \<and> rd \<noteq> 0 then None
      else Some (amo_result k rd rs1 rs2 a))"

end
