(* ===== verification/Machine.thy ===== *)
theory Machine
  imports C_Spec A_Spec
begin

text \<open>
  The abstract machine: it executes the instruction whose encoding its memory holds at the
  program counter, of 32 or of 16 bits. The word at the program counter is in the memory even
  when only its lower half is the instruction, because the code always fetches four bytes.
\<close>

inductive isa_step :: "'a::len arch \<Rightarrow> 'a arch \<Rightarrow> bool" where
  isa_fetch:
    "unat (PC a) + 4 \<le> RAM_SIZE \<Longrightarrow>
     ram_bytes (unat (PC a)) 4 a = le_bytes 4 (encode ins) \<Longrightarrow>
     isa_exec ins a = Some a' \<Longrightarrow> isa_step a a'"
| isa_compressed:
    "unat (PC a) + 4 \<le> RAM_SIZE \<Longrightarrow>
     ram_bytes (unat (PC a)) 4 a = le_bytes 4 (c_encode hi ci) \<Longrightarrow>
     c_isa_exec ci a = Some a' \<Longrightarrow> isa_step a a'"
| isa_amo:
    "unat (PC a) + 4 \<le> RAM_SIZE \<Longrightarrow>
     ram_bytes (unat (PC a)) 4 a = le_bytes 4 (enc_A (amo_f5 k) aqrl rs2 rs1 rd) \<Longrightarrow>
     amo_exec k rd rs1 rs2 a = Some a' \<Longrightarrow> isa_step a a'"
| isa_mdw:
    "unat (PC a) + 4 \<le> RAM_SIZE \<Longrightarrow>
     ram_bytes (unat (PC a)) 4 a = le_bytes 4 (enc_mdw m rd rs1 rs2) \<Longrightarrow>
     mdw_exec m rd rs1 rs2 a = Some a' \<Longrightarrow> isa_step a a'"

inductive_cases isa_stepE: "isa_step a a'"

end
