(* ===== verification/Performance.thy ===== *)
theory Performance
  imports Prelude
begin

text \<open>
  The performance counters (inc/Performance.h, src/Performance.cpp): one shared object of
  seven counters. The code declares them \<open>uint_fast64_t\<close>, 64 bits on the hosts it is built
  for, so they wrap at \<open>2 ^ 64\<close>.
\<close>

record performance =
  data_memory_read :: "64 word"
  data_memory_write :: "64 word"
  code_memory_read :: "64 word"
  code_memory_write :: "64 word"
  register_read :: "64 word"
  register_write :: "64 word"
  instructions_executed :: "64 word"

definition Performance_init :: performance where
  "Performance_init =
     \<lparr>data_memory_read = 0, data_memory_write = 0, code_memory_read = 0, code_memory_write = 0,
      register_read = 0, register_write = 0, instructions_executed = 0\<rparr>"

definition dataMemoryRead :: "performance \<Rightarrow> performance" where
  "dataMemoryRead p = p\<lparr>data_memory_read := data_memory_read p + 1\<rparr>"

definition dataMemoryWrite :: "performance \<Rightarrow> performance" where
  "dataMemoryWrite p = p\<lparr>data_memory_write := data_memory_write p + 1\<rparr>"

definition codeMemoryRead :: "performance \<Rightarrow> performance" where
  "codeMemoryRead p = p\<lparr>code_memory_read := code_memory_read p + 1\<rparr>"

definition codeMemoryWrite :: "performance \<Rightarrow> performance" where
  "codeMemoryWrite p = p\<lparr>code_memory_write := code_memory_write p + 1\<rparr>"

definition registerRead :: "performance \<Rightarrow> performance" where
  "registerRead p = p\<lparr>register_read := register_read p + 1\<rparr>"

definition registerWrite :: "performance \<Rightarrow> performance" where
  "registerWrite p = p\<lparr>register_write := register_write p + 1\<rparr>"

definition instructionsInc :: "performance \<Rightarrow> performance" where
  "instructionsInc p = p\<lparr>instructions_executed := instructions_executed p + 1\<rparr>"

definition getInstructions :: "performance \<Rightarrow> 64 word" where
  "getInstructions p = instructions_executed p"

lemmas performance_defs =
  dataMemoryRead_def dataMemoryWrite_def codeMemoryRead_def codeMemoryWrite_def
  registerRead_def registerWrite_def instructionsInc_def getInstructions_def

text \<open>Only \<open>instructionsInc\<close> moves the count of executed instructions.\<close>

lemma instructions_executed_simps [simp]:
  "instructions_executed (dataMemoryRead p) = instructions_executed p"
  "instructions_executed (dataMemoryWrite p) = instructions_executed p"
  "instructions_executed (codeMemoryRead p) = instructions_executed p"
  "instructions_executed (codeMemoryWrite p) = instructions_executed p"
  "instructions_executed (registerRead p) = instructions_executed p"
  "instructions_executed (registerWrite p) = instructions_executed p"
  "instructions_executed (instructionsInc p) = instructions_executed p + 1"
  by (simp_all add: performance_defs)

end
