(* ===== verification/Registers.thy ===== *)
theory Registers
  imports Performance
begin

text \<open>
  The register file (inc/Registers.h, src/Registers.cpp), for both instantiations of the
  template: the word type \<open>'a\<close> is the code's \<open>T\<close> (\<open>32\<close> or \<open>64\<close>).
  The bank is an array of 32 values; \<open>setValue\<close> and \<open>getValue\<close> guard every access to it,
  so it is a function here that is never read at 32 or above. The CSRs are an
  \<open>unordered_map<T, unsigned int>\<close>: values have 32 bits whatever \<open>T\<close> is, and
  \<open>operator[]\<close> enters a zero for a key it does not find. \<open>now\<close> is the number of ticks of
  the simulation time stamp, which the kernel supplies.
\<close>

section \<open>State\<close>

record (overloaded) 'a registers =
  register_bank :: "nat \<Rightarrow> 'a word"
  register_PC :: "'a word"
  CSR :: "'a word \<Rightarrow> 32 word option"

abbreviation (input) CSR_MSTATUS :: int where "CSR_MSTATUS \<equiv> 0x300"
abbreviation (input) CSR_MISA :: int where "CSR_MISA \<equiv> 0x301"
abbreviation (input) CSR_MTVEC :: int where "CSR_MTVEC \<equiv> 0x305"
abbreviation (input) CSR_MEPC :: int where "CSR_MEPC \<equiv> 0x341"
abbreviation (input) CSR_MCAUSE :: int where "CSR_MCAUSE \<equiv> 0x342"
abbreviation (input) CSR_MTVAL :: int where "CSR_MTVAL \<equiv> 0x343"
abbreviation (input) CSR_MIP :: int where "CSR_MIP \<equiv> 0x344"
abbreviation (input) CSR_SEPC :: int where "CSR_SEPC \<equiv> 0x141"
abbreviation (input) CSR_MCYCLE :: int where "CSR_MCYCLE \<equiv> 0xB00"
abbreviation (input) CSR_MCYCLEH :: int where "CSR_MCYCLEH \<equiv> 0xB80"
abbreviation (input) CSR_CYCLE :: int where "CSR_CYCLE \<equiv> 0xC00"
abbreviation (input) CSR_TIME :: int where "CSR_TIME \<equiv> 0xC01"
abbreviation (input) CSR_CYCLEH :: int where "CSR_CYCLEH \<equiv> 0xC80"
abbreviation (input) CSR_TIMEH :: int where "CSR_TIMEH \<equiv> 0xC81"

abbreviation (input) MISA_A_EXTENSION :: "32 word" where "MISA_A_EXTENSION \<equiv> push_bit 0 1"
abbreviation (input) MISA_C_EXTENSION :: "32 word" where "MISA_C_EXTENSION \<equiv> push_bit 2 1"
abbreviation (input) MISA_I_BASE :: "32 word" where "MISA_I_BASE \<equiv> push_bit 8 1"
abbreviation (input) MISA_M_EXTENSION :: "32 word" where "MISA_M_EXTENSION \<equiv> push_bit 12 1"
abbreviation (input) MISA_MXL :: "32 word" where "MISA_MXL \<equiv> push_bit 30 1"

abbreviation (input) MSTATUS_MIE :: "'a::len word" where "MSTATUS_MIE \<equiv> push_bit 3 1"
abbreviation (input) MSTATUS_MPIE :: "'a::len word" where "MSTATUS_MPIE \<equiv> push_bit 7 1"
abbreviation (input) MIP_MEIP :: "'a::len word" where "MIP_MEIP \<equiv> push_bit 11 1"

abbreviation (input) reg_sp :: nat where "reg_sp \<equiv> 2"
abbreviation (input) reg_t0 :: nat where "reg_t0 \<equiv> 5"
abbreviation (input) reg_t1 :: nat where "reg_t1 \<equiv> 6"

abbreviation (input) Memory_SIZE :: nat where "Memory_SIZE \<equiv> 0x1000000"

section \<open>Operations\<close>

definition initCSR_32 :: "32 registers \<Rightarrow> 32 registers" where
  "initCSR_32 r = r\<lparr>CSR := (CSR r)
     (of_int CSR_MISA \<mapsto> MISA_MXL OR MISA_M_EXTENSION OR MISA_C_EXTENSION
                        OR MISA_A_EXTENSION OR MISA_I_BASE,
      of_int CSR_MSTATUS \<mapsto> MISA_MXL)\<rparr>"

definition initCSR_64 :: "64 registers \<Rightarrow> 64 registers" where
  "initCSR_64 r = r\<lparr>CSR := (CSR r)
     (of_int CSR_MISA \<mapsto> push_bit 30 0x02 OR MISA_M_EXTENSION OR MISA_C_EXTENSION
                        OR MISA_A_EXTENSION OR MISA_I_BASE,
      of_int CSR_MSTATUS \<mapsto> MISA_MXL)\<rparr>"

text \<open>The constructor; \<open>init\<close> is the specialisation of \<open>initCSR\<close> for the word type.\<close>

definition Registers_init :: "('a::len registers \<Rightarrow> 'a registers) \<Rightarrow> 'a registers" where
  "Registers_init init =
     (let r = init \<lparr>register_bank = (\<lambda>_. 0), register_PC = 0, CSR = Map.empty\<rparr> in
      r\<lparr>register_bank := (register_bank r)(reg_sp := of_nat (Memory_SIZE - 4)),
        register_PC := 0x80000000\<rparr>)"

definition setValue ::
  "nat \<Rightarrow> 'a::len word \<Rightarrow> 'a registers \<times> performance \<Rightarrow> 'a registers \<times> performance" where
  "setValue reg_num value = (\<lambda>(r, p).
     if reg_num \<noteq> 0 \<and> reg_num < 32
     then (r\<lparr>register_bank := (register_bank r)(reg_num := value)\<rparr>, registerWrite p)
     else (r, p))"

definition getValue ::
  "nat \<Rightarrow> 'a::len registers \<times> performance \<Rightarrow> 'a word \<times> 'a registers \<times> performance" where
  "getValue reg_num = (\<lambda>(r, p).
     if reg_num < 32 then (register_bank r reg_num, r, registerRead p)
     else (- 1, r, p))"

definition getPC :: "'a::len registers \<Rightarrow> 'a word" where
  "getPC r = register_PC r"

definition setPC :: "'a::len word \<Rightarrow> 'a registers \<Rightarrow> 'a registers" where
  "setPC new_pc r = r\<lparr>register_PC := new_pc\<rparr>"

definition incPC :: "'a::len registers \<Rightarrow> 'a registers" where
  "incPC r = r\<lparr>register_PC := register_PC r + 4\<rparr>"

definition incPCby2 :: "'a::len registers \<Rightarrow> 'a registers" where
  "incPCby2 r = r\<lparr>register_PC := register_PC r + 2\<rparr>"

text \<open>The counters of the time stamp: \<open>now\<close> is the time converted to a 64-bit integer.\<close>

definition getCSR ::
  "64 word \<Rightarrow> int \<Rightarrow> 'a::len registers \<Rightarrow> 'a word \<times> 'a registers" where
  "getCSR now csr r =
     (if csr = CSR_CYCLE \<or> csr = CSR_MCYCLE then (ucast (now AND 0x00000000FFFFFFFF), r)
      else if csr = CSR_CYCLEH \<or> csr = CSR_MCYCLEH then
        (ucast (ucast (drop_bit 32 now AND 0x00000000FFFFFFFF) :: 32 word), r)
      else if csr = CSR_TIME then (ucast (now AND 0x00000000FFFFFFFF), r)
      else if csr = CSR_TIMEH then
        (ucast (ucast (drop_bit 32 now AND 0x00000000FFFFFFFF) :: 32 word), r)
      else case CSR r (of_int csr) of
             Some v \<Rightarrow> (ucast v, r)
           | None \<Rightarrow> (0, r\<lparr>CSR := (CSR r)(of_int csr \<mapsto> 0)\<rparr>))"

definition setCSR :: "int \<Rightarrow> 'a::len word \<Rightarrow> 'a registers \<Rightarrow> 'a registers" where
  "setCSR csr value r =
     (if csr \<noteq> CSR_MISA then r\<lparr>CSR := (CSR r)(of_int csr \<mapsto> ucast value)\<rparr> else r)"

section \<open>The register file as an interface\<close>

text \<open>
  What the instructions rely on: a register written holds its value, no other register
  changes, and register 0 reads as zero and ignores writes.
\<close>

locale register_file =
  fixes peek :: "'s \<Rightarrow> nat \<Rightarrow> 'v::zero"
    and poke :: "nat \<Rightarrow> 'v \<Rightarrow> 's \<Rightarrow> 's"
    and num :: nat
    and ok :: "'s \<Rightarrow> bool"
  assumes peek_poke_same: "0 < n \<Longrightarrow> n < num \<Longrightarrow> peek (poke n v s) n = v"
    and peek_poke_other: "m \<noteq> n \<Longrightarrow> peek (poke n v s) m = peek s m"
    and poke_zero: "poke 0 v s = s"
    and peek_zero: "ok s \<Longrightarrow> peek s 0 = 0"
    and ok_poke: "ok s \<Longrightarrow> ok (poke n v s)"
begin

lemma peek_poke:
  "n < num \<Longrightarrow> peek (poke n v s) m = (if m = n \<and> 0 < n then v else peek s m)"
  using peek_poke_same peek_poke_other poke_zero by (metis gr0I)

lemma ok_pokes: "ok s \<Longrightarrow> ok (fold (\<lambda>(n, v). poke n v) ws s)"
  by (induction ws arbitrary: s) (auto simp: ok_poke)

text \<open>After a sequence of writes a register holds the last value written to it.\<close>

lemma peek_pokes:
  "\<forall>(n, v) \<in> set ws. n < num \<Longrightarrow> 0 < m \<Longrightarrow>
     peek (fold (\<lambda>(n, v). poke n v) ws s) m =
       (case map_of (rev ws) m of None \<Rightarrow> peek s m | Some v \<Rightarrow> v)"
proof (induction ws arbitrary: s)
  case Nil
  then show ?case by simp
next
  case (Cons w ws)
  obtain n v where w: "w = (n, v)" by (cases w)
  have "peek (fold (\<lambda>(n, v). poke n v) ws (poke n v s)) m =
      (case map_of (rev ws) m of None \<Rightarrow> peek (poke n v s) m | Some v \<Rightarrow> v)"
    using Cons by simp
  then show ?case
    using Cons.prems w by (auto simp: peek_poke map_add_def split: option.splits)
qed

lemma peek_zero_pokes: "ok s \<Longrightarrow> peek (fold (\<lambda>(n, v). poke n v) ws s) 0 = 0"
  by (simp add: peek_zero ok_pokes)

end

definition x0_zero :: "'a::len registers \<Rightarrow> bool" where
  "x0_zero r \<longleftrightarrow> register_bank r 0 = 0"

interpretation reg_file: register_file
  "\<lambda>rp. register_bank (fst rp)" setValue 32 "\<lambda>rp. x0_zero (fst rp)"
  by unfold_locales (auto simp: setValue_def x0_zero_def split: prod.splits)

end
