(* ===== verification/TLM.thy ===== *)
theory TLM
  imports Prelude
begin

text \<open>
  The transaction objects the modules exchange. They are library types of TLM-2.0; what is
  written here is what their interface documents: a command, an address, a pointer to a
  caller's buffer (the bytes of that buffer), a length, a streaming width, a byte enable
  pointer (only whether it is null is ever asked), a response status and the DMI hint.
  The response codes are ordered by their documented values, and a transaction failed when
  its code is not positive.
\<close>

datatype tlm_command = TLM_READ_COMMAND | TLM_WRITE_COMMAND | TLM_IGNORE_COMMAND

datatype tlm_response_status =
    TLM_OK_RESPONSE
  | TLM_INCOMPLETE_RESPONSE
  | TLM_GENERIC_ERROR_RESPONSE
  | TLM_ADDRESS_ERROR_RESPONSE
  | TLM_COMMAND_ERROR_RESPONSE
  | TLM_BURST_ERROR_RESPONSE
  | TLM_BYTE_ENABLE_ERROR_RESPONSE

fun status_code :: "tlm_response_status \<Rightarrow> int" where
  "status_code TLM_OK_RESPONSE = 1"
| "status_code TLM_INCOMPLETE_RESPONSE = 0"
| "status_code TLM_GENERIC_ERROR_RESPONSE = -1"
| "status_code TLM_ADDRESS_ERROR_RESPONSE = -2"
| "status_code TLM_COMMAND_ERROR_RESPONSE = -3"
| "status_code TLM_BURST_ERROR_RESPONSE = -4"
| "status_code TLM_BYTE_ENABLE_ERROR_RESPONSE = -5"

lemma status_code_inject: "status_code x = status_code y \<longleftrightarrow> x = y"
  by (cases x; cases y) simp_all

instantiation tlm_response_status :: linorder
begin

definition less_eq_tlm_response_status :: "tlm_response_status \<Rightarrow> tlm_response_status \<Rightarrow> bool" where
  "less_eq_tlm_response_status x y \<longleftrightarrow> status_code x \<le> status_code y"

definition less_tlm_response_status :: "tlm_response_status \<Rightarrow> tlm_response_status \<Rightarrow> bool" where
  "less_tlm_response_status x y \<longleftrightarrow> status_code x < status_code y"

instance
  by standard
    (auto simp: less_eq_tlm_response_status_def less_tlm_response_status_def status_code_inject)

end

record payload =
  command :: tlm_command
  address :: "64 word"
  data :: "byte list"
  data_length :: nat
  streaming_width :: nat
  byte_enable :: bool
  response_status :: tlm_response_status
  dmi_hint :: bool

definition is_response_error :: "payload \<Rightarrow> bool" where
  "is_response_error tr \<longleftrightarrow> response_status tr \<le> TLM_INCOMPLETE_RESPONSE"

lemma is_response_error_iff: "is_response_error tr \<longleftrightarrow> response_status tr \<noteq> TLM_OK_RESPONSE"
  by (cases "response_status tr") (simp_all add: is_response_error_def less_eq_tlm_response_status_def)

text \<open>\<open>std::copy_n\<close> or \<open>memcpy\<close> into the front of a buffer.\<close>

definition copy_into :: "byte list \<Rightarrow> byte list \<Rightarrow> byte list" where
  "copy_into bs buf = bs @ drop (length bs) buf"

lemma length_copy_into [simp]:
  "length bs \<le> length buf \<Longrightarrow> length (copy_into bs buf) = length buf"
  by (simp add: copy_into_def)

lemma take_copy_into [simp]: "n = length bs \<Longrightarrow> take n (copy_into bs buf) = bs"
  by (simp add: copy_into_def)

section \<open>Targets of transactions\<close>

text \<open>
  What the bus and the initiators rely on when they hand a transaction to a module: it comes
  back with the same request (command, address, length, width) and a buffer of the same
  size, and a write never changes the initiator's buffer.
\<close>

definition same_request :: "payload \<Rightarrow> payload \<Rightarrow> bool" where
  "same_request t t' \<longleftrightarrow>
     command t' = command t \<and> address t' = address t \<and> data_length t' = data_length t \<and>
     streaming_width t' = streaming_width t \<and> byte_enable t' = byte_enable t \<and>
     length (data t') = length (data t) \<and>
     (command t = TLM_WRITE_COMMAND \<longrightarrow> data t' = data t)"

lemma same_request_refl [simp]: "same_request t t"
  by (simp add: same_request_def)

lemma same_request_trans [trans]: "same_request t t' \<Longrightarrow> same_request t' t'' \<Longrightarrow> same_request t t''"
  by (auto simp: same_request_def)

lemma same_request_status [simp]: "same_request t (t'\<lparr>response_status := x\<rparr>) = same_request t t'"
  by (simp add: same_request_def)

lemma same_request_hint [simp]: "same_request t (t'\<lparr>dmi_hint := x\<rparr>) = same_request t t'"
  by (simp add: same_request_def)

locale tlm_target =
  fixes transport :: "payload \<Rightarrow> ('s, payload) exec"
  assumes transport_request: "transport t s = Inr (t', s') \<Longrightarrow> same_request t t'"
begin

lemma transport_chain:
  "bnd (transport t) transport s = Inr (t', s') \<Longrightarrow> same_request t t'"
  by (auto simp: bnd_Inr_iff intro: same_request_trans dest: transport_request)

lemma transport_onto:
  "onto get put (transport t) s = Inr (t', s') \<Longrightarrow> same_request t t'"
  by (auto simp: onto_Inr_iff dest: transport_request)

end

end
