(* ===== verification/Memory.thy ===== *)
theory Memory
  imports TLM
begin

text \<open>
  The memory module (inc/Memory.h, src/Memory.cpp): an array of \<open>SIZE\<close> bytes behind the
  three TLM-2 entry points. The array is a function from positions to bytes, looked at below
  \<open>SIZE\<close> only: every copy checks that it stays inside, and where the code would run over the
  end of the array the operation fails with \<open>Array_overrun\<close>. The timing annotation, always
  set to zero, is left out.
\<close>

section \<open>State\<close>

definition SIZE :: nat where
  "SIZE = 0x1000000"

record memory =
  mem :: "nat \<Rightarrow> byte"
  program_counter :: "32 word"
  dmi_allowed :: bool

text \<open>The region a DMI request is granted: first and last address.\<close>

record tlm_dmi =
  start_address :: "64 word"
  end_address :: "64 word"

section \<open>Operations\<close>

text \<open>The constructor without a file: the array is value initialised.\<close>

definition Memory_init :: memory where
  "Memory_init = \<lparr>mem = (\<lambda>_. 0), program_counter = 0, dmi_allowed = False\<rparr>"

definition mem_bytes :: "nat \<Rightarrow> nat \<Rightarrow> memory \<Rightarrow> byte list" where
  "mem_bytes adr len m = map (mem m) [adr..<adr + len]"

definition mem_update :: "nat \<Rightarrow> byte list \<Rightarrow> memory \<Rightarrow> memory" where
  "mem_update adr bs m =
     m\<lparr>mem := (\<lambda>k. if adr \<le> k \<and> k < adr + length bs then bs ! (k - adr) else mem m k)\<rparr>"

text \<open>The two copies between the array and the buffer of the transaction.\<close>

definition copy_command :: "payload \<Rightarrow> (memory, payload) exec" where
  "copy_command tr =
     (let adr = unat (address tr); len = data_length tr in
      if command tr = TLM_IGNORE_COMMAND then ret tr
      else if SIZE < adr + len \<or> length (data tr) < len then fail (Array_overrun (address tr) len)
      else if command tr = TLM_READ_COMMAND then
        bnd (gets (mem_bytes adr len)) (\<lambda>bs. ret (tr\<lparr>data := copy_into bs (data tr)\<rparr>))
      else bnd (modify (mem_update adr (take len (data tr)))) (\<lambda>_. ret tr))"

definition Memory_b_transport :: "payload \<Rightarrow> (memory, payload) exec" where
  "Memory_b_transport tr =
     (if of_nat SIZE \<le> address tr then
        ret (tr\<lparr>response_status := TLM_ADDRESS_ERROR_RESPONSE\<rparr>)
      else if byte_enable tr then
        ret (tr\<lparr>response_status := TLM_BYTE_ENABLE_ERROR_RESPONSE\<rparr>)
      else if 4 < data_length tr \<or> streaming_width tr < data_length tr then
        ret (tr\<lparr>response_status := TLM_BURST_ERROR_RESPONSE\<rparr>)
      else
        bnd (copy_command tr) (\<lambda>tr.
        bnd (gets dmi_allowed) (\<lambda>d.
        ret (tr\<lparr>dmi_hint := d, response_status := TLM_OK_RESPONSE\<rparr>))))"

definition get_direct_mem_ptr :: "memory \<Rightarrow> tlm_dmi option" where
  "get_direct_mem_ptr m =
     (if \<not> dmi_allowed m then None
      else Some \<lparr>start_address = 0, end_address = of_nat SIZE * 4 - 1\<rparr>)"

definition transport_dbg :: "payload \<Rightarrow> (memory, 32 word \<times> payload) exec" where
  "transport_dbg tr =
     (if of_nat SIZE \<le> address tr then
        ret (0, tr\<lparr>response_status := TLM_ADDRESS_ERROR_RESPONSE\<rparr>)
      else
        let len = data_length tr;
            room = (of_nat SIZE - address tr) * 4;
            num_bytes = (if of_nat len < room then of_nat len else ucast room)
        in bnd (copy_command tr) (\<lambda>tr. ret (num_bytes, tr)))"

definition getPCfromHEX :: "memory \<Rightarrow> 32 word" where
  "getPCfromHEX m = program_counter m"

section \<open>Lemmas\<close>

lemma SIZE_word: "of_nat SIZE = (0x1000000 :: 64 word)"
  by (simp add: SIZE_def)

lemma below_SIZE: "(of_nat SIZE \<le> (a :: 64 word)) = (SIZE \<le> unat a)"
  by (simp add: SIZE_def word_le_nat_alt)

lemma length_mem_bytes [simp]: "length (mem_bytes a n m) = n"
  by (simp add: mem_bytes_def)

lemma mem_update_fields [simp]:
  "program_counter (mem_update a bs m) = program_counter m"
  "dmi_allowed (mem_update a bs m) = dmi_allowed m"
  by (simp_all add: mem_update_def)

lemma mem_bytes_update_same [simp]: "n = length bs \<Longrightarrow> mem_bytes a n (mem_update a bs m) = bs"
  by (rule nth_equalityI) (simp_all add: mem_bytes_def mem_update_def)

lemma mem_bytes_update_other:
  "a + n \<le> b \<or> b + length bs \<le> a \<Longrightarrow> mem_bytes a n (mem_update b bs m) = mem_bytes a n m"
  by (auto simp: mem_bytes_def mem_update_def)

lemma copy_command_request: "copy_command t m = Inr (t', m') \<Longrightarrow> same_request t t'"
  by (auto simp: copy_command_def same_request_def Let_def bnd_Inr_iff split: if_splits)

interpretation memory_target: tlm_target Memory_b_transport
  by unfold_locales
    (auto simp: Memory_b_transport_def bnd_Inr_iff split: if_splits dest: copy_command_request)

text \<open>A well formed access inside the array: what the array and the buffer become.\<close>

definition plain_access :: "payload \<Rightarrow> bool" where
  "plain_access t \<longleftrightarrow>
     \<not> byte_enable t \<and> data_length t \<le> 4 \<and> data_length t \<le> streaming_width t \<and>
     data_length t \<le> length (data t)"

lemma Memory_read:
  assumes "plain_access t" "command t = TLM_READ_COMMAND" "unat (address t) + data_length t \<le> SIZE"
    and "unat (address t) < SIZE"
  shows "Memory_b_transport t m =
    Inr (t\<lparr>data := copy_into (mem_bytes (unat (address t)) (data_length t) m) (data t),
            dmi_hint := dmi_allowed m, response_status := TLM_OK_RESPONSE\<rparr>, m)"
  using assms
  by (simp add: Memory_b_transport_def plain_access_def copy_command_def exec_simps below_SIZE Let_def)

lemma Memory_write:
  assumes "plain_access t" "command t = TLM_WRITE_COMMAND" "unat (address t) + data_length t \<le> SIZE"
    and "unat (address t) < SIZE"
  shows "Memory_b_transport t m =
    Inr (t\<lparr>dmi_hint := dmi_allowed m, response_status := TLM_OK_RESPONSE\<rparr>,
         mem_update (unat (address t)) (take (data_length t) (data t)) m)"
  using assms
  by (simp add: Memory_b_transport_def plain_access_def copy_command_def exec_simps below_SIZE Let_def)

lemma Memory_outside:
  "SIZE \<le> unat (address t) \<Longrightarrow>
     Memory_b_transport t m = Inr (t\<lparr>response_status := TLM_ADDRESS_ERROR_RESPONSE\<rparr>, m)"
  by (simp add: Memory_b_transport_def below_SIZE)

end
