(* ===== verification/Timer.thy ===== *)
theory Timer
  imports TLM
begin

text \<open>
  The timer peripheral (inc/Timer.h, src/Timer.cpp). Its two 64-bit registers are read and
  written through four 32-bit addresses; a write to the high half of the comparator asks the
  kernel to notify \<open>timer_event\<close> after a delay. What the kernel does with a notification is
  not part of this code, so the state records the delays asked for, the latest first.
  \<open>now\<close> is the value of the simulation time stamp.
\<close>

record timer =
  m_mtime :: "64 word"
  m_mtimecmp :: "64 word"
  notified :: "64 word list"

abbreviation (input) TIMER_MEMORY_ADDRESS_LO :: "64 word" where "TIMER_MEMORY_ADDRESS_LO \<equiv> 0x40004000"
abbreviation (input) TIMER_MEMORY_ADDRESS_HI :: "64 word" where "TIMER_MEMORY_ADDRESS_HI \<equiv> 0x40004004"
abbreviation (input) TIMERCMP_MEMORY_ADDRESS_LO :: "64 word" where "TIMERCMP_MEMORY_ADDRESS_LO \<equiv> 0x40004008"
abbreviation (input) TIMERCMP_MEMORY_ADDRESS_HI :: "64 word" where "TIMERCMP_MEMORY_ADDRESS_HI \<equiv> 0x4000400C"

definition Timer_init :: timer where
  "Timer_init = \<lparr>m_mtime = 0, m_mtimecmp = 0, notified = []\<rparr>"

text \<open>The word the thread \<open>run\<close> sends over the interrupt line after each notification.\<close>

definition timer_cause :: "32 word" where
  "timer_cause = push_bit 31 1 OR 0x07"

text \<open>Copies between the four bytes of \<open>aux_value\<close> and the buffer of the transaction.\<close>

definition aux_from :: "payload \<Rightarrow> 32 word" where
  "aux_from tr = of_bytes (copy_into (take (data_length tr) (data tr)) (le_bytes 4 (0 :: 32 word)))"

definition aux_to :: "32 word \<Rightarrow> payload \<Rightarrow> payload" where
  "aux_to v tr = tr\<lparr>data := copy_into (take (data_length tr) (le_bytes 4 v)) (data tr)\<rparr>"

definition timer_write :: "64 word \<Rightarrow> 32 word \<Rightarrow> timer \<Rightarrow> timer option" where
  "timer_write addr aux_value t =
     (if addr = TIMER_MEMORY_ADDRESS_LO then
        Some (t\<lparr>m_mtime := sc_set_range 31 0 (ucast aux_value) (m_mtime t)\<rparr>)
      else if addr = TIMER_MEMORY_ADDRESS_HI then
        Some (t\<lparr>m_mtime := sc_set_range 63 32 (ucast aux_value) (m_mtime t)\<rparr>)
      else if addr = TIMERCMP_MEMORY_ADDRESS_LO then
        Some (t\<lparr>m_mtimecmp := sc_set_range 31 0 (ucast aux_value) (m_mtimecmp t)\<rparr>)
      else if addr = TIMERCMP_MEMORY_ADDRESS_HI then
        (let cmp = sc_set_range 63 32 (ucast aux_value) (m_mtimecmp t) in
         Some (t\<lparr>m_mtimecmp := cmp, notified := (cmp - m_mtime t) # notified t\<rparr>))
      else None)"

definition timer_read :: "64 word \<Rightarrow> 64 word \<Rightarrow> timer \<Rightarrow> (32 word \<times> timer) option" where
  "timer_read now addr t =
     (if addr = TIMER_MEMORY_ADDRESS_LO then
        (let t = t\<lparr>m_mtime := now\<rparr> in Some (ucast (sc_range 31 0 (m_mtime t)), t))
      else if addr = TIMER_MEMORY_ADDRESS_HI then Some (ucast (sc_range 63 32 (m_mtime t)), t)
      else if addr = TIMERCMP_MEMORY_ADDRESS_LO then Some (ucast (sc_range 31 0 (m_mtimecmp t)), t)
      else if addr = TIMERCMP_MEMORY_ADDRESS_HI then Some (ucast (sc_range 63 32 (m_mtimecmp t)), t)
      else None)"

definition Timer_b_transport :: "64 word \<Rightarrow> payload \<Rightarrow> (timer, payload) exec" where
  "Timer_b_transport now tr = (\<lambda>t.
     if 4 < data_length tr \<or> length (data tr) < data_length tr then
       Inl (Array_overrun (address tr) (data_length tr))
     else if command tr = TLM_WRITE_COMMAND then
       (case timer_write (address tr) (aux_from tr) t of
          None \<Rightarrow> Inr (tr\<lparr>response_status := TLM_ADDRESS_ERROR_RESPONSE\<rparr>, t)
        | Some t \<Rightarrow> Inr (tr\<lparr>response_status := TLM_OK_RESPONSE\<rparr>, t))
     else
       (case timer_read now (address tr) t of
          None \<Rightarrow> Inr (tr\<lparr>response_status := TLM_ADDRESS_ERROR_RESPONSE\<rparr>, t)
        | Some (v, t) \<Rightarrow> Inr ((aux_to v tr)\<lparr>response_status := TLM_OK_RESPONSE\<rparr>, t)))"

section \<open>Lemmas\<close>

lemma same_request_aux_to:
  "data_length tr \<le> 4 \<Longrightarrow> data_length tr \<le> length (data tr) \<Longrightarrow>
     command tr \<noteq> TLM_WRITE_COMMAND \<Longrightarrow> same_request tr (aux_to v tr)"
  by (simp add: same_request_def aux_to_def)

interpretation timer_target: tlm_target "Timer_b_transport now"
  by unfold_locales
    (auto simp: Timer_b_transport_def same_request_aux_to split: if_splits option.splits)

lemma aux_from_word [simp]:
  "data tr = le_bytes 4 v \<Longrightarrow> data_length tr = 4 \<Longrightarrow> aux_from tr = v" for v :: "32 word"
  by (simp add: aux_from_def copy_into_def)

lemma aux_to_word [simp]:
  "data_length tr = 4 \<Longrightarrow> length (data tr) = 4 \<Longrightarrow> data (aux_to v tr) = le_bytes 4 v"
  by (simp add: aux_to_def copy_into_def)

lemma mtime_halves [simp]:
  "ucast (sc_range 31 0 (sc_set_range 31 0 (ucast v) w)) = v"
  "ucast (sc_range 63 32 (sc_set_range 63 32 (ucast v) w)) = v"
  "ucast (sc_range 31 0 (sc_set_range 63 32 (ucast v) w)) = (ucast w :: 32 word)"
  "ucast (sc_range 63 32 (sc_set_range 31 0 (ucast v) w)) = (ucast (drop_bit 32 w) :: 32 word)"
  for v :: "32 word" and w :: "64 word"
  by (rule bit_word_eqI; auto simp: bit_blast dest: bit_imp_le_length)+

lemma mtime_from_halves:
  "sc_set_range 63 32 (ucast hi) (sc_set_range 31 0 (ucast lo) w) =
     push_bit 32 (ucast hi) OR ucast lo" for lo hi :: "32 word" and w :: "64 word"
  by (rule bit_word_eqI) (auto simp: bit_blast dest: bit_imp_le_length)

end
