(* ===== verification/BusCtrl.thy ===== *)
theory BusCtrl
  imports Memory Timer
begin

text \<open>
  The trace peripheral (src/Trace.cpp, \<open>b_transport\<close>), which sends the first byte of every
  transaction to a terminal, and the bus (inc/BusCtrl.h, src/BusCtrl.cpp), which forwards a
  transaction by its word address. \<open>platform\<close> is what stands behind the bus: memory, timer
  and trace, the kernel's time and its stop request, and \<open>uninit\<close>, the unspecified values of
  the uninitialised locals of \<open>readDataMem\<close>, one for each call (\<open>uninit_ix\<close> counts the
  calls made so far).
\<close>

section \<open>Trace\<close>

record trace =
  terminal :: "byte list"

definition Trace_b_transport :: "payload \<Rightarrow> (trace, payload) exec" where
  "Trace_b_transport tr = (\<lambda>s.
     case data tr of
       [] \<Rightarrow> Inl (Array_overrun (address tr) 1)
     | b # _ \<Rightarrow> Inr (tr\<lparr>response_status := TLM_OK_RESPONSE\<rparr>, s\<lparr>terminal := terminal s @ [b]\<rparr>))"

interpretation trace_target: tlm_target Trace_b_transport
  by unfold_locales (auto simp: Trace_b_transport_def split: list.splits)

section \<open>Bus\<close>

record platform =
  main_memory :: memory
  timer :: timer
  trace :: trace
  sc_now :: "64 word"
  sc_stopped :: bool
  uninit :: "nat \<Rightarrow> 32 word"
  uninit_ix :: nat

abbreviation (input) TRACE_MEMORY_ADDRESS :: "64 word" where "TRACE_MEMORY_ADDRESS \<equiv> 0x40000000"
abbreviation (input) TO_HOST_ADDRESS :: "64 word" where "TO_HOST_ADDRESS \<equiv> 0x90000000"

definition sc_stop :: "(platform, unit) exec" where
  "sc_stop = modify (\<lambda>p. p\<lparr>sc_stopped := True\<rparr>)"

definition on_memory :: "(memory, 'a) exec \<Rightarrow> (platform, 'a) exec" where
  "on_memory = onto main_memory (\<lambda>m p. p\<lparr>main_memory := m\<rparr>)"

definition on_timer :: "(timer, 'a) exec \<Rightarrow> (platform, 'a) exec" where
  "on_timer = onto timer (\<lambda>t p. p\<lparr>timer := t\<rparr>)"

definition on_trace :: "(trace, 'a) exec \<Rightarrow> (platform, 'a) exec" where
  "on_trace = onto trace (\<lambda>t p. p\<lparr>trace := t\<rparr>)"

lemmas platform_defs [exec_simps] = sc_stop_def on_memory_def on_timer_def on_trace_def

definition BusCtrl_b_transport :: "payload \<Rightarrow> (platform, payload) exec" where
  "BusCtrl_b_transport tr =
     (let adr = address tr div 4 in
      if TO_HOST_ADDRESS div 4 \<le> adr then bnd sc_stop (\<lambda>_. ret tr)
      else
        bnd (if adr = TIMER_MEMORY_ADDRESS_HI div 4 \<or> adr = TIMER_MEMORY_ADDRESS_LO div 4 \<or>
                adr = TIMERCMP_MEMORY_ADDRESS_HI div 4 \<or> adr = TIMERCMP_MEMORY_ADDRESS_LO div 4
             then bnd (gets sc_now) (\<lambda>now. on_timer (Timer_b_transport now tr))
             else if adr = TRACE_MEMORY_ADDRESS div 4 then on_trace (Trace_b_transport tr)
             else on_memory (Memory_b_transport tr))
          (\<lambda>tr. ret (tr\<lparr>response_status := TLM_OK_RESPONSE\<rparr>)))"

section \<open>Lemmas\<close>

interpretation bus_target: tlm_target BusCtrl_b_transport
proof unfold_locales
  fix t t' :: payload and s s' :: platform
  assume "BusCtrl_b_transport t s = Inr (t', s')"
  then show "same_request t t'"
    by (auto simp: BusCtrl_b_transport_def platform_defs bnd_Inr_iff Let_def
        dest: timer_target.transport_onto trace_target.transport_onto memory_target.transport_onto
        split: if_splits)
qed

text \<open>The word address is what the routing looks at.\<close>

lemma word_address: "unat (a div 4) = unat a div 4" for a :: "64 word"
  by (simp add: unat_div)

lemma to_host_iff: "TO_HOST_ADDRESS div 4 \<le> a div 4 \<longleftrightarrow> TO_HOST_ADDRESS \<le> a" for a :: "64 word"
  by (simp add: word_le_nat_alt unat_div) linarith

lemma route_iff:
  "a div 4 = TIMER_MEMORY_ADDRESS_HI div 4 \<longleftrightarrow> 0x40004004 \<le> unat a \<and> unat a < 0x40004008"
  "a div 4 = TIMER_MEMORY_ADDRESS_LO div 4 \<longleftrightarrow> 0x40004000 \<le> unat a \<and> unat a < 0x40004004"
  "a div 4 = TIMERCMP_MEMORY_ADDRESS_HI div 4 \<longleftrightarrow> 0x4000400C \<le> unat a \<and> unat a < 0x40004010"
  "a div 4 = TIMERCMP_MEMORY_ADDRESS_LO div 4 \<longleftrightarrow> 0x40004008 \<le> unat a \<and> unat a < 0x4000400C"
  "a div 4 = TRACE_MEMORY_ADDRESS div 4 \<longleftrightarrow> 0x40000000 \<le> unat a \<and> unat a < 0x40000004"
  for a :: "64 word"
  by (simp_all add: word_unat_eq_iff unat_div) linarith+

end
