(* ===== verification/MemoryInterface.thy ===== *)
theory MemoryInterface
  imports BusCtrl
begin

text \<open>
  The processor's data port (inc/MemoryInterface.h, src/MemoryInterface.cpp): a fresh
  transaction for each access, sent over the bus. \<open>readDataMem\<close> hands the bus the address of
  an uninitialised local; what that local holds is taken from \<open>uninit\<close>. The locale
  \<open>data_memory\<close> is the contract the instructions rely on, \<open>bus_memory\<close> its interpretation
  on this port for the addresses of the array.
\<close>

section \<open>Operations\<close>

definition data_payload :: "tlm_command \<Rightarrow> 64 word \<Rightarrow> 32 word \<Rightarrow> nat \<Rightarrow> payload" where
  "data_payload cmd addr v sz =
     \<lparr>command = cmd, address = addr, data = le_bytes 4 v, data_length = sz,
      streaming_width = 4, byte_enable = False, response_status = TLM_INCOMPLETE_RESPONSE,
      dmi_hint = False\<rparr>"

definition uninitialised :: "(platform, 32 word) exec" where
  "uninitialised = (\<lambda>p. Inr (uninit p (uninit_ix p), p\<lparr>uninit_ix := Suc (uninit_ix p)\<rparr>))"

definition readDataMem :: "64 word \<Rightarrow> nat \<Rightarrow> (platform, 32 word) exec" where
  "readDataMem addr sz =
     bnd uninitialised (\<lambda>v.
     bnd (BusCtrl_b_transport (data_payload TLM_READ_COMMAND addr v sz)) (\<lambda>tr.
     if is_response_error tr then fail (SC_report_error addr)
     else ret (of_bytes (data tr))))"

definition writeDataMem :: "64 word \<Rightarrow> 32 word \<Rightarrow> nat \<Rightarrow> (platform, unit) exec" where
  "writeDataMem addr v sz =
     bnd (BusCtrl_b_transport (data_payload TLM_WRITE_COMMAND addr v sz)) (\<lambda>tr.
     if is_response_error tr then fail (SC_report_error addr)
     else ret ())"

lemma data_payload_simps [simp]:
  "command (data_payload c a v n) = c" "address (data_payload c a v n) = a"
  "data (data_payload c a v n) = le_bytes 4 v" "data_length (data_payload c a v n) = n"
  "response_status (data_payload c a v n) = TLM_INCOMPLETE_RESPONSE"
  by (simp_all add: data_payload_def)

lemma plain_data_payload [simp]: "n \<le> 4 \<Longrightarrow> plain_access (data_payload c a v n)"
  by (simp add: plain_access_def data_payload_def)

section \<open>Accesses to the array\<close>

definition in_ram :: "64 word \<Rightarrow> nat \<Rightarrow> bool" where
  "in_ram a n \<longleftrightarrow> unat a < SIZE \<and> unat a + n \<le> SIZE"

lemma in_ram_routes:
  assumes "in_ram a n"
  shows "\<not> TO_HOST_ADDRESS div 4 \<le> a div 4"
    "a div 4 \<noteq> TIMER_MEMORY_ADDRESS_HI div 4" "a div 4 \<noteq> TIMER_MEMORY_ADDRESS_LO div 4"
    "a div 4 \<noteq> TIMERCMP_MEMORY_ADDRESS_HI div 4" "a div 4 \<noteq> TIMERCMP_MEMORY_ADDRESS_LO div 4"
    "a div 4 \<noteq> TRACE_MEMORY_ADDRESS div 4"
  using assms unfolding to_host_iff route_iff
  by (auto simp: in_ram_def SIZE_def word_le_nat_alt)

lemma bus_to_memory:
  assumes "in_ram (address tr) n"
  shows "BusCtrl_b_transport tr p =
    (case Memory_b_transport tr (main_memory p) of
       Inl e \<Rightarrow> Inl e
     | Inr (tr', m) \<Rightarrow>
         Inr (tr'\<lparr>response_status := TLM_OK_RESPONSE\<rparr>, p\<lparr>main_memory := m\<rparr>))"
  unfolding BusCtrl_b_transport_def Let_def if_not_P [OF in_ram_routes(1) [OF assms]]
  by (simp add: in_ram_routes(2-) [OF assms, simplified] on_memory_def onto_run bnd_run split: sum.splits)

lemma readDataMem_ram:
  assumes "in_ram a n" "n \<le> 4"
  shows "readDataMem a n p =
    Inr (of_bytes (copy_into (mem_bytes (unat a) n (main_memory p))
                     (le_bytes 4 (uninit p (uninit_ix p)))),
         p\<lparr>uninit_ix := Suc (uninit_ix p)\<rparr>)"
  using assms
  by (simp add: readDataMem_def uninitialised_def bnd_run bus_to_memory [where n = n] Memory_read
      is_response_error_iff in_ram_def)

lemma readDataMem_word:
  assumes "in_ram a 4"
  shows "readDataMem a 4 p =
    Inr (of_bytes (mem_bytes (unat a) 4 (main_memory p)), p\<lparr>uninit_ix := Suc (uninit_ix p)\<rparr>)"
  using assms by (simp add: readDataMem_ram copy_into_def)

lemma writeDataMem_ram:
  assumes "in_ram a n" "n \<le> 4"
  shows "writeDataMem a v n p =
    Inr ((), p\<lparr>main_memory := mem_update (unat a) (take n (le_bytes 4 v)) (main_memory p)\<rparr>)"
  using assms
  by (simp add: writeDataMem_def bnd_run bus_to_memory [where n = n] Memory_write
      is_response_error_iff in_ram_def)

lemma le_bytes_word_inject [simp]: "le_bytes 4 v = le_bytes 4 w \<longleftrightarrow> v = w" for v w :: "32 word"
proof
  assume "le_bytes 4 v = le_bytes 4 w"
  then have "(of_bytes (le_bytes 4 v) :: 32 word) = of_bytes (le_bytes 4 w)" by (rule arg_cong)
  then show "v = w" by simp
qed simp

section \<open>The contract of the data port\<close>

locale data_memory =
  fixes rd :: "64 word \<Rightarrow> nat \<Rightarrow> ('s, 32 word) exec"
    and wr :: "64 word \<Rightarrow> 32 word \<Rightarrow> nat \<Rightarrow> ('s, unit) exec"
    and cells :: "64 word \<Rightarrow> nat \<Rightarrow> 's \<Rightarrow> byte list"
    and valid :: "64 word \<Rightarrow> nat \<Rightarrow> bool"
  assumes rd_ok: "valid a n \<Longrightarrow> n \<le> 4 \<Longrightarrow>
      \<exists>v t. rd a n s = Inr (v, t) \<and> take n (le_bytes 4 v) = cells a n s \<and>
            (\<forall>b k. cells b k t = cells b k s)"
    and wr_ok: "valid a n \<Longrightarrow> n \<le> 4 \<Longrightarrow>
      \<exists>t. wr a v n s = Inr ((), t) \<and> cells a n t = take n (le_bytes 4 v) \<and>
          (\<forall>b k. unat b + k \<le> unat a \<or> unat a + n \<le> unat b \<longrightarrow> cells b k t = cells b k s)"
begin

text \<open>A load after a store of the same width returns the bytes stored.\<close>

lemma load_after_store:
  assumes "valid a n" "n \<le> 4"
  shows "\<exists>w t. bnd (wr a v n) (\<lambda>_. rd a n) s = Inr (w, t) \<and>
      take n (le_bytes 4 w) = take n (le_bytes 4 v)"
proof -
  obtain t where t: "wr a v n s = Inr ((), t)" "cells a n t = take n (le_bytes 4 v)"
    using wr_ok [OF assms] by blast
  then show ?thesis
    using rd_ok [OF assms, of t] by (auto simp: bnd_run)
qed

lemma word_after_store:
  assumes "valid a 4"
  shows "\<exists>t. bnd (wr a v 4) (\<lambda>_. rd a 4) s = Inr (v, t)"
proof -
  obtain w t where "bnd (wr a v 4) (\<lambda>_. rd a 4) s = Inr (w, t)"
    and "take 4 (le_bytes 4 w) = take 4 (le_bytes 4 v)"
    using load_after_store [OF assms order.refl] by blast
  then show ?thesis by simp
qed

text \<open>A doubleword written and read as two words, the low one first.\<close>

lemma doubleword_after_store:
  assumes "valid a 4" "valid b 4" "unat a + 4 \<le> unat b \<or> unat b + 4 \<le> unat a"
  shows "\<exists>t. bnd (wr a lo 4) (\<lambda>_. bnd (wr b hi 4) (\<lambda>_. bnd (rd a 4) (\<lambda>l. bnd (rd b 4) (\<lambda>h.
      ret (l, h))))) s = Inr ((lo, hi), t)"
proof -
  obtain s1 where s1: "wr a lo 4 s = Inr ((), s1)" "cells a 4 s1 = take 4 (le_bytes 4 lo)"
    using wr_ok [OF assms(1)] by blast
  obtain s2 where s2: "wr b hi 4 s1 = Inr ((), s2)" "cells b 4 s2 = take 4 (le_bytes 4 hi)"
      "\<forall>c k. unat c + k \<le> unat b \<or> unat b + 4 \<le> unat c \<longrightarrow> cells c k s2 = cells c k s1"
    using wr_ok [OF assms(2)] by blast
  obtain l s3 where s3: "rd a 4 s2 = Inr (l, s3)" "take 4 (le_bytes 4 l) = cells a 4 s2"
      "\<forall>c k. cells c k s3 = cells c k s2"
    using rd_ok [OF assms(1)] by blast
  obtain h s4 where s4: "rd b 4 s3 = Inr (h, s4)" "take 4 (le_bytes 4 h) = cells b 4 s3"
    using rd_ok [OF assms(2)] by blast
  have "cells a 4 s2 = cells a 4 s1" using s2(3) assms(3) by blast
  then have "le_bytes 4 l = le_bytes 4 lo" using s1(2) s3(2) by simp
  moreover have "le_bytes 4 h = le_bytes 4 hi" using s2(2) s3(3) s4(2) by simp
  ultimately show ?thesis using s1 s2 s3 s4 by (auto simp: bnd_run)
qed

end

interpretation bus_memory: data_memory readDataMem writeDataMem
  "\<lambda>a n p. mem_bytes (unat a) n (main_memory p)" in_ram
proof unfold_locales
  fix a :: "64 word" and n :: nat and s :: platform
  assume "in_ram a n" "n \<le> 4"
  moreover have "take n (le_bytes 4 (of_bytes bs :: 32 word)) = take n bs"
    if "length bs = 4" for bs :: "byte list"
    using le_bytes_of_bytes [of bs, where 'a = 32] that by simp
  ultimately show "\<exists>v t. readDataMem a n s = Inr (v, t) \<and>
      take n (le_bytes 4 v) = mem_bytes (unat a) n (main_memory s) \<and>
      (\<forall>b k. mem_bytes (unat b) k (main_memory t) = mem_bytes (unat b) k (main_memory s))"
    by (simp add: readDataMem_ram)
next
  fix a :: "64 word" and n :: nat and v :: "32 word" and s :: platform
  assume "in_ram a n" "n \<le> 4"
  then show "\<exists>t. writeDataMem a v n s = Inr ((), t) \<and>
      mem_bytes (unat a) n (main_memory t) = take n (le_bytes 4 v) \<and>
      (\<forall>b k. unat b + k \<le> unat a \<or> unat a + n \<le> unat b \<longrightarrow>
         mem_bytes (unat b) k (main_memory t) = mem_bytes (unat b) k (main_memory s))"
    by (simp add: writeDataMem_ram mem_bytes_update_other)
qed

end
