(* ===== verification/Extension_Base.thy ===== *)
theory Extension_Base
  imports Registers MemoryInterface
begin

text \<open>
  What the instruction classes share (inc/extension_base.h): the objects an instruction
  reaches, the fields of the instruction word and the trap sequence \<open>RaiseException\<close>.
  \<open>hart\<close> holds the register file, the counters, the platform behind the data port and
  the set of reserved addresses of the A extension. Every operation takes the instruction
  word \<open>i\<close> the object was last given (\<open>m_instr\<close>). Messages are not modelled, but their
  arguments are evaluated whatever the log level is, and \<open>getValue\<close> counts: \<open>log_reads\<close>
  lists the registers a message reads.
\<close>

section \<open>State\<close>

record (overloaded) 'a hart =
  regs :: "'a registers"
  perf :: performance
  plat :: platform
  TLB_A_Entries :: "32 word set"

datatype Exception_cause =
    INSTRUCTION_MISALIGN
  | INSTRUCTION_ACCESS
  | ILLEGAL_INSTRUCTION
  | BREAK
  | LOAD_ADDR_MISALIGN
  | LOAD_ACCESS_FAULT
  | CALL_FROM_M_MODE

fun cause_code :: "Exception_cause \<Rightarrow> 32 word" where
  "cause_code INSTRUCTION_MISALIGN = 0"
| "cause_code INSTRUCTION_ACCESS = 1"
| "cause_code ILLEGAL_INSTRUCTION = 2"
| "cause_code BREAK = 3"
| "cause_code LOAD_ADDR_MISALIGN = 4"
| "cause_code LOAD_ACCESS_FAULT = 5"
| "cause_code CALL_FROM_M_MODE = 11"

section \<open>Access to the parts\<close>

definition rd_reg :: "nat \<Rightarrow> ('a::len hart, 'a word) exec" where
  "rd_reg n = (\<lambda>s. case getValue n (regs s, perf s) of
     (v, r, p) \<Rightarrow> Inr (v, s\<lparr>regs := r, perf := p\<rparr>))"

definition wr_reg :: "nat \<Rightarrow> 'a::len word \<Rightarrow> ('a hart, unit) exec" where
  "wr_reg n v = (\<lambda>s. case setValue n v (regs s, perf s) of
     (r, p) \<Rightarrow> Inr ((), s\<lparr>regs := r, perf := p\<rparr>))"

primrec log_reads :: "nat list \<Rightarrow> ('a::len hart, unit) exec" where
  "log_reads [] = ret ()"
| "log_reads (n # ns) = bnd (rd_reg n) (\<lambda>_. log_reads ns)"

definition get_pc :: "('a::len hart, 'a word) exec" where
  "get_pc = gets (\<lambda>s. getPC (regs s))"

definition set_pc :: "'a::len word \<Rightarrow> ('a hart, unit) exec" where
  "set_pc pc = modify (\<lambda>s. s\<lparr>regs := setPC pc (regs s)\<rparr>)"

definition inc_pc :: "('a::len hart, unit) exec" where
  "inc_pc = modify (\<lambda>s. s\<lparr>regs := incPC (regs s)\<rparr>)"

definition inc_pc_by2 :: "('a::len hart, unit) exec" where
  "inc_pc_by2 = modify (\<lambda>s. s\<lparr>regs := incPCby2 (regs s)\<rparr>)"

definition rd_csr :: "int \<Rightarrow> ('a::len hart, 'a word) exec" where
  "rd_csr csr = (\<lambda>s. case getCSR (sc_now (plat s)) csr (regs s) of
     (v, r) \<Rightarrow> Inr (v, s\<lparr>regs := r\<rparr>))"

definition wr_csr :: "int \<Rightarrow> 'a::len word \<Rightarrow> ('a hart, unit) exec" where
  "wr_csr csr v = modify (\<lambda>s. s\<lparr>regs := setCSR csr v (regs s)\<rparr>)"

definition on_plat :: "(platform, 'b) exec \<Rightarrow> ('a::len hart, 'b) exec" where
  "on_plat = onto plat (\<lambda>p s. s\<lparr>plat := p\<rparr>)"

definition rd_mem :: "64 word \<Rightarrow> nat \<Rightarrow> ('a::len hart, 32 word) exec" where
  "rd_mem a n = on_plat (readDataMem a n)"

definition wr_mem :: "64 word \<Rightarrow> 32 word \<Rightarrow> nat \<Rightarrow> ('a::len hart, unit) exec" where
  "wr_mem a v n = on_plat (writeDataMem a v n)"

definition stop_sim :: "('a::len hart, unit) exec" where
  "stop_sim = on_plat sc_stop"

definition count :: "(performance \<Rightarrow> performance) \<Rightarrow> ('a::len hart, unit) exec" where
  "count f = modify (\<lambda>s. s\<lparr>perf := f (perf s)\<rparr>)"

section \<open>Instruction fields\<close>

definition get_rd :: "32 word \<Rightarrow> nat" where
  "get_rd i = unat (sc_range 11 7 i)"

definition get_rs1 :: "32 word \<Rightarrow> nat" where
  "get_rs1 i = unat (sc_range 19 15 i)"

definition get_rs2 :: "32 word \<Rightarrow> nat" where
  "get_rs2 i = unat (sc_range 24 20 i)"

definition get_funct3 :: "32 word \<Rightarrow> 32 word" where
  "get_funct3 i = sc_range 14 12 i"

definition get_shamt_slli :: "32 word \<Rightarrow> 32 word" where
  "get_shamt_slli i = sc_range 25 20 i"

definition set_rd :: "32 word \<Rightarrow> 32 word \<Rightarrow> 32 word" where
  "set_rd v i = sc_set_range 11 7 v i"

definition set_rs1 :: "32 word \<Rightarrow> 32 word \<Rightarrow> 32 word" where
  "set_rs1 v i = sc_set_range 19 15 v i"

definition set_rs2 :: "32 word \<Rightarrow> 32 word \<Rightarrow> 32 word" where
  "set_rs2 v i = sc_set_range 24 20 v i"

definition set_funct3 :: "32 word \<Rightarrow> 32 word \<Rightarrow> 32 word" where
  "set_funct3 v i = sc_set_range 14 12 v i"

section \<open>Traps\<close>

definition RaiseException :: "Exception_cause \<Rightarrow> 32 word \<Rightarrow> ('a::len hart, unit) exec" where
  "RaiseException cause inst =
     bnd get_pc (\<lambda>pc. let current_pc = (ucast pc :: 32 word) in
     bnd (rd_csr CSR_MSTATUS) (\<lambda>st. let m_cause = (ucast st :: 32 word) OR cause_code cause in
     bnd (rd_csr CSR_MTVEC) (\<lambda>tv. let new_pc = (ucast tv :: 32 word) in
     bnd (wr_csr CSR_MEPC (ucast current_pc)) (\<lambda>_.
     bnd (if cause = ILLEGAL_INSTRUCTION then wr_csr CSR_MTVAL (ucast inst)
          else if cause = LOAD_ADDR_MISALIGN then wr_csr CSR_MTVAL (ucast current_pc)
          else if cause = BREAK then stop_sim
          else wr_csr CSR_MTVAL 0) (\<lambda>_.
     bnd (wr_csr CSR_MCAUSE (ucast (cause_code cause))) (\<lambda>_.
     bnd (wr_csr CSR_MSTATUS (ucast m_cause)) (\<lambda>_.
     set_pc (ucast new_pc))))))))"

definition NOP :: "('a::len hart, bool) exec" where
  "NOP = bnd stop_sim (\<lambda>_. ret True)"

section \<open>Lemmas\<close>

subsection \<open>Running the accesses\<close>

lemma rd_reg_run [exec_simps]:
  "n < 32 \<Longrightarrow> rd_reg n s = Inr (register_bank (regs s) n, s\<lparr>perf := registerRead (perf s)\<rparr>)"
  by (simp add: rd_reg_def getValue_def)

lemma wr_reg_run [exec_simps]:
  "n < 32 \<Longrightarrow> wr_reg n v s = Inr ((),
     s\<lparr>regs := (regs s)\<lparr>register_bank :=
         (if n = 0 then register_bank (regs s) else (register_bank (regs s))(n := v))\<rparr>,
       perf := (if n = 0 then perf s else registerWrite (perf s))\<rparr>)"
  by (simp add: wr_reg_def setValue_def)

lemmas access_defs [exec_simps] =
  get_pc_def set_pc_def inc_pc_def inc_pc_by2_def wr_csr_def on_plat_def
  stop_sim_def count_def getPC_def setPC_def incPC_def incPCby2_def

lemma reg_field_bounds [simp]: "get_rd i < 32" "get_rs1 i < 32" "get_rs2 i < 32"
  using unat_sc_range_less [of 11 7 i] unat_sc_range_less [of 19 15 i] unat_sc_range_less [of 24 20 i]
  by (simp_all add: get_rd_def get_rs1_def get_rs2_def)

end
