(* ===== verification/BASE_ISA_Decode.thy ===== *)
theory BASE_ISA_Decode
  imports Extension_Base
begin

text \<open>
  Decoding in the base instruction set (inc/BASE_ISA.h, src/BASE_ISA.cpp): the immediates of
  the five formats and the opcode decoder. Functions with a template specialisation for each
  register width are written twice, with suffixes \<open>_32\<close> and \<open>_64\<close>; the name without suffix
  selects the specialisation by the length of the word type, as the instantiation does.
\<close>

section \<open>Immediates\<close>

definition get_imm_I_32 :: "32 word \<Rightarrow> 32 word" where
  "get_imm_I_32 i =
     (let aux = sc_range 31 20 i in
      if sc_bit 31 i = 1 then aux OR push_bit 12 0b11111111111111111111 else aux)"

definition get_imm_S_32 :: "32 word \<Rightarrow> 32 word" where
  "get_imm_S_32 i =
     (let aux = push_bit 5 (sc_range 31 25 i);
          aux = aux OR sc_range 11 7 i in
      if sc_bit 31 i = 1 then aux OR push_bit 12 0b11111111111111111111 else aux)"

definition get_imm_B_32 :: "32 word \<Rightarrow> 32 word" where
  "get_imm_B_32 i =
     (let aux = push_bit 11 (sc_bit 7 i);
          aux = aux OR push_bit 5 (sc_range 30 25 i);
          aux = aux OR push_bit 12 (sc_bit 31 i);
          aux = aux OR push_bit 1 (sc_range 11 8 i) in
      if sc_bit 31 i = 1 then aux OR push_bit 12 0b11111111111111111111 else aux)"

definition get_imm_J_32 :: "32 word \<Rightarrow> 32 word" where
  "get_imm_J_32 i =
     (let aux = push_bit 20 (sc_bit 31 i);
          aux = aux OR push_bit 12 (sc_range 19 12 i);
          aux = aux OR push_bit 11 (sc_bit 20 i);
          aux = aux OR push_bit 1 (sc_range 30 21 i) in
      if sc_bit 31 i = 1 then aux OR push_bit 20 0b111111111111 else aux)"

text \<open>
  In the 64-bit specialisations the mask is still computed as a 32-bit \<open>int\<close>; it is negative,
  so its conversion to 64 bits extends the sign.
\<close>

definition int_mask :: "nat \<Rightarrow> 32 word \<Rightarrow> 64 word" where
  "int_mask k ones = scast (push_bit k ones)"

definition get_imm_I_64 :: "32 word \<Rightarrow> 64 word" where
  "get_imm_I_64 i =
     (let aux = ucast (sc_range 31 20 i) in
      if sc_bit 31 i = 1
      then aux OR int_mask 12 0b11111111111111111111 OR push_bit 32 0xFFFFFFFF else aux)"

definition get_imm_S_64 :: "32 word \<Rightarrow> 64 word" where
  "get_imm_S_64 i =
     (let aux = push_bit 5 (ucast (sc_range 31 25 i));
          aux = aux OR ucast (sc_range 11 7 i) in
      if sc_bit 31 i = 1
      then aux OR int_mask 12 0b11111111111111111111 OR push_bit 32 0xFFFFFFFF else aux)"

definition get_imm_B_64 :: "32 word \<Rightarrow> 64 word" where
  "get_imm_B_64 i =
     (let aux = push_bit 11 (ucast (sc_bit 7 i));
          aux = aux OR push_bit 5 (ucast (sc_range 30 25 i));
          aux = aux OR push_bit 12 (ucast (sc_bit 31 i));
          aux = aux OR push_bit 1 (ucast (sc_range 11 8 i)) in
      if sc_bit 31 i = 1
      then aux OR int_mask 12 0b11111111111111111111 OR push_bit 32 0xFFFFFFFF else aux)"

definition get_imm_J_64 :: "32 word \<Rightarrow> 64 word" where
  "get_imm_J_64 i =
     (let aux = push_bit 20 (ucast (sc_bit 31 i));
          aux = aux OR push_bit 12 (ucast (sc_range 19 12 i));
          aux = aux OR push_bit 11 (ucast (sc_bit 20 i));
          aux = aux OR push_bit 1 (ucast (sc_range 30 21 i)) in
      if sc_bit 31 i = 1 then aux OR int_mask 20 0b111111111111 else aux)"

definition get_imm_I :: "32 word \<Rightarrow> 'a::len word" where
  "get_imm_I i = (if LENGTH('a) = 32 then ucast (get_imm_I_32 i) else ucast (get_imm_I_64 i))"

definition get_imm_S :: "32 word \<Rightarrow> 'a::len word" where
  "get_imm_S i = (if LENGTH('a) = 32 then ucast (get_imm_S_32 i) else ucast (get_imm_S_64 i))"

definition get_imm_B :: "32 word \<Rightarrow> 'a::len word" where
  "get_imm_B i = (if LENGTH('a) = 32 then ucast (get_imm_B_32 i) else ucast (get_imm_B_64 i))"

definition get_imm_J :: "32 word \<Rightarrow> 'a::len word" where
  "get_imm_J i = (if LENGTH('a) = 32 then ucast (get_imm_J_32 i) else ucast (get_imm_J_64 i))"

definition get_imm_U :: "32 word \<Rightarrow> 'a::len word" where
  "get_imm_U i = ucast (sc_range 31 12 i)"

section \<open>Other fields\<close>

definition get_funct7 :: "32 word \<Rightarrow> 32 word" where
  "get_funct7 i = sc_range 31 25 i"

definition get_funct7b_32 :: "32 word \<Rightarrow> 32 word" where
  "get_funct7b_32 i = sc_range 31 25 i"

definition get_funct7b_64 :: "32 word \<Rightarrow> 32 word" where
  "get_funct7b_64 i = sc_range 31 26 i"

definition get_shamt :: "32 word \<Rightarrow> 32 word" where
  "get_shamt i = sc_range 25 20 i"

definition get_csr :: "32 word \<Rightarrow> 32 word" where
  "get_csr i = sc_range 31 20 i"

definition opcode :: "32 word \<Rightarrow> 32 word" where
  "opcode i = sc_range 6 0 i"

section \<open>Codes\<close>

text \<open>The fields the decoder compares with (\<open>enum Codes\<close>), with a suffix where the instruction set
  specification has a constructor of the name.\<close>

abbreviation (input) LUI_code :: "32 word" where "LUI_code \<equiv> 0b0110111"
abbreviation (input) AUIPC_code :: "32 word" where "AUIPC_code \<equiv> 0b0010111"
abbreviation (input) JAL_code :: "32 word" where "JAL_code \<equiv> 0b1101111"
abbreviation (input) JALR_code :: "32 word" where "JALR_code \<equiv> 0b1100111"
abbreviation (input) BEQ :: "32 word" where "BEQ \<equiv> 0b1100011"
abbreviation (input) BEQ_F :: "32 word" where "BEQ_F \<equiv> 0b000"
abbreviation (input) BNE_F :: "32 word" where "BNE_F \<equiv> 0b001"
abbreviation (input) BLT_F :: "32 word" where "BLT_F \<equiv> 0b100"
abbreviation (input) BGE_F :: "32 word" where "BGE_F \<equiv> 0b101"
abbreviation (input) BLTU_F :: "32 word" where "BLTU_F \<equiv> 0b110"
abbreviation (input) BGEU_F :: "32 word" where "BGEU_F \<equiv> 0b111"
abbreviation (input) LB :: "32 word" where "LB \<equiv> 0b0000011"
abbreviation (input) LB_F :: "32 word" where "LB_F \<equiv> 0b000"
abbreviation (input) LH_F :: "32 word" where "LH_F \<equiv> 0b001"
abbreviation (input) LW_F :: "32 word" where "LW_F \<equiv> 0b010"
abbreviation (input) LBU_F :: "32 word" where "LBU_F \<equiv> 0b100"
abbreviation (input) LHU_F :: "32 word" where "LHU_F \<equiv> 0b101"
abbreviation (input) LWU_F :: "32 word" where "LWU_F \<equiv> 0b110"
abbreviation (input) LD_F :: "32 word" where "LD_F \<equiv> 0b011"
abbreviation (input) SB :: "32 word" where "SB \<equiv> 0b0100011"
abbreviation (input) SB_F :: "32 word" where "SB_F \<equiv> 0b000"
abbreviation (input) SH_F :: "32 word" where "SH_F \<equiv> 0b001"
abbreviation (input) SW_F :: "32 word" where "SW_F \<equiv> 0b010"
abbreviation (input) SD_F :: "32 word" where "SD_F \<equiv> 0b011"
abbreviation (input) ADDI :: "32 word" where "ADDI \<equiv> 0b0010011"
abbreviation (input) ADDI_F :: "32 word" where "ADDI_F \<equiv> 0b000"
abbreviation (input) SLTI_F :: "32 word" where "SLTI_F \<equiv> 0b010"
abbreviation (input) SLTIU_F :: "32 word" where "SLTIU_F \<equiv> 0b011"
abbreviation (input) XORI_F :: "32 word" where "XORI_F \<equiv> 0b100"
abbreviation (input) ORI_F :: "32 word" where "ORI_F \<equiv> 0b110"
abbreviation (input) ANDI_F :: "32 word" where "ANDI_F \<equiv> 0b111"
abbreviation (input) SLLI_F :: "32 word" where "SLLI_F \<equiv> 0b001"
abbreviation (input) SRLI_F :: "32 word" where "SRLI_F \<equiv> 0b101"
abbreviation (input) SRLI_F7 :: "32 word" where "SRLI_F7 \<equiv> 0b000000"
abbreviation (input) SRAI_F7 :: "32 word" where "SRAI_F7 \<equiv> 0b010000"
abbreviation (input) ADD :: "32 word" where "ADD \<equiv> 0b0110011"
abbreviation (input) ADD_F :: "32 word" where "ADD_F \<equiv> 0b000"
abbreviation (input) SUB_F :: "32 word" where "SUB_F \<equiv> 0b000"
abbreviation (input) ADD_F7 :: "32 word" where "ADD_F7 \<equiv> 0b0000000"
abbreviation (input) SUB_F7 :: "32 word" where "SUB_F7 \<equiv> 0b0100000"
abbreviation (input) SLL_F :: "32 word" where "SLL_F \<equiv> 0b001"
abbreviation (input) SLT_F :: "32 word" where "SLT_F \<equiv> 0b010"
abbreviation (input) SLTU_F :: "32 word" where "SLTU_F \<equiv> 0b011"
abbreviation (input) XOR_F :: "32 word" where "XOR_F \<equiv> 0b100"
abbreviation (input) SRL_F :: "32 word" where "SRL_F \<equiv> 0b101"
abbreviation (input) SRA_F :: "32 word" where "SRA_F \<equiv> 0b101"
abbreviation (input) SRL_F7 :: "32 word" where "SRL_F7 \<equiv> 0b0000000"
abbreviation (input) SRA_F7 :: "32 word" where "SRA_F7 \<equiv> 0b0100000"
abbreviation (input) OR_F :: "32 word" where "OR_F \<equiv> 0b110"
abbreviation (input) AND_F :: "32 word" where "AND_F \<equiv> 0b111"
abbreviation (input) FENCE :: "32 word" where "FENCE \<equiv> 0b0001111"
abbreviation (input) ECALL :: "32 word" where "ECALL \<equiv> 0b1110011"
abbreviation (input) ECALL_F :: "32 word" where "ECALL_F \<equiv> 0b000000000000"
abbreviation (input) EBREAK_F :: "32 word" where "EBREAK_F \<equiv> 0b000000000001"
abbreviation (input) URET_F :: "32 word" where "URET_F \<equiv> 0b000000000010"
abbreviation (input) SRET_F :: "32 word" where "SRET_F \<equiv> 0b000100000010"
abbreviation (input) MRET_F :: "32 word" where "MRET_F \<equiv> 0b001100000010"
abbreviation (input) WFI_F :: "32 word" where "WFI_F \<equiv> 0b000100000101"
abbreviation (input) SFENCE_F :: "32 word" where "SFENCE_F \<equiv> 0b0001001"
abbreviation (input) ECALL_F3 :: "32 word" where "ECALL_F3 \<equiv> 0b000"
abbreviation (input) CSRRW :: "32 word" where "CSRRW \<equiv> 0b001"
abbreviation (input) CSRRS :: "32 word" where "CSRRS \<equiv> 0b010"
abbreviation (input) CSRRC :: "32 word" where "CSRRC \<equiv> 0b011"
abbreviation (input) CSRRWI :: "32 word" where "CSRRWI \<equiv> 0b101"
abbreviation (input) CSRRSI :: "32 word" where "CSRRSI \<equiv> 0b110"
abbreviation (input) CSRRCI :: "32 word" where "CSRRCI \<equiv> 0b111"
abbreviation (input) ADDIW :: "32 word" where "ADDIW \<equiv> 0b0011011"
abbreviation (input) ADDIW_F :: "32 word" where "ADDIW_F \<equiv> 0b000"
abbreviation (input) SLLIW_F :: "32 word" where "SLLIW_F \<equiv> 0b001"
abbreviation (input) SRLIW_F :: "32 word" where "SRLIW_F \<equiv> 0b101"
abbreviation (input) SRLIW_F7 :: "32 word" where "SRLIW_F7 \<equiv> 0b000000"
abbreviation (input) SRAIW_F7 :: "32 word" where "SRAIW_F7 \<equiv> 0b010000"
abbreviation (input) ADDW :: "32 word" where "ADDW \<equiv> 0b0111011"
abbreviation (input) ADDW_F :: "32 word" where "ADDW_F \<equiv> 0b000"
abbreviation (input) ADDW_F7 :: "32 word" where "ADDW_F7 \<equiv> 0b000000"
abbreviation (input) SUBW_F7 :: "32 word" where "SUBW_F7 \<equiv> 0b010000"
abbreviation (input) SLLW :: "32 word" where "SLLW \<equiv> 0b001"
abbreviation (input) SRLW :: "32 word" where "SRLW \<equiv> 0b101"
abbreviation (input) SRLW_F7 :: "32 word" where "SRLW_F7 \<equiv> 0b000000"
abbreviation (input) SRAW_F7 :: "32 word" where "SRAW_F7 \<equiv> 0b010000"

section \<open>Operations and their decoder\<close>

datatype (plugins only: size code) opCodes =
    OP_LUI | OP_AUIPC | OP_JAL | OP_JALR
  | OP_BEQ | OP_BNE | OP_BLT | OP_BGE | OP_BLTU | OP_BGEU
  | OP_LB | OP_LH | OP_LW | OP_LBU | OP_LHU
  | OP_SB | OP_SH | OP_SW
  | OP_ADDI | OP_SLTI | OP_SLTIU | OP_XORI | OP_ORI | OP_ANDI | OP_SLLI | OP_SRLI | OP_SRAI
  | OP_ADD | OP_SUB | OP_SLL | OP_SLT | OP_SLTU | OP_XOR | OP_SRL | OP_SRA | OP_OR | OP_AND
  | OP_FENCE | OP_ECALL | OP_EBREAK
  | OP_CSRRW | OP_CSRRS | OP_CSRRC | OP_CSRRWI | OP_CSRRSI | OP_CSRRCI
  | OP_URET | OP_SRET | OP_MRET | OP_WFI | OP_SFENCE
  | OP_LWU | OP_LD | OP_SD
  | OP_ADDIW | OP_SLLIW | OP_SRLIW | OP_SRAIW | OP_ADDW | OP_SUBW | OP_SLLW | OP_SRLW | OP_SRAW
  | OP_ERROR

definition decode_branch :: "32 word \<Rightarrow> opCodes" where
  "decode_branch i =
     (let f3 = get_funct3 i in
      if f3 = BEQ_F then OP_BEQ else if f3 = BNE_F then OP_BNE
      else if f3 = BLT_F then OP_BLT else if f3 = BGE_F then OP_BGE
      else if f3 = BLTU_F then OP_BLTU else if f3 = BGEU_F then OP_BGEU
      else OP_ERROR)"

definition decode_load :: "32 word \<Rightarrow> opCodes" where
  "decode_load i =
     (let f3 = get_funct3 i in
      if f3 = LB_F then OP_LB else if f3 = LH_F then OP_LH
      else if f3 = LW_F then OP_LW else if f3 = LBU_F then OP_LBU
      else if f3 = LHU_F then OP_LHU else if f3 = LWU_F then OP_LWU
      else if f3 = LD_F then OP_LD else OP_ERROR)"

definition decode_store :: "32 word \<Rightarrow> opCodes" where
  "decode_store i =
     (let f3 = get_funct3 i in
      if f3 = SB_F then OP_SB else if f3 = SH_F then OP_SH
      else if f3 = SW_F then OP_SW else if f3 = SD_F then OP_SD
      else OP_ERROR)"

definition decode_op_imm :: "32 word \<Rightarrow> opCodes" where
  "decode_op_imm i =
     (let f3 = get_funct3 i in
      if f3 = ADDI_F then OP_ADDI else if f3 = SLTI_F then OP_SLTI
      else if f3 = SLTIU_F then OP_SLTIU else if f3 = XORI_F then OP_XORI
      else if f3 = ORI_F then OP_ORI else if f3 = ANDI_F then OP_ANDI
      else if f3 = SLLI_F then OP_SLLI
      else if f3 = SRLI_F then
        (if drop_bit 26 i = SRLI_F7 then OP_SRLI
         else if drop_bit 26 i = SRAI_F7 then OP_SRAI else OP_ERROR)
      else OP_ERROR)"

definition decode_op :: "32 word \<Rightarrow> opCodes" where
  "decode_op i =
     (if get_funct7 i \<noteq> 0 \<and> get_funct7 i \<noteq> 0b0100000 then OP_ERROR
      else
        let f3 = get_funct3 i in
        if f3 = ADD_F then
          (if get_funct7 i = ADD_F7 then OP_ADD
           else if get_funct7 i = SUB_F7 then OP_SUB else OP_ERROR)
        else if f3 = SLL_F then OP_SLL else if f3 = SLT_F then OP_SLT
        else if f3 = SLTU_F then OP_SLTU else if f3 = XOR_F then OP_XOR
        else if f3 = SRL_F then
          (if get_funct7 i = SRL_F7 then OP_SRL
           else if get_funct7 i = SRA_F7 then OP_SRA else OP_ERROR)
        else if f3 = OR_F then OP_OR else if f3 = AND_F then OP_AND
        else OP_ERROR)"

definition decode_system :: "32 word \<Rightarrow> opCodes" where
  "decode_system i =
     (let f3 = get_funct3 i; csr = get_csr i in
      if f3 = ECALL_F3 then
        (if csr = ECALL_F then OP_ECALL else if csr = EBREAK_F then OP_EBREAK
         else if csr = URET_F then OP_URET else if csr = SRET_F then OP_SRET
         else if csr = MRET_F then OP_MRET else if csr = WFI_F then OP_WFI
         else if csr = SFENCE_F then OP_SFENCE
         else if sc_range 31 25 i = 0b0001001 then OP_SFENCE else OP_ERROR)
      else if f3 = CSRRW then OP_CSRRW else if f3 = CSRRS then OP_CSRRS
      else if f3 = CSRRC then OP_CSRRC else if f3 = CSRRWI then OP_CSRRWI
      else if f3 = CSRRSI then OP_CSRRSI else if f3 = CSRRCI then OP_CSRRCI
      else OP_ERROR)"

definition decode_op_imm_32 :: "32 word \<Rightarrow> opCodes" where
  "decode_op_imm_32 i =
     (let f3 = get_funct3 i in
      if f3 = ADDIW_F then OP_ADDIW else if f3 = SLLIW_F then OP_SLLIW
      else if f3 = SRLIW_F then
        (if drop_bit 26 i = SRLIW_F7 then OP_SRLIW
         else if drop_bit 26 i = SRAIW_F7 then OP_SRAIW else OP_ERROR)
      else OP_ERROR)"

definition decode_op_32 :: "32 word \<Rightarrow> opCodes" where
  "decode_op_32 i =
     (if get_funct7 i \<noteq> 0 \<and> get_funct7 i \<noteq> 0b0100000 then OP_ERROR
      else
        let f3 = get_funct3 i in
        if f3 = ADDW_F then
          (if drop_bit 26 i = ADDW_F7 then OP_ADDW
           else if drop_bit 26 i = SUBW_F7 then OP_SUBW else OP_ERROR)
        else if f3 = SLLW then OP_SLLW
        else if f3 = SRLW then
          (if drop_bit 26 i = SRLW_F7 then OP_SRLW
           else if drop_bit 26 i = SRAW_F7 then OP_SRAW else OP_ERROR)
        else OP_ERROR)"

definition decode :: "32 word \<Rightarrow> opCodes" where
  "decode i =
     (let op = opcode i in
      if op = LUI_code then OP_LUI
      else if op = AUIPC_code then OP_AUIPC
      else if op = JAL_code then OP_JAL
      else if op = JALR_code then OP_JALR
      else if op = BEQ then decode_branch i
      else if op = LB then decode_load i
      else if op = SB then decode_store i
      else if op = ADDI then decode_op_imm i
      else if op = ADD then decode_op i
      else if op = FENCE then OP_FENCE
      else if op = ECALL then decode_system i
      else if op = ADDIW then decode_op_imm_32 i
      else if op = ADDW then decode_op_32 i
      else OP_ERROR)"

lemmas decode_defs =
  decode_def decode_branch_def decode_load_def decode_store_def decode_op_imm_def
  decode_op_def decode_system_def decode_op_imm_32_def decode_op_32_def

lemmas field_defs =
  get_rd_def get_rs1_def get_rs2_def get_funct3_def get_funct7_def get_shamt_def
  get_shamt_slli_def get_csr_def opcode_def

end
