(* ===== verification/BASE_ISA.thy ===== *)
theory BASE_ISA
  imports BASE_ISA_Decode
begin

text \<open>
  Execution of the base instruction set, Zifencei and Zicsr (inc/BASE_ISA.h,
  src/BASE_ISA.cpp): one operation for each \<open>Exec_\<close> method, in the order of the code, and
  \<open>exec_instruction\<close>. An operation returns what the method returns; \<open>exec_instruction\<close>
  returns whether the program counter still has to be advanced, and the breakpoint flag.
  Addition, subtraction and left shift of signed values wrap around, as the compiler used
  (g++) makes them do. Conversions between widths are written \<open>ucast\<close> (to or from an unsigned
  type) and \<open>scast\<close> (from a signed type).
\<close>

section \<open>Conversions\<close>

text \<open>\<open>static_cast<std::int32_t>(x)\<close> assigned to a variable of the register type.\<close>

definition int32_to :: "'b::len word \<Rightarrow> 'a::len word" where
  "int32_to x = scast (ucast x :: 32 word)"

section \<open>Upper immediates and jumps\<close>

definition Exec_LUI :: "32 word \<Rightarrow> ('a::len hart, bool) exec" where
  "Exec_LUI i =
     (let rd = get_rd i; imm = int32_to (push_bit 12 (get_imm_U i :: 'a word)) in
      bnd (wr_reg rd imm) (\<lambda>_. ret True))"

definition Exec_AUIPC :: "32 word \<Rightarrow> ('a::len hart, bool) exec" where
  "Exec_AUIPC i =
     (let rd = get_rd i; imm = int32_to (push_bit 12 (get_imm_U i :: 'a word)) in
      bnd get_pc (\<lambda>pc. let new_pc = pc + imm in
      bnd (wr_reg rd new_pc) (\<lambda>_. ret True)))"

definition Exec_JAL :: "32 word \<Rightarrow> ('a::len hart, bool) exec" where
  "Exec_JAL i =
     (let rd = get_rd i; mem_addr = get_imm_J i in
      bnd get_pc (\<lambda>old_pc. let new_pc = old_pc + mem_addr in
      bnd (set_pc new_pc) (\<lambda>_.
      bnd (wr_reg rd (old_pc + 4)) (\<lambda>_. ret True))))"

definition Exec_JALR :: "32 word \<Rightarrow> ('a::len hart, bool) exec" where
  "Exec_JALR i =
     (let rd = get_rd i; rs1 = get_rs1 i; offset = get_imm_I i in
      bnd get_pc (\<lambda>old_pc.
      bnd (rd_reg rs1) (\<lambda>v. let new_pc = (v + offset) AND NOT 1 in
      bnd (wr_reg rd (old_pc + 4)) (\<lambda>_.
      bnd (set_pc new_pc) (\<lambda>_. ret True)))))"

section \<open>Branches\<close>

text \<open>The two ends of every branch: the target, or the next instruction.\<close>

definition branch_to :: "bool \<Rightarrow> 32 word \<Rightarrow> ('a::len hart, unit) exec" where
  "branch_to taken i =
     (if taken then bnd get_pc (\<lambda>pc. set_pc (pc + get_imm_B i)) else inc_pc)"

definition Exec_BEQ :: "32 word \<Rightarrow> ('a::len hart, bool) exec" where
  "Exec_BEQ i =
     (let rs1 = get_rs1 i; rs2 = get_rs2 i in
      bnd (rd_reg rs1) (\<lambda>val1. bnd (rd_reg rs2) (\<lambda>val2.
      bnd (branch_to (val1 = val2) i) (\<lambda>_.
      bnd (log_reads [rs1, rs2]) (\<lambda>_. ret True)))))"

definition Exec_BNE :: "32 word \<Rightarrow> ('a::len hart, bool) exec" where
  "Exec_BNE i =
     (let rs1 = get_rs1 i; rs2 = get_rs2 i in
      bnd (rd_reg rs1) (\<lambda>val1. bnd (rd_reg rs2) (\<lambda>val2.
      bnd (branch_to (val1 \<noteq> val2) i) (\<lambda>_. ret True))))"

definition Exec_BLT :: "32 word \<Rightarrow> ('a::len hart, bool) exec" where
  "Exec_BLT i =
     (let rs1 = get_rs1 i; rs2 = get_rs2 i in
      bnd (rd_reg rs1) (\<lambda>val1. bnd (rd_reg rs2) (\<lambda>val2.
      bnd (branch_to (sint val1 < sint val2) i) (\<lambda>_.
      bnd (log_reads [rs1, rs2]) (\<lambda>_. ret True)))))"

definition Exec_BGE :: "32 word \<Rightarrow> ('a::len hart, bool) exec" where
  "Exec_BGE i =
     (let rs1 = get_rs1 i; rs2 = get_rs2 i in
      bnd (rd_reg rs1) (\<lambda>val1. bnd (rd_reg rs2) (\<lambda>val2.
      bnd (branch_to (sint val1 \<ge> sint val2) i) (\<lambda>_.
      bnd (log_reads [rs1, rs2]) (\<lambda>_. ret True)))))"

definition Exec_BLTU :: "32 word \<Rightarrow> ('a::len hart, bool) exec" where
  "Exec_BLTU i =
     (let rs1 = get_rs1 i; rs2 = get_rs2 i in
      bnd (rd_reg rs1) (\<lambda>val1. bnd (rd_reg rs2) (\<lambda>val2.
      bnd (branch_to (val1 < val2) i) (\<lambda>_.
      bnd (log_reads [rs1, rs2]) (\<lambda>_. ret True)))))"

definition Exec_BGEU :: "32 word \<Rightarrow> ('a::len hart, bool) exec" where
  "Exec_BGEU i =
     (let rs1 = get_rs1 i; rs2 = get_rs2 i in
      bnd (rd_reg rs1) (\<lambda>val1. bnd (rd_reg rs2) (\<lambda>val2.
      bnd (branch_to (val1 \<ge> val2) i) (\<lambda>_.
      bnd (log_reads [rs1, rs2]) (\<lambda>_. ret True)))))"

section \<open>Loads\<close>

text \<open>The address of a load and of a store; the data port takes a 64-bit address.\<close>

definition load_addr :: "32 word \<Rightarrow> ('a::len hart, 'a word) exec" where
  "load_addr i = bnd (rd_reg (get_rs1 i)) (\<lambda>v. ret (get_imm_I i + v))"

definition store_addr :: "32 word \<Rightarrow> ('a::len hart, 'a word) exec" where
  "store_addr i = bnd (rd_reg (get_rs1 i)) (\<lambda>v. ret (get_imm_S i + v))"

definition Exec_LB :: "32 word \<Rightarrow> ('a::len hart, bool) exec" where
  "Exec_LB i =
     bnd (load_addr i) (\<lambda>mem_addr.
     bnd (rd_mem (ucast mem_addr) 1) (\<lambda>w. let data = (ucast w :: 8 word) in
     bnd (count dataMemoryRead) (\<lambda>_.
     bnd (wr_reg (get_rd i) (scast data)) (\<lambda>_. ret True))))"

definition Exec_LH :: "32 word \<Rightarrow> ('a::len hart, bool) exec" where
  "Exec_LH i =
     bnd (load_addr i) (\<lambda>mem_addr.
     bnd (rd_mem (ucast mem_addr) 2) (\<lambda>w. let data = (ucast w :: 16 word) in
     bnd (count dataMemoryRead) (\<lambda>_.
     bnd (wr_reg (get_rd i) (scast data)) (\<lambda>_. ret True))))"

definition Exec_LW :: "32 word \<Rightarrow> ('a::len hart, bool) exec" where
  "Exec_LW i =
     bnd (load_addr i) (\<lambda>mem_addr.
     bnd (rd_mem (ucast mem_addr) 4) (\<lambda>data.
     bnd (count dataMemoryRead) (\<lambda>_.
     bnd (wr_reg (get_rd i) (scast data)) (\<lambda>_. ret True))))"

definition Exec_LBU :: "32 word \<Rightarrow> ('a::len hart, bool) exec" where
  "Exec_LBU i =
     bnd (load_addr i) (\<lambda>mem_addr.
     bnd (rd_mem (ucast mem_addr) 1) (\<lambda>w. let data = (ucast w :: 8 word) in
     bnd (count dataMemoryRead) (\<lambda>_.
     bnd (wr_reg (get_rd i) (ucast data)) (\<lambda>_. ret True))))"

definition Exec_LHU :: "32 word \<Rightarrow> ('a::len hart, bool) exec" where
  "Exec_LHU i =
     bnd (load_addr i) (\<lambda>mem_addr.
     bnd (rd_mem (ucast mem_addr) 2) (\<lambda>w. let data = (ucast w :: 16 word) in
     bnd (count dataMemoryRead) (\<lambda>_.
     bnd (wr_reg (get_rd i) (ucast data)) (\<lambda>_. ret True))))"

definition Exec_LWU :: "32 word \<Rightarrow> ('a::len hart, bool) exec" where
  "Exec_LWU i =
     bnd (load_addr i) (\<lambda>mem_addr.
     bnd (rd_mem (ucast mem_addr) 4) (\<lambda>data.
     bnd (count dataMemoryRead) (\<lambda>_.
     bnd (wr_reg (get_rd i) (ucast data)) (\<lambda>_. ret True))))"

definition Exec_LD :: "32 word \<Rightarrow> ('a::len hart, bool) exec" where
  "Exec_LD i =
     bnd (load_addr i) (\<lambda>mem_addr.
     bnd (rd_mem (ucast mem_addr) 4) (\<lambda>lo.
     bnd (rd_mem (ucast (mem_addr + 4)) 4) (\<lambda>hi.
     let data = (ucast lo OR push_bit 32 (ucast hi) :: 64 word) in
     bnd (count dataMemoryRead) (\<lambda>_.
     bnd (wr_reg (get_rd i) (ucast data)) (\<lambda>_. ret True)))))"

section \<open>Stores\<close>

definition Exec_SD :: "32 word \<Rightarrow> ('a::len hart, bool) exec" where
  "Exec_SD i =
     bnd (store_addr i) (\<lambda>mem_addr.
     bnd (rd_reg (get_rs2 i)) (\<lambda>v. let data = (ucast v :: 64 word) in
     bnd (wr_mem (ucast mem_addr) (ucast (data AND 0xFFFFFFFF)) 4) (\<lambda>_.
     bnd (wr_mem (ucast (mem_addr + 4)) (ucast (drop_bit 32 data)) 4) (\<lambda>_.
     bnd (count dataMemoryWrite) (\<lambda>_. ret True)))))"

definition Exec_SB :: "32 word \<Rightarrow> ('a::len hart, bool) exec" where
  "Exec_SB i =
     bnd (store_addr i) (\<lambda>mem_addr.
     bnd (rd_reg (get_rs2 i)) (\<lambda>v.
     bnd (wr_mem (ucast mem_addr) (ucast v) 1) (\<lambda>_.
     bnd (count dataMemoryWrite) (\<lambda>_. ret True))))"

definition Exec_SH :: "32 word \<Rightarrow> ('a::len hart, bool) exec" where
  "Exec_SH i =
     bnd (store_addr i) (\<lambda>mem_addr.
     bnd (rd_reg (get_rs2 i)) (\<lambda>v.
     bnd (wr_mem (ucast mem_addr) (ucast v) 2) (\<lambda>_.
     bnd (count dataMemoryWrite) (\<lambda>_. ret True))))"

definition Exec_SW :: "32 word \<Rightarrow> ('a::len hart, bool) exec" where
  "Exec_SW i =
     bnd (store_addr i) (\<lambda>mem_addr.
     bnd (rd_reg (get_rs2 i)) (\<lambda>v.
     bnd (wr_mem (ucast mem_addr) (ucast v) 4) (\<lambda>_.
     bnd (count dataMemoryWrite) (\<lambda>_. ret True))))"

section \<open>Operations with an immediate\<close>

definition Exec_ADDI :: "32 word \<Rightarrow> ('a::len hart, bool) exec" where
  "Exec_ADDI i =
     (let rd = get_rd i; rs1 = get_rs1 i; imm = get_imm_I i in
      bnd (rd_reg rs1) (\<lambda>v. let calc = v + imm in
      bnd (wr_reg rd calc) (\<lambda>_.
      bnd (log_reads [rs1]) (\<lambda>_. ret True))))"

definition Exec_ADDIW :: "32 word \<Rightarrow> ('a::len hart, bool) exec" where
  "Exec_ADDIW i =
     (let rd = get_rd i; rs1 = get_rs1 i; imm = (ucast (get_imm_I i :: 'a word) :: 32 word) in
      bnd (rd_reg rs1) (\<lambda>v.
      let aux = (ucast (v AND 0xFFFFFFFF) :: 32 word);
          aux = aux + imm;
          calc = (scast aux :: 64 word) in
      bnd (wr_reg rd (ucast calc)) (\<lambda>_. ret True)))"

definition Exec_SLTI :: "32 word \<Rightarrow> ('a::len hart, bool) exec" where
  "Exec_SLTI i =
     (let rd = get_rd i; rs1 = get_rs1 i; imm = (get_imm_I i :: 'a word) in
      bnd (rd_reg rs1) (\<lambda>val1.
      if sint val1 < sint imm then bnd (wr_reg rd 1) (\<lambda>_. ret True)
      else bnd (wr_reg rd 0) (\<lambda>_. ret True)))"

definition Exec_SLTIU :: "32 word \<Rightarrow> ('a::len hart, bool) exec" where
  "Exec_SLTIU i =
     (let rd = get_rd i; rs1 = get_rs1 i; imm = (get_imm_I i :: 'a word) in
      bnd (rd_reg rs1) (\<lambda>val1.
      if val1 < imm then bnd (wr_reg rd 1) (\<lambda>_. ret True)
      else bnd (wr_reg rd 0) (\<lambda>_. ret True)))"

definition Exec_XORI :: "32 word \<Rightarrow> ('a::len hart, bool) exec" where
  "Exec_XORI i =
     (let rd = get_rd i; rs1 = get_rs1 i; imm = get_imm_I i in
      bnd (rd_reg rs1) (\<lambda>v. let calc = v XOR imm in
      bnd (wr_reg rd calc) (\<lambda>_. ret True)))"

definition Exec_ORI :: "32 word \<Rightarrow> ('a::len hart, bool) exec" where
  "Exec_ORI i =
     (let rd = get_rd i; rs1 = get_rs1 i; imm = get_imm_I i in
      bnd (rd_reg rs1) (\<lambda>v. let calc = v OR imm in
      bnd (wr_reg rd calc) (\<lambda>_. ret True)))"

definition Exec_ANDI :: "32 word \<Rightarrow> ('a::len hart, bool) exec" where
  "Exec_ANDI i =
     (let rd = get_rd i; rs1 = get_rs1 i; imm = get_imm_I i in
      bnd (rd_reg rs1) (\<lambda>v. let calc = v AND imm in
      bnd (wr_reg rd calc) (\<lambda>_. ret True)))"

text \<open>A shift amount the code rejects: it stops the simulation and raises the exception.\<close>

definition bad_shamt :: "32 word \<Rightarrow> ('a::len hart, bool) exec" where
  "bad_shamt i =
     bnd stop_sim (\<lambda>_. bnd (RaiseException ILLEGAL_INSTRUCTION i) (\<lambda>_. ret False))"

definition Exec_SLLI_32 :: "32 word \<Rightarrow> ('a::len hart, bool) exec" where
  "Exec_SLLI_32 i =
     (let rd = get_rd i; rs1 = get_rs1 i; rs2 = get_shamt i in
      if rs2 \<ge> 0x20 then bad_shamt i
      else
        let shift = unat (rs2 AND 0x1F) in
        bnd (rd_reg rs1) (\<lambda>v. let calc = push_bit shift v in
        bnd (wr_reg rd calc) (\<lambda>_. ret True)))"

definition Exec_SLLI_64 :: "32 word \<Rightarrow> ('a::len hart, bool) exec" where
  "Exec_SLLI_64 i =
     (let rd = get_rd i; rs1 = get_rs1 i; rs2 = get_shamt_slli i in
      if rs2 \<ge> 0x40 then bad_shamt i
      else
        let shift = unat (rs2 AND 0x3F) in
        bnd (rd_reg rs1) (\<lambda>v. let calc = push_bit shift v in
        bnd (wr_reg rd calc) (\<lambda>_. ret True)))"

definition Exec_SRLI_32 :: "32 word \<Rightarrow> ('a::len hart, bool) exec" where
  "Exec_SRLI_32 i =
     (let rd = get_rd i; rs1 = get_rs1 i; rs2 = sc_range 24 20 i;
          shift = unat (rs2 AND 0x1F) in
      bnd (rd_reg rs1) (\<lambda>v. let calc = drop_bit shift v in
      bnd (wr_reg rd calc) (\<lambda>_. ret True)))"

definition Exec_SRLI_64 :: "32 word \<Rightarrow> ('a::len hart, bool) exec" where
  "Exec_SRLI_64 i =
     (let rd = get_rd i; rs1 = get_rs1 i; rs2 = get_shamt_slli i;
          shift = unat (rs2 AND 0x3F) in
      bnd (rd_reg rs1) (\<lambda>v. let calc = drop_bit shift v in
      bnd (wr_reg rd calc) (\<lambda>_. ret True)))"

definition Exec_SRAI_32 :: "32 word \<Rightarrow> ('a::len hart, bool) exec" where
  "Exec_SRAI_32 i =
     (let rd = get_rd i; rs1 = get_rs1 i; rs2 = sc_range 24 20 i;
          shift = unat (rs2 AND 0x1F) in
      bnd (rd_reg rs1) (\<lambda>v. let calc = signed_drop_bit shift v in
      bnd (wr_reg rd calc) (\<lambda>_. ret True)))"

definition Exec_SRAI_64 :: "32 word \<Rightarrow> ('a::len hart, bool) exec" where
  "Exec_SRAI_64 i =
     (let rd = get_rd i; rs1 = get_rs1 i; rs2 = get_shamt_slli i;
          shift = unat (rs2 AND 0x3F) in
      bnd (rd_reg rs1) (\<lambda>v. let calc = signed_drop_bit shift v in
      bnd (wr_reg rd calc) (\<lambda>_. ret True)))"

definition Exec_SLLI :: "32 word \<Rightarrow> ('a::len hart, bool) exec" where
  "Exec_SLLI i = (if LENGTH('a) = 32 then Exec_SLLI_32 i else Exec_SLLI_64 i)"

definition Exec_SRLI :: "32 word \<Rightarrow> ('a::len hart, bool) exec" where
  "Exec_SRLI i = (if LENGTH('a) = 32 then Exec_SRLI_32 i else Exec_SRLI_64 i)"

definition Exec_SRAI :: "32 word \<Rightarrow> ('a::len hart, bool) exec" where
  "Exec_SRAI i = (if LENGTH('a) = 32 then Exec_SRAI_32 i else Exec_SRAI_64 i)"

section \<open>Word operations of RV64\<close>

definition Exec_SLLIW :: "32 word \<Rightarrow> ('a::len hart, bool) exec" where
  "Exec_SLLIW i =
     (let rd = get_rd i; rs1 = get_rs1 i; rs2 = get_shamt i in
      if rs2 \<ge> 0x20 then bad_shamt i
      else
        let shift = unat (rs2 AND 0x1F) in
        bnd (rd_reg rs1) (\<lambda>v. let calc = scast (push_bit shift (ucast v :: 32 word)) in
        bnd (wr_reg rd calc) (\<lambda>_. ret True)))"

definition Exec_SRLIW :: "32 word \<Rightarrow> ('a::len hart, bool) exec" where
  "Exec_SRLIW i =
     (let rd = get_rd i; rs1 = get_rs1 i; rs2 = get_shamt i in
      if rs2 \<ge> 0x20 then bad_shamt i
      else
        let shift = unat (rs2 AND 0x1F) in
        bnd (rd_reg rs1) (\<lambda>v.
        let calc = scast (drop_bit shift (ucast (v AND 0xFFFFFFFF) :: 32 word)) in
        bnd (wr_reg rd calc) (\<lambda>_. ret True)))"

definition Exec_SRAIW :: "32 word \<Rightarrow> ('a::len hart, bool) exec" where
  "Exec_SRAIW i =
     (let rd = get_rd i; rs1 = get_rs1 i; rs2 = get_shamt_slli i;
          shift = unat (rs2 AND 0x1F) in
      bnd (rd_reg rs1) (\<lambda>v. let calc = scast (signed_drop_bit shift (ucast v :: 32 word)) in
      bnd (wr_reg rd calc) (\<lambda>_. ret True)))"

definition Exec_ADDW :: "32 word \<Rightarrow> ('a::len hart, bool) exec" where
  "Exec_ADDW i =
     (let rd = get_rd i; rs1 = get_rs1 i; rs2 = get_rs2 i in
      bnd (rd_reg rs1) (\<lambda>v1. bnd (rd_reg rs2) (\<lambda>v2.
      let calc = int32_to ((v1 + v2) AND 0xFFFFFFFF) in
      bnd (wr_reg rd calc) (\<lambda>_. ret True))))"

definition Exec_SUBW :: "32 word \<Rightarrow> ('a::len hart, bool) exec" where
  "Exec_SUBW i =
     (let rd = get_rd i; rs1 = get_rs1 i; rs2 = get_rs2 i in
      bnd (rd_reg rs1) (\<lambda>v1. bnd (rd_reg rs2) (\<lambda>v2.
      let calc = int32_to ((v1 - v2) AND 0xFFFFFFFF) in
      bnd (wr_reg rd calc) (\<lambda>_. ret True))))"

definition Exec_SLLW :: "32 word \<Rightarrow> ('a::len hart, bool) exec" where
  "Exec_SLLW i =
     (let rd = get_rd i; rs1 = get_rs1 i; rs2 = get_rs2 i in
      bnd (rd_reg rs2) (\<lambda>v2. let shift = unat (v2 AND 0x1F) in
      bnd (rd_reg rs1) (\<lambda>v1.
      let calc = scast (push_bit shift (ucast (v1 AND 0xFFFFFFFF) :: 32 word)) in
      bnd (wr_reg rd calc) (\<lambda>_. ret True))))"

definition Exec_SRLW :: "32 word \<Rightarrow> ('a::len hart, bool) exec" where
  "Exec_SRLW i =
     (let rd = get_rd i; rs1 = get_rs1 i; rs2 = get_rs2 i in
      bnd (rd_reg rs2) (\<lambda>v2. let shift = unat (v2 AND 0x1F) in
      bnd (rd_reg rs1) (\<lambda>v1.
      let calc = scast (drop_bit shift (ucast (v1 AND 0xFFFFFFFF) :: 32 word)) in
      bnd (wr_reg rd calc) (\<lambda>_. ret True))))"

definition Exec_SRAW :: "32 word \<Rightarrow> ('a::len hart, bool) exec" where
  "Exec_SRAW i =
     (let rd = get_rd i; rs1 = get_rs1 i; rs2 = get_rs2 i in
      bnd (rd_reg rs2) (\<lambda>v2. let shift = unat (v2 AND 0x1F) in
      bnd (rd_reg rs1) (\<lambda>v1.
      let calc = scast (signed_drop_bit shift (ucast (v1 AND 0xFFFFFFFF) :: 32 word)) in
      bnd (wr_reg rd calc) (\<lambda>_. ret True))))"

section \<open>Register operations\<close>

definition Exec_ADD :: "32 word \<Rightarrow> ('a::len hart, bool) exec" where
  "Exec_ADD i =
     (let rd = get_rd i; rs1 = get_rs1 i; rs2 = get_rs2 i in
      bnd (rd_reg rs1) (\<lambda>v1. bnd (rd_reg rs2) (\<lambda>v2. let calc = v1 + v2 in
      bnd (wr_reg rd calc) (\<lambda>_. ret True))))"

definition Exec_SUB :: "32 word \<Rightarrow> ('a::len hart, bool) exec" where
  "Exec_SUB i =
     (let rd = get_rd i; rs1 = get_rs1 i; rs2 = get_rs2 i in
      bnd (rd_reg rs1) (\<lambda>v1. bnd (rd_reg rs2) (\<lambda>v2. let calc = v1 - v2 in
      bnd (wr_reg rd calc) (\<lambda>_. ret True))))"

definition Exec_SLL_32 :: "32 word \<Rightarrow> ('a::len hart, bool) exec" where
  "Exec_SLL_32 i =
     (let rd = get_rd i; rs1 = get_rs1 i; rs2 = get_rs2 i in
      bnd (rd_reg rs2) (\<lambda>v2. let shift = unat (v2 AND 0x1F) in
      bnd (rd_reg rs1) (\<lambda>v1. let calc = push_bit shift v1 in
      bnd (wr_reg rd calc) (\<lambda>_. ret True))))"

definition Exec_SLL_64 :: "32 word \<Rightarrow> ('a::len hart, bool) exec" where
  "Exec_SLL_64 i =
     (let rd = get_rd i; rs1 = get_rs1 i; rs2 = get_rs2 i in
      bnd (rd_reg rs2) (\<lambda>v2. let shift = unat (v2 AND 0x3F) in
      bnd (rd_reg rs1) (\<lambda>v1. let calc = push_bit shift v1 in
      bnd (wr_reg rd calc) (\<lambda>_. ret True))))"

definition Exec_SLT :: "32 word \<Rightarrow> ('a::len hart, bool) exec" where
  "Exec_SLT i =
     (let rd = get_rd i; rs1 = get_rs1 i; rs2 = get_rs2 i in
      bnd (rd_reg rs1) (\<lambda>val1. bnd (rd_reg rs2) (\<lambda>val2.
      if sint val1 < sint val2 then bnd (wr_reg rd 1) (\<lambda>_. ret True)
      else bnd (wr_reg rd 0) (\<lambda>_. ret True))))"

definition Exec_SLTU :: "32 word \<Rightarrow> ('a::len hart, bool) exec" where
  "Exec_SLTU i =
     (let rd = get_rd i; rs1 = get_rs1 i; rs2 = get_rs2 i in
      bnd (rd_reg rs1) (\<lambda>val1. bnd (rd_reg rs2) (\<lambda>val2.
      if val1 < val2 then bnd (wr_reg rd 1) (\<lambda>_. ret True)
      else bnd (wr_reg rd 0) (\<lambda>_. ret True))))"

definition Exec_XOR :: "32 word \<Rightarrow> ('a::len hart, bool) exec" where
  "Exec_XOR i =
     (let rd = get_rd i; rs1 = get_rs1 i; rs2 = get_rs2 i in
      bnd (rd_reg rs1) (\<lambda>v1. bnd (rd_reg rs2) (\<lambda>v2. let calc = v1 XOR v2 in
      bnd (wr_reg rd calc) (\<lambda>_. ret True))))"

definition Exec_SRL_32 :: "32 word \<Rightarrow> ('a::len hart, bool) exec" where
  "Exec_SRL_32 i =
     (let rd = get_rd i; rs1 = get_rs1 i; rs2 = get_rs2 i in
      bnd (rd_reg rs2) (\<lambda>v2. let shift = unat (v2 AND 0x1F) in
      bnd (rd_reg rs1) (\<lambda>v1. let calc = drop_bit shift v1 in
      bnd (wr_reg rd calc) (\<lambda>_. ret True))))"

definition Exec_SRL_64 :: "32 word \<Rightarrow> ('a::len hart, bool) exec" where
  "Exec_SRL_64 i =
     (let rd = get_rd i; rs1 = get_rs1 i; rs2 = get_rs2 i in
      bnd (rd_reg rs2) (\<lambda>v2. let shift = unat (v2 AND 0x3F) in
      bnd (rd_reg rs1) (\<lambda>v1. let calc = drop_bit shift v1 in
      bnd (wr_reg rd calc) (\<lambda>_. ret True))))"

definition Exec_SRA_32 :: "32 word \<Rightarrow> ('a::len hart, bool) exec" where
  "Exec_SRA_32 i =
     (let rd = get_rd i; rs1 = get_rs1 i; rs2 = get_rs2 i in
      bnd (rd_reg rs2) (\<lambda>v2. let shift = unat (v2 AND 0x1F) in
      bnd (rd_reg rs1) (\<lambda>v1. let calc = signed_drop_bit shift v1 in
      bnd (wr_reg rd calc) (\<lambda>_. ret True))))"

definition Exec_SRA_64 :: "32 word \<Rightarrow> ('a::len hart, bool) exec" where
  "Exec_SRA_64 i =
     (let rd = get_rd i; rs1 = get_rs1 i; rs2 = get_rs2 i in
      bnd (rd_reg rs2) (\<lambda>v2. let shift = unat (v2 AND 0x3F) in
      bnd (rd_reg rs1) (\<lambda>v1. let calc = signed_drop_bit shift v1 in
      bnd (wr_reg rd calc) (\<lambda>_. ret True))))"

definition Exec_SLL :: "32 word \<Rightarrow> ('a::len hart, bool) exec" where
  "Exec_SLL i = (if LENGTH('a) = 32 then Exec_SLL_32 i else Exec_SLL_64 i)"

definition Exec_SRL :: "32 word \<Rightarrow> ('a::len hart, bool) exec" where
  "Exec_SRL i = (if LENGTH('a) = 32 then Exec_SRL_32 i else Exec_SRL_64 i)"

definition Exec_SRA :: "32 word \<Rightarrow> ('a::len hart, bool) exec" where
  "Exec_SRA i = (if LENGTH('a) = 32 then Exec_SRA_32 i else Exec_SRA_64 i)"

definition Exec_OR :: "32 word \<Rightarrow> ('a::len hart, bool) exec" where
  "Exec_OR i =
     (let rd = get_rd i; rs1 = get_rs1 i; rs2 = get_rs2 i in
      bnd (rd_reg rs1) (\<lambda>v1. bnd (rd_reg rs2) (\<lambda>v2. let calc = v1 OR v2 in
      bnd (wr_reg rd calc) (\<lambda>_. ret True))))"

definition Exec_AND :: "32 word \<Rightarrow> ('a::len hart, bool) exec" where
  "Exec_AND i =
     (let rd = get_rd i; rs1 = get_rs1 i; rs2 = get_rs2 i in
      bnd (rd_reg rs1) (\<lambda>v1. bnd (rd_reg rs2) (\<lambda>v2. let calc = v1 AND v2 in
      bnd (wr_reg rd calc) (\<lambda>_. ret True))))"

section \<open>Fences and environment calls\<close>

definition Exec_FENCE :: "32 word \<Rightarrow> ('a::len hart, bool) exec" where
  "Exec_FENCE i =
     bnd get_pc (\<lambda>pc. let ant_pc = (ucast pc :: 32 word) + 4 in
     bnd (rd_mem (ucast ant_pc) 4) (\<lambda>ant_inst.
     bnd (if ant_inst = 0x00000073 then stop_sim else ret ()) (\<lambda>_. ret True)))"

definition Exec_ECALL :: "32 word \<Rightarrow> ('a::len hart, bool) exec" where
  "Exec_ECALL i = bnd (RaiseException CALL_FROM_M_MODE i) (\<lambda>_. ret False)"

definition Exec_EBREAK :: "32 word \<Rightarrow> ('a::len hart, bool) exec" where
  "Exec_EBREAK i = bnd (RaiseException BREAK i) (\<lambda>_. ret False)"

section \<open>Control and status registers\<close>

definition Exec_CSRRW :: "32 word \<Rightarrow> ('a::len hart, bool) exec" where
  "Exec_CSRRW i =
     (let rd = get_rd i; rs1 = get_rs1 i; csr = uint (get_csr i) in
      bnd (rd_csr csr) (\<lambda>aux.
      bnd (rd_reg rs1) (\<lambda>aux2.
      bnd (if rd \<noteq> 0 then wr_reg rd aux else ret ()) (\<lambda>_.
      bnd (wr_csr csr aux2) (\<lambda>_. ret True)))))"

definition Exec_CSRRS :: "32 word \<Rightarrow> ('a::len hart, bool) exec" where
  "Exec_CSRRS i =
     (let rd = get_rd i; rs1 = get_rs1 i; csr = uint (get_csr i) in
      if rd = 0 then ret False
      else
        bnd (rd_csr csr) (\<lambda>aux.
        bnd (rd_reg rs1) (\<lambda>bitmask.
        bnd (wr_reg rd aux) (\<lambda>_. let aux2 = aux OR bitmask in
        bnd (wr_csr csr aux2) (\<lambda>_. ret True)))))"

definition Exec_CSRRC :: "32 word \<Rightarrow> ('a::len hart, bool) exec" where
  "Exec_CSRRC i =
     (let rd = get_rd i; rs1 = get_rs1 i; csr = uint (get_csr i) in
      if rd = 0 then ret True
      else
        bnd (rd_csr csr) (\<lambda>aux.
        bnd (rd_reg rs1) (\<lambda>bitmask.
        bnd (wr_reg rd aux) (\<lambda>_. let aux2 = aux AND NOT bitmask in
        bnd (wr_csr csr aux2) (\<lambda>_. ret True)))))"

definition Exec_CSRRWI :: "32 word \<Rightarrow> ('a::len hart, bool) exec" where
  "Exec_CSRRWI i =
     (let rd = get_rd i; rs1 = get_rs1 i; csr = uint (get_csr i) in
      bnd (if rd \<noteq> 0 then bnd (rd_csr csr) (\<lambda>aux. wr_reg rd aux) else ret ()) (\<lambda>_.
      let aux = of_nat rs1 in
      bnd (wr_csr csr aux) (\<lambda>_. ret True)))"

definition Exec_CSRRSI :: "32 word \<Rightarrow> ('a::len hart, bool) exec" where
  "Exec_CSRRSI i =
     (let rd = get_rd i; rs1 = get_rs1 i; csr = uint (get_csr i) in
      if rs1 = 0 then ret True
      else
        bnd (rd_csr csr) (\<lambda>aux.
        bnd (wr_reg rd aux) (\<lambda>_.
        let bitmask = of_nat rs1; aux = aux OR bitmask in
        bnd (wr_csr csr aux) (\<lambda>_. ret True))))"

definition Exec_CSRRCI :: "32 word \<Rightarrow> ('a::len hart, bool) exec" where
  "Exec_CSRRCI i =
     (let rd = get_rd i; rs1 = get_rs1 i; csr = uint (get_csr i) in
      if rs1 = 0 then ret True
      else
        bnd (rd_csr csr) (\<lambda>aux.
        bnd (wr_reg rd aux) (\<lambda>_.
        let bitmask = of_nat rs1; aux = aux AND NOT bitmask in
        bnd (wr_csr csr aux) (\<lambda>_. ret True))))"

section \<open>Privileged instructions\<close>

definition Exec_MRET :: "32 word \<Rightarrow> ('a::len hart, bool) exec" where
  "Exec_MRET i =
     bnd (rd_csr CSR_MEPC) (\<lambda>new_pc.
     bnd (set_pc new_pc) (\<lambda>_.
     bnd (rd_csr CSR_MSTATUS) (\<lambda>csr_temp.
     let csr_temp = (if csr_temp AND MSTATUS_MPIE \<noteq> 0 then csr_temp OR MSTATUS_MIE else csr_temp);
         csr_temp = csr_temp OR MSTATUS_MPIE in
     bnd (wr_csr CSR_MSTATUS csr_temp) (\<lambda>_. ret True))))"

definition Exec_SRET :: "32 word \<Rightarrow> ('a::len hart, bool) exec" where
  "Exec_SRET i =
     bnd (rd_csr CSR_SEPC) (\<lambda>new_pc.
     bnd (set_pc new_pc) (\<lambda>_. ret True))"

definition Exec_WFI :: "32 word \<Rightarrow> ('a::len hart, bool) exec" where
  "Exec_WFI i = ret True"

definition Exec_SFENCE :: "32 word \<Rightarrow> ('a::len hart, bool) exec" where
  "Exec_SFENCE i = ret True"

section \<open>Dispatch\<close>

text \<open>
  The pair returned is \<open>PC_not_affected\<close> and the breakpoint flag. \<open>always b m\<close> runs \<open>m\<close>,
  drops what it returns and answers \<open>b\<close>; \<open>answer m\<close> answers what \<open>m\<close> returns.
\<close>

definition always :: "bool \<Rightarrow> ('s, 'b) exec \<Rightarrow> ('s, bool \<times> bool) exec" where
  "always b m = bnd m (\<lambda>_. ret (b, False))"

definition answer :: "('s, bool) exec \<Rightarrow> ('s, bool \<times> bool) exec" where
  "answer m = bnd m (\<lambda>b. ret (b, False))"

definition exec_instruction :: "32 word \<Rightarrow> opCodes \<Rightarrow> ('a::len hart, bool \<times> bool) exec" where
  "exec_instruction i code =
     (case code of
        OP_LUI \<Rightarrow> always True (Exec_LUI i)
      | OP_AUIPC \<Rightarrow> always True (Exec_AUIPC i)
      | OP_JAL \<Rightarrow> always False (Exec_JAL i)
      | OP_JALR \<Rightarrow> always False (Exec_JALR i)
      | OP_BEQ \<Rightarrow> always False (Exec_BEQ i)
      | OP_BNE \<Rightarrow> always False (Exec_BNE i)
      | OP_BLT \<Rightarrow> always False (Exec_BLT i)
      | OP_BGE \<Rightarrow> always False (Exec_BGE i)
      | OP_BLTU \<Rightarrow> always False (Exec_BLTU i)
      | OP_BGEU \<Rightarrow> always False (Exec_BGEU i)
      | OP_LB \<Rightarrow> always True (Exec_LB i)
      | OP_LH \<Rightarrow> always True (Exec_LH i)
      | OP_LW \<Rightarrow> always True (Exec_LW i)
      | OP_LBU \<Rightarrow> always True (Exec_LBU i)
      | OP_LHU \<Rightarrow> always True (Exec_LHU i)
      | OP_LWU \<Rightarrow> always True (Exec_LWU i)
      | OP_LD \<Rightarrow> always True (Exec_LD i)
      | OP_SB \<Rightarrow> always True (Exec_SB i)
      | OP_SH \<Rightarrow> always True (Exec_SH i)
      | OP_SW \<Rightarrow> always True (Exec_SW i)
      | OP_SD \<Rightarrow> always True (Exec_SD i)
      | OP_ADDI \<Rightarrow> always True (Exec_ADDI i)
      | OP_SLTI \<Rightarrow> always True (Exec_SLTI i)
      | OP_SLTIU \<Rightarrow> always True (Exec_SLTIU i)
      | OP_XORI \<Rightarrow> always True (Exec_XORI i)
      | OP_ORI \<Rightarrow> always True (Exec_ORI i)
      | OP_ANDI \<Rightarrow> always True (Exec_ANDI i)
      | OP_SLLI \<Rightarrow> answer (Exec_SLLI i)
      | OP_SRLI \<Rightarrow> always True (Exec_SRLI i)
      | OP_SRAI \<Rightarrow> always True (Exec_SRAI i)
      | OP_ADD \<Rightarrow> always True (Exec_ADD i)
      | OP_SUB \<Rightarrow> always True (Exec_SUB i)
      | OP_SLL \<Rightarrow> always True (Exec_SLL i)
      | OP_SLT \<Rightarrow> always True (Exec_SLT i)
      | OP_SLTU \<Rightarrow> always True (Exec_SLTU i)
      | OP_XOR \<Rightarrow> always True (Exec_XOR i)
      | OP_SRL \<Rightarrow> always True (Exec_SRL i)
      | OP_SRA \<Rightarrow> always True (Exec_SRA i)
      | OP_OR \<Rightarrow> always True (Exec_OR i)
      | OP_AND \<Rightarrow> always True (Exec_AND i)
      | OP_FENCE \<Rightarrow> always True (Exec_FENCE i)
      | OP_ECALL \<Rightarrow> bnd (Exec_ECALL i) (\<lambda>b. ret (b, True))
      | OP_EBREAK \<Rightarrow> answer (Exec_EBREAK i)
      | OP_CSRRW \<Rightarrow> always True (Exec_CSRRW i)
      | OP_CSRRS \<Rightarrow> always True (Exec_CSRRS i)
      | OP_CSRRC \<Rightarrow> always True (Exec_CSRRC i)
      | OP_CSRRWI \<Rightarrow> always True (Exec_CSRRWI i)
      | OP_CSRRSI \<Rightarrow> always True (Exec_CSRRSI i)
      | OP_CSRRCI \<Rightarrow> always True (Exec_CSRRCI i)
      | OP_MRET \<Rightarrow> always False (Exec_MRET i)
      | OP_SRET \<Rightarrow> always False (Exec_SRET i)
      | OP_WFI \<Rightarrow> always True (Exec_WFI i)
      | OP_SFENCE \<Rightarrow> always True (Exec_SFENCE i)
      | OP_ADDIW \<Rightarrow> always True (Exec_ADDIW i)
      | OP_SLLIW \<Rightarrow> always True (Exec_SLLIW i)
      | OP_SRLIW \<Rightarrow> always True (Exec_SRLIW i)
      | OP_SRAIW \<Rightarrow> always True (Exec_SRAIW i)
      | OP_ADDW \<Rightarrow> always True (Exec_ADDW i)
      | OP_SUBW \<Rightarrow> always True (Exec_SUBW i)
      | OP_SLLW \<Rightarrow> always True (Exec_SLLW i)
      | OP_SRLW \<Rightarrow> always True (Exec_SRLW i)
      | OP_SRAW \<Rightarrow> always True (Exec_SRAW i)
      | _ \<Rightarrow> always True NOP)"

text \<open>The definitions of the instructions, as one fact.\<close>

lemmas Exec_defs =
  Exec_LUI_def Exec_AUIPC_def Exec_JAL_def Exec_JALR_def Exec_BEQ_def Exec_BNE_def Exec_BLT_def
  Exec_BGE_def Exec_BLTU_def Exec_BGEU_def Exec_LB_def Exec_LH_def Exec_LW_def Exec_LBU_def
  Exec_LHU_def Exec_LWU_def Exec_LD_def Exec_SD_def Exec_SB_def Exec_SH_def Exec_SW_def
  Exec_ADDI_def Exec_ADDIW_def Exec_SLTI_def Exec_SLTIU_def Exec_XORI_def Exec_ORI_def
  Exec_ANDI_def Exec_SLLI_32_def Exec_SLLI_64_def Exec_SRLI_32_def Exec_SRLI_64_def
  Exec_SRAI_32_def Exec_SRAI_64_def Exec_SLLI_def Exec_SRLI_def Exec_SRAI_def Exec_SLLIW_def
  Exec_SRLIW_def Exec_SRAIW_def Exec_ADDW_def Exec_SUBW_def Exec_SLLW_def Exec_SRLW_def
  Exec_SRAW_def Exec_ADD_def Exec_SUB_def Exec_SLL_32_def Exec_SLL_64_def Exec_SLT_def
  Exec_SLTU_def Exec_XOR_def Exec_SRL_32_def Exec_SRL_64_def Exec_SRA_32_def Exec_SRA_64_def
  Exec_SLL_def Exec_SRL_def Exec_SRA_def Exec_OR_def Exec_AND_def Exec_FENCE_def Exec_ECALL_def
  Exec_EBREAK_def Exec_CSRRW_def Exec_CSRRS_def Exec_CSRRC_def Exec_CSRRWI_def Exec_CSRRSI_def
  Exec_CSRRCI_def Exec_MRET_def Exec_SRET_def Exec_WFI_def Exec_SFENCE_def branch_to_def
  load_addr_def store_addr_def bad_shamt_def

end
