(* ===== verification/C_Decode.thy ===== *)
theory C_Decode
  imports Extension_Base
begin

text \<open>
  Decoding of the compressed instructions (inc/C_extension.h): register fields, immediates
  and the opcode decoder, which depends on the register width through \<open>sizeof(signed_T)\<close>; here
  the width is the argument \<open>rv32\<close>. The setters of immediates and the getters of the four
  uncompressed formats in that class have no caller and are left out.
\<close>

section \<open>Fields\<close>

definition C_opcode :: "32 word \<Rightarrow> 32 word" where
  "C_opcode i = sc_range 1 0 i"

definition get_rdp :: "32 word \<Rightarrow> nat" where
  "get_rdp i = unat (sc_range 4 2 i) + 8"

definition C_get_rs1 :: "32 word \<Rightarrow> nat" where
  "C_get_rs1 i = unat (sc_range 11 7 i)"

definition get_rs1p :: "32 word \<Rightarrow> nat" where
  "get_rs1p i = unat (sc_range 9 7 i) + 8"

definition C_get_rs2 :: "32 word \<Rightarrow> nat" where
  "C_get_rs2 i = unat (sc_range 6 2 i)"

definition get_rs2p :: "32 word \<Rightarrow> nat" where
  "get_rs2p i = unat (sc_range 4 2 i) + 8"

definition C_get_funct3 :: "32 word \<Rightarrow> 32 word" where
  "C_get_funct3 i = sc_range 15 13 i"

section \<open>Immediates\<close>

definition C_get_imm_J :: "32 word \<Rightarrow> 32 word" where
  "C_get_imm_J i =
     (let aux = push_bit 11 (sc_bit 12 i);
          aux = aux OR push_bit 4 (sc_bit 11 i);
          aux = aux OR push_bit 9 (sc_bit 10 i);
          aux = aux OR push_bit 8 (sc_bit 9 i);
          aux = aux OR push_bit 10 (sc_bit 8 i);
          aux = aux OR push_bit 6 (sc_bit 7 i);
          aux = aux OR push_bit 7 (sc_bit 6 i);
          aux = aux OR push_bit 1 (sc_range 5 3 i);
          aux = aux OR push_bit 5 (sc_bit 2 i) in
      if sc_bit 12 i = 1 then aux OR push_bit 12 0b11111111111111111111 else aux)"

definition get_imm_L :: "32 word \<Rightarrow> 32 word" where
  "get_imm_L i =
     (let aux = push_bit 3 (sc_range 12 10 i);
          aux = aux OR push_bit 2 (sc_bit 6 i) in
      aux OR push_bit 6 (sc_bit 5 i))"

definition get_imm_LWSP :: "32 word \<Rightarrow> 32 word" where
  "get_imm_LWSP i =
     (let aux = push_bit 5 (sc_bit 12 i);
          aux = aux OR push_bit 2 (sc_range 6 4 i) in
      aux OR push_bit 6 (sc_range 3 2 i))"

definition get_imm_LDSP :: "32 word \<Rightarrow> 32 word" where
  "get_imm_LDSP i =
     (let aux = push_bit 5 (sc_bit 12 i);
          aux = aux OR push_bit 3 (sc_range 6 5 i) in
      aux OR push_bit 6 (sc_range 4 2 i))"

definition get_imm_ADDI :: "32 word \<Rightarrow> 32 word" where
  "get_imm_ADDI i =
     (let aux = push_bit 5 (sc_bit 12 i);
          aux = aux OR sc_range 6 2 i in
      if sc_bit 12 i = 1 then aux OR push_bit 6 0b11111111111111111111111111 else aux)"

definition get_imm_ADDI4SPN :: "32 word \<Rightarrow> 32 word" where
  "get_imm_ADDI4SPN i =
     (let aux = push_bit 4 (sc_range 12 11 i);
          aux = aux OR push_bit 6 (sc_range 10 7 i);
          aux = aux OR push_bit 2 (sc_bit 6 i) in
      aux OR push_bit 3 (sc_bit 5 i))"

definition get_imm_ADDI16SP :: "32 word \<Rightarrow> 32 word" where
  "get_imm_ADDI16SP i =
     (let aux = push_bit 9 (sc_bit 12 i);
          aux = aux OR push_bit 4 (sc_bit 6 i);
          aux = aux OR push_bit 6 (sc_bit 5 i);
          aux = aux OR push_bit 8 (sc_bit 4 i);
          aux = aux OR push_bit 7 (sc_bit 3 i);
          aux = aux OR push_bit 5 (sc_bit 2 i) in
      if sc_bit 12 i = 1 then aux OR push_bit 10 0b1111111111111111111111 else aux)"

definition get_imm_CSS :: "32 word \<Rightarrow> 32 word" where
  "get_imm_CSS i = push_bit 2 (sc_range 12 9 i) OR push_bit 6 (sc_range 8 7 i)"

definition get_imm_CSDSP :: "32 word \<Rightarrow> 32 word" where
  "get_imm_CSDSP i = push_bit 3 (sc_range 12 10 i) OR push_bit 6 (sc_range 9 7 i)"

definition get_imm_CB :: "32 word \<Rightarrow> 32 word" where
  "get_imm_CB i =
     (let aux = push_bit 8 (sc_bit 12 i);
          aux = aux OR push_bit 4 (sc_bit 11 i);
          aux = aux OR push_bit 3 (sc_bit 10 i);
          aux = aux OR push_bit 7 (sc_bit 6 i);
          aux = aux OR push_bit 6 (sc_bit 5 i);
          aux = aux OR push_bit 2 (sc_bit 4 i);
          aux = aux OR push_bit 1 (sc_bit 3 i);
          aux = aux OR push_bit 5 (sc_bit 2 i) in
      if sc_bit 12 i = 1 then aux OR push_bit 9 0b11111111111111111111111 else aux)"

definition get_imm_CL :: "32 word \<Rightarrow> 32 word" where
  "get_imm_CL i = push_bit 3 (sc_range 12 10 i) OR push_bit 6 (sc_range 6 5 i)"

definition get_imm_LUI :: "32 word \<Rightarrow> 32 word" where
  "get_imm_LUI i =
     (let aux = push_bit 17 (sc_bit 12 i);
          aux = aux OR push_bit 12 (sc_range 6 2 i) in
      if sc_bit 12 i = 1 then aux OR push_bit 17 0b111111111111111 else aux)"

section \<open>Codes\<close>

text \<open>The fields the decoder compares with (\<open>C_Codes\<close>); the suffix keeps them apart from the instructions
  of the specification.\<close>

abbreviation (input) C_ADDI4SPN_code :: "32 word" where "C_ADDI4SPN_code \<equiv> 0b000"
abbreviation (input) C_FLD_code :: "32 word" where "C_FLD_code \<equiv> 0b001"
abbreviation (input) C_LW_code :: "32 word" where "C_LW_code \<equiv> 0b010"
abbreviation (input) C_FLW_code :: "32 word" where "C_FLW_code \<equiv> 0b011"
abbreviation (input) C_FSD_code :: "32 word" where "C_FSD_code \<equiv> 0b101"
abbreviation (input) C_SW_code :: "32 word" where "C_SW_code \<equiv> 0b110"
abbreviation (input) C_FSW_code :: "32 word" where "C_FSW_code \<equiv> 0b111"
abbreviation (input) C_ADDI_code :: "32 word" where "C_ADDI_code \<equiv> 0b000"
abbreviation (input) C_JAL_code :: "32 word" where "C_JAL_code \<equiv> 0b001"
abbreviation (input) C_LI_code :: "32 word" where "C_LI_code \<equiv> 0b010"
abbreviation (input) C_ADDI16SP_code :: "32 word" where "C_ADDI16SP_code \<equiv> 0b011"
abbreviation (input) C_SRLI_code :: "32 word" where "C_SRLI_code \<equiv> 0b100"
abbreviation (input) C_2_SRLI_code :: "32 word" where "C_2_SRLI_code \<equiv> 0b00"
abbreviation (input) C_2_SRAI_code :: "32 word" where "C_2_SRAI_code \<equiv> 0b01"
abbreviation (input) C_2_ANDI_code :: "32 word" where "C_2_ANDI_code \<equiv> 0b10"
abbreviation (input) C_2_SUB_code :: "32 word" where "C_2_SUB_code \<equiv> 0b11"
abbreviation (input) C_3_SUB_code :: "32 word" where "C_3_SUB_code \<equiv> 0b00"
abbreviation (input) C_3_XOR_code :: "32 word" where "C_3_XOR_code \<equiv> 0b01"
abbreviation (input) C_3_OR_code :: "32 word" where "C_3_OR_code \<equiv> 0b10"
abbreviation (input) C_3_AND_code :: "32 word" where "C_3_AND_code \<equiv> 0b11"
abbreviation (input) C_J_code :: "32 word" where "C_J_code \<equiv> 0b101"
abbreviation (input) C_BEQZ_code :: "32 word" where "C_BEQZ_code \<equiv> 0b110"
abbreviation (input) C_BNEZ_code :: "32 word" where "C_BNEZ_code \<equiv> 0b111"
abbreviation (input) C_SLLI_code :: "32 word" where "C_SLLI_code \<equiv> 0b000"
abbreviation (input) C_FLDSP_code :: "32 word" where "C_FLDSP_code \<equiv> 0b001"
abbreviation (input) C_LWSP_code :: "32 word" where "C_LWSP_code \<equiv> 0b010"
abbreviation (input) C_FLWSP_code :: "32 word" where "C_FLWSP_code \<equiv> 0b011"
abbreviation (input) C_JR_code :: "32 word" where "C_JR_code \<equiv> 0b100"
abbreviation (input) C_FDSP_code :: "32 word" where "C_FDSP_code \<equiv> 0b101"
abbreviation (input) C_SWSP_code :: "32 word" where "C_SWSP_code \<equiv> 0b110"
abbreviation (input) C_FWWSP_code :: "32 word" where "C_FWWSP_code \<equiv> 0b111"

section \<open>Operations and their decoder\<close>

datatype (plugins only: size code) op_C_Codes =
    OP_C_ADDI4SPN | OP_C_FLD | OP_C_LW | OP_C_FLW | OP_C_LD | OP_C_FSD | OP_C_SW | OP_C_FSW
  | OP_C_SD
  | OP_C_NOP | OP_C_ADDI | OP_C_JAL | OP_C_ADDIW | OP_C_LI | OP_C_ADDI16SP | OP_C_LUI
  | OP_C_SRLI | OP_C_SRAI | OP_C_ANDI | OP_C_SUB | OP_C_SUBW | OP_C_XOR | OP_C_ADDW | OP_C_OR
  | OP_C_AND | OP_C_J | OP_C_BEQZ | OP_C_BNEZ
  | OP_C_SLLI | OP_C_FLDSP | OP_C_LWSP | OP_C_FLWSP | OP_C_LDSP | OP_C_JR | OP_C_MV
  | OP_C_EBREAK | OP_C_JALR | OP_C_ADD | OP_C_FSDSP | OP_C_SWSP | OP_C_FSWSP | OP_C_SDSP
  | OP_C_ERROR

definition C_decode_0 :: "bool \<Rightarrow> 32 word \<Rightarrow> op_C_Codes" where
  "C_decode_0 rv32 i =
     (let f3 = C_get_funct3 i in
      if f3 = C_ADDI4SPN_code then OP_C_ADDI4SPN
      else if f3 = C_FLD_code then OP_C_FLD
      else if f3 = C_LW_code then OP_C_LW
      else if f3 = C_FLW_code then (if rv32 then OP_C_FLW else OP_C_LD)
      else if f3 = C_FSD_code then OP_C_FSD
      else if f3 = C_SW_code then OP_C_SW
      else if f3 = C_FSW_code then (if rv32 then OP_C_FSW else OP_C_SD)
      else OP_C_ERROR)"

definition C_decode_alu :: "32 word \<Rightarrow> op_C_Codes" where
  "C_decode_alu i =
     (let f2 = sc_range 11 10 i; g2 = sc_range 6 5 i in
      if f2 = C_2_SRLI_code then OP_C_SRLI
      else if f2 = C_2_SRAI_code then OP_C_SRAI
      else if f2 = C_2_ANDI_code then OP_C_ANDI
      else if f2 = C_2_SUB_code then
        (if g2 = C_3_SUB_code then (if sc_bit 12 i = 0 then OP_C_SUB else OP_C_SUBW)
         else if g2 = C_3_XOR_code then (if sc_bit 12 i = 0 then OP_C_XOR else OP_C_ADDW)
         else if g2 = C_3_OR_code then OP_C_OR
         else if g2 = C_3_AND_code then OP_C_AND
         else OP_C_ERROR)
      else OP_C_ERROR)"

definition C_decode_1 :: "bool \<Rightarrow> 32 word \<Rightarrow> op_C_Codes" where
  "C_decode_1 rv32 i =
     (let f3 = C_get_funct3 i in
      if f3 = C_ADDI_code then OP_C_ADDI
      else if f3 = C_JAL_code then (if rv32 then OP_C_JAL else OP_C_ADDIW)
      else if f3 = C_LI_code then OP_C_LI
      else if f3 = C_ADDI16SP_code then OP_C_ADDI16SP
      else if f3 = C_SRLI_code then C_decode_alu i
      else if f3 = C_J_code then OP_C_J
      else if f3 = C_BEQZ_code then OP_C_BEQZ
      else if f3 = C_BNEZ_code then OP_C_BNEZ
      else OP_C_ERROR)"

definition C_decode_2 :: "bool \<Rightarrow> 32 word \<Rightarrow> op_C_Codes" where
  "C_decode_2 rv32 i =
     (let f3 = C_get_funct3 i in
      if f3 = C_SLLI_code then OP_C_SLLI
      else if f3 = C_FLDSP_code \<or> f3 = C_LWSP_code then OP_C_LWSP
      else if f3 = C_FLWSP_code then (if rv32 then OP_C_FLWSP else OP_C_LDSP)
      else if f3 = C_JR_code then
        (if sc_bit 12 i = 0 then (if sc_range 6 2 i = 0 then OP_C_JR else OP_C_MV)
         else if sc_range 11 2 i = 0 then OP_C_EBREAK
         else if sc_range 6 2 i = 0 then OP_C_JALR
         else OP_C_ADD)
      else if f3 = C_FDSP_code then OP_C_ERROR
      else if f3 = C_SWSP_code then OP_C_SWSP
      else if f3 = C_FWWSP_code then (if rv32 then OP_C_FSWSP else OP_C_SDSP)
      else OP_C_ERROR)"

definition C_decode :: "bool \<Rightarrow> 32 word \<Rightarrow> op_C_Codes" where
  "C_decode rv32 i =
     (let op = C_opcode i in
      if op = 0b00 then C_decode_0 rv32 i
      else if op = 0b01 then C_decode_1 rv32 i
      else if op = 0b10 then C_decode_2 rv32 i
      else OP_C_ERROR)"

lemmas C_decode_defs =
  C_decode_def C_decode_0_def C_decode_1_def C_decode_2_def C_decode_alu_def

lemmas C_field_defs =
  C_opcode_def get_rdp_def C_get_rs1_def get_rs1p_def C_get_rs2_def get_rs2p_def C_get_funct3_def

lemma C_field_bounds [simp]:
  "get_rdp i < 32" "C_get_rs1 i < 32" "get_rs1p i < 32" "C_get_rs2 i < 32" "get_rs2p i < 32"
  using unat_sc_range_less [of 4 2 i] unat_sc_range_less [of 11 7 i]
    unat_sc_range_less [of 9 7 i] unat_sc_range_less [of 6 2 i]
  by (simp_all add: C_field_defs)

end
