(* ===== verification/C_Extension.thy ===== *)
theory C_Extension
  imports C_Decode
begin

text \<open>
  Execution of the compressed instructions (inc/C_extension.h). Several methods compute
  addresses or program counters in 32-bit variables whatever the register width is; the
  conversions are written out. A shift amount is used as decoded: one that is not below the
  width of the register has no defined result and fails with \<open>Shift_undefined\<close>.
\<close>

definition c_shl :: "nat \<Rightarrow> 'a::len word \<Rightarrow> ('s, 'a word) exec" where
  "c_shl n v = (if n < LENGTH('a) then ret (push_bit n v) else fail (Shift_undefined n))"

definition c_shr :: "nat \<Rightarrow> 'a::len word \<Rightarrow> ('s, 'a word) exec" where
  "c_shr n v = (if n < LENGTH('a) then ret (drop_bit n v) else fail (Shift_undefined n))"

definition c_sar :: "nat \<Rightarrow> 'a::len word \<Rightarrow> ('s, 'a word) exec" where
  "c_sar n v = (if n < LENGTH('a) then ret (signed_drop_bit n v) else fail (Shift_undefined n))"

section \<open>Instructions, in the order of the code\<close>

definition Exec_C_JR :: "32 word \<Rightarrow> ('a::len hart, bool) exec" where
  "Exec_C_JR i =
     (let rs1 = C_get_rs1 i in
      bnd (rd_reg rs1) (\<lambda>v. let new_pc = v AND 0xFFFFFFFE in
      bnd (log_reads [rs1]) (\<lambda>_.
      bnd (set_pc new_pc) (\<lambda>_. ret True))))"

definition Exec_C_MV :: "32 word \<Rightarrow> ('a::len hart, bool) exec" where
  "Exec_C_MV i =
     (let rd = get_rd i; rs2 = C_get_rs2 i in
      bnd (rd_reg rs2) (\<lambda>calc.
      bnd (wr_reg rd calc) (\<lambda>_.
      bnd (log_reads [rs2]) (\<lambda>_. ret True))))"

definition Exec_C_ADD :: "32 word \<Rightarrow> ('a::len hart, bool) exec" where
  "Exec_C_ADD i =
     (let rd = C_get_rs1 i; rs1 = C_get_rs1 i; rs2 = C_get_rs2 i in
      bnd (rd_reg rs1) (\<lambda>v1. bnd (rd_reg rs2) (\<lambda>v2. let calc = v1 + v2 in
      bnd (wr_reg rd calc) (\<lambda>_. ret True))))"

definition Exec_C_LWSP :: "32 word \<Rightarrow> ('a::len hart, bool) exec" where
  "Exec_C_LWSP i =
     (let rd = get_rd i; rs1 = 2; imm = get_imm_LWSP i in
      bnd (rd_reg rs1) (\<lambda>v. let mem_addr = (ucast imm + v :: 'a word) in
      bnd (rd_mem (ucast mem_addr) 4) (\<lambda>w. let word = (scast w :: 'a word) in
      bnd (count dataMemoryRead) (\<lambda>_.
      bnd (wr_reg rd (scast (ucast word :: 32 word))) (\<lambda>_.
      bnd (wr_reg rd word) (\<lambda>_. ret True))))))"

definition Exec_C_ADDI4SPN :: "32 word \<Rightarrow> ('a::len hart, bool) exec" where
  "Exec_C_ADDI4SPN i =
     (let rd = get_rdp i; rs1 = 2; imm = (ucast (get_imm_ADDI4SPN i) :: 'a word) in
      if imm = 0 then bnd (RaiseException ILLEGAL_INSTRUCTION i) (\<lambda>_. ret False)
      else
        bnd (rd_reg rs1) (\<lambda>v. let calc = v + imm in
        bnd (wr_reg rd calc) (\<lambda>_.
        bnd (log_reads [rs1]) (\<lambda>_. ret True))))"

definition Exec_C_ADDI16SP :: "32 word \<Rightarrow> ('a::len hart, bool) exec" where
  "Exec_C_ADDI16SP i =
     (if get_rd i = 2 then
        let rd = 2; rs1 = 2; imm = scast (get_imm_ADDI16SP i) in
        bnd (rd_reg rs1) (\<lambda>v. let calc = v + imm in
        bnd (wr_reg rd calc) (\<lambda>_. ret True))
      else
        let rd = get_rd i; imm = scast (get_imm_LUI i) in
        bnd (wr_reg rd imm) (\<lambda>_. ret True))"

definition Exec_C_SWSP :: "32 word \<Rightarrow> ('a::len hart, bool) exec" where
  "Exec_C_SWSP i =
     (let rs1 = 2; rs2 = C_get_rs2 i; imm = get_imm_CSS i in
      bnd (rd_reg rs1) (\<lambda>v. let mem_addr = (ucast (scast imm + v) :: 32 word) in
      bnd (rd_reg rs2) (\<lambda>w. let word = (ucast w :: 32 word) in
      bnd (wr_mem (ucast mem_addr) word 4) (\<lambda>_.
      bnd (count dataMemoryWrite) (\<lambda>_. ret True)))))"

text \<open>The two ends of a compressed branch.\<close>

definition C_branch_to :: "bool \<Rightarrow> 32 word \<Rightarrow> ('a::len hart, unit) exec" where
  "C_branch_to taken i =
     (if taken then bnd get_pc (\<lambda>pc. set_pc (pc + scast (get_imm_CB i))) else inc_pc_by2)"

definition Exec_C_BEQZ :: "32 word \<Rightarrow> ('a::len hart, bool) exec" where
  "Exec_C_BEQZ i =
     bnd (rd_reg (get_rs1p i)) (\<lambda>val1.
     bnd (C_branch_to (val1 = 0) i) (\<lambda>_. ret True))"

definition Exec_C_BNEZ :: "32 word \<Rightarrow> ('a::len hart, bool) exec" where
  "Exec_C_BNEZ i =
     bnd (rd_reg (get_rs1p i)) (\<lambda>val1.
     bnd (C_branch_to (val1 \<noteq> 0) i) (\<lambda>_. ret True))"

definition Exec_C_LI :: "32 word \<Rightarrow> ('a::len hart, bool) exec" where
  "Exec_C_LI i =
     (let rd = get_rd i; rs1 = 0; imm = get_imm_ADDI i in
      bnd (rd_reg rs1) (\<lambda>v. let calc = v + scast imm in
      bnd (wr_reg rd calc) (\<lambda>_.
      bnd (log_reads [rs1]) (\<lambda>_. ret True))))"

definition Exec_C_SRLI :: "32 word \<Rightarrow> ('a::len hart, bool) exec" where
  "Exec_C_SRLI i =
     (let rd = get_rs1p i; rs1 = get_rs1p i; shift = unat (get_imm_ADDI i) in
      bnd (rd_reg rs1) (\<lambda>v.
      bnd (c_shr shift v) (\<lambda>calc.
      bnd (wr_reg rd calc) (\<lambda>_. ret True))))"

definition Exec_C_SRAI :: "32 word \<Rightarrow> ('a::len hart, bool) exec" where
  "Exec_C_SRAI i =
     (let rd = get_rs1p i; rs1 = get_rs1p i; shift = unat (get_imm_ADDI i) in
      bnd (rd_reg rs1) (\<lambda>v.
      bnd (c_sar shift v) (\<lambda>calc.
      bnd (wr_reg rd calc) (\<lambda>_. ret True))))"

definition Exec_C_SLLI :: "32 word \<Rightarrow> ('a::len hart, bool) exec" where
  "Exec_C_SLLI i =
     (let rd = C_get_rs1 i; rs1 = C_get_rs1 i; shift = unat (scast (get_imm_ADDI i) :: 'a word) in
      bnd (rd_reg rs1) (\<lambda>v.
      bnd (c_shl shift v) (\<lambda>calc.
      bnd (wr_reg rd calc) (\<lambda>_. ret True))))"

definition Exec_C_ANDI :: "32 word \<Rightarrow> ('a::len hart, bool) exec" where
  "Exec_C_ANDI i =
     (let rd = get_rs1p i; rs1 = get_rs1p i; imm = scast (get_imm_ADDI i) in
      bnd (rd_reg rs1) (\<lambda>v. let calc = v AND imm in
      bnd (wr_reg rd calc) (\<lambda>_. ret True)))"

definition Exec_C_SUB :: "32 word \<Rightarrow> ('a::len hart, bool) exec" where
  "Exec_C_SUB i =
     (let rd = get_rs1p i; rs1 = get_rs1p i; rs2 = get_rs2p i in
      bnd (rd_reg rs1) (\<lambda>v1. bnd (rd_reg rs2) (\<lambda>v2. let calc = v1 - v2 in
      bnd (wr_reg rd calc) (\<lambda>_. ret True))))"

definition Exec_C_SUBW :: "32 word \<Rightarrow> ('a::len hart, bool) exec" where
  "Exec_C_SUBW i =
     (let rd = get_rs1p i; rs1 = get_rs1p i; rs2 = get_rs2p i in
      bnd (rd_reg rs1) (\<lambda>v1. bnd (rd_reg rs2) (\<lambda>v2.
      let calc = (ucast ((v1 - v2) AND 0xFFFFFFFF) :: 32 word) in
      bnd (wr_reg rd (scast calc)) (\<lambda>_. ret True))))"

definition Exec_C_ADDW :: "32 word \<Rightarrow> ('a::len hart, bool) exec" where
  "Exec_C_ADDW i =
     (let rd = get_rs1p i; rs1 = get_rs1p i; rs2 = get_rs2p i in
      bnd (rd_reg rs1) (\<lambda>v1. bnd (rd_reg rs2) (\<lambda>v2.
      let calc = scast (ucast ((v1 + v2) AND 0xFFFFFFFF) :: 32 word) in
      bnd (wr_reg rd calc) (\<lambda>_. ret True))))"

text \<open>A 64-bit value written and read as two words, the low one at the lower address.\<close>

definition wr_double :: "'a::len word \<Rightarrow> 64 word \<Rightarrow> ('a hart, unit) exec" where
  "wr_double mem_addr word =
     bnd (wr_mem (ucast mem_addr) (ucast (word AND 0xFFFFFFFF)) 4) (\<lambda>_.
     wr_mem (ucast (mem_addr + 4)) (ucast (drop_bit 32 word)) 4)"

definition rd_double :: "'a::len word \<Rightarrow> ('a hart, 64 word) exec" where
  "rd_double mem_addr =
     bnd (rd_mem (ucast mem_addr) 4) (\<lambda>lo.
     bnd (rd_mem (ucast (mem_addr + 4)) 4) (\<lambda>hi.
     ret (ucast lo OR push_bit 32 (ucast hi))))"

definition Exec_C_SDSP :: "32 word \<Rightarrow> ('a::len hart, bool) exec" where
  "Exec_C_SDSP i =
     (let rs1 = 2; rs2 = C_get_rs2 i; imm = ucast (get_imm_CSDSP i) in
      bnd (rd_reg rs1) (\<lambda>v. let mem_addr = imm + v in
      bnd (rd_reg rs2) (\<lambda>w.
      bnd (wr_double mem_addr (ucast w)) (\<lambda>_.
      bnd (count dataMemoryWrite) (\<lambda>_. ret True)))))"

definition Exec_C_XOR :: "32 word \<Rightarrow> ('a::len hart, bool) exec" where
  "Exec_C_XOR i =
     (let rd = get_rs1p i; rs1 = get_rs1p i; rs2 = get_rs2p i in
      bnd (rd_reg rs1) (\<lambda>v1. bnd (rd_reg rs2) (\<lambda>v2. let calc = v1 XOR v2 in
      bnd (wr_reg rd calc) (\<lambda>_. ret True))))"

definition Exec_C_OR :: "32 word \<Rightarrow> ('a::len hart, bool) exec" where
  "Exec_C_OR i =
     (let rd = get_rs1p i; rs1 = get_rs1p i; rs2 = get_rs2p i in
      bnd (rd_reg rs1) (\<lambda>v1. bnd (rd_reg rs2) (\<lambda>v2. let calc = v1 OR v2 in
      bnd (wr_reg rd calc) (\<lambda>_. ret True))))"

definition Exec_C_AND :: "32 word \<Rightarrow> ('a::len hart, bool) exec" where
  "Exec_C_AND i =
     (let rd = get_rs1p i; rs1 = get_rs1p i; rs2 = get_rs2p i in
      bnd (rd_reg rs1) (\<lambda>v1. bnd (rd_reg rs2) (\<lambda>v2. let calc = v1 AND v2 in
      bnd (wr_reg rd calc) (\<lambda>_. ret True))))"

definition Exec_C_ADDI :: "32 word \<Rightarrow> ('a::len hart, bool) exec" where
  "Exec_C_ADDI i =
     (let rd = get_rd i; rs1 = rd; imm = scast (get_imm_ADDI i) in
      bnd (rd_reg rs1) (\<lambda>v. let calc = v + imm in
      bnd (wr_reg rd calc) (\<lambda>_. ret True)))"

definition Exec_C_ADDIW :: "32 word \<Rightarrow> ('a::len hart, bool) exec" where
  "Exec_C_ADDIW i =
     (let rd = get_rd i; rs1 = rd; imm = get_imm_ADDI i in
      bnd (rd_reg rs1) (\<lambda>v.
      let aux = (ucast (v AND 0xFFFFFFFF) :: 32 word);
          aux = aux + imm;
          calc = (scast aux :: 64 word) in
      bnd (wr_reg rd (ucast calc)) (\<lambda>_. ret True)))"

definition Exec_C_JALR :: "32 word \<Rightarrow> ('a::len hart, bool) exec" where
  "Exec_C_JALR i =
     (let rd = 1; rs1 = C_get_rs1 i in
      bnd get_pc (\<lambda>pc. let old_pc = (ucast pc :: 32 word) in
      bnd (rd_reg rs1) (\<lambda>v. let new_pc = (ucast (v AND 0xFFFFFFFE) :: 32 word) in
      bnd (wr_reg rd (ucast (old_pc + 2))) (\<lambda>_.
      bnd (set_pc (ucast new_pc)) (\<lambda>_. ret True)))))"

definition Exec_C_LW :: "32 word \<Rightarrow> ('a::len hart, bool) exec" where
  "Exec_C_LW i =
     (let rd = get_rdp i; rs1 = get_rs1p i; imm = ucast (get_imm_L i) in
      bnd (rd_reg rs1) (\<lambda>v. let mem_addr = imm + v in
      bnd (rd_mem (ucast mem_addr) 4) (\<lambda>w.
      bnd (count dataMemoryRead) (\<lambda>_.
      bnd (wr_reg rd (scast w)) (\<lambda>_.
      bnd (log_reads [rs1]) (\<lambda>_. ret True))))))"

definition Exec_C_LD :: "32 word \<Rightarrow> ('a::len hart, bool) exec" where
  "Exec_C_LD i =
     (let rd = get_rdp i; rs1 = get_rs1p i; imm = ucast (get_imm_CL i) in
      bnd (rd_reg rs1) (\<lambda>v. let mem_addr = imm + v in
      bnd (rd_double mem_addr) (\<lambda>word.
      bnd (count dataMemoryRead) (\<lambda>_.
      bnd (wr_reg rd (ucast word)) (\<lambda>_. ret True)))))"

definition Exec_C_SD :: "32 word \<Rightarrow> ('a::len hart, bool) exec" where
  "Exec_C_SD i =
     (let rs1 = get_rs1p i; rs2 = get_rs2p i; imm = ucast (get_imm_CL i) in
      bnd (rd_reg rs1) (\<lambda>v. let mem_addr = imm + v in
      bnd (rd_reg rs2) (\<lambda>w.
      bnd (wr_double mem_addr (ucast w)) (\<lambda>_.
      bnd (count dataMemoryWrite) (\<lambda>_. ret True)))))"

definition Exec_C_SW :: "32 word \<Rightarrow> ('a::len hart, bool) exec" where
  "Exec_C_SW i =
     (let rs1 = get_rs1p i; rs2 = get_rs2p i; imm = get_imm_L i in
      bnd (rd_reg rs1) (\<lambda>v. let mem_addr = (ucast (scast imm + v) :: 32 word) in
      bnd (rd_reg rs2) (\<lambda>w. let word = (ucast w :: 32 word) in
      bnd (wr_mem (ucast mem_addr) word 4) (\<lambda>_.
      bnd (count dataMemoryWrite) (\<lambda>_. ret True)))))"

definition Exec_C_FSW_SD :: "32 word \<Rightarrow> ('a::len hart, bool) exec" where
  "Exec_C_FSW_SD i =
     (let rs1 = get_rs1p i; rs2 = get_rs2p i; imm = get_imm_L i in
      bnd (rd_reg rs1) (\<lambda>v. let mem_addr = (ucast (scast imm + v) :: 32 word) in
      bnd (rd_reg rs2) (\<lambda>w. let word = (ucast w :: 64 word) in
      bnd (wr_mem (ucast mem_addr) (ucast (drop_bit 32 word)) 4) (\<lambda>_.
      bnd (wr_mem (ucast (mem_addr + 4)) (ucast (word AND 0x00000000FFFFFFFF)) 4) (\<lambda>_.
      bnd (count dataMemoryWrite) (\<lambda>_. ret True))))))"

definition Exec_C_LDSP :: "32 word \<Rightarrow> ('a::len hart, bool) exec" where
  "Exec_C_LDSP i =
     (let rd = get_rd i; rs1 = 2; imm = ucast (get_imm_LDSP i) in
      bnd (rd_reg rs1) (\<lambda>v. let mem_addr = imm + v in
      bnd (rd_double mem_addr) (\<lambda>word.
      bnd (count dataMemoryRead) (\<lambda>_.
      bnd (wr_reg rd (ucast word)) (\<lambda>_. ret True)))))"

definition Exec_C_JAL :: "nat \<Rightarrow> 32 word \<Rightarrow> ('a::len hart, bool) exec" where
  "Exec_C_JAL m_rd i =
     (let rd = m_rd; mem_addr = C_get_imm_J i in
      bnd get_pc (\<lambda>pc. let old_pc = (ucast pc :: 32 word); new_pc = old_pc + mem_addr in
      bnd (set_pc (ucast new_pc)) (\<lambda>_. let old_pc = old_pc + 2 in
      bnd (wr_reg rd (ucast old_pc)) (\<lambda>_. ret True))))"

definition Exec_C_EBREAK :: "32 word \<Rightarrow> ('a::len hart, bool) exec" where
  "Exec_C_EBREAK i = bnd (RaiseException BREAK i) (\<lambda>_. ret False)"

section \<open>Dispatch\<close>

definition C_always :: "bool \<Rightarrow> ('s, 'b) exec \<Rightarrow> ('s, bool \<times> bool) exec" where
  "C_always b m = bnd m (\<lambda>_. ret (b, False))"

definition C_exec_instruction ::
  "32 word \<Rightarrow> op_C_Codes \<Rightarrow> ('a::len hart, bool \<times> bool) exec" where
  "C_exec_instruction i code =
     (case code of
        OP_C_ADDI4SPN \<Rightarrow> bnd (Exec_C_ADDI4SPN i) (\<lambda>b. ret (b, False))
      | OP_C_LW \<Rightarrow> C_always True (Exec_C_LW i)
      | OP_C_SW \<Rightarrow> C_always True (Exec_C_SW i)
      | OP_C_ADDI \<Rightarrow> C_always True (Exec_C_ADDI i)
      | OP_C_JAL \<Rightarrow> C_always False (Exec_C_JAL 1 i)
      | OP_C_J \<Rightarrow> C_always False (Exec_C_JAL 0 i)
      | OP_C_LI \<Rightarrow> C_always True (Exec_C_LI i)
      | OP_C_SLLI \<Rightarrow> C_always True (Exec_C_SLLI i)
      | OP_C_LWSP \<Rightarrow> C_always True (Exec_C_LWSP i)
      | OP_C_JR \<Rightarrow> C_always False (Exec_C_JR i)
      | OP_C_MV \<Rightarrow> C_always True (Exec_C_MV i)
      | OP_C_JALR \<Rightarrow> C_always False (Exec_C_JALR i)
      | OP_C_ADD \<Rightarrow> C_always True (Exec_C_ADD i)
      | OP_C_SWSP \<Rightarrow> C_always True (Exec_C_SWSP i)
      | OP_C_ADDI16SP \<Rightarrow> C_always True (Exec_C_ADDI16SP i)
      | OP_C_BEQZ \<Rightarrow> C_always False (Exec_C_BEQZ i)
      | OP_C_BNEZ \<Rightarrow> C_always False (Exec_C_BNEZ i)
      | OP_C_SRLI \<Rightarrow> C_always True (Exec_C_SRLI i)
      | OP_C_SRAI \<Rightarrow> C_always True (Exec_C_SRAI i)
      | OP_C_ANDI \<Rightarrow> C_always True (Exec_C_ANDI i)
      | OP_C_SUB \<Rightarrow> C_always True (Exec_C_SUB i)
      | OP_C_XOR \<Rightarrow> C_always True (Exec_C_XOR i)
      | OP_C_OR \<Rightarrow> C_always True (Exec_C_OR i)
      | OP_C_AND \<Rightarrow> C_always True (Exec_C_AND i)
      | OP_C_FSW \<Rightarrow> C_always True (Exec_C_FSW_SD i)
      | OP_C_FLWSP \<Rightarrow> ret (True, False)
      | OP_C_EBREAK \<Rightarrow> bnd (Exec_C_EBREAK i) (\<lambda>_. ret (False, True))
      | OP_C_LD \<Rightarrow> C_always True (Exec_C_LD i)
      | OP_C_SD \<Rightarrow> C_always True (Exec_C_SD i)
      | OP_C_ADDIW \<Rightarrow> C_always True (Exec_C_ADDIW i)
      | OP_C_ADDW \<Rightarrow> C_always True (Exec_C_ADDW i)
      | OP_C_SUBW \<Rightarrow> C_always True (Exec_C_SUBW i)
      | OP_C_SDSP \<Rightarrow> C_always True (Exec_C_SDSP i)
      | OP_C_LDSP \<Rightarrow> C_always True (Exec_C_LDSP i)
      | _ \<Rightarrow> C_always True NOP)"

text \<open>The definitions of the instructions, as one fact.\<close>

lemmas Exec_C_defs =
  Exec_C_JR_def Exec_C_MV_def Exec_C_ADD_def Exec_C_LWSP_def Exec_C_ADDI4SPN_def
  Exec_C_ADDI16SP_def Exec_C_SWSP_def Exec_C_BEQZ_def Exec_C_BNEZ_def Exec_C_LI_def
  Exec_C_SRLI_def Exec_C_SRAI_def Exec_C_SLLI_def Exec_C_ANDI_def Exec_C_SUB_def Exec_C_SUBW_def
  Exec_C_ADDW_def Exec_C_SDSP_def Exec_C_XOR_def Exec_C_OR_def Exec_C_AND_def Exec_C_ADDI_def
  Exec_C_ADDIW_def Exec_C_JALR_def Exec_C_LW_def Exec_C_LD_def Exec_C_SD_def Exec_C_SW_def
  Exec_C_FSW_SD_def Exec_C_LDSP_def Exec_C_JAL_def Exec_C_EBREAK_def C_branch_to_def
  wr_double_def rd_double_def c_shl_def c_shr_def c_sar_def

end
