(* ===== verification/M_Extension.thy ===== *)
theory M_Extension
  imports Extension_Base "HOL-Library.Signed_Division"
begin

text \<open>
  Multiplication and division (inc/M_extension.h, src/M_extension.cpp). The high half of a
  product is specialised by register width: a 64-bit product for RV32, a 128-bit integer of
  the SystemC library for RV64. Division and remainder truncate towards zero; a quotient that
  does not fit traps on the host and ends the simulation with \<open>Division_overflow\<close>.
\<close>

section \<open>Decoding\<close>

datatype (plugins only: size code) op_M_Codes =
    OP_M_MUL | OP_M_MULH | OP_M_MULHSU | OP_M_MULHU | OP_M_DIV | OP_M_DIVU | OP_M_REM
  | OP_M_REMU | OP_M_MULW | OP_M_DIVW | OP_M_DIVUW | OP_M_REMW | OP_M_REMUW | OP_M_ERROR

definition M_opcode :: "32 word \<Rightarrow> 32 word" where
  "M_opcode i = sc_range 14 12 i"

section \<open>Codes\<close>

text \<open>The fields the decoder compares with (\<open>M_Codes\<close>).\<close>

abbreviation (input) M_MUL_code :: "32 word" where "M_MUL_code \<equiv> 0b000"
abbreviation (input) M_MULH_code :: "32 word" where "M_MULH_code \<equiv> 0b001"
abbreviation (input) M_MULHSU_code :: "32 word" where "M_MULHSU_code \<equiv> 0b010"
abbreviation (input) M_MULHU_code :: "32 word" where "M_MULHU_code \<equiv> 0b011"
abbreviation (input) M_DIV_code :: "32 word" where "M_DIV_code \<equiv> 0b100"
abbreviation (input) M_DIVU_code :: "32 word" where "M_DIVU_code \<equiv> 0b101"
abbreviation (input) M_REM_code :: "32 word" where "M_REM_code \<equiv> 0b110"
abbreviation (input) M_REMU_code :: "32 word" where "M_REMU_code \<equiv> 0b111"
abbreviation (input) M_MULW_code :: "32 word" where "M_MULW_code \<equiv> 0b000"
abbreviation (input) M_DIVW_code :: "32 word" where "M_DIVW_code \<equiv> 0b100"
abbreviation (input) M_DIVUW_code :: "32 word" where "M_DIVUW_code \<equiv> 0b101"
abbreviation (input) M_REMW_code :: "32 word" where "M_REMW_code \<equiv> 0b110"
abbreviation (input) M_REMUW_code :: "32 word" where "M_REMUW_code \<equiv> 0b111"

section \<open>Decoder\<close>

definition M_decode :: "32 word \<Rightarrow> op_M_Codes" where
  "M_decode i =
     (let op = M_opcode i in
      if sc_range 6 0 i = 0b110011 then
        (if op = M_MUL_code then OP_M_MUL else if op = M_MULH_code then OP_M_MULH
         else if op = M_MULHSU_code then OP_M_MULHSU else if op = M_MULHU_code then OP_M_MULHU
         else if op = M_DIV_code then OP_M_DIV else if op = M_DIVU_code then OP_M_DIVU
         else if op = M_REM_code then OP_M_REM else if op = M_REMU_code then OP_M_REMU
         else OP_M_ERROR)
      else
        (if op = M_MULW_code then OP_M_MULW else if op = M_DIVW_code then OP_M_DIVW
         else if op = M_DIVUW_code then OP_M_DIVUW else if op = M_REMW_code then OP_M_REMW
         else if op = M_REMUW_code then OP_M_REMUW
         else OP_M_ERROR))"

section \<open>Multiplication\<close>

definition Exec_M_MUL :: "32 word \<Rightarrow> ('a::len hart, unit) exec" where
  "Exec_M_MUL i =
     (let rd = get_rd i; rs1 = get_rs1 i; rs2 = get_rs2 i in
      bnd (rd_reg rs1) (\<lambda>multiplier. bnd (rd_reg rs2) (\<lambda>multiplicand.
      let result = (scast (multiplier * multiplicand) :: 64 word) in
      wr_reg rd (ucast result))))"

definition Exec_M_MULH_32 :: "32 word \<Rightarrow> ('a::len hart, unit) exec" where
  "Exec_M_MULH_32 i =
     (let rd = get_rd i; rs1 = get_rs1 i; rs2 = get_rs2 i in
      bnd (rd_reg rs1) (\<lambda>multiplier. bnd (rd_reg rs2) (\<lambda>multiplicand.
      let result = (scast multiplier :: 64 word) * scast multiplicand;
          ret_value = (ucast (signed_drop_bit 32 result AND 0x00000000FFFFFFFF) :: 32 word) in
      wr_reg rd (scast ret_value))))"

definition Exec_M_MULHSU_32 :: "32 word \<Rightarrow> ('a::len hart, unit) exec" where
  "Exec_M_MULHSU_32 i =
     (let rd = get_rd i; rs1 = get_rs1 i; rs2 = get_rs2 i in
      bnd (rd_reg rs1) (\<lambda>v1. let multiplier = (ucast v1 :: 32 word) in
      bnd (rd_reg rs2) (\<lambda>v2. let multiplicand = (ucast v2 :: 32 word) in
      let result = (scast multiplier :: 64 word) * ucast multiplicand;
          result = signed_drop_bit 32 result AND 0x00000000FFFFFFFF in
      wr_reg rd (scast (ucast result :: 32 word)))))"

definition Exec_M_MULHU_32 :: "32 word \<Rightarrow> ('a::len hart, unit) exec" where
  "Exec_M_MULHU_32 i =
     (let rd = get_rd i; rs1 = get_rs1 i; rs2 = get_rs2 i in
      bnd (rd_reg rs1) (\<lambda>v1. let multiplier = (ucast v1 :: 32 word) in
      bnd (rd_reg rs2) (\<lambda>v2. let multiplicand = (ucast v2 :: 32 word) in
      let result = (ucast multiplier :: 64 word) * ucast multiplicand;
          ret_value = (ucast (drop_bit 32 result AND 0x00000000FFFFFFFF) :: 32 word) in
      wr_reg rd (scast ret_value))))"

definition Exec_M_MULH_64 :: "32 word \<Rightarrow> ('a::len hart, unit) exec" where
  "Exec_M_MULH_64 i =
     (let rd = get_rd i; rs1 = get_rs1 i; rs2 = get_rs2 i in
      bnd (rd_reg rs1) (\<lambda>multiplier. bnd (rd_reg rs2) (\<lambda>multiplicand.
      let mul = (scast multiplier :: 128 word); muld = scast multiplicand; res = mul * muld;
          result = (ucast (sc_range 127 64 res) :: 64 word) in
      wr_reg rd (ucast result))))"

definition Exec_M_MULHSU_64 :: "32 word \<Rightarrow> ('a::len hart, unit) exec" where
  "Exec_M_MULHSU_64 i =
     (let rd = get_rd i; rs1 = get_rs1 i; rs2 = get_rs2 i in
      bnd (rd_reg rs1) (\<lambda>multiplier. bnd (rd_reg rs2) (\<lambda>multiplicand.
      let mul = (scast multiplier :: 128 word); muld = ucast multiplicand; res = mul * muld;
          result = (ucast (sc_range 127 64 res) :: 64 word) in
      wr_reg rd (ucast result))))"

definition Exec_M_MULHU_64 :: "32 word \<Rightarrow> ('a::len hart, unit) exec" where
  "Exec_M_MULHU_64 i =
     (let rd = get_rd i; rs1 = get_rs1 i; rs2 = get_rs2 i in
      bnd (rd_reg rs1) (\<lambda>multiplier. bnd (rd_reg rs2) (\<lambda>multiplicand.
      let mul = (ucast multiplier :: 128 word); muld = ucast multiplicand; res = mul * muld;
          result = (ucast (sc_range 127 64 res) :: 64 word) in
      wr_reg rd (ucast result))))"

definition Exec_M_MULH :: "32 word \<Rightarrow> ('a::len hart, unit) exec" where
  "Exec_M_MULH i = (if LENGTH('a) = 32 then Exec_M_MULH_32 i else Exec_M_MULH_64 i)"

definition Exec_M_MULHSU :: "32 word \<Rightarrow> ('a::len hart, unit) exec" where
  "Exec_M_MULHSU i = (if LENGTH('a) = 32 then Exec_M_MULHSU_32 i else Exec_M_MULHSU_64 i)"

definition Exec_M_MULHU :: "32 word \<Rightarrow> ('a::len hart, unit) exec" where
  "Exec_M_MULHU i = (if LENGTH('a) = 32 then Exec_M_MULHU_32 i else Exec_M_MULHU_64 i)"

section \<open>Division and remainder\<close>

text \<open>The operators \<open>/\<close> and \<open>%\<close> on signed operands of one width.\<close>

definition c_div :: "'b::len word \<Rightarrow> 'b word \<Rightarrow> ('s, 'b word) exec" where
  "c_div a b =
     (if b = - 1 \<and> sint a = - (2 ^ (LENGTH('b) - 1)) then fail Division_overflow
      else ret (word_of_int (sint a sdiv sint b)))"

definition c_mod :: "'b::len word \<Rightarrow> 'b word \<Rightarrow> ('s, 'b word) exec" where
  "c_mod a b =
     (if b = - 1 \<and> sint a = - (2 ^ (LENGTH('b) - 1)) then fail Division_overflow
      else ret (word_of_int (sint a smod sint b)))"

definition Exec_M_DIV :: "32 word \<Rightarrow> ('a::len hart, unit) exec" where
  "Exec_M_DIV i =
     (let rd = get_rd i; rs1 = get_rs1 i; rs2 = get_rs2 i in
      bnd (rd_reg rs1) (\<lambda>dividend. bnd (rd_reg rs2) (\<lambda>divisor.
      bnd (if divisor = 0 then ret (- 1)
           else if divisor = - 1 \<and> sint dividend = sint (0x80000000 :: 32 word)
           then ret 0x0000000080000000
           else bnd (c_div dividend divisor) (\<lambda>q. ret (scast q :: 64 word))) (\<lambda>result.
      wr_reg rd (ucast result)))))"

definition Exec_M_DIVU :: "32 word \<Rightarrow> ('a::len hart, unit) exec" where
  "Exec_M_DIVU i =
     (let rd = get_rd i; rs1 = get_rs1 i; rs2 = get_rs2 i in
      bnd (rd_reg rs1) (\<lambda>dividend. bnd (rd_reg rs2) (\<lambda>divisor.
      let result = (if divisor = 0 then - 1 else (ucast (dividend div divisor) :: 64 word)) in
      wr_reg rd (ucast result))))"

definition Exec_M_REM :: "32 word \<Rightarrow> ('a::len hart, unit) exec" where
  "Exec_M_REM i =
     (let rd = get_rd i; rs1 = get_rs1 i; rs2 = get_rs2 i in
      bnd (rd_reg rs1) (\<lambda>dividend. bnd (rd_reg rs2) (\<lambda>divisor.
      bnd (if divisor = 0 then ret dividend
           else if divisor = - 1 \<and> sint dividend = sint (0x80000000 :: 32 word) then ret 0
           else c_mod dividend divisor) (\<lambda>result.
      wr_reg rd result))))"

definition Exec_M_REMU :: "32 word \<Rightarrow> ('a::len hart, unit) exec" where
  "Exec_M_REMU i =
     (let rd = get_rd i; rs1 = get_rs1 i; rs2 = get_rs2 i in
      bnd (rd_reg rs1) (\<lambda>dividend. bnd (rd_reg rs2) (\<lambda>divisor.
      let result = (if divisor = 0 then dividend else dividend mod divisor) in
      wr_reg rd result)))"

section \<open>Word operations of RV64\<close>

text \<open>\<open>getValue(rs) & 0x00000000FFFFFFFF\<close> converted to 32 bits.\<close>

definition low_word :: "'a::len word \<Rightarrow> 32 word" where
  "low_word v = ucast (v AND 0x00000000FFFFFFFF)"

definition Exec_M_MULW :: "32 word \<Rightarrow> ('a::len hart, unit) exec" where
  "Exec_M_MULW i =
     (let rd = get_rd i; rs1 = get_rs1 i; rs2 = get_rs2 i in
      bnd (rd_reg rs1) (\<lambda>v1. bnd (rd_reg rs2) (\<lambda>v2.
      let multiplier = low_word v1; multiplicand = low_word v2;
          result = (scast (multiplier * multiplicand AND 0x00000000FFFFFFFF) :: 64 word) in
      wr_reg rd (ucast result))))"

definition Exec_M_DIVW :: "32 word \<Rightarrow> ('a::len hart, unit) exec" where
  "Exec_M_DIVW i =
     (let rd = get_rd i; rs1 = get_rs1 i; rs2 = get_rs2 i in
      bnd (rd_reg rs1) (\<lambda>v1. bnd (rd_reg rs2) (\<lambda>v2.
      let dividend = low_word v1; divisor = low_word v2 in
      bnd (if divisor = 0 then ret (- 1)
           else if divisor = - 1 \<and> dividend = 0x80000000 then ret 0x0000000080000000
           else bnd (c_div dividend divisor) (\<lambda>q. ret (scast q :: 64 word))) (\<lambda>result.
      wr_reg rd (ucast result)))))"

definition Exec_M_DIVUW :: "32 word \<Rightarrow> ('a::len hart, unit) exec" where
  "Exec_M_DIVUW i =
     (let rd = get_rd i; rs1 = get_rs1 i; rs2 = get_rs2 i in
      bnd (rd_reg rs1) (\<lambda>v1. bnd (rd_reg rs2) (\<lambda>v2.
      let dividend = low_word v1; divisor = low_word v2;
          result = (if divisor = 0 then - 1
                    else if divisor = 0xFFFFFFFF \<and> dividend = 0x80000000 then 0x0000000080000000
                    else (scast (dividend div divisor) :: 64 word)) in
      wr_reg rd (ucast result))))"

definition Exec_M_REMW :: "32 word \<Rightarrow> ('a::len hart, unit) exec" where
  "Exec_M_REMW i =
     (let rd = get_rd i; rs1 = get_rs1 i; rs2 = get_rs2 i in
      bnd (rd_reg rs1) (\<lambda>v1. bnd (rd_reg rs2) (\<lambda>v2.
      let dividend = low_word v1; divisor = low_word v2 in
      bnd (if divisor = 0 then ret dividend
           else if divisor = - 1 then ret 0
           else c_mod dividend divisor) (\<lambda>result.
      wr_reg rd (scast result)))))"

definition Exec_M_REMUW :: "32 word \<Rightarrow> ('a::len hart, unit) exec" where
  "Exec_M_REMUW i =
     (let rd = get_rd i; rs1 = get_rs1 i; rs2 = get_rs2 i in
      bnd (rd_reg rs1) (\<lambda>v1. bnd (rd_reg rs2) (\<lambda>v2.
      let dividend = low_word v1; divisor = low_word v2;
          result = (if divisor = 0 then (scast dividend :: 64 word)
                    else scast (dividend mod divisor)) in
      wr_reg rd (ucast result))))"

section \<open>Dispatch\<close>

definition M_exec_instruction :: "32 word \<Rightarrow> op_M_Codes \<Rightarrow> ('a::len hart, bool) exec" where
  "M_exec_instruction i code =
     bnd (case code of
            OP_M_MUL \<Rightarrow> Exec_M_MUL i
          | OP_M_MULH \<Rightarrow> Exec_M_MULH i
          | OP_M_MULHSU \<Rightarrow> Exec_M_MULHSU i
          | OP_M_MULHU \<Rightarrow> Exec_M_MULHU i
          | OP_M_DIV \<Rightarrow> Exec_M_DIV i
          | OP_M_DIVU \<Rightarrow> Exec_M_DIVU i
          | OP_M_REM \<Rightarrow> Exec_M_REM i
          | OP_M_REMU \<Rightarrow> Exec_M_REMU i
          | OP_M_MULW \<Rightarrow> Exec_M_MULW i
          | OP_M_DIVW \<Rightarrow> Exec_M_DIVW i
          | OP_M_DIVUW \<Rightarrow> Exec_M_DIVUW i
          | OP_M_REMW \<Rightarrow> Exec_M_REMW i
          | OP_M_REMUW \<Rightarrow> Exec_M_REMUW i
          | OP_M_ERROR \<Rightarrow> stop_sim) (\<lambda>_. ret True)"

text \<open>The definitions of the instructions, as one fact.\<close>

lemmas Exec_M_defs =
  Exec_M_MUL_def Exec_M_MULH_32_def Exec_M_MULHSU_32_def Exec_M_MULHU_32_def Exec_M_MULH_64_def
  Exec_M_MULHSU_64_def Exec_M_MULHU_64_def Exec_M_MULH_def Exec_M_MULHSU_def Exec_M_MULHU_def
  Exec_M_DIV_def Exec_M_DIVU_def Exec_M_REM_def Exec_M_REMU_def Exec_M_MULW_def Exec_M_DIVW_def
  Exec_M_DIVUW_def Exec_M_REMW_def Exec_M_REMUW_def c_div_def c_mod_def

end
