(* ===== verification/A_Extension.thy ===== *)
theory A_Extension
  imports Extension_Base
begin

text \<open>
  The atomic instructions (inc/A_extension.h). Addresses and data are 32 bits wide in both
  register widths; \<open>TLB_A_Entries\<close> is the set of reserved addresses. The destination is
  written before the source register \<open>rs2\<close> is read, as in the code.
\<close>

section \<open>Decoding\<close>

datatype (plugins only: size code) op_A_Codes =
    OP_A_LR | OP_A_SC | OP_A_AMOSWAP | OP_A_AMOADD | OP_A_AMOXOR | OP_A_AMOAND | OP_A_AMOOR
  | OP_A_AMOMIN | OP_A_AMOMAX | OP_A_AMOMINU | OP_A_AMOMAXU | OP_A_ERROR

definition A_opcode :: "32 word \<Rightarrow> 32 word" where
  "A_opcode i = sc_range 31 27 i"

section \<open>Codes\<close>

text \<open>The fields the decoder compares with (\<open>A_Codes\<close>).\<close>

abbreviation (input) A_LR :: "32 word" where "A_LR \<equiv> 0b00010"
abbreviation (input) A_SC :: "32 word" where "A_SC \<equiv> 0b00011"
abbreviation (input) A_AMOSWAP :: "32 word" where "A_AMOSWAP \<equiv> 0b00001"
abbreviation (input) A_AMOADD :: "32 word" where "A_AMOADD \<equiv> 0b00000"
abbreviation (input) A_AMOXOR :: "32 word" where "A_AMOXOR \<equiv> 0b00100"
abbreviation (input) A_AMOAND :: "32 word" where "A_AMOAND \<equiv> 0b01100"
abbreviation (input) A_AMOOR :: "32 word" where "A_AMOOR \<equiv> 0b01000"
abbreviation (input) A_AMOMIN :: "32 word" where "A_AMOMIN \<equiv> 0b10000"
abbreviation (input) A_AMOMAX :: "32 word" where "A_AMOMAX \<equiv> 0b10100"
abbreviation (input) A_AMOMINU :: "32 word" where "A_AMOMINU \<equiv> 0b11000"
abbreviation (input) A_AMOMAXU :: "32 word" where "A_AMOMAXU \<equiv> 0b11100"

section \<open>Decoder\<close>

definition A_decode :: "32 word \<Rightarrow> op_A_Codes" where
  "A_decode i =
     (let op = A_opcode i in
      if op = A_LR then OP_A_LR
      else if op = A_SC then OP_A_SC
      else if op = A_AMOSWAP then OP_A_AMOSWAP
      else if op = A_AMOADD then OP_A_AMOADD
      else if op = A_AMOXOR then OP_A_AMOXOR
      else if op = A_AMOAND then OP_A_AMOAND
      else if op = A_AMOOR then OP_A_AMOOR
      else if op = A_AMOMIN then OP_A_AMOMIN
      else if op = A_AMOMAX then OP_A_AMOMAX
      else if op = A_AMOMINU then OP_A_AMOMINU
      else if op = A_AMOMAXU then OP_A_AMOMAXU
      else OP_A_ERROR)"

section \<open>Reservations\<close>

definition TLB_reserve :: "32 word \<Rightarrow> ('a::len hart, unit) exec" where
  "TLB_reserve adr = modify (\<lambda>s. s\<lparr>TLB_A_Entries := insert adr (TLB_A_Entries s)\<rparr>)"

definition TLB_reserved :: "32 word \<Rightarrow> ('a::len hart, bool) exec" where
  "TLB_reserved adr = (\<lambda>s.
     if adr \<in> TLB_A_Entries s
     then Inr (True, s\<lparr>TLB_A_Entries := TLB_A_Entries s - {adr}\<rparr>)
     else Inr (False, s))"

section \<open>Load reserved and store conditional\<close>

definition Exec_A_LR :: "32 word \<Rightarrow> ('a::len hart, bool) exec" where
  "Exec_A_LR i =
     (let rd = get_rd i; rs1 = get_rs1 i; rs2 = get_rs2 i in
      if rs2 \<noteq> 0 then bnd (RaiseException ILLEGAL_INSTRUCTION i) (\<lambda>_. ret False)
      else
        bnd (rd_reg rs1) (\<lambda>v. let mem_addr = (ucast v :: 32 word) in
        bnd (rd_mem (ucast mem_addr) 4) (\<lambda>word.
        bnd (count dataMemoryRead) (\<lambda>_.
        bnd (wr_reg rd (scast word)) (\<lambda>_.
        bnd (TLB_reserve mem_addr) (\<lambda>_. ret True))))))"

definition Exec_A_SC :: "32 word \<Rightarrow> ('a::len hart, bool) exec" where
  "Exec_A_SC i =
     (let rd = get_rd i; rs1 = get_rs1 i; rs2 = get_rs2 i in
      bnd (rd_reg rs1) (\<lambda>v. let mem_addr = (ucast v :: 32 word) in
      bnd (rd_reg rs2) (\<lambda>w. let word = (ucast w :: 32 word) in
      bnd (TLB_reserved mem_addr) (\<lambda>reserved.
      if reserved then
        bnd (wr_mem (ucast mem_addr) word 4) (\<lambda>_.
        bnd (count dataMemoryWrite) (\<lambda>_.
        bnd (wr_reg rd 0) (\<lambda>_. ret True)))
      else bnd (wr_reg rd 1) (\<lambda>_. ret True)))))"

section \<open>Read, modify, write\<close>

text \<open>The common beginning: read the word and write it to the destination.\<close>

definition amo_read :: "32 word \<Rightarrow> ('a::len hart, 32 word \<times> 32 word) exec" where
  "amo_read i =
     bnd (rd_reg (get_rs1 i)) (\<lambda>v. let mem_addr = (ucast v :: 32 word) in
     bnd (rd_mem (ucast mem_addr) 4) (\<lambda>word.
     bnd (count dataMemoryRead) (\<lambda>_.
     bnd (wr_reg (get_rd i) (scast word)) (\<lambda>_. ret (mem_addr, word)))))"

text \<open>The common end: write the new word.\<close>

definition amo_write :: "32 word \<Rightarrow> 32 word \<Rightarrow> ('a::len hart, bool) exec" where
  "amo_write mem_addr word =
     bnd (wr_mem (ucast mem_addr) word 4) (\<lambda>_.
     bnd (count dataMemoryWrite) (\<lambda>_. ret True))"

definition Exec_A_AMOSWAP :: "32 word \<Rightarrow> ('a::len hart, bool) exec" where
  "Exec_A_AMOSWAP i =
     bnd (amo_read i) (\<lambda>(mem_addr, word).
     bnd (rd_reg (get_rs2 i)) (\<lambda>v. let aux = ucast v in
     bnd (wr_reg (get_rs2 i) (scast word)) (\<lambda>_. amo_write mem_addr aux)))"

definition Exec_A_AMOADD :: "32 word \<Rightarrow> ('a::len hart, bool) exec" where
  "Exec_A_AMOADD i =
     bnd (amo_read i) (\<lambda>(mem_addr, word).
     bnd (rd_reg (get_rs2 i)) (\<lambda>v. let word = word + ucast v in amo_write mem_addr word))"

definition Exec_A_AMOXOR :: "32 word \<Rightarrow> ('a::len hart, bool) exec" where
  "Exec_A_AMOXOR i =
     bnd (amo_read i) (\<lambda>(mem_addr, word).
     bnd (rd_reg (get_rs2 i)) (\<lambda>v. let word = word XOR ucast v in amo_write mem_addr word))"

definition Exec_A_AMOAND :: "32 word \<Rightarrow> ('a::len hart, bool) exec" where
  "Exec_A_AMOAND i =
     bnd (amo_read i) (\<lambda>(mem_addr, word).
     bnd (rd_reg (get_rs2 i)) (\<lambda>v. let word = word AND ucast v in amo_write mem_addr word))"

definition Exec_A_AMOOR :: "32 word \<Rightarrow> ('a::len hart, bool) exec" where
  "Exec_A_AMOOR i =
     bnd (amo_read i) (\<lambda>(mem_addr, word).
     bnd (rd_reg (get_rs2 i)) (\<lambda>v. let word = word OR ucast v in amo_write mem_addr word))"

definition Exec_A_AMOMIN :: "32 word \<Rightarrow> ('a::len hart, bool) exec" where
  "Exec_A_AMOMIN i =
     bnd (amo_read i) (\<lambda>(mem_addr, word).
     bnd (rd_reg (get_rs2 i)) (\<lambda>v. let aux = ucast v in
     amo_write mem_addr (if sint word < sint aux then word else aux)))"

definition Exec_A_AMOMAX :: "32 word \<Rightarrow> ('a::len hart, bool) exec" where
  "Exec_A_AMOMAX i =
     bnd (amo_read i) (\<lambda>(mem_addr, word).
     bnd (rd_reg (get_rs2 i)) (\<lambda>v. let aux = ucast v in
     amo_write mem_addr (if sint word > sint aux then word else aux)))"

definition Exec_A_AMOMINU :: "32 word \<Rightarrow> ('a::len hart, bool) exec" where
  "Exec_A_AMOMINU i =
     bnd (amo_read i) (\<lambda>(mem_addr, word).
     bnd (rd_reg (get_rs2 i)) (\<lambda>v. let aux = ucast v in
     amo_write mem_addr (if word < aux then word else aux)))"

definition Exec_A_AMOMAXU :: "32 word \<Rightarrow> ('a::len hart, bool) exec" where
  "Exec_A_AMOMAXU i =
     bnd (amo_read i) (\<lambda>(mem_addr, word).
     bnd (rd_reg (get_rs2 i)) (\<lambda>v. let aux = ucast v in
     amo_write mem_addr (if word > aux then word else aux)))"

section \<open>Dispatch\<close>

text \<open>Whatever an instruction returns is dropped: the answer is always \<open>True\<close>.\<close>

definition A_exec_instruction :: "32 word \<Rightarrow> op_A_Codes \<Rightarrow> ('a::len hart, bool) exec" where
  "A_exec_instruction i code =
     bnd (case code of
            OP_A_LR \<Rightarrow> Exec_A_LR i
          | OP_A_SC \<Rightarrow> Exec_A_SC i
          | OP_A_AMOSWAP \<Rightarrow> Exec_A_AMOSWAP i
          | OP_A_AMOADD \<Rightarrow> Exec_A_AMOADD i
          | OP_A_AMOXOR \<Rightarrow> Exec_A_AMOXOR i
          | OP_A_AMOAND \<Rightarrow> Exec_A_AMOAND i
          | OP_A_AMOOR \<Rightarrow> Exec_A_AMOOR i
          | OP_A_AMOMIN \<Rightarrow> Exec_A_AMOMIN i
          | OP_A_AMOMAX \<Rightarrow> Exec_A_AMOMAX i
          | OP_A_AMOMINU \<Rightarrow> Exec_A_AMOMINU i
          | OP_A_AMOMAXU \<Rightarrow> Exec_A_AMOMAXU i
          | OP_A_ERROR \<Rightarrow> NOP) (\<lambda>_. ret True)"

text \<open>The definitions of the instructions, as one fact.\<close>

lemmas Exec_A_defs =
  Exec_A_LR_def Exec_A_SC_def Exec_A_AMOSWAP_def Exec_A_AMOADD_def Exec_A_AMOXOR_def
  Exec_A_AMOAND_def Exec_A_AMOOR_def Exec_A_AMOMIN_def Exec_A_AMOMAX_def Exec_A_AMOMINU_def
  Exec_A_AMOMAXU_def amo_read_def amo_write_def

end
