(* ===== verification/CPU.thy ===== *)
theory CPU
  imports BASE_ISA C_Extension M_Extension A_Extension
begin

text \<open>
  The processor (inc/CPU.h, src/CPU.cpp, src/RV32.cpp, src/RV64.cpp). The two classes
  \<open>CPURV32\<close> and \<open>CPURV64\<close> have the same text over two word types; here they are the
  instances of one set of definitions at \<open>32\<close> and \<open>64\<close>. A step fetches a word (over the
  bus, or through the pointer of a DMI grant), offers it to the decoders in turn, executes it
  and advances the program counter when told to; the interrupt line is looked at after each
  step. The fetch transaction is one object kept between steps: only its address is set, so
  its status and its DMI hint are part of the state, and so is the word it reads into.
\<close>

section \<open>State\<close>

record (overloaded) 'a cpu =
  core :: "'a hart"
  INSTR :: "32 word"
  int_cause :: "'a word"
  interrupt :: bool
  irq_already_down :: bool
  dmi_ptr_valid :: bool
  trans_status :: tlm_response_status
  trans_dmi :: bool

definition on_core :: "('a::len hart, 'b) exec \<Rightarrow> ('a cpu, 'b) exec" where
  "on_core = onto core (\<lambda>h c. c\<lparr>core := h\<rparr>)"

text \<open>
  The constructor, given the value the constructor of the register file leaves, the start
  address and the platform the ports are bound to.
\<close>

definition CPU_init :: "'a::len registers \<Rightarrow> 'a word \<Rightarrow> platform \<Rightarrow> 'a cpu" where
  "CPU_init rf pc p =
     (let (rf, pf) = setValue reg_sp (of_nat (Memory_SIZE div 4 - 1)) (setPC pc rf, Performance_init) in
      \<lparr>core = \<lparr>regs = rf, perf = pf, plat = p, TLB_A_Entries = {}\<rparr>,
       INSTR = 0, int_cause = 0, interrupt = False, irq_already_down = False,
       dmi_ptr_valid = False, trans_status = TLM_INCOMPLETE_RESPONSE, trans_dmi = False\<rparr>)"

definition invalidate_direct_mem_ptr :: "('a::len cpu, unit) exec" where
  "invalidate_direct_mem_ptr = modify (\<lambda>c. c\<lparr>dmi_ptr_valid := False\<rparr>)"

section \<open>Fetch\<close>

definition fetch_payload :: "'a::len cpu \<Rightarrow> payload" where
  "fetch_payload c =
     \<lparr>command = TLM_READ_COMMAND, address = ucast (getPC (regs (core c))),
      data = le_bytes 4 (INSTR c), data_length = 4, streaming_width = 4, byte_enable = False,
      response_status = trans_status c, dmi_hint = trans_dmi c\<rparr>"

definition instr_direct_mem_ptr :: "platform \<Rightarrow> tlm_dmi option" where
  "instr_direct_mem_ptr p = get_direct_mem_ptr (main_memory p)"

definition fetch_dmi :: "('a::len cpu, unit) exec" where
  "fetch_dmi = (\<lambda>c.
     let pc = getPC (regs (core c)) in
     if SIZE < unat pc + 4 then Inl (Array_overrun (ucast pc) 4)
     else Inr ((), c\<lparr>INSTR := of_bytes (mem_bytes (unat pc) 4 (main_memory (plat (core c))))\<rparr>))"

definition fetch_bus :: "('a::len cpu, unit) exec" where
  "fetch_bus =
     bnd (gets fetch_payload) (\<lambda>tr.
     bnd (on_core (on_plat (BusCtrl_b_transport tr))) (\<lambda>tr.
     bnd (modify (\<lambda>c. c\<lparr>INSTR := of_bytes (data tr), trans_status := response_status tr,
                        trans_dmi := dmi_hint tr\<rparr>)) (\<lambda>_.
     if is_response_error tr then fail (SC_report_error (address tr))
     else if dmi_hint tr then
       modify (\<lambda>c. c\<lparr>dmi_ptr_valid := (instr_direct_mem_ptr (plat (core c)) \<noteq> None)\<rparr>)
     else ret ())))"

definition fetch :: "('a::len cpu, unit) exec" where
  "fetch = bnd (gets dmi_ptr_valid) (\<lambda>d. if d then fetch_dmi else fetch_bus)"

section \<open>Decode and execute\<close>

text \<open>The program counter advances when the instruction answers that it left it alone.\<close>

definition advance :: "('a::len hart, unit) exec \<Rightarrow> bool \<Rightarrow> ('a hart, unit) exec" where
  "advance inc PC_not_affected = (if PC_not_affected then inc else ret ())"

definition CPU_dispatch :: "32 word \<Rightarrow> ('a::len hart, bool) exec" where
  "CPU_dispatch i =
     (let deco = decode i in
      if deco \<noteq> OP_ERROR then
        bnd (exec_instruction i deco) (\<lambda>(b, breakpoint).
        bnd (advance inc_pc b) (\<lambda>_. ret breakpoint))
      else let c_deco = C_decode (LENGTH('a) = 32) i in
      if c_deco \<noteq> OP_C_ERROR then
        bnd (C_exec_instruction i c_deco) (\<lambda>(b, breakpoint).
        bnd (advance inc_pc_by2 b) (\<lambda>_. ret breakpoint))
      else let m_deco = M_decode i in
      if m_deco \<noteq> OP_M_ERROR then
        bnd (M_exec_instruction i m_deco) (\<lambda>b. bnd (advance inc_pc b) (\<lambda>_. ret False))
      else let a_deco = A_decode i in
      if a_deco \<noteq> OP_A_ERROR then
        bnd (A_exec_instruction i a_deco) (\<lambda>b. bnd (advance inc_pc b) (\<lambda>_. ret False))
      else bnd NOP (\<lambda>_. ret False))"

definition CPU_step :: "('a::len cpu, bool) exec" where
  "CPU_step =
     bnd fetch (\<lambda>_.
     bnd (on_core (count codeMemoryRead)) (\<lambda>_.
     bnd (gets INSTR) (\<lambda>i.
     bnd (on_core (CPU_dispatch i)) (\<lambda>breakpoint.
     bnd (on_core (count instructionsInc)) (\<lambda>_. ret breakpoint)))))"

section \<open>Interrupts\<close>

definition cpu_process_IRQ :: "('a::len cpu, bool) exec" where
  "cpu_process_IRQ =
     bnd (gets interrupt) (\<lambda>irq.
     if irq then
       bnd (on_core (rd_csr CSR_MSTATUS)) (\<lambda>csr_temp.
       if csr_temp AND MSTATUS_MIE = 0 then ret False
       else
         bnd (on_core (rd_csr CSR_MIP)) (\<lambda>csr_temp.
         if csr_temp AND MIP_MEIP = 0 then
           bnd (on_core (wr_csr CSR_MIP (csr_temp OR MIP_MEIP))) (\<lambda>_.
           bnd (on_core get_pc) (\<lambda>old_pc.
           bnd (on_core (wr_csr CSR_MEPC old_pc)) (\<lambda>_.
           bnd (on_core (wr_csr CSR_MCAUSE 0x80000000)) (\<lambda>_.
           bnd (on_core (rd_csr CSR_MTVEC)) (\<lambda>new_pc.
           bnd (on_core (set_pc new_pc)) (\<lambda>_.
           bnd (modify (\<lambda>c. c\<lparr>interrupt := False, irq_already_down := False\<rparr>)) (\<lambda>_.
           ret True)))))))
         else ret False))
     else
       bnd (gets irq_already_down) (\<lambda>down.
       if down then ret False
       else
         bnd (on_core (rd_csr CSR_MIP)) (\<lambda>csr_temp.
         bnd (on_core (wr_csr CSR_MIP (csr_temp AND NOT MIP_MEIP))) (\<lambda>_.
         bnd (modify (\<lambda>c. c\<lparr>irq_already_down := True\<rparr>)) (\<lambda>_. ret False)))))"

text \<open>The callback of the interrupt line copies as many bytes as a register has.\<close>

definition call_interrupt :: "payload \<Rightarrow> ('a::len cpu, unit) exec" where
  "call_interrupt tr = (\<lambda>c.
     let n = LENGTH('a) div 8 in
     if length (data tr) < n then Inl (Array_overrun (address tr) n)
     else Inr ((), c\<lparr>interrupt := True, int_cause := of_bytes (take n (data tr))\<rparr>))"

section \<open>The thread\<close>

text \<open>
  One round of \<open>CPU_thread\<close>: a step, the interrupt line, and a wait of 10 ns (ticks of the
  simulation time are 1 ns). The loop itself never ends; \<open>CPU_thread n\<close> is its first \<open>n\<close>
  rounds, cut short when the simulation was stopped, since the kernel then does not resume
  the thread.
\<close>

definition wait_default_time :: "(platform, unit) exec" where
  "wait_default_time = modify (\<lambda>p. p\<lparr>sc_now := sc_now p + 10\<rparr>)"

definition CPU_round :: "('a::len cpu, unit) exec" where
  "CPU_round =
     bnd CPU_step (\<lambda>_.
     bnd cpu_process_IRQ (\<lambda>_.
     on_core (on_plat wait_default_time)))"

primrec CPU_thread :: "nat \<Rightarrow> ('a::len cpu, unit) exec" where
  "CPU_thread 0 = ret ()"
| "CPU_thread (Suc n) =
     bnd CPU_round (\<lambda>_.
     bnd (gets (\<lambda>c. sc_stopped (plat (core c)))) (\<lambda>stopped.
     if stopped then ret () else CPU_thread n))"

text \<open>The registers that delimit the dump at the end of a simulation.\<close>

definition getStartDumpAddress :: "('a::len cpu, 64 word) exec" where
  "getStartDumpAddress = bnd (on_core (rd_reg reg_t0)) (\<lambda>v. ret (ucast v))"

definition getEndDumpAddress :: "('a::len cpu, 64 word) exec" where
  "getEndDumpAddress = bnd (on_core (rd_reg reg_t1)) (\<lambda>v. ret (ucast v))"

end
