(* ===== verification/Invariants.thy ===== *)
theory Invariants
  imports CPU "HOL-Library.Sublist"
begin

text \<open>
  Invariants of the processor. \<open>hart_invariant\<close> is the contract between the instructions and
  the objects they reach: a predicate kept by every access (registers, program counter, CSRs,
  bus, counters, reservations) is kept by every instruction, whatever the word executed.
  \<open>cpu_invariant\<close> adds the accesses only the processor makes and carries the predicate over
  steps, interrupts and the thread. The interpretations below are the predicates of interest.
\<close>

section \<open>Accesses over the data port\<close>

lemma on_plat_bnd: "on_plat (bnd m f) = bnd (on_plat m) (\<lambda>x. on_plat (f x))"
  unfolding on_plat_def by (rule onto_bnd) simp_all

lemma on_plat_ret [simp]: "on_plat (ret x) = (ret x :: ('a::len hart, 'b) exec)"
  by (rule ext) (simp add: on_plat_def onto_run)

lemma on_plat_fail [simp]: "on_plat (fail e) = (fail e :: ('a::len hart, 'b) exec)"
  by (rule ext) (simp add: on_plat_def onto_run)

lemma get_csr_bound [simp]: "uint (get_csr i) < 4096"
proof -
  have "uint (get_csr i) = take_bit 12 (uint (drop_bit 20 i))"
    by (simp add: get_csr_def sc_range_def unsigned_take_bit_eq)
  then show ?thesis using take_bit_int_less_exp [of 12] by simp
qed

section \<open>Instructions\<close>

locale hart_invariant =
  fixes I :: "'a::len hart \<Rightarrow> bool"
  assumes rd_reg: "keeps I (rd_reg n)"
    and wr_reg: "keeps I (wr_reg n v)"
    and set_pc: "keeps I (set_pc w)"
    and inc_pc: "keeps I inc_pc"
    and inc_pc_by2: "keeps I inc_pc_by2"
    and rd_csr: "0 \<le> csr \<Longrightarrow> csr < 4096 \<Longrightarrow> keeps I (rd_csr csr)"
    and wr_csr: "0 \<le> csr \<Longrightarrow> csr < 4096 \<Longrightarrow> keeps I (wr_csr csr v)"
    and stop_sim: "keeps I stop_sim"
    and transport: "keeps I (on_plat (BusCtrl_b_transport t))"
    and uninitialised: "keeps I (on_plat uninitialised)"
    and count_read: "keeps I (count dataMemoryRead)"
    and count_write: "keeps I (count dataMemoryWrite)"
    and reserve: "keeps I (TLB_reserve adr)"
    and reserved: "keeps I (TLB_reserved adr)"
begin

lemma get_pc: "keeps I get_pc"
  unfolding get_pc_def by (rule keeps_gets)

lemma log_reads: "keeps I (log_reads ns)"
  by (induction ns; unfold log_reads.simps; intro keeps_intros rd_reg)

lemma rd_mem: "keeps I (rd_mem a n)"
  unfolding rd_mem_def readDataMem_def on_plat_bnd if_distrib [of on_plat] on_plat_ret on_plat_fail
  by (intro keeps_intros uninitialised transport)

lemma wr_mem: "keeps I (wr_mem a v n)"
  unfolding wr_mem_def writeDataMem_def on_plat_bnd if_distrib [of on_plat] on_plat_ret on_plat_fail
  by (intro keeps_intros transport)

lemmas accesses =
  rd_reg wr_reg set_pc inc_pc inc_pc_by2 rd_csr wr_csr stop_sim count_read count_write reserve
  reserved get_pc log_reads rd_mem wr_mem

lemma RaiseException: "keeps I (RaiseException cause i)"
  unfolding RaiseException_def Let_def by (intro keeps_intros accesses) simp_all

lemma NOP: "keeps I NOP"
  unfolding NOP_def by (intro keeps_intros accesses)

lemma base_instructions: "keeps I (exec_instruction i code)"
  unfolding exec_instruction_def always_def answer_def
  by (cases code; simp only: opCodes.case; intro keeps_intros; (rule NOP)?;
      unfold Exec_defs Let_def; intro keeps_intros accesses RaiseException; simp?)

lemma C_instructions: "keeps I (C_exec_instruction i code)"
  unfolding C_exec_instruction_def C_always_def
  by (cases code; simp only: op_C_Codes.case; intro keeps_intros; (rule NOP)?;
      unfold Exec_C_defs Let_def; intro keeps_intros accesses RaiseException; simp?)

lemma M_instructions: "keeps I (M_exec_instruction i code)"
  unfolding M_exec_instruction_def
  by (cases code; simp only: op_M_Codes.case; intro keeps_intros; (rule stop_sim)?;
      unfold Exec_M_defs Let_def; intro keeps_intros accesses; simp?)

lemma A_instructions: "keeps I (A_exec_instruction i code)"
  unfolding A_exec_instruction_def
  by (cases code; simp only: op_A_Codes.case; intro keeps_intros; (rule NOP)?;
      unfold Exec_A_defs Let_def; intro keeps_intros accesses RaiseException; simp?)

lemma dispatch: "keeps I (CPU_dispatch i)"
  unfolding CPU_dispatch_def Let_def advance_def
  by (intro keeps_intros base_instructions C_instructions M_instructions A_instructions
      inc_pc inc_pc_by2 NOP)

text \<open>The predicate on the processor's state: it holds of the core.\<close>

abbreviation (input) J :: "'a cpu \<Rightarrow> bool" where "J \<equiv> \<lambda>c. I (core c)"

lemma on_core: "keeps I m \<Longrightarrow> keeps J (on_core m)"
  unfolding on_core_def by (rule keeps_onto) simp_all

lemma off_core: "(\<And>c. core (f c) = core c) \<Longrightarrow> keeps J (modify f)"
  by (simp add: keeps_def)

lemma fetch: "keeps J fetch"
proof -
  have "keeps J fetch_dmi"
    by (auto simp: keeps_def fetch_dmi_def Let_def split: if_splits)
  then show ?thesis
    unfolding fetch_def fetch_bus_def by (intro keeps_intros on_core transport off_core) simp_all
qed

lemma irq: "keeps J cpu_process_IRQ"
  unfolding cpu_process_IRQ_def
  by (intro keeps_intros on_core rd_csr wr_csr get_pc set_pc off_core) simp_all

lemma interrupt: "keeps J (call_interrupt tr)"
  by (auto simp: keeps_def call_interrupt_def Let_def split: if_splits)

end

section \<open>The processor\<close>

locale cpu_invariant = hart_invariant I for I :: "'a::len hart \<Rightarrow> bool" +
  assumes count_fetch: "keeps I (count codeMemoryRead)"
    and count_instruction: "keeps I (count instructionsInc)"
    and wait: "keeps I (on_plat wait_default_time)"
begin

lemma step: "keeps J CPU_step"
  unfolding CPU_step_def
  by (intro keeps_intros on_core fetch dispatch count_fetch count_instruction)

lemma round: "keeps J CPU_round"
  unfolding CPU_round_def by (intro keeps_intros step irq on_core wait)

lemma thread: "keeps J (CPU_thread n)"
  by (induction n; unfold CPU_thread.simps; intro keeps_intros round)

end

section \<open>Register 0 is zero\<close>

definition hart_x0 :: "'a::len hart \<Rightarrow> bool" where
  "hart_x0 s \<longleftrightarrow> x0_zero (regs s)"

lemma getCSR_frame [simp]:
  "register_bank (snd (getCSR now csr r)) = register_bank r"
  "register_PC (snd (getCSR now csr r)) = register_PC r"
  by (simp_all add: getCSR_def split: option.splits)

lemma setCSR_frame [simp]:
  "register_bank (setCSR csr v r) = register_bank r"
  "register_PC (setCSR csr v r) = register_PC r"
  by (simp_all add: setCSR_def)

lemma rd_csr_run:
  "rd_csr csr s = Inr (fst (getCSR (sc_now (plat s)) csr (regs s)),
     s\<lparr>regs := snd (getCSR (sc_now (plat s)) csr (regs s))\<rparr>)"
  by (simp add: rd_csr_def split: prod.splits)

lemmas keeps_access_defs =
  keeps_def rd_reg_def wr_reg_def set_pc_def inc_pc_def inc_pc_by2_def rd_csr_run wr_csr_def
  stop_sim_def on_plat_def onto_Inr_iff count_def TLB_reserve_def TLB_reserved_def
  setPC_def incPC_def incPCby2_def setValue_def getValue_def

interpretation x0: cpu_invariant hart_x0
  by unfold_locales (auto simp: keeps_access_defs hart_x0_def x0_zero_def split: if_splits)

section \<open>What the platform keeps\<close>

text \<open>
  Nothing the processor does moves the start address read from the file, grants direct
  access to the array, changes the unspecified values, takes back a stop request, or takes
  back a byte sent to the terminal.
\<close>

definition platform_frame :: "platform \<Rightarrow> platform \<Rightarrow> bool" where
  "platform_frame p q \<longleftrightarrow>
     program_counter (main_memory q) = program_counter (main_memory p) \<and>
     dmi_allowed (main_memory q) = dmi_allowed (main_memory p) \<and>
     uninit q = uninit p \<and>
     (sc_stopped p \<longrightarrow> sc_stopped q) \<and>
     prefix (terminal (trace p)) (terminal (trace q))"

lemma platform_frame_refl [simp]: "platform_frame p p"
  by (simp add: platform_frame_def)

lemma platform_frame_trans: "platform_frame p q \<Longrightarrow> platform_frame q r \<Longrightarrow> platform_frame p r"
  by (auto simp: platform_frame_def)

lemma copy_command_frame:
  "copy_command t m = Inr (t', m') \<Longrightarrow>
     program_counter m' = program_counter m \<and> dmi_allowed m' = dmi_allowed m"
  by (auto simp: copy_command_def Let_def bnd_Inr_iff split: if_splits)

lemma Memory_frame:
  "Memory_b_transport t m = Inr (t', m') \<Longrightarrow>
     program_counter m' = program_counter m \<and> dmi_allowed m' = dmi_allowed m"
  by (auto simp: Memory_b_transport_def bnd_Inr_iff dest: copy_command_frame split: if_splits)

lemma BusCtrl_frame:
  "BusCtrl_b_transport t p = Inr (t', q) \<Longrightarrow> platform_frame p q \<and> sc_now q = sc_now p"
  by (auto simp: BusCtrl_b_transport_def platform_defs onto_Inr_iff bnd_Inr_iff Let_def
      Trace_b_transport_def platform_frame_def split: if_splits list.splits dest: Memory_frame)

definition hart_platform :: "platform \<Rightarrow> 'a::len hart \<Rightarrow> bool" where
  "hart_platform p s \<longleftrightarrow> platform_frame p (plat s)"

lemma bus_frame:
  "BusCtrl_b_transport t q = Inr (t', r) \<Longrightarrow> platform_frame p q \<Longrightarrow> platform_frame p r"
  by (blast dest: BusCtrl_frame platform_frame_trans)

interpretation platform: cpu_invariant "hart_platform p"
  by unfold_locales
    (auto simp: keeps_access_defs hart_platform_def sc_stop_def uninitialised_def
      wait_default_time_def intro: bus_frame, simp_all add: platform_frame_def)

section \<open>Time and the count of instructions\<close>

definition hart_clock :: "64 word \<Rightarrow> 64 word \<Rightarrow> 'a::len hart \<Rightarrow> bool" where
  "hart_clock t n s \<longleftrightarrow> sc_now (plat s) = t \<and> instructions_executed (perf s) = n"

interpretation clock: hart_invariant "hart_clock t n"
  by unfold_locales
    (auto simp: keeps_access_defs hart_clock_def sc_stop_def uninitialised_def
      dest: BusCtrl_frame split: if_splits)

end
