(* ===== verification/Encoding.thy ===== *)
theory Encoding
  imports BASE_ISA ISA_Spec
begin

text \<open>
  The encodings of the manual against the decoder of the code: the fields and immediates the
  code extracts from an encoded instruction are the ones that were encoded (each bit of each
  format is compared), and \<open>decode\<close> names the instruction that was encoded (\<open>op_of\<close> gives the
  code's name of an instruction).
\<close>

section \<open>Fields\<close>

lemma not_bit_beyond: "LENGTH('a) \<le> n \<Longrightarrow> \<not> bit w n" for w :: "'a::len word"
  using bit_imp_le_length by fastforce

lemma bit_field [bit_blast]: "bit (field lo w) n \<longleftrightarrow> lo \<le> n \<and> n < 32 \<and> bit w (n - lo)"
  by (auto simp: field_def bit_simps)

lemma bit_part [bit_blast]: "bit (part lo w :: 'b::len word) n \<longleftrightarrow> n < LENGTH('b) \<and> bit w (lo + n)"
  by (auto simp: part_def bit_simps)

lemmas enc_defs = enc_R_def enc_I_def enc_S_def enc_B_def enc_U_def enc_J_def enc_shift_def
lemmas enc_blast = word_bitwise_eq enc_defs bit_blast not_bit_beyond

lemma range_R:
  "sc_range 6 0 (enc_R f7 rs2 rs1 f3 rd op) = ucast op"
  "sc_range 11 7 (enc_R f7 rs2 rs1 f3 rd op) = ucast rd"
  "sc_range 14 12 (enc_R f7 rs2 rs1 f3 rd op) = ucast f3"
  "sc_range 19 15 (enc_R f7 rs2 rs1 f3 rd op) = ucast rs1"
  "sc_range 24 20 (enc_R f7 rs2 rs1 f3 rd op) = ucast rs2"
  "sc_range 31 25 (enc_R f7 rs2 rs1 f3 rd op) = ucast f7"
  "drop_bit 26 (enc_R f7 rs2 rs1 f3 rd op) = ucast (drop_bit 1 f7)"
  by (simp_all add: enc_blast)

lemma range_I:
  "sc_range 6 0 (enc_I imm rs1 f3 rd op) = ucast op"
  "sc_range 11 7 (enc_I imm rs1 f3 rd op) = ucast rd"
  "sc_range 14 12 (enc_I imm rs1 f3 rd op) = ucast f3"
  "sc_range 19 15 (enc_I imm rs1 f3 rd op) = ucast rs1"
  by (simp_all add: enc_blast)

lemma range_shift:
  "sc_range 6 0 (enc_shift f6 sh rs1 f3 rd op) = ucast op"
  "sc_range 11 7 (enc_shift f6 sh rs1 f3 rd op) = ucast rd"
  "sc_range 14 12 (enc_shift f6 sh rs1 f3 rd op) = ucast f3"
  "sc_range 19 15 (enc_shift f6 sh rs1 f3 rd op) = ucast rs1"
  "sc_range 25 20 (enc_shift f6 sh rs1 f3 rd op) = ucast sh"
  "sc_range 24 20 (enc_shift f6 sh rs1 f3 rd op) = take_bit 5 (ucast sh)"
  "drop_bit 26 (enc_shift f6 sh rs1 f3 rd op) = ucast f6"
  by (simp_all add: enc_blast)

lemma range_S:
  "sc_range 6 0 (enc_S imm rs2 rs1 f3 op) = ucast op"
  "sc_range 14 12 (enc_S imm rs2 rs1 f3 op) = ucast f3"
  "sc_range 19 15 (enc_S imm rs2 rs1 f3 op) = ucast rs1"
  "sc_range 24 20 (enc_S imm rs2 rs1 f3 op) = ucast rs2"
  by (simp_all add: enc_blast)

lemma range_B:
  "sc_range 6 0 (enc_B off rs2 rs1 f3 op) = ucast op"
  "sc_range 14 12 (enc_B off rs2 rs1 f3 op) = ucast f3"
  "sc_range 19 15 (enc_B off rs2 rs1 f3 op) = ucast rs1"
  "sc_range 24 20 (enc_B off rs2 rs1 f3 op) = ucast rs2"
  by (simp_all add: enc_blast)

lemma range_UJ:
  "sc_range 6 0 (enc_U imm rd op) = ucast op"
  "sc_range 11 7 (enc_U imm rd op) = ucast rd"
  "sc_range 31 12 (enc_U imm rd op) = ucast imm"
  "sc_range 6 0 (enc_J imm rd op) = ucast op"
  "sc_range 11 7 (enc_J imm rd op) = ucast rd"
  by (simp_all add: enc_blast)

lemmas range_enc = range_R range_I range_shift range_S range_B range_UJ

lemma unat_regno [simp]: "unat (ucast r :: 32 word) = unat r" for r :: regno
  by (simp add: unsigned_ucast_eq take_bit_nat_eq_self less_trans [OF unsigned_less])

lemma field_enc [simp]:
  "get_rd (enc_R f7 rs2 rs1 f3 rd op) = unat rd" "get_rd (enc_I imm rs1 f3 rd op) = unat rd"
  "get_rd (enc_shift f6 sh rs1 f3 rd op) = unat rd" "get_rd (enc_U imm' rd op) = unat rd"
  "get_rd (enc_J imm' rd op) = unat rd"
  "get_rs1 (enc_R f7 rs2 rs1 f3 rd op) = unat rs1" "get_rs1 (enc_I imm rs1 f3 rd op) = unat rs1"
  "get_rs1 (enc_shift f6 sh rs1 f3 rd op) = unat rs1" "get_rs1 (enc_S imm rs2 rs1 f3 op) = unat rs1"
  "get_rs1 (enc_B imm rs2 rs1 f3 op) = unat rs1"
  "get_rs2 (enc_R f7 rs2 rs1 f3 rd op) = unat rs2" "get_rs2 (enc_S imm rs2 rs1 f3 op) = unat rs2"
  "get_rs2 (enc_B imm rs2 rs1 f3 op) = unat rs2"
  by (simp_all add: field_defs range_enc)

section \<open>Immediates\<close>

lemmas imm_32_defs =
  get_imm_I_32_def get_imm_S_32_def get_imm_B_32_def get_imm_J_32_def sc_bit_eq Let_def

lemmas imm_64_defs =
  get_imm_I_64_def get_imm_S_64_def get_imm_B_64_def get_imm_J_64_def int_mask_def sc_bit_eq Let_def

lemmas imm_blast = enc_blast numeral_2_eq_2 [symmetric]

text \<open>The sign bit is split first; then each bit is compared.\<close>

lemma imm_enc_32:
  "get_imm_I_32 (enc_I imm rs1 f3 rd op) = scast imm"
  "get_imm_S_32 (enc_S imm rs2 rs1 f3 op) = scast imm"
  "get_imm_B_32 (enc_B imm rs2 rs1 f3 op) = push_bit 1 (scast imm)"
  by (cases "bit imm 11"; simp add: imm_32_defs imm_blast del: push_bit_numeral push_bit_Suc)+

lemma imm_J_enc_32:
  "get_imm_J_32 (enc_J imm rd op) = push_bit 1 (scast imm)"
  by (cases "bit imm 19"; simp add: imm_32_defs imm_blast del: push_bit_numeral push_bit_Suc)

lemma imm_I_enc_64:
  "get_imm_I_64 (enc_I imm rs1 f3 rd op) = scast imm"
  by (cases "bit imm 11"; simp add: imm_64_defs imm_blast del: push_bit_numeral push_bit_Suc)

lemma imm_S_enc_64:
  "get_imm_S_64 (enc_S imm rs2 rs1 f3 op) = scast imm"
  by (cases "bit imm 11"; simp add: imm_64_defs imm_blast del: push_bit_numeral push_bit_Suc)

lemma imm_B_enc_64:
  "get_imm_B_64 (enc_B imm rs2 rs1 f3 op) = push_bit 1 (scast imm)"
  by (cases "bit imm 11"; simp add: imm_64_defs imm_blast del: push_bit_numeral push_bit_Suc)

lemma imm_J_enc_64:
  "get_imm_J_64 (enc_J imm rd op) = push_bit 1 (scast imm)"
  by (cases "bit imm 19"; simp add: imm_64_defs imm_blast del: push_bit_numeral push_bit_Suc)

lemma ucast_scast_same:
  "LENGTH('b) = LENGTH('a) \<Longrightarrow> (ucast (scast x :: 'b::len word) :: 'a::len word) = scast x"
  "LENGTH('b) = LENGTH('a) \<Longrightarrow>
     (ucast (push_bit k (scast x) :: 'b::len word) :: 'a::len word) = push_bit k (scast x)"
  for x :: "'c::len word"
  by (rule bit_word_eqI; auto simp: bit_simps)+

lemma imm_enc:
  assumes "LENGTH('a) = 32 \<or> LENGTH('a) = 64"
  shows "get_imm_I (enc_I imm rs1 f3 rd op) = (scast imm :: 'a::len word)"
    and "get_imm_S (enc_S imm rs2 rs1 f3 op) = (scast imm :: 'a word)"
    and "get_imm_B (enc_B imm rs2 rs1 f3 op) = (2 * scast imm :: 'a word)"
    and "get_imm_J (enc_J imm' rd op) = (2 * scast imm' :: 'a word)"
  using assms push_bit_eq_mult [of 1 "scast imm :: 'a word"] push_bit_eq_mult [of 1 "scast imm' :: 'a word"]
  by (auto simp: get_imm_I_def get_imm_S_def get_imm_B_def get_imm_J_def imm_enc_32 imm_J_enc_32
      imm_I_enc_64 imm_S_enc_64 imm_B_enc_64 imm_J_enc_64 ucast_scast_same mult.commute
      simp del: push_bit_Suc)

lemma imm_U_enc:
  "(int32_to (push_bit 12 (get_imm_U (enc_U imm rd op) :: 'a word)) :: 'a::len word) = scast (field 12 imm)"
  if "LENGTH('a) = 32 \<or> LENGTH('a) = 64"
proof -
  have "(ucast (push_bit 12 (get_imm_U (enc_U imm rd op)) :: 'a word) :: 32 word) = field 12 imm"
    using that by (intro bit_word_eqI) (auto simp: get_imm_U_def range_enc bit_blast)
  then show ?thesis by (simp add: int32_to_def)
qed

lemma shamt_enc [simp]:
  "get_shamt (enc_shift f6 sh rs1 f3 rd op) = ucast sh"
  "get_shamt_slli (enc_shift f6 sh rs1 f3 rd op) = ucast sh"
  by (simp_all add: field_defs range_enc)

section \<open>Decoding\<close>

fun op_of :: "insn \<Rightarrow> opCodes" where
  "op_of (LUI rd imm) = OP_LUI"
| "op_of (AUIPC rd imm) = OP_AUIPC"
| "op_of (JAL rd off) = OP_JAL"
| "op_of (JALR rd rs1 imm) = OP_JALR"
| "op_of (BRANCH b rs1 rs2 off) =
     (case b of B_EQ \<Rightarrow> OP_BEQ | B_NE \<Rightarrow> OP_BNE | B_LT \<Rightarrow> OP_BLT | B_GE \<Rightarrow> OP_BGE
      | B_LTU \<Rightarrow> OP_BLTU | B_GEU \<Rightarrow> OP_BGEU)"
| "op_of (LOAD l rd rs1 imm) =
     (case l of L_B \<Rightarrow> OP_LB | L_H \<Rightarrow> OP_LH | L_W \<Rightarrow> OP_LW | L_D \<Rightarrow> OP_LD
      | L_BU \<Rightarrow> OP_LBU | L_HU \<Rightarrow> OP_LHU | L_WU \<Rightarrow> OP_LWU)"
| "op_of (STORE st rs1 rs2 imm) =
     (case st of S_B \<Rightarrow> OP_SB | S_H \<Rightarrow> OP_SH | S_W \<Rightarrow> OP_SW | S_D \<Rightarrow> OP_SD)"
| "op_of (OP_IMM o' rd rs1 imm) =
     (case o' of I_ADD \<Rightarrow> OP_ADDI | I_SLT \<Rightarrow> OP_SLTI | I_SLTU \<Rightarrow> OP_SLTIU | I_XOR \<Rightarrow> OP_XORI
      | I_OR \<Rightarrow> OP_ORI | I_AND \<Rightarrow> OP_ANDI)"
| "op_of (SHIFT k rd rs1 sh) = (case k of SH_LL \<Rightarrow> OP_SLLI | SH_RL \<Rightarrow> OP_SRLI | SH_RA \<Rightarrow> OP_SRAI)"
| "op_of (OP o' rd rs1 rs2) =
     (case o' of A_ADD \<Rightarrow> OP_ADD | A_SUB \<Rightarrow> OP_SUB | A_SLL \<Rightarrow> OP_SLL | A_SLT \<Rightarrow> OP_SLT
      | A_SLTU \<Rightarrow> OP_SLTU | A_XOR \<Rightarrow> OP_XOR | A_SRL \<Rightarrow> OP_SRL | A_SRA \<Rightarrow> OP_SRA
      | A_OR \<Rightarrow> OP_OR | A_AND \<Rightarrow> OP_AND)"
| "op_of (OP_IMM_W rd rs1 imm) = OP_ADDIW"
| "op_of (SHIFT_W k rd rs1 sh) =
     (case k of SH_LL \<Rightarrow> OP_SLLIW | SH_RL \<Rightarrow> OP_SRLIW | SH_RA \<Rightarrow> OP_SRAIW)"
| "op_of (OP_W o' rd rs1 rs2) =
     (case o' of W_ADD \<Rightarrow> OP_ADDW | W_SUB \<Rightarrow> OP_SUBW | W_SLL \<Rightarrow> OP_SLLW | W_SRL \<Rightarrow> OP_SRLW
      | W_SRA \<Rightarrow> OP_SRAW)"
| "op_of (MULDIV o' rd rs1 rs2) = OP_ERROR"

lemmas enum_splits = branch_op.split load_op.split store_op.split imm_op.split shift_op.split
  alu_op.split word_op.split

lemma decode_encode: "decode (encode ins) = op_of ins"
  by (cases ins) (simp_all add: decode_defs field_defs range_enc split: enum_splits)

end
