(* ===== verification/Refinement.thy ===== *)
theory Refinement
  imports Invariants Encoding
begin

text \<open>
  The base instructions of the code refine the manual: in a state whose register 0 is zero, an
  instruction for which \<open>isa_exec\<close> promises a result, executed from its encoding, returns
  normally with that result in the registers, the program counter and the memory, and touches
  nothing else (\<open>same_rest\<close>) but the counters of accesses. \<open>abs_hart\<close> is the abstraction.
\<close>

section \<open>Bytes and shifts\<close>

lemma of_bytes_append:
  "of_bytes (bs @ cs) = of_bytes bs OR push_bit (8 * length bs) (of_bytes cs)"
  by (induction bs) (simp_all add: or.assoc push_bit_or push_bit_push_bit)

lemma le_bytes_add: "le_bytes (m + n) v = le_bytes m v @ le_bytes n (drop_bit (8 * m) v)"
  by (induction m arbitrary: v) (simp_all add: drop_bit_drop_bit add.commute)

lemma of_bytes_copy:
  "LENGTH('b) \<le> 8 * length bs \<Longrightarrow> (of_bytes (copy_into bs buf) :: 'b::len word) = of_bytes bs"
  by (rule bit_word_eqI) (auto simp: bit_of_bytes copy_into_def nth_append)

lemma ucast_of_bytes_up:
  "8 * length bs \<le> LENGTH('c) \<Longrightarrow> (ucast (of_bytes bs :: 'c::len word) :: 'b::len word) = of_bytes bs"
  by (intro bit_word_eqI) (auto simp: bit_simps bit_of_bytes)

lemma le_bytes_ucast: "8 * n \<le> LENGTH('b) \<Longrightarrow> le_bytes n (ucast v :: 'b::len word) = le_bytes n v"
  for v :: "'a::len word"
  by (rule nth_equalityI) (auto simp: nth_le_bytes intro!: bit_word_eqI simp: bit_simps)

lemma take_le_bytes_same: "n \<le> m \<Longrightarrow> take n (le_bytes m v) = le_bytes n v"
  by (rule nth_equalityI) (auto simp: nth_le_bytes)

lemma mem_update_append:
  "mem_update (a + length bs) cs (mem_update a bs m) = mem_update a (bs @ cs) m"
  by (auto simp: mem_update_def nth_append fun_eq_iff intro!: memory.equality)
lemma shift_run:
  "shift SH_LL n a = push_bit n a" "shift SH_RL n a = drop_bit n a" "shift SH_RA n a = signed_drop_bit n a"
  for a :: "'a::len word"
proof -
  show "shift SH_LL n a = push_bit n a" by (simp add: push_bit_eq_mult)
  have "word_of_int (drop_bit n (uint a)) = drop_bit n a"
    by (rule bit_word_eqI) (auto simp: bit_simps dest: bit_imp_le_length)
  then show "shift SH_RL n a = drop_bit n a" by (simp flip: drop_bit_eq_div)
  have "(word_of_int (sint (signed_drop_bit n a)) :: 'a word) = signed_drop_bit n a"
    by simp
  then show "shift SH_RA n a = signed_drop_bit n a"
    unfolding sint_signed_drop_bit_eq by (simp flip: drop_bit_eq_div)
qed

lemma shamt_mask:
  "unat (v AND 0x1F) = unat v mod 32" "unat (v AND 0x3F) = unat v mod 64"
  for v :: "'a::len word"
proof -
  have "(0x1F :: 'a word) = mask 5" "(0x3F :: 'a word) = mask 6"
    by (simp_all add: mask_eq_exp_minus_1)
  then show "unat (v AND 0x1F) = unat v mod 32" "unat (v AND 0x3F) = unat v mod 64"
    by (simp_all only: take_bit_eq_mask [symmetric] unsigned_take_bit_eq) (simp_all add: take_bit_eq_mod)
qed
section \<open>Abstraction\<close>

definition abs_hart :: "'a::len hart \<Rightarrow> 'a arch" where
  "abs_hart s = \<lparr>X = register_bank (regs s), PC = register_PC (regs s), RAM = mem (main_memory (plat s))\<rparr>"

definition same_rest :: "'a::len hart \<Rightarrow> 'a hart \<Rightarrow> bool" where
  "same_rest s t \<longleftrightarrow>
     CSR (regs t) = CSR (regs s) \<and> TLB_A_Entries t = TLB_A_Entries s \<and>
     timer (plat t) = timer (plat s) \<and> trace (plat t) = trace (plat s) \<and>
     sc_now (plat t) = sc_now (plat s) \<and> sc_stopped (plat t) = sc_stopped (plat s) \<and>
     uninit (plat t) = uninit (plat s) \<and>
     program_counter (main_memory (plat t)) = program_counter (main_memory (plat s)) \<and>
     dmi_allowed (main_memory (plat t)) = dmi_allowed (main_memory (plat s)) \<and>
     instructions_executed (perf t) = instructions_executed (perf s)"

definition outcome :: "('a::len hart, 'b) exec \<Rightarrow> 'a hart \<Rightarrow> 'b \<Rightarrow> 'a arch \<Rightarrow> bool" where
  "outcome m s x a \<longleftrightarrow> (\<exists>t. m s = Inr (x, t) \<and> abs_hart t = a \<and> same_rest s t)"

lemma outcomeI: "m s = Inr (x, t) \<Longrightarrow> abs_hart t = a \<Longrightarrow> same_rest s t \<Longrightarrow> outcome m s x a"
  by (auto simp: outcome_def)

lemmas outcome_defs = outcome_def abs_hart_def same_rest_def

lemma abs_hart_perf [simp]: "abs_hart (s\<lparr>perf := p\<rparr>) = abs_hart s"
  by (simp add: abs_hart_def)

definition run_base :: "insn \<Rightarrow> ('a::len hart, bool) exec" where
  "run_base ins = bnd (exec_instruction (encode ins) (op_of ins)) (\<lambda>(b, breakpoint).
     bnd (advance inc_pc b) (\<lambda>_. ret breakpoint))"

lemma rX_bank: "hart_x0 s \<Longrightarrow> rX (abs_hart s) r = register_bank (regs s) (unat r)"
  by (auto simp: rX_def abs_hart_def hart_x0_def x0_zero_def)

lemma unat_reg [simp]: "unat (r :: regno) < 32" "\<not> 32 \<le> unat r" "unat r = 0 \<longleftrightarrow> r = 0"
  using unsigned_less [of r] by (simp_all add: unsigned_eq_0_iff not_le)

lemma ram_write_abs:
  "ram_write e bs (abs_hart s) =
     abs_hart (s\<lparr>plat := (plat s)\<lparr>main_memory := mem_update e bs (main_memory (plat s))\<rparr>\<rparr>)"
  by (simp add: ram_write_def mem_update_def abs_hart_def cong: if_cong)

lemmas isa_simps = seq_next_def go_def wX_def

lemmas run_defs = run_base_def exec_instruction_def always_def answer_def advance_def exec_simps
  outcome_defs isa_simps

lemma refine_lui:
  assumes "LENGTH('a) = 32 \<or> LENGTH('a) = 64"
  shows "outcome (run_base (LUI rd imm)) (s :: 'a::len hart) False (seq_next 4 (wX rd (scast (field 12 imm)) (abs_hart s)))"
  by (simp add: run_defs Exec_LUI_def imm_U_enc [OF assms])

lemma refine_auipc:
  assumes "LENGTH('a) = 32 \<or> LENGTH('a) = 64"
  shows "outcome (run_base (AUIPC rd imm)) (s :: 'a::len hart) False (seq_next 4 (wX rd (PC (abs_hart s) + scast (field 12 imm)) (abs_hart s)))"
  by (simp add: run_defs Exec_AUIPC_def imm_U_enc [OF assms] Let_def)

lemma refine_jal:
  assumes "LENGTH('a) = 32 \<or> LENGTH('a) = 64"
  shows "outcome (run_base (JAL rd off)) (s :: 'a::len hart) False
     (go (PC (abs_hart s) + 2 * scast off) (wX rd (PC (abs_hart s) + 4) (abs_hart s)))"
  by (simp add: run_defs Exec_JAL_def imm_enc [OF assms] Let_def)

lemma refine_jalr:
  assumes "LENGTH('a) = 32 \<or> LENGTH('a) = 64" and x0: "hart_x0 s"
  shows "outcome (run_base (JALR rd rs1 imm)) (s :: 'a::len hart) False
     (go ((rX (abs_hart s) rs1 + scast imm) AND NOT 1) (wX rd (PC (abs_hart s) + 4) (abs_hart s)))"
  by (simp add: rX_bank [OF x0]) (simp add: run_defs Exec_JALR_def imm_enc [OF assms(1)] Let_def)

lemma refine_branch:
  assumes "LENGTH('a) = 32 \<or> LENGTH('a) = 64" and x0: "hart_x0 s"
  shows "outcome (run_base (BRANCH b rs1 rs2 off)) (s :: 'a::len hart) False
     (if branch_taken b (rX (abs_hart s) rs1) (rX (abs_hart s) rs2)
      then go (PC (abs_hart s) + 2 * scast off) (abs_hart s) else seq_next 4 (abs_hart s))"
  unfolding rX_bank [OF x0]
  by (cases b) (simp_all add: run_defs Exec_BEQ_def Exec_BNE_def Exec_BLT_def Exec_BGE_def Exec_BLTU_def Exec_BGEU_def
    branch_to_def imm_enc [OF assms(1)] Let_def word_less_nat_alt word_le_nat_alt)

lemma refine_op_imm:
  assumes "LENGTH('a) = 32 \<or> LENGTH('a) = 64" and x0: "hart_x0 s"
  shows "outcome (run_base (OP_IMM o' rd rs1 imm)) (s :: 'a::len hart) False
     (seq_next 4 (wX rd (alu (imm_alu o') (rX (abs_hart s) rs1) (scast imm)) (abs_hart s)))"
  unfolding rX_bank [OF x0]
  by (cases o') (simp_all add: run_defs Exec_ADDI_def Exec_SLTI_def Exec_SLTIU_def Exec_XORI_def Exec_ORI_def Exec_ANDI_def
    imm_enc [OF assms(1)] Let_def word_less_nat_alt)

lemma refine_op:
  assumes "LENGTH('a) = 32 \<or> LENGTH('a) = 64" and x0: "hart_x0 s"
  shows "outcome (run_base (OP o' rd rs1 rs2)) (s :: 'a::len hart) False
     (seq_next 4 (wX rd (alu o' (rX (abs_hart s) rs1) (rX (abs_hart s) rs2)) (abs_hart s)))"
  unfolding rX_bank [OF x0] using assms(1)
  by (cases o') (auto simp add: run_defs Exec_ADD_def Exec_SUB_def Exec_SLT_def Exec_SLTU_def Exec_XOR_def Exec_OR_def Exec_AND_def
     Exec_SLL_def Exec_SRL_def Exec_SRA_def  Exec_SLL_32_def Exec_SRL_32_def Exec_SRA_32_def Exec_SLL_64_def Exec_SRL_64_def Exec_SRA_64_def
    Let_def word_less_nat_alt shift_run shamt_mask simp del: shift.simps)

lemma ucast_low_word [simp]: "(ucast (v AND 0xFFFFFFFF) :: 32 word) = ucast v" for v :: "'a::len word"
  by (rule bit_word_eqI) (auto simp: bit_blast dest: bit_imp_le_length)

lemma unat_shamt: "unat (ucast sh :: 32 word) = unat sh" for sh :: "6 word"
  by (simp add: unsigned_ucast_eq take_bit_nat_eq_self less_trans [OF unsigned_less])

lemma shamt_range: "unat (take_bit 5 (ucast sh :: 32 word)) = unat sh mod 32" for sh :: "6 word"
  unfolding unsigned_take_bit_eq by (simp add: unat_shamt take_bit_eq_mod)

lemma refine_shift_imm:
  assumes "LENGTH('a) = 32 \<or> LENGTH('a) = 64" and x0: "hart_x0 s" and sh: "unat sh < LENGTH('a)"
  shows "outcome (run_base (SHIFT k rd rs1 sh)) (s :: 'a::len hart) False
     (seq_next 4 (wX rd (shift k (unat sh) (rX (abs_hart s) rs1)) (abs_hart s)))"
  unfolding rX_bank [OF x0] using assms(1) sh
  by (cases k) (auto simp: run_defs Exec_SLLI_def Exec_SRLI_def Exec_SRAI_def  Exec_SLLI_32_def Exec_SRLI_32_def Exec_SRAI_32_def
     Exec_SLLI_64_def Exec_SRLI_64_def Exec_SRAI_64_def range_shift
    Let_def word_le_nat_alt unat_shamt shift_run shamt_mask shamt_range simp del: shift.simps)

lemma refine_op_imm_w:
  assumes "LENGTH('a) = 64" and x0: "hart_x0 s"
  shows "outcome (run_base (OP_IMM_W rd rs1 imm)) (s :: 'a::len hart) False
     (seq_next 4 (wX rd (on_words (\<lambda>x _. x + scast imm) (rX (abs_hart s) rs1) 0) (abs_hart s)))"
proof -
  have "(ucast (scast imm :: 'a word) :: 32 word) = scast imm" for imm :: "12 word"
    using assms(1) by (intro bit_word_eqI) (auto simp: bit_simps)
  moreover have "(ucast (scast v :: 64 word) :: 'a word) = scast v" for v :: "32 word"
    by (rule ucast_scast_same) (simp add: assms)
  ultimately show ?thesis
  unfolding rX_bank [OF x0]
  by (simp add: run_defs Exec_ADDIW_def imm_enc assms(1) Let_def on_words_def)
qed

lemma refine_shift_w:
  assumes "LENGTH('a) = 64" and x0: "hart_x0 s"
  shows "outcome (run_base (SHIFT_W k rd rs1 sh)) (s :: 'a::len hart) False
     (seq_next 4 (wX rd (on_words (\<lambda>x _. shift k (unat sh) x) (rX (abs_hart s) rs1) 0) (abs_hart s)))"
proof -
  have u: "unat (ucast sh :: 6 word) = unat sh" and l: "unat sh < 32"
    using unsigned_less [of sh] by (simp_all add: unsigned_ucast_eq take_bit_nat_eq_self less_trans [OF unsigned_less])
  then show ?thesis
    unfolding rX_bank [OF x0]
    by (cases k) (simp_all add: run_defs Exec_SLLIW_def Exec_SRLIW_def Exec_SRAIW_def
    Let_def word_le_nat_alt unat_shamt shift_run shamt_mask on_words_def del: shift.simps)
qed

lemma ucast_add: "ucast (v + w) = (ucast v + ucast w :: 'b::len word)" if "LENGTH('b) \<le> LENGTH('a)"
   for v w :: "'a::len word"
proof -
  have "take_bit LENGTH('b) (take_bit LENGTH('a) (a + b)) = take_bit LENGTH('b) (take_bit LENGTH('a) a + take_bit LENGTH('a) b)" for a b :: int
    by (metis take_bit_add take_bit_take_bit min_absorb1 that)
  then show ?thesis by transfer simp
qed
lemma ucast_diff: "ucast (v - w) = (ucast v - ucast w :: 'b::len word)" if "LENGTH('b) \<le> LENGTH('a)"
   for v w :: "'a::len word"
proof -
  have "take_bit LENGTH('b) (take_bit LENGTH('a) (a - b)) = take_bit LENGTH('b) (take_bit LENGTH('a) a - take_bit LENGTH('a) b)" for a b :: int
    by (metis take_bit_diff take_bit_take_bit min_absorb1 that)
  then show ?thesis by transfer simp
qed
lemma refine_op_w:
  assumes "LENGTH('a) = 64" and x0: "hart_x0 s"
  shows "outcome (run_base (OP_W o' rd rs1 rs2)) (s :: 'a::len hart) False
     (seq_next 4 (wX rd (on_words (alu (word_alu o')) (rX (abs_hart s) rs1) (rX (abs_hart s) rs2)) (abs_hart s)))"
proof -
  have u: "unat (ucast v :: 32 word) mod 32 = unat v mod 32" for v :: "'a word"
    by (simp add: unsigned_ucast_eq take_bit_eq_mod mod_mod_cancel)
  show ?thesis
    unfolding rX_bank [OF x0]
    by (cases o') (simp_all add: run_defs Exec_ADDW_def Exec_SUBW_def Exec_SLLW_def Exec_SRLW_def Exec_SRAW_def
    Let_def word_le_nat_alt shift_run shamt_mask on_words_def int32_to_def ucast_add ucast_diff assms(1) u del: shift.simps)
qed

lemma ea:
  fixes v :: "'a::len word"
  assumes "LENGTH('a) = 32 \<or> LENGTH('a) = 64"
  shows "unat (ucast v :: 64 word) = unat v"
proof -
  have "unat v < 2 ^ 64" using unsigned_less [of v] assms by (elim disjE) simp_all
  then show ?thesis by (simp add: unsigned_ucast_eq take_bit_nat_eq_self)
qed

lemma rd_mem_run:
  "in_ram a n \<Longrightarrow> n \<le> 4 \<Longrightarrow> rd_mem a n s =
    Inr (of_bytes (copy_into (mem_bytes (unat a) n (main_memory (plat s)))
                     (le_bytes 4 (uninit (plat s) (uninit_ix (plat s))))),
         s\<lparr>plat := (plat s)\<lparr>uninit_ix := Suc (uninit_ix (plat s))\<rparr>\<rparr>)"
  by (simp add: rd_mem_def on_plat_def onto_run readDataMem_ram)

lemma wr_mem_run:
  "in_ram a n \<Longrightarrow> n \<le> 4 \<Longrightarrow> wr_mem a v n s =
    Inr ((), s\<lparr>plat := (plat s)\<lparr>main_memory :=
       mem_update (unat a) (take n (le_bytes 4 v)) (main_memory (plat s))\<rparr>\<rparr>)"
  by (simp add: wr_mem_def on_plat_def onto_run writeDataMem_ram)

lemma copy_into_all: "length buf \<le> length bs \<Longrightarrow> copy_into bs buf = bs"
  by (simp add: copy_into_def)

lemma ram_mem_bytes: "ram_bytes a n (abs_hart s) = mem_bytes a n (main_memory (plat s))"
  by (simp add: ram_bytes_def mem_bytes_def abs_hart_def)

lemma in_ram_iff: "0 < n \<Longrightarrow> in_ram a n \<longleftrightarrow> \<not> RAM_SIZE < unat a + n"
  by (auto simp: in_ram_def RAM_SIZE_def SIZE_def)

lemmas load_defs = Exec_LB_def Exec_LH_def Exec_LW_def Exec_LBU_def Exec_LHU_def Exec_LWU_def
  Exec_LD_def load_addr_def Let_def

lemmas value_simps = of_bytes_copy ucast_of_bytes_up

lemma refine_load_small:
  assumes xlen: "LENGTH('a) = 32 \<or> LENGTH('a) = 64" and x0: "hart_x0 s" and l: "l \<noteq> L_D"
    and r: "\<not> RAM_SIZE < unat (rX (abs_hart s) rs1 + scast imm) + load_width l"
    and u: "LENGTH('a) = 32 \<Longrightarrow> l \<noteq> L_WU"
  shows "outcome (run_base (LOAD l rd rs1 imm)) (s :: 'a::len hart) False
     (seq_next 4 (wX rd (load_value l (ram_bytes (unat (rX (abs_hart s) rs1 + scast imm)) (load_width l) (abs_hart s))) (abs_hart s)))"
proof -
  have w: "load_width l \<le> 4" "0 < load_width l" using l by (cases l; simp)+
  have a: "rX (abs_hart s) rs1 + scast imm = scast imm + register_bank (regs s) (unat rs1)"
    by (simp add: rX_bank [OF x0])
  have "in_ram (ucast (scast imm + register_bank (regs s) (unat rs1))) (load_width l)"
    using r w(2) by (simp add: in_ram_iff ea [OF xlen] a)
  note rd = rd_mem_run [OF this w(1), where 'a = 'a]
  show ?thesis
    using rd l u xlen unfolding a ram_mem_bytes
    by (cases l) (auto simp: run_defs load_defs imm_enc [OF xlen] value_simps ea [OF xlen])
qed

lemma unat_plus_4: "unat w + 8 \<le> RAM_SIZE \<Longrightarrow> unat (w + 4) = unat w + 4" if "LENGTH('a) = 64" for w :: "'a::len word"
  using that by (simp add: unat_word_ariths RAM_SIZE_def)

lemma mem_bytes_8: "mem_bytes a 8 m = mem_bytes a 4 m @ mem_bytes (a + 4) 4 m"
  using upt_add_eq_append [of a "a + 4" 4] by (simp add: mem_bytes_def add.commute)

lemma of_two_words:
  assumes "length A = 4" "length B = 4"
  shows "(ucast (ucast (of_bytes A :: 32 word) OR push_bit 32 (ucast (of_bytes B :: 32 word)) :: 64 word)
     :: 'a::len word) = of_bytes (A @ B)"
proof -
  have "ucast (of_bytes A :: 32 word) OR push_bit 32 (ucast (of_bytes B :: 32 word)) =
      (of_bytes (A @ B) :: 64 word)"
    by (simp add: of_bytes_append ucast_of_bytes_up assms)
  then show ?thesis by (simp add: ucast_of_bytes_up assms)
qed

lemma refine_load_double:
  assumes xlen: "LENGTH('a) = 64" and x0: "hart_x0 s"
    and r: "\<not> RAM_SIZE < unat (rX (abs_hart s) rs1 + scast imm) + 8"
  shows "outcome (run_base (LOAD L_D rd rs1 imm)) (s :: 'a::len hart) False
     (seq_next 4 (wX rd (load_value L_D (ram_bytes (unat (rX (abs_hart s) rs1 + scast imm)) 8 (abs_hart s))) (abs_hart s)))"
proof -
  have xl: "LENGTH('a) = 32 \<or> LENGTH('a) = 64" using xlen by simp
  define m where "m = scast imm + register_bank (regs s) (unat rs1)"
  have a: "rX (abs_hart s) rs1 + scast imm = m"
    by (simp add: rX_bank [OF x0] m_def)
  have 4: "unat (m + 4) = unat m + 4"
    using r a by (intro unat_plus_4 [OF xlen]) simp
  have "in_ram (ucast m) 4" "in_ram (ucast (m + 4)) 4"
    using r by (simp_all add: in_ram_iff ea [OF xl] a 4)
  then have rd: "rd_mem (ucast m) 4 s =
      Inr (of_bytes (mem_bytes (unat m) 4 (main_memory (plat s))),
         s\<lparr>plat := (plat s)\<lparr>uninit_ix := Suc (uninit_ix (plat s))\<rparr>\<rparr>)"
     "rd_mem (ucast (m + 4)) 4 s = Inr (of_bytes (mem_bytes (unat m + 4) 4 (main_memory (plat s))),
         s\<lparr>plat := (plat s)\<lparr>uninit_ix := Suc (uninit_ix (plat s))\<rparr>\<rparr>)" for s :: "'a hart"
    by (simp_all add: rd_mem_run ea [OF xl] of_bytes_copy 4)
  show ?thesis
    unfolding a ram_mem_bytes using xlen
    by (simp add: run_defs load_defs imm_enc [OF xl] rd m_def [symmetric] of_two_words mem_bytes_8)
qed

lemmas store_defs = Exec_SB_def Exec_SH_def Exec_SW_def Exec_SD_def store_addr_def Let_def

lemma refine_store_small:
  assumes xlen: "LENGTH('a) = 32 \<or> LENGTH('a) = 64" and x0: "hart_x0 s" and l: "l \<noteq> S_D"
    and r: "\<not> RAM_SIZE < unat (rX (abs_hart s) rs1 + scast imm) + store_width l"
  shows "outcome (run_base (STORE l rs1 rs2 imm)) (s :: 'a::len hart) False
     (seq_next 4 (ram_write (unat (rX (abs_hart s) rs1 + scast imm)) (le_bytes (store_width l) (rX (abs_hart s) rs2)) (abs_hart s)))"
proof -
  have w: "store_width l \<le> 4" "0 < store_width l" using l by (cases l; simp)+
  have a: "rX (abs_hart s) rs1 + scast imm = scast imm + register_bank (regs s) (unat rs1)"
    by (simp add: rX_bank [OF x0])
  have "in_ram (ucast (scast imm + register_bank (regs s) (unat rs1))) (store_width l)"
    using r w(2) by (simp add: in_ram_iff ea [OF xlen] a)
  note wr = wr_mem_run [OF this w(1), where 'a = 'a]
  show ?thesis
    unfolding a unfolding rX_bank [OF x0] ram_write_abs using wr l xlen
    by (cases l) (auto simp: run_defs store_defs imm_enc [OF xlen] ea [OF xlen] take_le_bytes_same le_bytes_ucast simp del: le_bytes.simps)
qed

lemma refine_store_double:
  assumes xlen: "LENGTH('a) = 64" and x0: "hart_x0 s"
    and r: "\<not> RAM_SIZE < unat (rX (abs_hart s) rs1 + scast imm) + 8"
  shows "outcome (run_base (STORE S_D rs1 rs2 imm)) (s :: 'a::len hart) False
     (seq_next 4 (ram_write (unat (rX (abs_hart s) rs1 + scast imm)) (le_bytes 8 (rX (abs_hart s) rs2)) (abs_hart s)))"
proof -
  have xl: "LENGTH('a) = 32 \<or> LENGTH('a) = 64" using xlen by simp
  define m where "m = scast imm + register_bank (regs s) (unat rs1)"
  define v where "v = register_bank (regs s) (unat rs2)"
  have a: "rX (abs_hart s) rs1 + scast imm = m"
    by (simp add: rX_bank [OF x0] m_def)
  have 4: "unat (m + 4) = unat m + 4"
    using r a by (intro unat_plus_4 [OF xlen]) simp
  have i: "in_ram (ucast m) 4" "in_ram (ucast (m + 4)) 4"
    using r by (simp_all add: in_ram_iff ea [OF xl] a 4)
  have low: "(ucast (ucast v :: 64 word) :: 32 word) = ucast v"
    using xlen by (intro bit_word_eqI) (auto simp: bit_simps)
  have lo: "le_bytes 4 (ucast (ucast v :: 64 word) :: 32 word) = le_bytes 4 v"
    by (simp add: low le_bytes_ucast)
  have "(ucast (drop_bit 32 (ucast v :: 64 word)) :: 32 word) = ucast (drop_bit 32 v)"
    using xlen by (intro bit_word_eqI) (auto simp: bit_simps)
  then have hi: "le_bytes 4 (ucast (drop_bit 32 (ucast v :: 64 word)) :: 32 word) = le_bytes 4 (drop_bit 32 v)"
    by (simp add: le_bytes_ucast)
  have 8: "le_bytes 8 v = le_bytes 4 v @ le_bytes 4 (drop_bit 32 v)"
    using le_bytes_add [of 4 4 v] by simp
  note up = mem_update_append [of "unat m" "le_bytes 4 v" "le_bytes 4 (drop_bit 32 v)", simplified, folded 8]
  show ?thesis
    unfolding a unfolding rX_bank [OF x0] v_def [symmetric] ram_write_abs
    by (simp add: run_defs store_defs imm_enc [OF xl] m_def [symmetric] v_def [symmetric] wr_mem_run i lo hi ea [OF xl] 4 up)
qed

section \<open>All instructions\<close>

lemma run_base_refines:
  assumes xlen: "LENGTH('a) = 32 \<or> LENGTH('a) = 64" and x0: "hart_x0 s"
    and e: "isa_exec ins (abs_hart s) = Some a" and b: "op_of ins \<noteq> OP_ERROR"
  shows "outcome (run_base ins) (s :: 'a::len hart) False a"
proof (cases ins)
  case (LOAD l rd rs1 imm)
  then show ?thesis
    using e xlen x0 refine_load_small [OF xlen x0] refine_load_double [OF _ x0]
    by (cases "l = L_D") (auto simp: isa_exec_def Let_def split: if_splits)
next
  case (STORE st rs1 rs2 imm)
  then show ?thesis
    using e xlen x0 refine_store_small [OF xlen x0] refine_store_double [OF _ x0]
    by (cases "st = S_D") (auto simp: isa_exec_def Let_def split: if_splits)
next
  case (JALR rd rs1 imm)
  then show ?thesis
    using e refine_jalr [OF xlen x0] by (auto simp: isa_exec_def)
next
  case (BRANCH b rs1 rs2 off)
  then show ?thesis
    using e refine_branch [OF xlen x0] by (auto simp: isa_exec_def simp del: branch_taken.simps)
next
  case (MULDIV o' rd rs1 rs2)
  then show ?thesis using b by simp
qed (use e xlen x0 in \<open>auto simp: isa_exec_def refine_lui refine_auipc refine_jal
    refine_op_imm refine_op refine_shift_imm refine_op_imm_w refine_shift_w
    refine_op_w simp del: branch_taken.simps alu.simps shift.simps split: if_splits\<close>)

lemma dispatch_base: "op_of ins \<noteq> OP_ERROR \<Longrightarrow> CPU_dispatch (encode ins) = run_base ins"
  by (simp add: CPU_dispatch_def decode_encode run_base_def Let_def)

lemma op_of_error: "op_of ins = OP_ERROR \<longleftrightarrow> (\<exists>o' rd rs1 rs2. ins = MULDIV o' rd rs1 rs2)"
  by (cases ins) (auto split: enum_splits)

end
