(* ===== verification/M_Correct.thy ===== *)
theory M_Correct
  imports Refinement
begin

text \<open>
  The M extension against the manual: each operation computes \<open>md\<close>, for both register widths.
  The products the code forms in 64 or 128 bits are compared with products of integers; the
  only operands left out are those for which the host traps.
\<close>

section \<open>Decoding\<close>

lemma range_R_low: "sc_range 1 0 (enc_R f7 rs2 rs1 f3 rd op) = take_bit 2 (ucast op)"
  by (simp add: enc_blast)

lemma decode_M:
  "decode (encode (MULDIV o' rd rs1 rs2)) = OP_ERROR"
  "C_decode rv32 (encode (MULDIV o' rd rs1 rs2)) = OP_C_ERROR"
  by (subst decode_encode, simp)
    (simp add: C_decode_def C_opcode_def range_R_low [simplified] Let_def)

fun md_code :: "md_op \<Rightarrow> op_M_Codes" where
  "md_code M_MUL = OP_M_MUL" | "md_code M_MULH = OP_M_MULH" | "md_code M_MULHSU = OP_M_MULHSU"
| "md_code M_MULHU = OP_M_MULHU" | "md_code M_DIV = OP_M_DIV" | "md_code M_DIVU = OP_M_DIVU"
| "md_code M_REM = OP_M_REM" | "md_code M_REMU = OP_M_REMU"

lemma M_decode_M: "M_decode (encode (MULDIV o' rd rs1 rs2)) = md_code o'"
  by (cases o') (simp_all add: M_decode_def M_opcode_def range_enc)

lemma dispatch_M:
  "CPU_dispatch (encode (MULDIV o' rd rs1 rs2)) =
     bnd (M_exec_instruction (encode (MULDIV o' rd rs1 rs2)) (md_code o')) (\<lambda>b.
       bnd (advance inc_pc b) (\<lambda>_. ret False))"
  by (cases o') (simp_all add: CPU_dispatch_def decode_M M_decode_M del: encode.simps)

section \<open>Products\<close>

text \<open>The high half of a product formed at twice the width.\<close>

lemma high_half_32:
  "(ucast (signed_drop_bit 32 (word_of_int k :: 64 word)) :: 32 word) = word_of_int (k div 2 ^ 32)"
  "(ucast (drop_bit 32 (word_of_int k :: 64 word)) :: 32 word) = word_of_int (k div 2 ^ 32)"
  unfolding drop_bit_eq_div [symmetric] by (rule bit_word_eqI; simp add: bit_simps add.commute)+

lemma high_half_64:
  "LENGTH('a) = 64 \<Longrightarrow>
    (ucast (ucast (sc_range 127 64 (word_of_int k :: 128 word)) :: 64 word) :: 'a::len word) =
     word_of_int (k div 2 ^ 64)"
  unfolding drop_bit_eq_div [symmetric]
  by (rule bit_word_eqI) (auto simp: bit_simps bit_sc_range)

lemma products_32:
  "(ucast (signed_drop_bit 32 (scast a * scast b :: 64 word)) :: 32 word) =
     word_of_int (sint a * sint b div 2 ^ 32)"
  "(ucast (signed_drop_bit 32 (scast a * ucast b :: 64 word)) :: 32 word) =
     word_of_int (sint a * uint b div 2 ^ 32)"
  "(ucast (drop_bit 32 (ucast a * ucast b :: 64 word)) :: 32 word) =
     word_of_int (uint a * uint b div 2 ^ 32)"
  for a b :: "'a::len word"
  using high_half_32 [of "sint a * sint b"] high_half_32 [of "sint a * uint b"]
    high_half_32 [of "uint a * uint b"] by simp_all

lemma products_64:
  fixes a b :: "'a::len word"
  assumes "LENGTH('a) = 64"
  shows "(ucast (ucast (sc_range 127 64 (scast a * scast b :: 128 word)) :: 64 word) :: 'a word) =
     word_of_int (sint a * sint b div 2 ^ 64)"
    and "(ucast (ucast (sc_range 127 64 (scast a * ucast b :: 128 word)) :: 64 word) :: 'a word) =
     word_of_int (sint a * uint b div 2 ^ 64)"
    and "(ucast (ucast (sc_range 127 64 (ucast a * ucast b :: 128 word)) :: 64 word) :: 'a word) =
     word_of_int (uint a * uint b div 2 ^ 64)"
  using high_half_64 [OF assms, of "sint a * sint b"] high_half_64 [OF assms, of "sint a * uint b"]
    high_half_64 [OF assms, of "uint a * uint b"] by simp_all

text \<open>Conversions that change nothing.\<close>

lemma scast_id_32:
  "LENGTH('a) = 32 \<Longrightarrow> (scast (word_of_int k :: 32 word) :: 'a::len word) = word_of_int k"
  by (rule bit_word_eqI) (auto simp: bit_simps)

lemma ucast_of_int_64:
  "LENGTH('a) \<le> 64 \<Longrightarrow> (ucast (word_of_int k :: 64 word) :: 'a::len word) = word_of_int k"
  by (rule bit_word_eqI) (auto simp: bit_simps)

lemma ucast_scast_64: "LENGTH('a) \<le> 64 \<Longrightarrow> (ucast (scast a :: 64 word) :: 'a word) = a"
  for a :: "'a::len word"
  using ucast_of_int_64 [of "sint a", where 'a = 'a] by simp

lemma ucast_ucast_64: "LENGTH('a) \<le> 64 \<Longrightarrow> (ucast (ucast a :: 64 word) :: 'a word) = a"
  for a :: "'a::len word"
  by (rule bit_word_eqI) (auto simp: bit_simps)

lemma via_32:
  fixes a :: "'a::len word"
  assumes "LENGTH('a) = 32"
  shows "sint (ucast a :: 32 word) = sint a" "uint (ucast a :: 32 word) = uint a"
proof -
  show u: "uint (ucast a :: 32 word) = uint a"
    using assms uint_bounded [of a] by (simp add: unsigned_ucast_eq take_bit_int_eq_self)
  show "sint (ucast a :: 32 word) = sint a"
    using assms by (simp add: sint_uint u)
qed

section \<open>Operations\<close>

lemmas Exec_M_spec_defs = Exec_M_MUL_def Exec_M_MULH_def Exec_M_MULHSU_def Exec_M_MULHU_def
  Exec_M_MULH_32_def Exec_M_MULHSU_32_def Exec_M_MULHU_32_def
  Exec_M_MULH_64_def Exec_M_MULHSU_64_def Exec_M_MULHU_64_def
  Exec_M_DIV_def Exec_M_DIVU_def Exec_M_REM_def Exec_M_REMU_def c_div_def c_mod_def

lemma refine_M_high_32:
  assumes xlen: "LENGTH('a) = 32" and x0: "hart_x0 s" and k: "k \<in> {M_MULH, M_MULHSU, M_MULHU}"
  shows "outcome (CPU_dispatch (encode (MULDIV k rd rs1 rs2))) (s :: 'a::len hart) False
    (seq_next 4 (wX rd (md k (rX (abs_hart s) rs1) (rX (abs_hart s) rs2)) (abs_hart s)))"
  using k xlen unfolding rX_bank [OF x0] dispatch_M
  by (auto simp: run_defs M_exec_instruction_def Exec_M_spec_defs Let_def products_32 scast_id_32 via_32)

lemma refine_M_high_64:
  assumes xlen: "LENGTH('a) = 64" and x0: "hart_x0 s" and k: "k \<in> {M_MULH, M_MULHSU, M_MULHU}"
  shows "outcome (CPU_dispatch (encode (MULDIV k rd rs1 rs2))) (s :: 'a::len hart) False
    (seq_next 4 (wX rd (md k (rX (abs_hart s) rs1) (rX (abs_hart s) rs2)) (abs_hart s)))"
  using k xlen unfolding rX_bank [OF x0] dispatch_M
  by (auto simp: run_defs M_exec_instruction_def Exec_M_spec_defs Let_def products_64)

lemma sdiv_minus_1: "x sdiv - 1 = - x" "x smod - 1 = 0" "x smod 1 = 0" for x :: int
  by (simp_all add: signed_divide_int_def signed_modulo_int_def sgn_if)

text \<open>The values \<open>Exec_M_DIV\<close> and \<open>Exec_M_REM\<close> write, where the host does not trap.\<close>

lemma div_value:
  fixes a b :: "'a::len word"
  assumes xlen: "LENGTH('a) = 32 \<or> LENGTH('a) = 64"
    and h: "\<not> (LENGTH('a) = 64 \<and> sint a = - (2 ^ 63) \<and> b = - 1)"
  shows "\<exists>v. (\<forall>s :: 's. (if b = 0 then ret (- 1)
       else if b = - 1 \<and> sint a = sint (0x80000000 :: 32 word) then ret 0x0000000080000000
       else bnd (c_div a b) (\<lambda>q. ret (scast q :: 64 word))) s = Inr (v, s)) \<and> ucast v = md M_DIV a b"
proof -
  consider "b = 0" | "b = - 1" "sint a = - (2 ^ 31)" | "b \<noteq> 0" "\<not> (b = - 1 \<and> sint a = - (2 ^ 31))"
    by blast
  then show ?thesis
  proof cases
    case 1
    then show ?thesis using ucast_of_int_64 [of "- 1", where 'a = 'a] xlen by auto
  next
    case 2
    then show ?thesis using xlen by (auto simp: sdiv_minus_1)
  next
    case 3
    then have "\<not> (b = - 1 \<and> sint a = - (2 ^ (LENGTH('a) - 1)))" using xlen h by auto
    then have "c_div a b s = Inr (word_of_int (sint a sdiv sint b), s)" for s :: 's
      by (auto simp: c_div_def)
    then show ?thesis
      using 3 xlen ucast_scast_64 [of "word_of_int (sint a sdiv sint b) :: 'a word"]
      by (auto simp: bnd_run)
  qed
qed

lemma rem_value:
  fixes a b :: "'a::len word"
  assumes xlen: "LENGTH('a) = 32 \<or> LENGTH('a) = 64"
    and h: "\<not> (LENGTH('a) = 64 \<and> sint a = - (2 ^ 63) \<and> b = - 1)"
  shows "(if b = 0 then ret a
       else if b = - 1 \<and> sint a = sint (0x80000000 :: 32 word) then ret 0
       else c_mod a b) s = Inr (md M_REM a b, s)"
  using xlen h by (auto simp: c_mod_def sdiv_minus_1)

lemma refine_M_DIV:
  assumes xlen: "LENGTH('a) = 32 \<or> LENGTH('a) = 64" and x0: "hart_x0 s"
    and h: "\<not> host_traps (MULDIV M_DIV rd rs1 rs2) (abs_hart s)"
  shows "outcome (CPU_dispatch (encode (MULDIV M_DIV rd rs1 rs2))) (s :: 'a::len hart) False
    (seq_next 4 (wX rd (md M_DIV (rX (abs_hart s) rs1) (rX (abs_hart s) rs2)) (abs_hart s)))"
proof -
  let ?a = "rX (abs_hart s) rs1" and ?b = "rX (abs_hart s) rs2"
  obtain v where v: "\<And>s. (if ?b = 0 then ret (- 1)
       else if ?b = - 1 \<and> sint ?a = sint (0x80000000 :: 32 word) then ret 0x0000000080000000
       else bnd (c_div ?a ?b) (\<lambda>q. ret (scast q :: 64 word))) s = Inr (v, s :: 'a hart)"
    "ucast v = md M_DIV ?a ?b"
    using div_value [OF xlen, of ?a ?b] h by auto
  show ?thesis
    unfolding dispatch_M v(2) [symmetric] using v(1) unfolding rX_bank [OF x0]
    by (simp add: run_defs M_exec_instruction_def Exec_M_DIV_def Let_def)
qed

lemma refine_M_REM:
  assumes xlen: "LENGTH('a) = 32 \<or> LENGTH('a) = 64" and x0: "hart_x0 s"
    and h: "\<not> host_traps (MULDIV M_REM rd rs1 rs2) (abs_hart s)"
  shows "outcome (CPU_dispatch (encode (MULDIV M_REM rd rs1 rs2))) (s :: 'a::len hart) False
    (seq_next 4 (wX rd (md M_REM (rX (abs_hart s) rs1) (rX (abs_hart s) rs2)) (abs_hart s)))"
proof -
  let ?a = "rX (abs_hart s) rs1" and ?b = "rX (abs_hart s) rs2"
  have "\<not> (LENGTH('a) = 64 \<and> sint ?a = - (2 ^ 63) \<and> ?b = - 1)" using h by auto
  then have v: "(if ?b = 0 then ret ?a
       else if ?b = - 1 \<and> sint ?a = sint (0x80000000 :: 32 word) then ret 0
       else c_mod ?a ?b) s = Inr (md M_REM ?a ?b, s)" for s :: "'a hart"
    by (rule rem_value [OF xlen])
  define w where "w = md M_REM ?a ?b"
  show ?thesis
    unfolding dispatch_M w_def [symmetric] using v [folded w_def] unfolding rX_bank [OF x0]
    by (simp add: run_defs M_exec_instruction_def Exec_M_REM_def Let_def)
qed

lemma refine_M_rest:
  assumes xlen: "LENGTH('a) = 32 \<or> LENGTH('a) = 64" and x0: "hart_x0 s"
    and k: "k \<in> {M_MUL, M_DIVU, M_REMU}"
  shows "outcome (CPU_dispatch (encode (MULDIV k rd rs1 rs2))) (s :: 'a::len hart) False
    (seq_next 4 (wX rd (md k (rX (abs_hart s) rs1) (rX (abs_hart s) rs2)) (abs_hart s)))"
proof -
  have l: "LENGTH('a) \<le> 64" using xlen by auto
  note u = ucast_scast_64 [OF l] ucast_ucast_64 [OF l] ucast_of_int_64 [OF l, of "- 1", simplified]
  show ?thesis
  using k unfolding rX_bank [OF x0] dispatch_M
  by (auto simp: run_defs M_exec_instruction_def Exec_M_spec_defs Let_def u word_div_def word_mod_def)
qed

section \<open>All instructions\<close>

text \<open>With this the dispatch of the processor refines \<open>isa_exec\<close> on every instruction.\<close>

lemma dispatch_refines:
  assumes xlen: "LENGTH('a) = 32 \<or> LENGTH('a) = 64" and x0: "hart_x0 s"
    and e: "isa_exec ins (abs_hart s) = Some a"
  shows "outcome (CPU_dispatch (encode ins)) (s :: 'a::len hart) False a"
proof (cases "op_of ins = OP_ERROR")
  case True
  then obtain k rd rs1 rs2 where ins: "ins = MULDIV k rd rs1 rs2" by (auto simp: op_of_error)
  then have a: "a = seq_next 4 (wX rd (md k (rX (abs_hart s) rs1) (rX (abs_hart s) rs2)) (abs_hart s))"
    and h: "\<not> host_traps (MULDIV k rd rs1 rs2) (abs_hart s)"
    using e by (simp_all add: isa_exec_def del: md.simps host_traps.simps split: if_splits)
  show ?thesis
    unfolding ins a using xlen
    by (cases k) (use h in \<open>auto simp del: md.simps encode.simps host_traps.simps
        intro: refine_M_rest [OF xlen x0] refine_M_DIV [OF xlen x0] refine_M_REM [OF xlen x0]
          refine_M_high_32 [OF _ x0] refine_M_high_64 [OF _ x0]\<close>)
next
  case False
  then show ?thesis using run_base_refines [OF xlen x0 e] by (simp add: dispatch_base)
qed

section \<open>Where the code differs from the manual\<close>

lemma host_trap:
  fixes s :: "'a::len hart"
  assumes x0: "hart_x0 s" and k: "k = M_DIV \<or> k = M_REM"
    and h: "host_traps (MULDIV k rd rs1 rs2) (abs_hart s)"
  shows "CPU_dispatch (encode (MULDIV k rd rs1 rs2)) s = Inl Division_overflow"
  using k h unfolding dispatch_M
  by (auto simp: rX_bank [OF x0] exec_simps M_exec_instruction_def Exec_M_DIV_def Exec_M_REM_def
      c_div_def c_mod_def Let_def)

end
