(* ===== verification/M_Word.thy ===== *)
theory M_Word
  imports M_Correct
begin

text \<open>
  The word operations RV64 adds to the M extension, against the manual, and the operands for
  which the quotient of the code is another one.
\<close>

fun mdw_code :: "mdw_op \<Rightarrow> op_M_Codes" where
  "mdw_code MW_MUL = OP_M_MULW" | "mdw_code MW_DIV = OP_M_DIVW" | "mdw_code MW_DIVU = OP_M_DIVUW"
| "mdw_code MW_REM = OP_M_REMW" | "mdw_code MW_REMU = OP_M_REMUW"

lemma fields_mdw [simp]:
  "get_rd (enc_mdw k rd rs1 rs2) = unat rd" "get_rs1 (enc_mdw k rd rs1 rs2) = unat rs1"
  "get_rs2 (enc_mdw k rd rs1 rs2) = unat rs2"
  by (simp_all add: enc_mdw_def)

lemma dispatch_mdw:
  "CPU_dispatch (enc_mdw k rd rs1 rs2) =
     bnd (M_exec_instruction (enc_mdw k rd rs1 rs2) (mdw_code k)) (\<lambda>b.
       bnd (advance inc_pc b) (\<lambda>_. ret False))"
proof -
  have "decode (enc_mdw k rd rs1 rs2) = OP_ERROR"
    by (cases k) (simp_all add: decode_defs field_defs range_enc enc_mdw_def)
  moreover have "C_decode b (enc_mdw k rd rs1 rs2) = OP_C_ERROR" for b
    by (simp add: C_decode_def C_opcode_def range_R_low [simplified] Let_def enc_mdw_def)
  moreover have "M_decode (enc_mdw k rd rs1 rs2) = mdw_code k"
    by (cases k) (simp_all add: M_decode_def M_opcode_def range_enc enc_mdw_def)
  moreover have "mdw_code k \<noteq> OP_M_ERROR" by (cases k) simp_all
  ultimately show ?thesis by (simp add: CPU_dispatch_def)
qed

lemma low_word_eq: "low_word v = ucast v"
  by (simp add: low_word_def)

lemma min_32: "x = 0x80000000 \<longleftrightarrow> sint x = - (2 ^ 31)" for x :: "32 word"
proof
  assume "sint x = - (2 ^ 31)"
  then have "sint x = sint (0x80000000 :: 32 word)" by simp
  then show "x = 0x80000000" by (rule signed_word_eqI)
qed simp

lemma word_result:
  "LENGTH('a) = 64 \<Longrightarrow> (ucast (scast v :: 64 word) :: 'a::len word) = scast v" for v :: "32 word"
  by (rule ucast_scast_same) simp

lemmas mdw_run_defs = run_defs M_exec_instruction_def Exec_M_MULW_def Exec_M_DIVW_def
  Exec_M_DIVUW_def Exec_M_REMW_def Exec_M_REMUW_def c_div_def c_mod_def low_word_eq on_words_def
  Let_def

lemma refine_mdw:
  fixes s :: "'a::len hart"
  assumes x0: "hart_x0 s" and e: "mdw_exec k rd rs1 rs2 (abs_hart s) = Some a"
  shows "outcome (CPU_dispatch (enc_mdw k rd rs1 rs2)) s False a"
proof -
  have xlen: "LENGTH('a) = 64" and d: "\<not> mdw_differs k (ucast (rX (abs_hart s) rs1)) (ucast (rX (abs_hart s) rs2))"
    and a: "a = seq_next 4 (wX rd (on_words (md (mdw_md k)) (rX (abs_hart s) rs1) (rX (abs_hart s) rs2)) (abs_hart s))"
    using e by (auto simp: mdw_exec_def split: if_splits)
  have m: "(ucast (- 1 :: 64 word) :: 'a word) = - 1" using ucast_of_int_64 [of "- 1", where 'a = 'a] xlen by simp
  have n: "w AND 0xFFFFFFFF = w" for w :: "32 word"
    by (rule bit_word_eqI) (auto simp: bit_blast dest: bit_imp_le_length)
  show ?thesis
    unfolding a dispatch_mdw using d unfolding rX_bank [OF x0]
    by (cases k) (auto simp: mdw_run_defs mdw_differs_def word_result [OF xlen] m n min_32 sdiv_minus_1
        word_div_def word_mod_def)
qed

section \<open>Where the code differs from the manual\<close>

text \<open>
  The manual's quotients are \<open>- 2 ^ 31\<close>, extended, and 0. The code writes \<open>2 ^ 31\<close> for both.
\<close>

lemma mdw_wrong_quotient:
  fixes s :: "'a::len hart"
  assumes x0: "hart_x0 s" and xlen: "LENGTH('a) = 64"
    and d: "mdw_differs k (ucast (rX (abs_hart s) rs1)) (ucast (rX (abs_hart s) rs2))"
  shows "outcome (CPU_dispatch (enc_mdw k rd rs1 rs2)) s False
      (seq_next 4 (wX rd 0x80000000 (abs_hart s)))"
  using d xlen unfolding dispatch_mdw rX_bank [OF x0]
  by (auto simp: mdw_run_defs mdw_differs_def)

lemma manual_quotient:
  "mdw_differs k x y \<Longrightarrow> md (mdw_md k) x y = (if k = MW_DIV then 0x80000000 else 0)"
  by (auto simp: mdw_differs_def sdiv_minus_1 word_div_def unsigned_minus_1_eq_mask mask_eq_exp_minus_1)

end
