(* ===== verification/C_Encoding.thy ===== *)
theory C_Encoding
  imports M_Correct C_Spec
begin

text \<open>
  The decoder of the compressed set against the encodings of the manual: it names the instruction
  that was encoded, whatever the upper half of the fetched word holds, and the getters return its
  registers and immediates.
\<close>

section \<open>Decoding\<close>

lemma low_bits: "sc_range 1 0 i = take_bit 2 (sc_range 6 0 i)" for i :: "32 word"
  by (rule bit_word_eqI) (auto simp: bit_blast)

lemma decode_compressed: "sc_range 1 0 i \<noteq> 3 \<Longrightarrow> decode i = OP_ERROR" for i :: "32 word"
  unfolding low_bits by (auto simp: decode_def opcode_def Let_def)

definition mid_ok :: "32 word \<Rightarrow> bool" where
  "mid_ok mid \<longleftrightarrow> (\<forall>n. bit mid n \<longrightarrow> 2 \<le> n \<and> n < 13)"

lemma mid_okI:
  "mid_ok (mid_CI rd imm6)" "mid_ok (mid_CR b rd rs2)" "mid_ok (mid_CB f2 q imm6)"
  "mid_ok (mid_CA b q g2 q')" "mid_ok (mid_W q q' imm5)" "mid_ok (mid_D q q' imm5)"
  "mid_ok (mid_CIW q imm8)" "mid_ok (mid_16SP imm6)" "mid_ok (mid_CJ off)"
  "mid_ok (mid_CBZ q imm8)" "mid_ok (mid_LWSP rd imm6)" "mid_ok (mid_LDSP rd imm6)"
  "mid_ok (mid_SWSP rd imm6)" "mid_ok (mid_SDSP rd imm6)"
  by (auto simp: mid_ok_def mid_defs bit_blast dest!: bit_imp_le_length)

lemma cenc_low:
  assumes "mid_ok mid"
  shows "sc_range 1 0 (cenc hi f3 op mid) = ucast op"
    and "sc_range 15 13 (cenc hi f3 op mid) = ucast f3"
    and "2 \<le> l \<Longrightarrow> h < 13 \<Longrightarrow> sc_range h l (cenc hi f3 op mid) = sc_range h l mid"
    and "2 \<le> k \<Longrightarrow> k < 13 \<Longrightarrow> sc_bit k (cenc hi f3 op mid) = sc_bit k mid"
proof -
  note b = assms [unfolded mid_ok_def, rule_format]
  show "sc_range 1 0 (cenc hi f3 op mid) = ucast op" 
    by (rule bit_word_eqI) (auto simp: cenc_def bit_blast dest: b bit_imp_le_length)
  show "sc_range 15 13 (cenc hi f3 op mid) = ucast f3"
    by (rule bit_word_eqI) (auto simp: cenc_def bit_blast dest: b bit_imp_le_length)
  show "sc_range h l (cenc hi f3 op mid) = sc_range h l mid" if "2 \<le> l" "h < 13"
    using that by (intro bit_word_eqI) (auto simp: cenc_def bit_blast dest: b bit_imp_le_length)
  show "sc_bit k (cenc hi f3 op mid) = sc_bit k mid" if "2 \<le> k" "k < 13"
    using that by (intro bit_word_eqI) (auto simp: cenc_def bit_blast dest: b bit_imp_le_length)
qed

lemmas cenc_fields = mid_okI [THEN cenc_low(1)] mid_okI [THEN cenc_low(2)]
  mid_okI [THEN cenc_low(1), simplified]
  mid_okI [THEN cenc_low(3)] mid_okI [THEN cenc_low(4)]

section \<open>Fields\<close>

lemmas mid_blast = word_bitwise_eq mid_defs bit_blast not_bit_beyond
  numeral_2_eq_2 [symmetric] numeral_3_eq_3 [symmetric]

lemma mid_ranges:
  "sc_range 11 7 (mid_CI rd imm6) = ucast rd"
  "sc_range 11 7 (mid_CR b rd rs2) = ucast rd"
  "sc_range 6 2 (mid_CR b rd rs2) = ucast rs2"
  "sc_range 11 10 (mid_CB f2 q imm6) = ucast f2"
  "sc_range 9 7 (mid_CB f2 q imm6) = ucast q"
  "sc_range 11 10 (mid_CA b q g2 q') = 3"
  "sc_range 9 7 (mid_CA b q g2 q') = ucast q"
  "sc_range 6 5 (mid_CA b q g2 q') = ucast g2"
  "sc_range 4 2 (mid_CA b q g2 q') = ucast q'"
  "sc_range 9 7 (mid_W q q' imm5) = ucast q"
  "sc_range 4 2 (mid_W q q' imm5) = ucast q'"
  "sc_range 9 7 (mid_D q q' imm5) = ucast q"
  "sc_range 4 2 (mid_D q q' imm5) = ucast q'"
  "sc_range 4 2 (mid_CIW q imm8) = ucast q"
  "sc_range 11 7 (mid_16SP imm6) = 2"
  "sc_range 9 7 (mid_CBZ q imm8) = ucast q"
  "sc_range 11 7 (mid_LWSP rd imm6) = ucast rd"
  "sc_range 11 7 (mid_LDSP rd imm6) = ucast rd"
  "sc_range 6 2 (mid_SWSP rd imm6) = ucast rd"
  "sc_range 6 2 (mid_SDSP rd imm6) = ucast rd"
  by (simp_all add: mid_blast)

lemma mid_bits:
  "sc_bit 12 (mid_CR b rd rs2) = ucast b"
  "sc_bit 12 (mid_CA b q g2 q') = ucast b"
  by (simp_all add: mid_blast)

lemma regp_less: "unat q < 8" for q :: regp
proof -
  have "unat q < 2 ^ LENGTH(3)" by (rule unsigned_less)
  then show ?thesis by simp
qed

lemma unat_rp: "unat (rp q) = unat q + 8"
proof -
  have "unat (ucast q :: regno) + unat (8 :: regno) < 2 ^ LENGTH(5)"
    using regp_less [of q] by (simp add: unsigned_ucast_eq take_bit_nat_eq_self)
  then have "unat (rp q) = unat (ucast q :: regno) + unat (8 :: regno)"
    unfolding rp_def by (simp only: unat_add_lem)
  then show ?thesis
    using regp_less [of q] by (simp add: unsigned_ucast_eq take_bit_nat_eq_self)
qed

lemma unat_regp [simp]: "unat (ucast q :: 32 word) = unat q" for q :: regp
  using regp_less [of q] by (simp add: unsigned_ucast_eq take_bit_nat_eq_self)

lemma c_fields [simp]:
  "get_rd (cenc hi f3 op (mid_CI rd imm6)) = unat rd"
  "C_get_rs1 (cenc hi f3 op (mid_CI rd imm6)) = unat rd"
  "get_rd (cenc hi f3 op (mid_CR b rd rs2)) = unat rd"
  "C_get_rs1 (cenc hi f3 op (mid_CR b rd rs2)) = unat rd"
  "C_get_rs2 (cenc hi f3 op (mid_CR b rd rs2)) = unat rs2"
  "get_rs1p (cenc hi f3 op (mid_CB f2 q imm6)) = unat (rp q)"
  "get_rs1p (cenc hi f3 op (mid_CA b q g2 q')) = unat (rp q)"
  "get_rs2p (cenc hi f3 op (mid_CA b q g2 q')) = unat (rp q')"
  "get_rs1p (cenc hi f3 op (mid_W q q' imm5)) = unat (rp q)"
  "get_rs2p (cenc hi f3 op (mid_W q q' imm5)) = unat (rp q')"
  "get_rdp (cenc hi f3 op (mid_W q q' imm5)) = unat (rp q')"
  "get_rs1p (cenc hi f3 op (mid_D q q' imm5)) = unat (rp q)"
  "get_rs2p (cenc hi f3 op (mid_D q q' imm5)) = unat (rp q')"
  "get_rdp (cenc hi f3 op (mid_D q q' imm5)) = unat (rp q')"
  "get_rdp (cenc hi f3 op (mid_CIW q imm8)) = unat (rp q)"
  "get_rd (cenc hi f3 op (mid_16SP imm6)) = 2"
  "get_rs1p (cenc hi f3 op (mid_CBZ q imm8)) = unat (rp q)"
  "get_rd (cenc hi f3 op (mid_LWSP rd imm6)) = unat rd"
  "get_rd (cenc hi f3 op (mid_LDSP rd imm6)) = unat rd"
  "C_get_rs2 (cenc hi f3 op (mid_SWSP rd imm6)) = unat rd"
  "C_get_rs2 (cenc hi f3 op (mid_SDSP rd imm6)) = unat rd"
  by (simp_all add: C_field_defs field_defs cenc_fields mid_ranges unat_rp)

section \<open>Immediates\<close>

lemmas c_imm_defs = C_get_imm_J_def get_imm_L_def get_imm_LWSP_def get_imm_LDSP_def
  get_imm_ADDI_def get_imm_ADDI4SPN_def get_imm_ADDI16SP_def get_imm_CSS_def get_imm_CSDSP_def
  get_imm_CB_def get_imm_CL_def get_imm_LUI_def sc_bit_eq Let_def

lemma c_imm_u:
  "get_imm_L (cenc hi f3 op (mid_W q q' imm5)) = push_bit 2 (ucast imm5)"
  "get_imm_CL (cenc hi f3 op (mid_D q q' imm5)) = push_bit 3 (ucast imm5)"
  "get_imm_ADDI4SPN (cenc hi f3 op (mid_CIW q imm8)) = push_bit 2 (ucast imm8)"
  "get_imm_LWSP (cenc hi f3 op (mid_LWSP rd imm6)) = push_bit 2 (ucast imm6)"
  "get_imm_LDSP (cenc hi f3 op (mid_LDSP rd imm6)) = push_bit 3 (ucast imm6)"
  "get_imm_CSS (cenc hi f3 op (mid_SWSP rd imm6)) = push_bit 2 (ucast imm6)"
  "get_imm_CSDSP (cenc hi f3 op (mid_SDSP rd imm6)) = push_bit 3 (ucast imm6)"
  by (simp_all add: c_imm_defs cenc_fields del: push_bit_numeral push_bit_Suc, simp_all add: mid_blast del: push_bit_numeral push_bit_Suc)

lemma c_imm_s:
  "get_imm_ADDI (cenc hi f3 op (mid_CI rd imm6)) = scast imm6"
  "get_imm_ADDI (cenc hi f3 op (mid_CB f2 q imm6)) = scast imm6"
  "get_imm_LUI (cenc hi f3 op (mid_CI rd imm6)) = push_bit 12 (scast imm6)"
  "get_imm_ADDI16SP (cenc hi f3 op (mid_16SP imm6)) = push_bit 4 (scast imm6)"
  by (simp_all add: c_imm_defs cenc_fields del: push_bit_numeral push_bit_Suc;
      cases "bit imm6 5"; simp add: mid_blast del: push_bit_numeral push_bit_Suc)+

lemma c_imm_j: "C_get_imm_J (cenc hi f3 op (mid_CJ off)) = push_bit 1 (scast off)"
  by (simp add: c_imm_defs cenc_fields del: push_bit_numeral push_bit_Suc;
      cases "bit off 10"; simp add: mid_blast del: push_bit_numeral push_bit_Suc)

lemma c_imm_b: "get_imm_CB (cenc hi f3 op (mid_CBZ q off)) = push_bit 1 (scast off)"
  by (simp add: c_imm_defs cenc_fields del: push_bit_numeral push_bit_Suc;
      cases "bit off 7"; simp add: mid_blast del: push_bit_numeral push_bit_Suc)

section \<open>Decoding of every instruction\<close>

fun c_op_of :: "cinsn \<Rightarrow> op_C_Codes" where
  "c_op_of (C_ADDI4SPN _ _) = OP_C_ADDI4SPN"
| "c_op_of (C_LW _ _ _) = OP_C_LW"
| "c_op_of (C_SW _ _ _) = OP_C_SW"
| "c_op_of (C_LD _ _ _) = OP_C_LD"
| "c_op_of (C_SD _ _ _) = OP_C_SD"
| "c_op_of (C_ADDI _ _) = OP_C_ADDI"
| "c_op_of (C_JAL _) = OP_C_JAL"
| "c_op_of (C_ADDIW _ _) = OP_C_ADDIW"
| "c_op_of (C_LI _ _) = OP_C_LI"
| "c_op_of (C_ADDI16SP _) = OP_C_ADDI16SP"
| "c_op_of (C_LUI _ _) = OP_C_ADDI16SP"
| "c_op_of (C_SRLI _ _) = OP_C_SRLI"
| "c_op_of (C_SRAI _ _) = OP_C_SRAI"
| "c_op_of (C_ANDI _ _) = OP_C_ANDI"
| "c_op_of (C_ALU k _ _) =
     (case k of CA_SUB \<Rightarrow> OP_C_SUB | CA_XOR \<Rightarrow> OP_C_XOR | CA_OR \<Rightarrow> OP_C_OR | CA_AND \<Rightarrow> OP_C_AND)"
| "c_op_of (C_SUBW _ _) = OP_C_SUBW"
| "c_op_of (C_ADDW _ _) = OP_C_ADDW"
| "c_op_of (C_J _) = OP_C_J"
| "c_op_of (C_BEQZ _ _) = OP_C_BEQZ"
| "c_op_of (C_BNEZ _ _) = OP_C_BNEZ"
| "c_op_of (C_SLLI _ _) = OP_C_SLLI"
| "c_op_of (C_LWSP _ _) = OP_C_LWSP"
| "c_op_of (C_LDSP _ _) = OP_C_LDSP"
| "c_op_of (C_JR _) = OP_C_JR"
| "c_op_of (C_MV _ _) = OP_C_MV"
| "c_op_of (C_JALR _) = OP_C_JALR"
| "c_op_of (C_ADD _ _) = OP_C_ADD"
| "c_op_of (C_SWSP _ _) = OP_C_SWSP"
| "c_op_of (C_SDSP _ _) = OP_C_SDSP"

lemma regno_zero [simp]: "(ucast r :: 32 word) = 0 \<longleftrightarrow> r = 0" for r :: regno
  by (metis unat_regno unat_eq_zero)

lemma mid_CR_low: "sc_range 11 2 (mid_CR b rd rs2) = 0 \<longleftrightarrow> rd = 0 \<and> rs2 = 0"
proof
  assume z: "sc_range 11 2 (mid_CR b rd rs2) = 0"
  have "bit rd n \<longleftrightarrow> bit (sc_range 11 2 (mid_CR b rd rs2)) (n + 5)" if "n < 5" for n
    using that by (auto simp: mid_defs bit_blast dest: bit_imp_le_length)
  moreover have "bit rs2 n \<longleftrightarrow> bit (sc_range 11 2 (mid_CR b rd rs2)) n" if "n < 5" for n
    using that by (auto simp: mid_defs bit_blast dest: bit_imp_le_length)
  ultimately show "rd = 0 \<and> rs2 = 0"
    unfolding z by (auto intro!: bit_word_eqI)
next
  assume "rd = 0 \<and> rs2 = 0"
  then show "sc_range 11 2 (mid_CR b rd rs2) = 0"
    by (intro bit_word_eqI) (auto simp: mid_defs bit_blast)
qed

lemma c_decode_encode:
  assumes "has_cinsn xlen ci" "xlen = 32 \<or> xlen = 64"
  shows "C_decode (xlen = 32) (c_encode hi ci) = c_op_of ci"
  using assms
  by (cases ci) (auto simp: C_decode_defs C_opcode_def C_get_funct3_def cenc_fields mid_ranges
      mid_bits mid_CR_low Let_def split: calu.split)

section \<open>Conversions\<close>

lemma c_conv_s:
  fixes i :: "6 word"
  assumes "LENGTH('a) = 32 \<or> LENGTH('a) = 64"
  shows "(scast (scast i :: 32 word) :: 'a::len word) = scast i"
    and "(scast (scast i :: 12 word) :: 'a word) = scast i"
    and "(scast (push_bit 4 (scast i :: 32 word)) :: 'a word) = push_bit 4 (scast i)"
    and "(scast (push_bit 4 (scast i :: 12 word)) :: 'a word) = push_bit 4 (scast i)"
    and "(scast (push_bit 12 (scast i :: 32 word)) :: 'a word) = push_bit 12 (scast i)"
    and "(scast (field 12 (scast i :: 20 word)) :: 'a word) = push_bit 12 (scast i)"
  using assms by (intro bit_word_eqI; auto simp: bit_blast bit_simps min_def simp del: push_bit_Suc dest: bit_imp_le_length split: if_splits)+

lemma c_conv_8:
  fixes i :: "8 word"
  assumes "LENGTH('a) = 32 \<or> LENGTH('a) = 64"
  shows "(scast (push_bit 1 (scast i :: 32 word)) :: 'a::len word) = push_bit 1 (scast i)"
    and "(scast (scast i :: 12 word) :: 'a word) = scast i"
    and "(ucast (push_bit 2 (ucast i :: 32 word)) :: 'a word) = push_bit 2 (ucast i)"
    and "(scast (push_bit 2 (ucast i :: 12 word)) :: 'a word) = push_bit 2 (ucast i)"
  using assms by (intro bit_word_eqI; auto simp: bit_blast bit_simps min_def simp del: push_bit_Suc dest: bit_imp_le_length split: if_splits)+

lemma c_conv_u:
  fixes i :: "'b::len word"
  assumes "LENGTH('a) = 32 \<or> LENGTH('a) = 64" "LENGTH('b) < 8"
  shows "(ucast (push_bit 2 (ucast i :: 32 word)) :: 'a::len word) = push_bit 2 (ucast i)"
    and "(ucast (push_bit 3 (ucast i :: 32 word)) :: 'a::len word) = push_bit 3 (ucast i)"
    and "(scast (push_bit 2 (ucast i :: 32 word)) :: 'a word) = push_bit 2 (ucast i)"
    and "(scast (push_bit 3 (ucast i :: 32 word)) :: 'a word) = push_bit 3 (ucast i)"
    and "(scast (push_bit 2 (ucast i :: 12 word)) :: 'a word) = push_bit 2 (ucast i)"
    and "(scast (push_bit 3 (ucast i :: 12 word)) :: 'a word) = push_bit 3 (ucast i)"
  using assms by (intro bit_word_eqI; auto simp: bit_blast bit_simps min_def simp del: push_bit_Suc dest: bit_imp_le_length split: if_splits)+

lemma c_conv_j:
  fixes off :: "11 word"
  assumes "LENGTH('a) = 32 \<or> LENGTH('a) = 64"
  shows "(scast (scast off :: 20 word) :: 'a::len word) = scast off"
  using assms by (intro bit_word_eqI; auto simp: bit_blast bit_simps min_def simp del: push_bit_Suc dest: bit_imp_le_length split: if_splits)+

end
