(* ===== verification/C_Compute.thy ===== *)
theory C_Compute
  imports C_Encoding
begin

text \<open>
  Compressed instructions that compute or jump: what the code does is what the manual says of the
  instruction abbreviated, with the program counter advancing by 2.
\<close>

section \<open>Execution\<close>

definition run_c :: "16 word \<Rightarrow> cinsn \<Rightarrow> ('a::len hart, bool) exec" where
  "run_c hi ci = bnd (C_exec_instruction (c_encode hi ci) (c_op_of ci)) (\<lambda>(b, breakpoint).
     bnd (advance inc_pc_by2 b) (\<lambda>_. ret breakpoint))"

lemma c_low: "sc_range 1 0 (c_encode hi ci) \<noteq> 3"
  by (cases ci) (simp_all add: cenc_fields)

lemma c_op_of_ok: "c_op_of ci \<noteq> OP_C_ERROR"
  by (cases ci) (auto split: calu.split)

lemma dispatch_C:
  assumes "LENGTH('a) = 32 \<or> LENGTH('a) = 64" "has_cinsn LENGTH('a) ci"
  shows "CPU_dispatch (c_encode hi ci) = (run_c hi ci :: ('a::len hart, bool) exec)"
  using c_decode_encode [OF assms(2,1), of hi] c_op_of_ok [of ci]
  by (simp add: CPU_dispatch_def decode_compressed [OF c_low] run_c_def del: c_encode.simps)

lemmas run_c_defs = run_c_def C_exec_instruction_def C_always_def advance_def exec_simps
  outcome_defs isa_simps

lemma refine_c_alu:
  assumes xlen: "LENGTH('a) = 32 \<or> LENGTH('a) = 64" and x0: "hart_x0 s"
  shows "outcome (run_c hi (C_ALU k q q')) (s :: 'a::len hart) False
     (seq_next 2 (wX (rp q) (alu (calu_op k) (rX (abs_hart s) (rp q)) (rX (abs_hart s) (rp q'))) (abs_hart s)))"
  unfolding rX_bank [OF x0]
  by (cases k) (simp_all add: run_c_defs Exec_C_defs Let_def)

lemma rp_nonzero [simp]: "rp q \<noteq> 0"
proof
  assume "rp q = 0"
  then have "unat (rp q) = 0" by simp
  then show False by (simp add: unat_rp)
qed

lemmas c_immediates = c_imm_u c_imm_s c_imm_j c_imm_b

lemma refine_c_addi4spn:
  assumes xlen: "LENGTH('a) = 32 \<or> LENGTH('a) = 64" and x0: "hart_x0 s" and imm: "imm \<noteq> 0"
  shows "outcome (run_c hi (C_ADDI4SPN q imm)) (s :: 'a::len hart) False
     (seq_next 2 (wX (rp q) (rX (abs_hart s) 2 + push_bit 2 (ucast imm)) (abs_hart s)))"
proof -
  have "push_bit 2 (ucast imm :: 'a word) \<noteq> 0"
  proof
    assume z: "push_bit 2 (ucast imm :: 'a word) = 0"
    have "bit imm n \<longleftrightarrow> bit (push_bit 2 (ucast imm :: 'a word)) (n + 2)" if "n < 8" for n
      using xlen that by (auto simp: bit_simps)
    then have "imm = 0" unfolding z by (intro bit_word_eqI) simp
    then show False using imm by simp
  qed
  then show ?thesis
    unfolding rX_bank [OF x0]
    by (simp add: run_c_defs Exec_C_defs Let_def c_immediates c_conv_8 [OF xlen])
qed

lemma refine_c_imm:
  assumes xlen: "LENGTH('a) = 32 \<or> LENGTH('a) = 64" and x0: "hart_x0 s"
  shows "outcome (run_c hi (C_ADDI rd imm)) (s :: 'a::len hart) False
      (seq_next 2 (wX rd (rX (abs_hart s) rd + scast imm) (abs_hart s)))"
    and "outcome (run_c hi (C_LI rd imm)) s False (seq_next 2 (wX rd (scast imm) (abs_hart s)))"
    and "outcome (run_c hi (C_ADDI16SP imm)) s False
      (seq_next 2 (wX 2 (rX (abs_hart s) 2 + push_bit 4 (scast imm)) (abs_hart s)))"
    and "outcome (run_c hi (C_ANDI q imm)) s False
      (seq_next 2 (wX (rp q) (rX (abs_hart s) (rp q) AND scast imm) (abs_hart s)))"
  using x0 unfolding rX_bank [OF x0]
  by (simp_all add: run_c_defs Exec_C_defs Let_def c_immediates c_conv_s [OF xlen] hart_x0_def x0_zero_def)

lemma refine_c_lui:
  assumes xlen: "LENGTH('a) = 32 \<or> LENGTH('a) = 64" and rd: "rd \<noteq> 2"
  shows "outcome (run_c hi (C_LUI rd imm)) (s :: 'a::len hart) False
      (seq_next 2 (wX rd (push_bit 12 (scast imm)) (abs_hart s)))"
proof -
  have "unat rd \<noteq> 2" using rd by (simp add: word_unat_eq_iff)
  then show ?thesis
    by (simp add: run_c_defs Exec_C_defs Let_def c_immediates c_conv_s [OF xlen])
qed

lemma refine_c_move:
  assumes x0: "hart_x0 s"
  shows "outcome (run_c hi (C_MV rd rs2)) (s :: 'a::len hart) False
      (seq_next 2 (wX rd (rX (abs_hart s) rs2) (abs_hart s)))"
    and "outcome (run_c hi (C_ADD rd rs2)) s False
      (seq_next 2 (wX rd (rX (abs_hart s) rd + rX (abs_hart s) rs2) (abs_hart s)))"
  using x0 unfolding rX_bank [OF x0]
  by (simp_all add: run_c_defs Exec_C_defs Let_def)

lemma refine_c_branch:
  assumes xlen: "LENGTH('a) = 32 \<or> LENGTH('a) = 64" and x0: "hart_x0 s"
  shows "outcome (run_c hi (C_BEQZ q off)) (s :: 'a::len hart) False
      (if rX (abs_hart s) (rp q) = 0 then go (PC (abs_hart s) + push_bit 1 (scast off)) (abs_hart s)
       else seq_next 2 (abs_hart s))"
    and "outcome (run_c hi (C_BNEZ q off)) s False
      (if rX (abs_hart s) (rp q) \<noteq> 0 then go (PC (abs_hart s) + push_bit 1 (scast off)) (abs_hart s)
       else seq_next 2 (abs_hart s))"
  using x0 unfolding rX_bank [OF x0]
  by (simp_all add: run_c_defs Exec_C_defs Let_def c_immediates c_conv_8 [OF xlen] del: push_bit_Suc One_nat_def)

text \<open>Jumps, whose targets the code computes in 32 bits.\<close>

lemma in_32:
  fixes w :: "'a::len word"
  assumes "LENGTH('a) = 32 \<or> LENGTH('a) = 64" "unat w < 2 ^ 32"
  shows "(ucast (ucast w :: 32 word) :: 'a word) = w"
proof -
  have "unat (take_bit 32 w) = unat w"
    using assms(2) by (simp add: unsigned_take_bit_eq take_bit_nat_eq_self)
  then have "take_bit 32 w = w" by (simp add: word_unat_eq_iff)
  moreover have "ucast (ucast w :: 32 word) = take_bit 32 w"
    by (rule bit_word_eqI) (auto simp: bit_simps dest: bit_imp_le_length)
  ultimately show ?thesis by simp
qed

lemma fits_32:
  fixes w :: "'a::len word"
  assumes "LENGTH('a) = 32 \<or> unat w < 2 ^ 32"
  shows "unat w < 2 ^ 32"
  using assms
proof
  assume "LENGTH('a) = 32"
  moreover have "unat w < 2 ^ LENGTH('a)" by (rule unsigned_less)
  ultimately show ?thesis by metis
qed

lemma jump_32:
  fixes w :: "'a::len word" and v :: "32 word"
  assumes xlen: "LENGTH('a) = 32 \<or> LENGTH('a) = 64" and "LENGTH('a) = 32 \<or> unat (w + scast v) < 2 ^ 32"
  shows "ucast (ucast w + v) = w + scast v"
proof -
  have "ucast (w + scast v) = (ucast w + ucast (scast v :: 'a word) :: 32 word)"
    using xlen by (intro ucast_add) auto
  moreover have "(ucast (scast v :: 'a word) :: 32 word) = v"
    using xlen by (intro bit_word_eqI) (auto simp: bit_simps)
  ultimately have "ucast w + v = (ucast (w + scast v) :: 32 word)" by simp
  then show ?thesis
    using in_32 [OF xlen fits_32 [OF assms(2)]] by simp
qed

lemma c_conv_jump:
  fixes off :: "11 word"
  assumes "LENGTH('a) = 32 \<or> LENGTH('a) = 64"
  shows "(scast (push_bit 1 (scast off :: 32 word)) :: 'a::len word) = 2 * scast off"
proof -
  have "(scast (push_bit 1 (scast off :: 32 word)) :: 'a word) = push_bit 1 (scast off)"
    using assms by (intro bit_word_eqI;
      auto simp: bit_blast bit_simps min_def simp del: push_bit_Suc dest: bit_imp_le_length split: if_splits)
  then show ?thesis by (simp add: push_bit_eq_mult mult.commute)
qed

text \<open>The jumps, where the target and the return address fit.\<close>

lemma c_jump_run:
  fixes s :: "'a::len hart"
  assumes xlen: "LENGTH('a) = 32 \<or> LENGTH('a) = 64"
    and t: "LENGTH('a) = 32 \<or> unat (PC (abs_hart s) + 2 * scast off) < 2 ^ 32"
    and l: "LENGTH('a) = 32 \<or> unat (PC (abs_hart s) + 2) < 2 ^ 32 \<or> rd = 0"
  shows "outcome (Exec_C_JAL (unat rd) (cenc hi f3 op (mid_CJ off))) s True
      (go (PC (abs_hart s) + 2 * scast off) (wX rd (PC (abs_hart s) + 2) (abs_hart s)))"
proof -
  define pc where "pc = register_PC (regs s)"
  have "ucast (ucast pc + push_bit 1 (scast off :: 32 word)) = pc + (2 * scast off :: 'a word)"
    using jump_32 [OF xlen, of pc "push_bit 1 (scast off)"] t
    unfolding c_conv_jump [OF xlen] by (simp add: abs_hart_def pc_def)
  moreover have "ucast (ucast pc + 2 :: 32 word) = pc + (2 :: 'a word)" if "rd \<noteq> 0"
  proof -
    have two: "(scast (2 :: 32 word) :: 'a word) = 2"
      using xlen by (intro bit_word_eqI) (auto simp: bit_simps bit_numeral_word_iff)
    show ?thesis
      using jump_32 [OF xlen, of pc 2] l that unfolding two by (simp add: abs_hart_def pc_def)
  qed
  ultimately show ?thesis
    by (cases "rd = 0")
      (simp_all add: run_c_defs Exec_C_JAL_def Let_def c_imm_j pc_def del: push_bit_Suc One_nat_def)
qed

lemma outcome_bnd:
  "outcome m s x a \<Longrightarrow> (\<And>t. f x t = Inr (y, t)) \<Longrightarrow> outcome (bnd m f) s y a"
  by (auto simp: outcome_def bnd_run)

lemma refine_c_jal:
  assumes xlen: "LENGTH('a) = 32"
  shows "outcome (run_c hi (C_JAL off)) (s :: 'a::len hart) False
      (go (PC (abs_hart s) + 2 * scast off) (wX 1 (PC (abs_hart s) + 2) (abs_hart s)))"
  using c_jump_run [of s off 1 hi 1 1] xlen
  by (auto simp: run_c_def C_exec_instruction_def C_always_def advance_def exec_simps outcome_def)

lemma refine_c_j:
  assumes xlen: "LENGTH('a) = 32 \<or> LENGTH('a) = 64"
    and t: "LENGTH('a) = 32 \<or> unat (PC (abs_hart s) + 2 * scast off) < 2 ^ 32"
  shows "outcome (run_c hi (C_J off)) (s :: 'a::len hart) False
      (go (PC (abs_hart s) + 2 * scast off) (abs_hart s))"
  using c_jump_run [OF xlen t, of 0 hi 5 1]
  by (auto simp: run_c_def C_exec_instruction_def C_always_def advance_def exec_simps outcome_def
      wX_def)

lemma clear_bit_0:
  fixes w :: "'a::len word"
  assumes "LENGTH('a) = 32 \<or> LENGTH('a) = 64" "LENGTH('a) = 32 \<or> unat w < 2 ^ 32"
  shows "w AND 0xFFFFFFFE = w AND NOT 1"
    and "ucast (ucast (w AND 0xFFFFFFFE) :: 32 word) = w AND NOT 1"
proof -
  have w: "take_bit 32 w = w"
    using fits_32 [OF assms(2)]
    by (simp add: word_unat_eq_iff unsigned_take_bit_eq take_bit_nat_eq_self)
  have m: "(0xFFFFFFFE :: 'a word) = mask 32 AND NOT 1"
    using assms(1) by (simp add: mask_eq_exp_minus_1)
  have "w AND 0xFFFFFFFE = take_bit 32 w AND NOT 1"
    unfolding m take_bit_eq_mask by (simp add: and.assoc)
  then show *: "w AND 0xFFFFFFFE = w AND NOT 1" unfolding w .
  have "ucast (ucast v :: 32 word) = take_bit 32 v" for v :: "'a word"
    by (rule bit_word_eqI) (auto simp: bit_simps dest: bit_imp_le_length)
  then have "ucast (ucast (w AND NOT 1) :: 32 word) = take_bit 32 (w AND NOT 1)" .
  also have "\<dots> = take_bit 32 w AND NOT 1"
    by (rule bit_word_eqI) (simp only: bit_take_bit_iff bit_and_iff bit_not_iff, blast)
  finally show "ucast (ucast (w AND 0xFFFFFFFE) :: 32 word) = w AND NOT 1"
    unfolding * w .
qed

lemma refine_c_jr:
  assumes xlen: "LENGTH('a) = 32 \<or> LENGTH('a) = 64" and x0: "hart_x0 s"
    and t: "LENGTH('a) = 32 \<or> unat (rX (abs_hart s) rs1) < 2 ^ 32"
  shows "outcome (run_c hi (C_JR rs1)) (s :: 'a::len hart) False
      (go (rX (abs_hart s) rs1 AND NOT 1) (abs_hart s))"
  using clear_bit_0 [OF xlen t] unfolding rX_bank [OF x0]
  by (simp add: run_c_defs Exec_C_defs Let_def)

lemma refine_c_jalr:
  assumes xlen: "LENGTH('a) = 32 \<or> LENGTH('a) = 64" and x0: "hart_x0 s"
    and t: "LENGTH('a) = 32 \<or> unat (rX (abs_hart s) rs1) < 2 ^ 32"
    and l: "LENGTH('a) = 32 \<or> unat (PC (abs_hart s) + 2) < 2 ^ 32"
  shows "outcome (run_c hi (C_JALR rs1)) (s :: 'a::len hart) False
      (go (rX (abs_hart s) rs1 AND NOT 1) (wX 1 (PC (abs_hart s) + 2) (abs_hart s)))"
proof -
  have two: "(scast (2 :: 32 word) :: 'a word) = 2"
    using xlen by (intro bit_word_eqI) (auto simp: bit_simps bit_numeral_word_iff)
  have "ucast (ucast (register_PC (regs s)) + 2 :: 32 word) = register_PC (regs s) + (2 :: 'a word)"
    using jump_32 [OF xlen, of "register_PC (regs s)" 2] l unfolding two by (simp add: abs_hart_def)
  then show ?thesis
    using clear_bit_0(2) [OF xlen t] unfolding rX_bank [OF x0]
    by (simp add: run_c_defs Exec_C_defs Let_def)
qed

text \<open>Shifts by less than 32, and the word operations of RV64.\<close>

lemma shift_amount:
  fixes sh :: "6 word"
  assumes "LENGTH('a) = 32 \<or> LENGTH('a) = 64" "unat sh < 32"
  shows "unat (scast sh :: 'a::len word) = unat sh"
proof -
  have "take_bit 5 sh = sh"
    using assms(2) by (simp add: word_unat_eq_iff unsigned_take_bit_eq take_bit_nat_eq_self)
  then have "\<not> bit sh 5" by (metis bit_take_bit_iff less_irrefl)
  then have "(scast sh :: 'a word) = ucast sh"
    using assms(1) by (intro bit_word_eqI) (auto simp: bit_simps min_def le_less dest: bit_imp_le_length)
  moreover have "unat (ucast sh :: 'a word) = unat sh"
    using assms by (auto simp: unsigned_ucast_eq take_bit_nat_eq_self)
  ultimately show ?thesis by simp
qed

lemma refine_c_shift:
  assumes xlen: "LENGTH('a) = 32 \<or> LENGTH('a) = 64" and x0: "hart_x0 s" and sh: "unat sh < 32"
  shows "outcome (run_c hi (C_SRLI q sh)) (s :: 'a::len hart) False
      (seq_next 2 (wX (rp q) (shift SH_RL (unat sh) (rX (abs_hart s) (rp q))) (abs_hart s)))"
    and "outcome (run_c hi (C_SRAI q sh)) s False
      (seq_next 2 (wX (rp q) (shift SH_RA (unat sh) (rX (abs_hart s) (rp q))) (abs_hart s)))"
    and "outcome (run_c hi (C_SLLI rd sh)) s False
      (seq_next 2 (wX rd (shift SH_LL (unat sh) (rX (abs_hart s) rd)) (abs_hart s)))"
proof -
  have "unat sh < LENGTH('a)" using sh xlen by auto
  moreover have "unat (scast sh :: 32 word) = unat sh"
    by (rule shift_amount) (simp_all add: sh)
  moreover have "unat (scast (scast sh :: 32 word) :: 'a word) = unat sh"
    using shift_amount [OF xlen sh] c_conv_s(1) [OF xlen, of sh] by simp
  ultimately show "outcome (run_c hi (C_SRLI q sh)) s False
      (seq_next 2 (wX (rp q) (shift SH_RL (unat sh) (rX (abs_hart s) (rp q))) (abs_hart s)))"
    "outcome (run_c hi (C_SRAI q sh)) s False
      (seq_next 2 (wX (rp q) (shift SH_RA (unat sh) (rX (abs_hart s) (rp q))) (abs_hart s)))"
    "outcome (run_c hi (C_SLLI rd sh)) s False
      (seq_next 2 (wX rd (shift SH_LL (unat sh) (rX (abs_hart s) rd)) (abs_hart s)))"
    unfolding rX_bank [OF x0] shift_run
    by (simp_all add: run_c_defs Exec_C_defs Let_def c_imm_s)
qed

lemma refine_c_word:
  assumes xlen: "LENGTH('a) = 64" and x0: "hart_x0 s"
  shows "outcome (run_c hi (C_ADDIW rd imm)) (s :: 'a::len hart) False
      (seq_next 2 (wX rd (on_words (\<lambda>x _. x + scast imm) (rX (abs_hart s) rd) 0) (abs_hart s)))"
    and "outcome (run_c hi (C_SUBW q q')) s False
      (seq_next 2 (wX (rp q) (on_words (\<lambda>x y. x - y) (rX (abs_hart s) (rp q)) (rX (abs_hart s) (rp q'))) (abs_hart s)))"
    and "outcome (run_c hi (C_ADDW q q')) s False
      (seq_next 2 (wX (rp q) (on_words (\<lambda>x y. x + y) (rX (abs_hart s) (rp q)) (rX (abs_hart s) (rp q'))) (abs_hart s)))"
proof -
  have "(ucast (scast v :: 64 word) :: 'a word) = scast v" for v :: "32 word"
    by (rule ucast_scast_same) (simp add: xlen)
  then show "outcome (run_c hi (C_ADDIW rd imm)) (s :: 'a::len hart) False
      (seq_next 2 (wX rd (on_words (\<lambda>x _. x + scast imm) (rX (abs_hart s) rd) 0) (abs_hart s)))"
    "outcome (run_c hi (C_SUBW q q')) s False
      (seq_next 2 (wX (rp q) (on_words (\<lambda>x y. x - y) (rX (abs_hart s) (rp q)) (rX (abs_hart s) (rp q'))) (abs_hart s)))"
    "outcome (run_c hi (C_ADDW q q')) s False
      (seq_next 2 (wX (rp q) (on_words (\<lambda>x y. x + y) (rX (abs_hart s) (rp q)) (rX (abs_hart s) (rp q'))) (abs_hart s)))"
    unfolding rX_bank [OF x0]
    by (simp_all add: run_c_defs Exec_C_defs Let_def c_imm_s on_words_def ucast_add ucast_diff xlen)
qed

end
