(* ===== verification/C_Memory.thy ===== *)
theory C_Memory
  imports C_Compute
begin

text \<open>
  Compressed loads and stores, of words and, in two halves, of doublewords.
\<close>

section \<open>Loads and stores\<close>

lemma addr_32:
  fixes m :: "'a::len word"
  assumes "LENGTH('a) = 32 \<or> LENGTH('a) = 64" "unat m < 2 ^ 32"
  shows "(ucast (ucast m :: 32 word) :: 64 word) = ucast m"
proof -
  have "(ucast (ucast m :: 32 word) :: 64 word) = ucast (take_bit 32 m)"
    using assms(1) by (intro bit_word_eqI) (auto simp: bit_simps dest: bit_imp_le_length)
  moreover have "take_bit 32 m = m"
    using assms(2) by (simp add: word_unat_eq_iff unsigned_take_bit_eq take_bit_nat_eq_self)
  ultimately show ?thesis by simp
qed

text \<open>The four words a load or store reads or writes, for any address in the array.\<close>

lemma word_access:
  fixes m :: "'a::len word" and s :: "'a hart"
  assumes xlen: "LENGTH('a) = 32 \<or> LENGTH('a) = 64" and r: "\<not> RAM_SIZE < unat m + 4"
  shows "rd_mem (ucast m) 4 s = Inr (of_bytes (mem_bytes (unat m) 4 (main_memory (plat s))),
           s\<lparr>plat := (plat s)\<lparr>uninit_ix := Suc (uninit_ix (plat s))\<rparr>\<rparr>)"
    and "wr_mem (ucast m) (ucast (v :: 'a word)) 4 s =
      Inr ((), s\<lparr>plat := (plat s)\<lparr>main_memory := mem_update (unat m) (le_bytes 4 v) (main_memory (plat s))\<rparr>\<rparr>)"
    and "ucast (ucast m :: 32 word) = (ucast m :: 64 word)"
proof -
  have i: "in_ram (ucast m) 4" using r by (simp add: in_ram_iff ea [OF xlen])
  show "rd_mem (ucast m) 4 s = Inr (of_bytes (mem_bytes (unat m) 4 (main_memory (plat s))),
           s\<lparr>plat := (plat s)\<lparr>uninit_ix := Suc (uninit_ix (plat s))\<rparr>\<rparr>)"
    using rd_mem_run [OF i, of s] by (simp add: ea [OF xlen] of_bytes_copy)
  show "wr_mem (ucast m) (ucast v) 4 s =
      Inr ((), s\<lparr>plat := (plat s)\<lparr>main_memory := mem_update (unat m) (le_bytes 4 v) (main_memory (plat s))\<rparr>\<rparr>)"
    using wr_mem_run [OF i, of "ucast v" s] by (simp add: ea [OF xlen] le_bytes_ucast del: le_bytes.simps)
  show "ucast (ucast m :: 32 word) = (ucast m :: 64 word)"
    using r by (intro addr_32 [OF xlen]) (simp add: RAM_SIZE_def)
qed

lemma refine_c_lw:
  assumes xlen: "LENGTH('a) = 32 \<or> LENGTH('a) = 64" and x0: "hart_x0 s"
    and r: "\<not> RAM_SIZE < unat (rX (abs_hart s) (rp q') + push_bit 2 (ucast imm)) + 4"
  shows "outcome (run_c hi (C_LW q q' imm)) (s :: 'a::len hart) False
     (seq_next 2 (wX (rp q) (load_value L_W (ram_bytes (unat (rX (abs_hart s) (rp q') + push_bit 2 (ucast imm))) 4 (abs_hart s))) (abs_hart s)))"
proof -
  define m where "m = push_bit 2 (ucast imm) + register_bank (regs s) (unat (rp q'))"
  have a: "rX (abs_hart s) (rp q') + push_bit 2 (ucast imm) = m" by (simp add: rX_bank [OF x0] m_def)
  show ?thesis
    using word_access [OF xlen, of m] r unfolding a ram_mem_bytes
    by (simp add: run_c_defs Exec_C_defs Let_def c_imm_u c_conv_u [OF xlen] m_def [symmetric])
qed

lemma refine_c_lwsp:
  assumes xlen: "LENGTH('a) = 32 \<or> LENGTH('a) = 64" and x0: "hart_x0 s"
    and r: "\<not> RAM_SIZE < unat (rX (abs_hart s) 2 + push_bit 2 (ucast imm)) + 4"
  shows "outcome (run_c hi (C_LWSP rd imm)) (s :: 'a::len hart) False
     (seq_next 2 (wX rd (load_value L_W (ram_bytes (unat (rX (abs_hart s) 2 + push_bit 2 (ucast imm))) 4 (abs_hart s))) (abs_hart s)))"
proof -
  define m where "m = push_bit 2 (ucast imm) + register_bank (regs s) 2"
  have a: "rX (abs_hart s) 2 + push_bit 2 (ucast imm) = m" by (simp add: rX_bank [OF x0] m_def)
  have u: "(scast (ucast (scast w :: 'a word) :: 32 word) :: 'a word) = scast w" for w :: "32 word"
    using xlen by (intro bit_word_eqI) (auto simp: bit_simps min_def)
  show ?thesis
    using word_access [OF xlen, of m] r unfolding a ram_mem_bytes
    by (cases "rd = 0") (simp_all add: run_c_defs Exec_C_defs Let_def c_imm_u c_conv_u [OF xlen] m_def [symmetric] u)
qed

lemma refine_c_sw:
  assumes xlen: "LENGTH('a) = 32 \<or> LENGTH('a) = 64" and x0: "hart_x0 s"
    and r: "\<not> RAM_SIZE < unat (rX (abs_hart s) (rp q) + push_bit 2 (ucast imm)) + 4"
  shows "outcome (run_c hi (C_SW q q' imm)) (s :: 'a::len hart) False
     (seq_next 2 (ram_write (unat (rX (abs_hart s) (rp q) + push_bit 2 (ucast imm)))
        (le_bytes 4 (rX (abs_hart s) (rp q'))) (abs_hart s)))"
proof -
  define m where "m = push_bit 2 (ucast imm) + register_bank (regs s) (unat (rp q))"
  have a: "rX (abs_hart s) (rp q) + push_bit 2 (ucast imm) = m" by (simp add: rX_bank [OF x0] m_def)
  show ?thesis
    using word_access [OF xlen, of m] r unfolding a unfolding rX_bank [OF x0] ram_write_abs
    by (simp add: run_c_defs Exec_C_defs Let_def c_imm_u c_conv_u [OF xlen] m_def [symmetric] del: le_bytes.simps)
qed

lemma refine_c_swsp:
  assumes xlen: "LENGTH('a) = 32 \<or> LENGTH('a) = 64" and x0: "hart_x0 s"
    and r: "\<not> RAM_SIZE < unat (rX (abs_hart s) 2 + push_bit 2 (ucast imm)) + 4"
  shows "outcome (run_c hi (C_SWSP rs2 imm)) (s :: 'a::len hart) False
     (seq_next 2 (ram_write (unat (rX (abs_hart s) 2 + push_bit 2 (ucast imm)))
        (le_bytes 4 (rX (abs_hart s) rs2)) (abs_hart s)))"
proof -
  define m where "m = push_bit 2 (ucast imm) + register_bank (regs s) 2"
  have a: "rX (abs_hart s) 2 + push_bit 2 (ucast imm) = m" by (simp add: rX_bank [OF x0] m_def)
  show ?thesis
    using word_access [OF xlen, of m] r unfolding a unfolding rX_bank [OF x0] ram_write_abs
    by (simp add: run_c_defs Exec_C_defs Let_def c_imm_u c_conv_u [OF xlen] m_def [symmetric] del: le_bytes.simps)
qed

text \<open>A doubleword as two words.\<close>

lemma double_access:
  fixes m :: "'a::len word" and s :: "'a hart"
  assumes xlen: "LENGTH('a) = 64" and r: "\<not> RAM_SIZE < unat m + 8"
  shows "rd_double m s = Inr (of_bytes (mem_bytes (unat m) 8 (main_memory (plat s))),
           s\<lparr>plat := (plat s)\<lparr>uninit_ix := Suc (Suc (uninit_ix (plat s)))\<rparr>\<rparr>)"
    and "wr_double m (ucast (v :: 'a word)) s =
      Inr ((), s\<lparr>plat := (plat s)\<lparr>main_memory := mem_update (unat m) (le_bytes 8 v) (main_memory (plat s))\<rparr>\<rparr>)"
proof -
  have xl: "LENGTH('a) = 32 \<or> LENGTH('a) = 64" using xlen by simp
  have 4: "unat (m + 4) = unat m + 4" using r by (intro unat_plus_4 [OF xlen]) simp
  have lo: "\<not> RAM_SIZE < unat m + 4" and hi: "\<not> RAM_SIZE < unat (m + 4) + 4" using r 4 by simp_all
  note lo = word_access [OF xl lo] and hi = word_access [OF xl hi]
  have j: "ucast (of_bytes A :: 32 word) OR push_bit 32 (ucast (of_bytes B :: 32 word)) =
      (of_bytes (A @ B) :: 64 word)" if "length A = 4" "length B = 4" for A B :: "byte list"
    by (simp add: of_bytes_append ucast_of_bytes_up that)
  show "rd_double m s = Inr (of_bytes (mem_bytes (unat m) 8 (main_memory (plat s))),
           s\<lparr>plat := (plat s)\<lparr>uninit_ix := Suc (Suc (uninit_ix (plat s)))\<rparr>\<rparr>)"
    by (simp add: rd_double_def bnd_run lo(1) hi(1) 4 j mem_bytes_8)
  have a: "(ucast (ucast v :: 64 word) :: 32 word) = ucast v"
    using xlen by (intro bit_word_eqI) (auto simp: bit_simps)
  have b: "(ucast (drop_bit 32 (ucast v :: 64 word)) :: 32 word) = ucast (drop_bit 32 v)"
    using xlen by (intro bit_word_eqI) (auto simp: bit_simps)
  have 8: "le_bytes 8 v = le_bytes 4 v @ le_bytes 4 (drop_bit 32 v)"
    using le_bytes_add [of 4 4 v] by simp
  note up = mem_update_append [of "unat m" "le_bytes 4 v" "le_bytes 4 (drop_bit 32 v)", simplified, folded 8]
  show "wr_double m (ucast v) s =
      Inr ((), s\<lparr>plat := (plat s)\<lparr>main_memory := mem_update (unat m) (le_bytes 8 v) (main_memory (plat s))\<rparr>\<rparr>)"
    by (simp add: wr_double_def bnd_run a b lo(2) hi(2) 4 up del: le_bytes.simps)
qed

lemma refine_c_load_double:
  assumes xlen: "LENGTH('a) = 64" and x0: "hart_x0 s"
  shows "\<not> RAM_SIZE < unat (rX (abs_hart s) (rp q') + push_bit 3 (ucast imm)) + 8 \<Longrightarrow>
     outcome (run_c hi (C_LD q q' imm)) (s :: 'a::len hart) False
     (seq_next 2 (wX (rp q) (load_value L_D (ram_bytes (unat (rX (abs_hart s) (rp q') + push_bit 3 (ucast imm))) 8 (abs_hart s))) (abs_hart s)))"
    and "\<not> RAM_SIZE < unat (rX (abs_hart s) 2 + push_bit 3 (ucast imm6)) + 8 \<Longrightarrow>
     outcome (run_c hi (C_LDSP rd imm6)) s False
     (seq_next 2 (wX rd (load_value L_D (ram_bytes (unat (rX (abs_hart s) 2 + push_bit 3 (ucast imm6))) 8 (abs_hart s))) (abs_hart s)))"
proof -
  have xl: "LENGTH('a) = 32 \<or> LENGTH('a) = 64" using xlen by simp
  define m where "m = push_bit 3 (ucast imm) + register_bank (regs s) (unat (rp q'))"
  define n where "n = push_bit 3 (ucast imm6) + register_bank (regs s) 2"
  have a: "rX (abs_hart s) (rp q') + push_bit 3 (ucast imm) = m"
    "rX (abs_hart s) 2 + push_bit 3 (ucast imm6) = n" by (simp_all add: rX_bank [OF x0] m_def n_def)
  have w: "(ucast (of_bytes (mem_bytes k 8 mm) :: 64 word) :: 'a word) = of_bytes (mem_bytes k 8 mm)" for k mm
    by (simp add: ucast_of_bytes_up)
  show "outcome (run_c hi (C_LD q q' imm)) s False
     (seq_next 2 (wX (rp q) (load_value L_D (ram_bytes (unat (rX (abs_hart s) (rp q') + push_bit 3 (ucast imm))) 8 (abs_hart s))) (abs_hart s)))"
    if r: "\<not> RAM_SIZE < unat (rX (abs_hart s) (rp q') + push_bit 3 (ucast imm)) + 8"
    using double_access(1) [OF xlen r] unfolding a ram_mem_bytes
    by (simp add: run_c_defs Exec_C_LD_def Let_def c_imm_u c_conv_u [OF xl] m_def [symmetric] w)
  show "outcome (run_c hi (C_LDSP rd imm6)) s False
     (seq_next 2 (wX rd (load_value L_D (ram_bytes (unat (rX (abs_hart s) 2 + push_bit 3 (ucast imm6))) 8 (abs_hart s))) (abs_hart s)))"
    if r: "\<not> RAM_SIZE < unat (rX (abs_hart s) 2 + push_bit 3 (ucast imm6)) + 8"
    using double_access(1) [OF xlen r] unfolding a ram_mem_bytes
    by (simp add: run_c_defs Exec_C_LDSP_def Let_def c_imm_u c_conv_u [OF xl] n_def [symmetric] w)
qed

lemma refine_c_store_double:
  assumes xlen: "LENGTH('a) = 64" and x0: "hart_x0 s"
  shows "\<not> RAM_SIZE < unat (rX (abs_hart s) (rp q) + push_bit 3 (ucast imm)) + 8 \<Longrightarrow>
     outcome (run_c hi (C_SD q q' imm)) (s :: 'a::len hart) False
     (seq_next 2 (ram_write (unat (rX (abs_hart s) (rp q) + push_bit 3 (ucast imm)))
        (le_bytes 8 (rX (abs_hart s) (rp q'))) (abs_hart s)))"
    and "\<not> RAM_SIZE < unat (rX (abs_hart s) 2 + push_bit 3 (ucast imm6)) + 8 \<Longrightarrow>
     outcome (run_c hi (C_SDSP rs2 imm6)) s False
     (seq_next 2 (ram_write (unat (rX (abs_hart s) 2 + push_bit 3 (ucast imm6)))
        (le_bytes 8 (rX (abs_hart s) rs2)) (abs_hart s)))"
proof -
  have xl: "LENGTH('a) = 32 \<or> LENGTH('a) = 64" using xlen by simp
  define m where "m = push_bit 3 (ucast imm) + register_bank (regs s) (unat (rp q))"
  define n where "n = push_bit 3 (ucast imm6) + register_bank (regs s) 2"
  have a: "rX (abs_hart s) (rp q) + push_bit 3 (ucast imm) = m"
    "rX (abs_hart s) 2 + push_bit 3 (ucast imm6) = n" by (simp_all add: rX_bank [OF x0] m_def n_def)
  show "outcome (run_c hi (C_SD q q' imm)) s False
     (seq_next 2 (ram_write (unat (rX (abs_hart s) (rp q) + push_bit 3 (ucast imm)))
        (le_bytes 8 (rX (abs_hart s) (rp q'))) (abs_hart s)))"
    if r: "\<not> RAM_SIZE < unat (rX (abs_hart s) (rp q) + push_bit 3 (ucast imm)) + 8"
    using double_access(2) [OF xlen r] unfolding a unfolding rX_bank [OF x0] ram_write_abs
    by (simp add: run_c_defs Exec_C_SD_def Let_def c_imm_u c_conv_u [OF xl] m_def [symmetric] del: le_bytes.simps)
  show "outcome (run_c hi (C_SDSP rs2 imm6)) s False
     (seq_next 2 (ram_write (unat (rX (abs_hart s) 2 + push_bit 3 (ucast imm6)))
        (le_bytes 8 (rX (abs_hart s) rs2)) (abs_hart s)))"
    if r: "\<not> RAM_SIZE < unat (rX (abs_hart s) 2 + push_bit 3 (ucast imm6)) + 8"
    using double_access(2) [OF xlen r] unfolding a unfolding rX_bank [OF x0] ram_write_abs
    by (simp add: run_c_defs Exec_C_SDSP_def Let_def c_imm_u c_conv_u [OF xl] n_def [symmetric] del: le_bytes.simps)
qed

end
