(* ===== verification/C_Correct.thy ===== *)
theory C_Correct
  imports C_Memory
begin

text \<open>
  Every compressed instruction, by kind, and its execution from the chain of decoders.
\<close>

section \<open>All instructions\<close>

lemma branch_zero: "branch_taken B_EQ v (rX a 0) \<longleftrightarrow> v = 0" "branch_taken B_NE v (rX a 0) \<longleftrightarrow> v \<noteq> 0"
  by (simp_all add: rX_def)

lemma twice: "push_bit 1 w = 2 * w" for w :: "'a::len word"
  by (simp add: push_bit_eq_mult mult.commute)

datatype cinsn_kind = CK_memory | CK_jump | CK_compute

fun c_kind :: "cinsn \<Rightarrow> cinsn_kind" where
  "c_kind (C_LW _ _ _) = CK_memory"
| "c_kind (C_SW _ _ _) = CK_memory"
| "c_kind (C_LD _ _ _) = CK_memory"
| "c_kind (C_SD _ _ _) = CK_memory"
| "c_kind (C_LWSP _ _) = CK_memory"
| "c_kind (C_LDSP _ _) = CK_memory"
| "c_kind (C_SWSP _ _) = CK_memory"
| "c_kind (C_SDSP _ _) = CK_memory"
| "c_kind (C_JAL _) = CK_jump"
| "c_kind (C_J _) = CK_jump"
| "c_kind (C_JR _) = CK_jump"
| "c_kind (C_JALR _) = CK_jump"
| "c_kind (C_BEQZ _ _) = CK_jump"
| "c_kind (C_BNEZ _ _) = CK_jump"
| "c_kind _ = CK_compute"

text \<open>What a defined instruction satisfies, and the conversions of immediates.\<close>

lemma c_isa_exec_cases:
  assumes "c_isa_exec ci (abs_hart s) = Some a"
  shows "has_cinsn LENGTH('a) ci" "\<not> c_limited ci (abs_hart (s :: 'a::len hart))"
    "isa_op 2 (c_expand ci) (abs_hart s) = Some a"
  using assms by (auto simp: c_isa_exec_def split: if_splits)

lemma run_c_memory:
  assumes xlen: "LENGTH('a) = 32 \<or> LENGTH('a) = 64" and x0: "hart_x0 s" and k: "c_kind ci = CK_memory"
    and e: "c_isa_exec ci (abs_hart s) = Some a"
  shows "outcome (run_c hi ci) (s :: 'a::len hart) False a"
proof -
  note v = c_isa_exec_cases [OF e]
  note conv = c_conv_s [OF xlen] c_conv_8 [OF xlen] c_conv_j [OF xlen] c_conv_u [OF xlen]
  show ?thesis
  proof (cases ci)
    case (C_LW q q' imm)
    then show ?thesis using v refine_c_lw [OF xlen x0, of q' imm hi q]
      by (auto simp: conv Let_def split: if_splits)
  next
    case (C_SW q q' imm)
    then show ?thesis using v refine_c_sw [OF xlen x0, of q imm hi q']
      by (auto simp: conv Let_def simp del: le_bytes.simps split: if_splits)
  next
    case (C_LD q q' imm)
    then show ?thesis using v refine_c_load_double(1) [OF _ x0, of q' imm hi q]
      by (auto simp: conv Let_def split: if_splits)
  next
    case (C_SD q q' imm)
    then show ?thesis using v refine_c_store_double(1) [OF _ x0, of q imm hi q']
      by (auto simp: conv Let_def simp del: le_bytes.simps split: if_splits)
  next
    case (C_LWSP rd imm)
    then show ?thesis using v refine_c_lwsp [OF xlen x0, of imm hi rd]
      by (auto simp: conv Let_def split: if_splits)
  next
    case (C_LDSP rd imm)
    then show ?thesis using v refine_c_load_double(2) [OF _ x0, of imm hi rd]
      by (auto simp: conv Let_def split: if_splits)
  next
    case (C_SWSP rs2 imm)
    then show ?thesis using v refine_c_swsp [OF xlen x0, of imm hi rs2]
      by (auto simp: conv Let_def simp del: le_bytes.simps split: if_splits)
  next
    case (C_SDSP rs2 imm)
    then show ?thesis using v refine_c_store_double(2) [OF _ x0, of imm hi rs2]
      by (auto simp: conv Let_def simp del: le_bytes.simps split: if_splits)
  qed (use k in simp_all)
qed

lemma run_c_jump:
  assumes xlen: "LENGTH('a) = 32 \<or> LENGTH('a) = 64" and x0: "hart_x0 s" and k: "c_kind ci = CK_jump"
    and e: "c_isa_exec ci (abs_hart s) = Some a"
  shows "outcome (run_c hi ci) (s :: 'a::len hart) False a"
proof -
  note v = c_isa_exec_cases [OF e]
  note conv = c_conv_s [OF xlen] c_conv_8 [OF xlen] c_conv_j [OF xlen] c_conv_u [OF xlen]
  show ?thesis
  proof (cases ci)
    case (C_JAL off)
    then show ?thesis using v refine_c_jal [of hi off s] by (auto simp: conv)
  next
    case (C_J off)
    then show ?thesis using v refine_c_j [OF xlen, of s off hi] by (auto simp: conv wX_def)
  next
    case (C_JR rs1)
    then show ?thesis using v refine_c_jr [OF xlen x0, of rs1 hi] by (auto simp: wX_def)
  next
    case (C_JALR rs1)
    then show ?thesis using v refine_c_jalr [OF xlen x0, of rs1 hi] by auto
  next
    case (C_BEQZ q off)
    then show ?thesis using v refine_c_branch(1) [OF xlen x0, of hi q off]
      unfolding twice by (auto simp: conv branch_zero simp del: branch_taken.simps)
  next
    case (C_BNEZ q off)
    then show ?thesis using v refine_c_branch(2) [OF xlen x0, of hi q off]
      unfolding twice by (auto simp: conv branch_zero simp del: branch_taken.simps)
  qed (use k in simp_all)
qed

lemma run_c_compute:
  assumes xlen: "LENGTH('a) = 32 \<or> LENGTH('a) = 64" and x0: "hart_x0 s" and k: "c_kind ci = CK_compute"
    and e: "c_isa_exec ci (abs_hart s) = Some a"
  shows "outcome (run_c hi ci) (s :: 'a::len hart) False a"
proof -
  note v = c_isa_exec_cases [OF e]
  note conv = c_conv_s [OF xlen] c_conv_8 [OF xlen] c_conv_j [OF xlen] c_conv_u [OF xlen]
  show ?thesis
  proof (cases ci)
    case (C_ADDI4SPN q imm)
    then show ?thesis using v refine_c_addi4spn [OF xlen x0, of imm hi q] by (auto simp: conv)
  next
    case (C_ADDI rd imm)
    then show ?thesis using v refine_c_imm(1) [OF xlen x0, of hi rd imm] by (auto simp: conv)
  next
    case (C_LI rd imm)
    then show ?thesis using v refine_c_imm(2) [OF xlen x0, of hi rd imm] by (auto simp: conv rX_def)
  next
    case (C_ADDI16SP imm)
    then show ?thesis using v refine_c_imm(3) [OF xlen x0, of hi imm] by (auto simp: conv)
  next
    case (C_ANDI q imm)
    then show ?thesis using v refine_c_imm(4) [OF xlen x0, of hi q imm] by (auto simp: conv)
  next
    case (C_LUI rd imm)
    then show ?thesis using v refine_c_lui [OF xlen, of rd hi imm s] by (auto simp: conv)
  next
    case (C_SRLI q sh)
    then show ?thesis using v refine_c_shift(1) [OF xlen x0, of sh hi q] by (auto simp del: shift.simps)
  next
    case (C_SRAI q sh)
    then show ?thesis using v refine_c_shift(2) [OF xlen x0, of sh hi q] by (auto simp del: shift.simps)
  next
    case (C_SLLI rd sh)
    then show ?thesis using v refine_c_shift(3) [OF xlen x0, of sh hi rd] by (auto simp del: shift.simps)
  next
    case (C_ALU k q q')
    then show ?thesis using v refine_c_alu [OF xlen x0, of hi k q q'] by (auto simp del: alu.simps)
  next
    case (C_ADDIW rd imm)
    then show ?thesis using v refine_c_word(1) [OF _ x0, of hi rd imm] c_conv_s(2) [where 'a = 32, of imm] by auto
  next
    case (C_SUBW q q')
    then show ?thesis using v refine_c_word(2) [OF _ x0, of hi q q'] by (auto simp: on_words_def)
  next
    case (C_ADDW q q')
    then show ?thesis using v refine_c_word(3) [OF _ x0, of hi q q'] by (auto simp: on_words_def)
  next
    case (C_MV rd rs2)
    then show ?thesis using v refine_c_move(1) [OF x0, of hi rd rs2] by (auto simp: rX_def)
  next
    case (C_ADD rd rs2)
    then show ?thesis using v refine_c_move(2) [OF x0, of hi rd rs2] by auto
  qed (use k in simp_all)
qed

lemma run_c_refines:
  assumes xlen: "LENGTH('a) = 32 \<or> LENGTH('a) = 64" and x0: "hart_x0 s"
    and e: "c_isa_exec ci (abs_hart s) = Some a"
  shows "outcome (run_c hi ci) (s :: 'a::len hart) False a"
  using run_c_memory [OF xlen x0 _ e] run_c_jump [OF xlen x0 _ e] run_c_compute [OF xlen x0 _ e]
  by (cases "c_kind ci") simp_all

lemma dispatch_c_refines:
  assumes xlen: "LENGTH('a) = 32 \<or> LENGTH('a) = 64" and x0: "hart_x0 s"
    and e: "c_isa_exec ci (abs_hart s) = Some a"
  shows "outcome (CPU_dispatch (c_encode hi ci)) (s :: 'a::len hart) False a"
proof -
  have "has_cinsn LENGTH('a) ci" using e by (auto simp: c_isa_exec_def split: if_splits)
  then show ?thesis using run_c_refines [OF assms] dispatch_C [OF xlen] by metis
qed

end
