(* ===== verification/A_Correct.thy ===== *)
theory A_Correct
  imports M_Correct A_Spec
begin

text \<open>
  The A extension: the encodings of the manual, the read-modify-write instructions as
  functions of the old word and a register, and the reservations of \<open>Exec_A_LR\<close> and
  \<open>Exec_A_SC\<close>. The code computes addresses in 32 bits, so on a 64-bit register the address is
  the low word of the register.
\<close>

section \<open>Encoding and decoding\<close>

fun amo_code :: "amo_op \<Rightarrow> op_A_Codes" where
  "amo_code AMO_ADD = OP_A_AMOADD" | "amo_code AMO_XOR = OP_A_AMOXOR"
| "amo_code AMO_AND = OP_A_AMOAND" | "amo_code AMO_OR = OP_A_AMOOR"
| "amo_code AMO_MIN = OP_A_AMOMIN" | "amo_code AMO_MAX = OP_A_AMOMAX"
| "amo_code AMO_MINU = OP_A_AMOMINU" | "amo_code AMO_MAXU = OP_A_AMOMAXU"

lemma range_A:
  "sc_range 6 0 (enc_A f5 aqrl rs2 rs1 rd) = 0b0101111"
  "sc_range 1 0 (enc_A f5 aqrl rs2 rs1 rd) = 3"
  "sc_range 14 12 (enc_A f5 aqrl rs2 rs1 rd) = 2"
  "sc_range 31 27 (enc_A f5 aqrl rs2 rs1 rd) = ucast f5"
  "sc_range 11 7 (enc_A f5 aqrl rs2 rs1 rd) = ucast rd"
  "sc_range 19 15 (enc_A f5 aqrl rs2 rs1 rd) = ucast rs1"
  "sc_range 24 20 (enc_A f5 aqrl rs2 rs1 rd) = ucast rs2"
  by (simp_all add: word_bitwise_eq enc_A_def bit_blast not_bit_beyond bit_numeral_word_iff)

lemma field_A [simp]:
  "get_rd (enc_A f5 aqrl rs2 rs1 rd) = unat rd"
  "get_rs1 (enc_A f5 aqrl rs2 rs1 rd) = unat rs1"
  "get_rs2 (enc_A f5 aqrl rs2 rs1 rd) = unat rs2"
  by (simp_all add: field_defs range_A)

lemma dispatch_A:
  "A_decode (enc_A f5 aqrl rs2 rs1 rd) = k \<Longrightarrow> k \<noteq> OP_A_ERROR \<Longrightarrow>
   CPU_dispatch (enc_A f5 aqrl rs2 rs1 rd) =
     bnd (A_exec_instruction (enc_A f5 aqrl rs2 rs1 rd) k) (\<lambda>b.
       bnd (advance inc_pc b) (\<lambda>_. ret False))"
  by (simp add: CPU_dispatch_def decode_def C_decode_def M_decode_def opcode_def C_opcode_def
      M_opcode_def range_A range_A(2) [simplified] Let_def)

lemma decode_amo: "A_decode (enc_A (amo_f5 k) aqrl rs2 rs1 rd) = amo_code k"
  by (cases k) (simp_all add: A_decode_def A_opcode_def range_A)

section \<open>Read, modify, write\<close>

text \<open>The code: the destination is written first, so a source that is also the destination
  has become the old word.\<close>

definition amo_operand :: "regno \<Rightarrow> regno \<Rightarrow> regno \<Rightarrow> 'a::len arch \<Rightarrow> 32 word" where
  "amo_operand rd rs1 rs2 a =
     (if rd = rs2 \<and> rd \<noteq> 0 then ram_word (word_addr rs1 a) a else ucast (rX a rs2))"

lemma ram_write_wX: "ram_write e bs (wX r v a) = wX r v (ram_write e bs a)"
  by (simp add: ram_write_def wX_def cong: if_cong)

lemma word_ram:
  assumes "\<not> RAM_SIZE < unat (adr :: 32 word) + 4"
  shows "rd_mem (ucast adr) 4 s = Inr (ram_word adr (abs_hart s),
         s\<lparr>plat := (plat s)\<lparr>uninit_ix := Suc (uninit_ix (plat s))\<rparr>\<rparr>)"
    and "wr_mem (ucast adr) v 4 s = Inr ((), s\<lparr>plat := (plat s)\<lparr>main_memory :=
         mem_update (unat adr) (le_bytes 4 v) (main_memory (plat s))\<rparr>\<rparr>)"
proof -
  have u: "unat (ucast adr :: 64 word) = unat adr" by (rule ea) simp
  then have i: "in_ram (ucast adr) 4" using assms by (simp add: in_ram_iff)
  show "rd_mem (ucast adr) 4 s = Inr (ram_word adr (abs_hart s),
         s\<lparr>plat := (plat s)\<lparr>uninit_ix := Suc (uninit_ix (plat s))\<rparr>\<rparr>)"
    using rd_mem_run [OF i, of s] u by (simp add: ram_word_def of_bytes_copy ram_mem_bytes)
  show "wr_mem (ucast adr) v 4 s = Inr ((), s\<lparr>plat := (plat s)\<lparr>main_memory :=
         mem_update (unat adr) (le_bytes 4 v) (main_memory (plat s))\<rparr>\<rparr>)"
    using wr_mem_run [OF i, of v s] u by simp
qed

lemma ram_word_frame [simp]:
  "ram_word adr (abs_hart (s\<lparr>perf := p\<rparr>)) = ram_word adr (abs_hart s)"
  by (simp add: ram_word_def)

lemma minmax: "word_of_int (min (sint a) (sint b)) = (if sint a < sint b then a else b)"
  "word_of_int (max (sint a) (sint b)) = (if sint a > sint b then a else b)" for a b :: "32 word"
proof -
  have "a = b" if "sint a = sint b" using that by (rule signed_word_eqI)
  then show "word_of_int (min (sint a) (sint b)) = (if sint a < sint b then a else b)"
    "word_of_int (max (sint a) (sint b)) = (if sint a > sint b then a else b)"
    by (auto simp: min_def max_def)
qed

lemma minmaxu: "min a b = (if a < b then a else b)" "max a b = (if a > b then a else b)" for a b :: "32 word"
  by (auto simp: min_def max_def not_le not_less)

text \<open>All eight have the same shape, with \<open>amo\<close> in the middle.\<close>

lemma amo_shape:
  "A_exec_instruction i (amo_code k) =
     bnd (bnd (amo_read i) (\<lambda>(adr, w). bnd (rd_reg (get_rs2 i)) (\<lambda>v.
       amo_write adr (amo k w (ucast v))))) (\<lambda>_. ret True)"
  by (cases k) (simp_all add: A_exec_instruction_def Exec_A_AMOADD_def Exec_A_AMOXOR_def
      Exec_A_AMOAND_def Exec_A_AMOOR_def Exec_A_AMOMIN_def Exec_A_AMOMAX_def Exec_A_AMOMINU_def
      Exec_A_AMOMAXU_def Let_def minmax minmaxu if_distrib)

lemma ucast_scast_32 [simp]: "LENGTH('a) = 32 \<or> LENGTH('a) = 64 \<Longrightarrow>
  (ucast (scast w :: 'a::len word) :: 32 word) = w" for w :: "32 word"
  by (intro bit_word_eqI) (auto simp: bit_simps)

lemma amo_effect:
  assumes xlen: "LENGTH('a) = 32 \<or> LENGTH('a) = 64" and x0: "hart_x0 s"
    and r: "\<not> RAM_SIZE < unat (word_addr rs1 (abs_hart s)) + 4"
  shows "outcome (CPU_dispatch (enc_A (amo_f5 k) aqrl rs2 rs1 rd)) (s :: 'a::len hart) False
     (amo_with k rd rs1 (amo_operand rd rs1 rs2 (abs_hart s)) (abs_hart s))"
proof -
  have a: "word_addr rs1 (abs_hart s) = ucast (register_bank (regs s) (unat rs1))"
    by (simp add: word_addr_def rX_bank [OF x0])
  note mem = word_ram [OF r [unfolded a]]
  have k: "amo_code k \<noteq> OP_A_ERROR" by (cases k) simp_all
  define old where "old = ram_word (ucast (register_bank (regs s) (unat rs1))) (abs_hart s)"
  define b where "b = (if rd = rs2 \<and> rd \<noteq> 0 then old else ucast (register_bank (regs s) (unat rs2)))"
  have d: "unat rs2 = unat rd \<longleftrightarrow> rs2 = rd" "unat rd = unat rs2 \<longleftrightarrow> rs2 = rd"
    by (auto simp flip: word_unat_eq_iff)
  have rd_old: "rd_mem (ucast (ucast (register_bank (regs s) (unat rs1)) :: 32 word)) 4 (s\<lparr>perf := p\<rparr>)
      = Inr (old, s\<lparr>perf := p, plat := (plat s)\<lparr>uninit_ix := Suc (uninit_ix (plat s))\<rparr>\<rparr>)" for p
    using mem(1) [of "s\<lparr>perf := p\<rparr>"] by (simp add: old_def)
  show ?thesis
    unfolding amo_with_def amo_operand_def a Let_def ram_write_wX ram_write_abs rX_bank [OF x0]
      dispatch_A [OF decode_amo k] amo_shape old_def [symmetric]
    unfolding b_def [symmetric]
    by (cases "rd = 0"; cases "rs2 = rd")
      (simp_all add: run_defs amo_read_def amo_write_def Let_def rd_old mem(2) d b_def xlen)
qed

lemma refine_amo:
  assumes "LENGTH('a) = 32 \<or> LENGTH('a) = 64" and "hart_x0 s"
    and "\<not> RAM_SIZE < unat (word_addr rs1 (abs_hart s)) + 4" and "rd = 0 \<or> rd \<noteq> rs2"
  shows "outcome (CPU_dispatch (enc_A (amo_f5 k) aqrl rs2 rs1 rd)) (s :: 'a::len hart) False
     (amo_result k rd rs1 rs2 (abs_hart s))"
  using amo_effect [OF assms(1-3), of k aqrl rs2 rd] assms(4)
  by (auto simp: amo_operand_def amo_result_def)

lemma amo_exec_addr:
  fixes a :: "'a::len arch"
  assumes xlen: "LENGTH('a) = 32 \<or> LENGTH('a) = 64" and e: "amo_exec k rd rs1 rs2 a = Some a'"
  shows "\<not> RAM_SIZE < unat (word_addr rs1 a) + 4"
proof -
  have r: "\<not> RAM_SIZE < unat (rX a rs1) + 4"
    using e by (simp add: amo_exec_def split: if_splits)
  then have "unat (word_addr rs1 a) = unat (rX a rs1)"
    by (simp add: word_addr_def unsigned_ucast_eq take_bit_nat_eq_self RAM_SIZE_def)
  then show ?thesis using r by simp
qed

lemma dispatch_amo_refines:
  assumes "LENGTH('a) = 32 \<or> LENGTH('a) = 64" and "hart_x0 s"
    and e: "amo_exec k rd rs1 rs2 (abs_hart s) = Some a"
  shows "outcome (CPU_dispatch (enc_A (amo_f5 k) aqrl rs2 rs1 rd)) (s :: 'a::len hart) False a"
proof -
  have "rd = 0 \<or> rd \<noteq> rs2" "a = amo_result k rd rs1 rs2 (abs_hart s)"
    using e by (auto simp: amo_exec_def split: if_splits)
  then show ?thesis
    using refine_amo [OF assms(1,2) amo_exec_addr [OF assms(1) e]] by simp
qed

text \<open>The exchange also writes the old word to its source register.\<close>

definition swap_result :: "regno \<Rightarrow> regno \<Rightarrow> regno \<Rightarrow> 'a::len arch \<Rightarrow> 'a arch" where
  "swap_result rd rs1 rs2 a =
     (let adr = word_addr rs1 a; old = scast (ram_word adr a) in
      seq_next 4 (ram_write (unat adr) (le_bytes 4 (amo_operand rd rs1 rs2 a)) (wX rs2 old (wX rd old a))))"

lemma swap_effect:
  assumes xlen: "LENGTH('a) = 32 \<or> LENGTH('a) = 64" and x0: "hart_x0 s"
    and r: "\<not> RAM_SIZE < unat (word_addr rs1 (abs_hart s)) + 4"
  shows "outcome (CPU_dispatch (enc_A 0b00001 aqrl rs2 rs1 rd)) (s :: 'a::len hart) False
     (swap_result rd rs1 rs2 (abs_hart s))"
proof -
  have a: "word_addr rs1 (abs_hart s) = ucast (register_bank (regs s) (unat rs1))"
    by (simp add: word_addr_def rX_bank [OF x0])
  note mem = word_ram [OF r [unfolded a]]
  have k: "A_decode (enc_A 0b00001 aqrl rs2 rs1 rd) = OP_A_AMOSWAP"
    by (simp add: A_decode_def A_opcode_def range_A)
  define old where "old = ram_word (ucast (register_bank (regs s) (unat rs1))) (abs_hart s)"
  define b where "b = (if rd = rs2 \<and> rd \<noteq> 0 then old else ucast (register_bank (regs s) (unat rs2)))"
  have d: "unat rs2 = unat rd \<longleftrightarrow> rs2 = rd" "unat rd = unat rs2 \<longleftrightarrow> rs2 = rd"
    by (auto simp flip: word_unat_eq_iff)
  have rd_old: "rd_mem (ucast (ucast (register_bank (regs s) (unat rs1)) :: 32 word)) 4 (s\<lparr>perf := p\<rparr>)
      = Inr (old, s\<lparr>perf := p, plat := (plat s)\<lparr>uninit_ix := Suc (uninit_ix (plat s))\<rparr>\<rparr>)" for p
    using mem(1) [of "s\<lparr>perf := p\<rparr>"] by (simp add: old_def)
  show ?thesis
    unfolding swap_result_def amo_operand_def a Let_def ram_write_wX ram_write_abs rX_bank [OF x0]
      dispatch_A [OF k, simplified] old_def [symmetric]
    unfolding b_def [symmetric]
    by (cases "rd = 0"; cases "rs2 = 0"; cases "rs2 = rd")
      (simp_all add: run_defs A_exec_instruction_def Exec_A_AMOSWAP_def amo_read_def amo_write_def
        Let_def rd_old mem(2) d b_def xlen)
qed

lemma seq_next_wX: "seq_next n (wX r v a) = wX r v (seq_next n a)"
  by (simp add: seq_next_def go_def wX_def)

text \<open>For different registers that is all the exchange does besides what the manual says.\<close>

lemma dispatch_swap:
  assumes xlen: "LENGTH('a) = 32 \<or> LENGTH('a) = 64" and x0: "hart_x0 s"
    and e: "unat (rX (abs_hart s) rs1) + 4 \<le> RAM_SIZE" and d: "rd = rs2 \<longrightarrow> rd = 0"
  shows "outcome (CPU_dispatch (enc_A 0b00001 aqrl rs2 rs1 rd)) (s :: 'a::len hart) False
    (wX rs2 (scast (ram_word (word_addr rs1 (abs_hart s)) (abs_hart s))) (swap_manual rd rs1 rs2 (abs_hart s)))"
proof -
  have "unat (word_addr rs1 (abs_hart s)) \<le> unat (rX (abs_hart s) rs1)"
    by (simp add: word_addr_def unsigned_ucast_eq take_bit_nat_less_eq_self)
  then have "\<not> RAM_SIZE < unat (word_addr rs1 (abs_hart s)) + 4" using e by simp
  from swap_effect [OF xlen x0 this, of aqrl rs2 rd] show ?thesis
    using d by (auto simp: swap_result_def swap_manual_def amo_operand_def Let_def ram_write_wX seq_next_wX)
qed

section \<open>Reservations\<close>

text \<open>As \<open>outcome\<close>, with the new set of reservations.\<close>

definition reserving ::
  "('a::len hart, 'b) exec \<Rightarrow> 'a hart \<Rightarrow> 'b \<Rightarrow> 'a arch \<Rightarrow> 32 word set \<Rightarrow> bool" where
  "reserving m s x a R \<longleftrightarrow> (\<exists>t. m s = Inr (x, t) \<and> abs_hart t = a \<and> TLB_A_Entries t = R \<and>
     same_rest s (t\<lparr>TLB_A_Entries := TLB_A_Entries s\<rparr>))"

definition lr_result :: "regno \<Rightarrow> regno \<Rightarrow> 'a::len arch \<Rightarrow> 'a arch" where
  "lr_result rd rs1 a = seq_next 4 (wX rd (scast (ram_word (word_addr rs1 a) a)) a)"

definition sc_result :: "bool \<Rightarrow> regno \<Rightarrow> regno \<Rightarrow> regno \<Rightarrow> 'a::len arch \<Rightarrow> 'a arch" where
  "sc_result reserved rd rs1 rs2 a =
     (if reserved
      then seq_next 4 (wX rd 0 (ram_write (unat (word_addr rs1 a)) (le_bytes 4 (ucast (rX a rs2) :: 32 word)) a))
      else seq_next 4 (wX rd 1 a))"

lemma lr_effect:
  assumes xlen: "LENGTH('a) = 32 \<or> LENGTH('a) = 64" and x0: "hart_x0 s"
    and r: "\<not> RAM_SIZE < unat (word_addr rs1 (abs_hart s)) + 4"
  shows "reserving (CPU_dispatch (enc_A 0b00010 aqrl 0 rs1 rd)) (s :: 'a::len hart) False
     (lr_result rd rs1 (abs_hart s)) (insert (word_addr rs1 (abs_hart s)) (TLB_A_Entries s))"
proof -
  have a: "word_addr rs1 (abs_hart s) = ucast (register_bank (regs s) (unat rs1))"
    by (simp add: word_addr_def rX_bank [OF x0])
  note mem = word_ram [OF r [unfolded a]]
  have k: "A_decode (enc_A 0b00010 aqrl 0 rs1 rd) = OP_A_LR"
    by (simp add: A_decode_def A_opcode_def range_A)
  define old where "old = ram_word (ucast (register_bank (regs s) (unat rs1))) (abs_hart s)"
  have rd_old: "rd_mem (ucast (ucast (register_bank (regs s) (unat rs1)) :: 32 word)) 4 (s\<lparr>perf := p\<rparr>)
      = Inr (old, s\<lparr>perf := p, plat := (plat s)\<lparr>uninit_ix := Suc (uninit_ix (plat s))\<rparr>\<rparr>)" for p
    using mem(1) [of "s\<lparr>perf := p\<rparr>"] by (simp add: old_def)
  show ?thesis
    unfolding lr_result_def a dispatch_A [OF k, simplified] old_def [symmetric]
    by (cases "rd = 0")
      (simp_all add: run_defs reserving_def A_exec_instruction_def Exec_A_LR_def TLB_reserve_def
        Let_def rd_old)
qed

lemma sc_effect:
  assumes xlen: "LENGTH('a) = 32 \<or> LENGTH('a) = 64" and x0: "hart_x0 s"
    and res: "res = (word_addr rs1 (abs_hart s) \<in> TLB_A_Entries s)"
    and r: "res \<Longrightarrow> \<not> RAM_SIZE < unat (word_addr rs1 (abs_hart s)) + 4"
  shows "reserving (CPU_dispatch (enc_A 0b00011 aqrl rs2 rs1 rd)) (s :: 'a::len hart) False
     (sc_result res rd rs1 rs2 (abs_hart s)) (TLB_A_Entries s - {word_addr rs1 (abs_hart s)})"
proof -
  have a: "word_addr rs1 (abs_hart s) = ucast (register_bank (regs s) (unat rs1))"
    by (simp add: word_addr_def rX_bank [OF x0])
  have k: "A_decode (enc_A 0b00011 aqrl rs2 rs1 rd) = OP_A_SC"
    by (simp add: A_decode_def A_opcode_def range_A)
  show ?thesis
  proof (cases res)
    case True
    note mem = word_ram(2) [OF r [OF True, unfolded a]]
    show ?thesis
      unfolding sc_result_def a ram_write_abs rX_bank [OF x0] dispatch_A [OF k, simplified]
      using res [unfolded a] by (cases "rd = 0")
        (simp_all add: True run_defs reserving_def A_exec_instruction_def Exec_A_SC_def
          TLB_reserved_def Let_def mem)
  next
    case False
    then have n: "ucast (register_bank (regs s) (unat rs1)) \<notin> TLB_A_Entries s" using res a by simp
    then have "TLB_A_Entries s - {ucast (register_bank (regs s) (unat rs1))} = TLB_A_Entries s" by blast
    then show ?thesis
      unfolding sc_result_def a rX_bank [OF x0] dispatch_A [OF k, simplified]
      using n by (cases "rd = 0")
        (simp_all add: False run_defs reserving_def A_exec_instruction_def Exec_A_SC_def
          TLB_reserved_def Let_def)
  qed
qed

end
