(* ===== verification/Simulation.thy ===== *)
theory Simulation
  imports Machine M_Word C_Correct A_Correct
begin

text \<open>
  The processor running: the fetch of an instruction from the array, by either way, and one step
  of the processor against one step of the abstract machine.
\<close>

section \<open>Fetch\<close>

lemma fetched:
  "\<exists>st' hint' valid. c\<lparr>INSTR := w, trans_status := st, trans_dmi := hint\<rparr> =
     c\<lparr>INSTR := w, trans_status := st', trans_dmi := hint', dmi_ptr_valid := valid\<rparr>"
  by (rule exI [of _ st], rule exI [of _ hint], rule exI [of _ "dmi_ptr_valid c"]) simp

lemma fetch_ram:
  fixes c :: "'a::len cpu"
  assumes xlen: "LENGTH('a) = 32 \<or> LENGTH('a) = 64"
    and pc: "unat (register_PC (regs (core c))) + 4 \<le> SIZE"
    and w: "mem_bytes (unat (register_PC (regs (core c)))) 4 (main_memory (plat (core c))) = le_bytes 4 w"
  shows "\<exists>st hint valid. fetch c =
    Inr ((), c\<lparr>INSTR := w, trans_status := st, trans_dmi := hint, dmi_ptr_valid := valid\<rparr>)"
proof (cases "dmi_ptr_valid c")
  case True
  show ?thesis
    using True pc w fetched [where c = c and w = w and st = "trans_status c" and hint = "trans_dmi c"]
    by (simp add: fetch_def fetch_dmi_def exec_simps Let_def)
next
  case False
  let ?t = "fetch_payload c"
  have a: "unat (address ?t) = unat (register_PC (regs (core c)))"
    by (simp add: fetch_payload_def getPC_def ea [OF xlen])
  have "in_ram (address ?t) 4" using pc a by (simp add: in_ram_def)
  moreover have "Memory_b_transport ?t (main_memory (plat (core c))) =
      Inr (?t\<lparr>data := copy_into (le_bytes 4 w) (data ?t),
               dmi_hint := dmi_allowed (main_memory (plat (core c))),
               response_status := TLM_OK_RESPONSE\<rparr>, main_memory (plat (core c)))"
    using pc a w by (subst Memory_read) (auto simp: fetch_payload_def plain_access_def)
  ultimately have "BusCtrl_b_transport ?t (plat (core c)) =
      Inr (?t\<lparr>data := copy_into (le_bytes 4 w) (data ?t),
               dmi_hint := dmi_allowed (main_memory (plat (core c))),
               response_status := TLM_OK_RESPONSE\<rparr>, plat (core c))"
    by (subst bus_to_memory) simp_all
  then show ?thesis
    using False fetched [where c = c and w = w]
    by (auto simp: fetch_def fetch_bus_def exec_simps on_core_def is_response_error_iff of_bytes_copy)
qed

section \<open>One step\<close>

lemma on_core_run:
  "on_core m c = (case m (core c) of Inl e \<Rightarrow> Inl e | Inr (x, h) \<Rightarrow> Inr (x, c\<lparr>core := h\<rparr>))"
  by (simp add: on_core_def onto_run)

text \<open>The processor agrees with the manual on the state of the core and is not interrupted.\<close>

definition step_to :: "'a::len cpu \<Rightarrow> 'a arch \<Rightarrow> 'a cpu \<Rightarrow> bool" where
  "step_to c a c' \<longleftrightarrow>
     abs_hart (core c') = a \<and> interrupt c' = interrupt c \<and>
     irq_already_down c' = irq_already_down c \<and> int_cause c' = int_cause c \<and>
     CSR (regs (core c')) = CSR (regs (core c)) \<and>
     TLB_A_Entries (core c') = TLB_A_Entries (core c) \<and>
     sc_stopped (plat (core c')) = sc_stopped (plat (core c)) \<and>
     sc_now (plat (core c')) = sc_now (plat (core c)) \<and>
     timer (plat (core c')) = timer (plat (core c)) \<and>
     trace (plat (core c')) = trace (plat (core c)) \<and>
     instructions_executed (perf (core c')) = instructions_executed (perf (core c)) + 1"

lemma step_outcome:
  fixes c :: "'a::len cpu"
  assumes xlen: "LENGTH('a) = 32 \<or> LENGTH('a) = 64"
    and pc: "unat (PC (abs_hart (core c))) + 4 \<le> RAM_SIZE"
    and w: "ram_bytes (unat (PC (abs_hart (core c)))) 4 (abs_hart (core c)) = le_bytes 4 w"
    and o: "outcome (CPU_dispatch w) (core c\<lparr>perf := codeMemoryRead (perf (core c))\<rparr>) False a"
  shows "\<exists>c'. CPU_step c = Inr (False, c') \<and> step_to c a c'"
proof -
  have size: "SIZE = RAM_SIZE" by (simp add: SIZE_def RAM_SIZE_def)
  obtain st hint valid where f: "fetch c = Inr ((), c\<lparr>INSTR := w, trans_status := st,
      trans_dmi := hint, dmi_ptr_valid := valid\<rparr>)"
    using fetch_ram [OF xlen, of c w] pc w size
    unfolding ram_mem_bytes by (auto simp: abs_hart_def)
  let ?h = "core c\<lparr>perf := codeMemoryRead (perf (core c))\<rparr>"
  from o obtain t where t: "CPU_dispatch w ?h = Inr (False, t)" "abs_hart t = a" "same_rest ?h t"
    unfolding outcome_def by blast
  then show ?thesis
    using f by (simp add: CPU_step_def bnd_run on_core_run count_def step_to_def same_rest_def)
qed

text \<open>The four kinds of instructions.\<close>

lemma step_refines:
  fixes c :: "'a::len cpu"
  assumes xlen: "LENGTH('a) = 32 \<or> LENGTH('a) = 64" and x0: "hart_x0 (core c)"
    and step: "isa_step (abs_hart (core c)) a"
  shows "\<exists>c'. CPU_step c = Inr (False, c') \<and> step_to c a c'"
  using step
proof (cases rule: isa_step.cases)
  let ?h = "core c\<lparr>perf := codeMemoryRead (perf (core c))\<rparr>"
  have h: "hart_x0 ?h" using x0 by (simp add: hart_x0_def)
  {
    case (isa_fetch ins)
    then show ?thesis
      using dispatch_refines [OF xlen h, of ins a] by (intro step_outcome [OF xlen]) simp_all
  next
    case (isa_compressed hi ci)
    then show ?thesis
      using dispatch_c_refines [OF xlen h, of ci a hi] by (intro step_outcome [OF xlen]) simp_all
  next
    case (isa_amo k aqrl rs2 rs1 rd)
    then show ?thesis
      using dispatch_amo_refines [OF xlen h, of k rd rs1 rs2 a aqrl]
      by (intro step_outcome [OF xlen]) simp_all
  next
    case (isa_mdw m rd rs1 rs2)
    then show ?thesis
      using refine_mdw [OF h, of m rd rs1 rs2 a] by (intro step_outcome [OF xlen]) simp_all
  }
qed

end
