(* ===== verification/Traps.thy ===== *)
theory Traps
  imports Simulation
begin

text \<open>
  Exceptions, returns and interrupts as the program running on the processor sees them: what
  \<open>RaiseException\<close>, \<open>Exec_MRET\<close> and \<open>cpu_process_IRQ\<close> do to the CSRs, the program counter and
  the interrupt flags. \<open>csr_at\<close> reads a CSR as the map holds it (an absent key reads as zero).
\<close>

section \<open>Reading and writing CSRs\<close>

definition csr_at :: "int \<Rightarrow> 'a::len registers \<Rightarrow> 32 word" where
  "csr_at csr r = (case CSR r (of_int csr) of Some v \<Rightarrow> v | None \<Rightarrow> 0)"

text \<open>A CSR that is not one of the counters of the simulation time.\<close>

definition plain_csr :: "int \<Rightarrow> bool" where
  "plain_csr csr \<longleftrightarrow> 0 \<le> csr \<and> csr < 4096 \<and>
     csr \<notin> {CSR_CYCLE, CSR_MCYCLE, CSR_CYCLEH, CSR_MCYCLEH, CSR_TIME, CSR_TIMEH}"

lemma getCSR_plain:
  "plain_csr csr \<Longrightarrow> fst (getCSR now csr r) = ucast (csr_at csr r)"
  by (simp add: plain_csr_def getCSR_def csr_at_def split: option.splits)

lemma csr_at_getCSR [simp]: "csr_at csr' (snd (getCSR now csr r)) = csr_at csr' r"
  by (simp add: getCSR_def csr_at_def split: option.splits)

lemma csr_at_frame [simp]:
  "csr_at csr (r\<lparr>register_PC := pc\<rparr>) = csr_at csr r"
  "csr_at csr (r\<lparr>register_bank := b\<rparr>) = csr_at csr r"
  by (simp_all add: csr_at_def)

lemma csr_key:
  assumes "LENGTH('a) = 32 \<or> LENGTH('a) = 64" "0 \<le> a" "a < 4096" "0 \<le> b" "b < 4096"
  shows "(of_int a :: 'a::len word) = of_int b \<longleftrightarrow> a = b"
proof -
  have "take_bit LENGTH('a) a = a" "take_bit LENGTH('a) b = b"
    using assms by (auto simp: take_bit_int_eq_self_iff)
  then show ?thesis by (metis word_of_int_eq_iff)
qed

lemma csr_at_setCSR:
  assumes "LENGTH('a) = 32 \<or> LENGTH('a) = 64" "plain_csr a" "plain_csr b"
  shows "csr_at a (setCSR b v r) =
     (if a = b \<and> b \<noteq> CSR_MISA then ucast v else csr_at a (r :: 'a::len registers))"
  using csr_key [OF assms(1)] assms(2,3) by (auto simp: csr_at_def setCSR_def plain_csr_def)

lemma plain_csrs [simp]: "plain_csr CSR_MSTATUS" "plain_csr CSR_MTVEC" "plain_csr CSR_MEPC" "plain_csr CSR_MCAUSE"
 
  "plain_csr CSR_MTVAL" "plain_csr CSR_MIP" "plain_csr CSR_MISA" "plain_csr CSR_SEPC"
  by (simp_all add: plain_csr_def)

lemma and_bit: "w AND push_bit k 1 = 0 \<longleftrightarrow> \<not> bit w k" for w :: "'a::len word"
proof
  assume "w AND push_bit k 1 = 0"
  then have "\<not> bit (w AND push_bit k 1) k" by simp
  then show "\<not> bit w k" by (auto simp: bit_simps dest: bit_imp_le_length)
next
  assume "\<not> bit w k"
  then show "w AND push_bit k 1 = 0" by (intro bit_word_eqI) (auto simp: bit_simps)
qed

lemma csr_set_bit:
  fixes v :: "32 word"
  assumes "LENGTH('a) = 32 \<or> LENGTH('a) = 64"
  shows "(ucast (ucast v OR push_bit k 1 :: 'a::len word) :: 32 word) = v OR push_bit k 1"
    and "(ucast (ucast v AND NOT (push_bit k 1) :: 'a word) :: 32 word) = v AND NOT (push_bit k 1)"
  using assms by (intro bit_word_eqI; auto simp: bit_simps dest: bit_imp_le_length)+

lemma csr_bit:
  fixes v :: "32 word"
  assumes "LENGTH('a) = 32 \<or> LENGTH('a) = 64"
  shows "(ucast v AND 8 = (0 :: 'a::len word)) \<longleftrightarrow> \<not> bit v 3"
    and "(ucast v AND 0x80 = (0 :: 'a word)) \<longleftrightarrow> \<not> bit v 7"
    and "(ucast v AND 0x800 = (0 :: 'a word)) \<longleftrightarrow> \<not> bit v 11"
  using and_bit [of "ucast v :: 'a word" 3] and_bit [of "ucast v :: 'a word" 7]
    and_bit [of "ucast v :: 'a word" 11] assms
  by (auto simp: bit_unsigned_iff)

lemmas trap_simps =
  bnd_run on_core_run rd_csr_run getCSR_plain wr_csr_def access_defs modify_run gets_run

section \<open>Encodings\<close>

lemma decode_system:
  "decode 0x00000073 = OP_ECALL" "decode 0x00100073 = OP_EBREAK" "decode 0x30200073 = OP_MRET"
  "decode 0x10200073 = OP_SRET" "decode 0x10500073 = OP_WFI"
  by code_simp+

section \<open>Exceptions\<close>

text \<open>What \<open>mtval\<close> receives, and the causes that stop the simulation.\<close>

fun trap_value :: "Exception_cause \<Rightarrow> 32 word \<Rightarrow> 32 word \<Rightarrow> 32 word \<Rightarrow> 32 word" where
  "trap_value ILLEGAL_INSTRUCTION inst pc old = inst"
| "trap_value LOAD_ADDR_MISALIGN inst pc old = pc"
| "trap_value BREAK inst pc old = old"
| "trap_value _ inst pc old = 0"

lemma raise_effects:
  fixes s :: "'a::len hart"
  assumes xlen: "LENGTH('a) = 32 \<or> LENGTH('a) = 64"
  shows "\<exists>t. RaiseException cause i s = Inr ((), t) \<and>
    getPC (regs t) = ucast (csr_at CSR_MTVEC (regs s)) \<and>
    csr_at CSR_MEPC (regs t) = ucast (getPC (regs s)) \<and>
    csr_at CSR_MCAUSE (regs t) = cause_code cause \<and>
    csr_at CSR_MTVAL (regs t) = trap_value cause i (ucast (getPC (regs s))) (csr_at CSR_MTVAL (regs s)) \<and>
    csr_at CSR_MSTATUS (regs t) = csr_at CSR_MSTATUS (regs s) OR cause_code cause \<and>
    register_bank (regs t) = register_bank (regs s) \<and>
    plat t = (plat s)\<lparr>sc_stopped := sc_stopped (plat s) \<or> cause = BREAK\<rparr>"
proof -
  have u: "(ucast (ucast v :: 'a word) :: 32 word) = v" for v :: "32 word"
    using xlen by (intro bit_word_eqI) (auto simp: bit_simps)
  show ?thesis
    using xlen
    by (cases cause) (auto simp: RaiseException_def trap_simps csr_at_setCSR [OF xlen] u Let_def
        onto_run sc_stop_def)
qed

lemma mret_effects:
  fixes s :: "'a::len hart"
  assumes xlen: "LENGTH('a) = 32 \<or> LENGTH('a) = 64"
  shows "\<exists>t. Exec_MRET i s = Inr (True, t) \<and>
    getPC (regs t) = ucast (csr_at CSR_MEPC (regs s)) \<and>
    (\<forall>k. bit (csr_at CSR_MSTATUS (regs t)) k \<longleftrightarrow>
       bit (csr_at CSR_MSTATUS (regs s)) k \<or> k = 7 \<or> k = 3 \<and> bit (csr_at CSR_MSTATUS (regs s)) 7) \<and>
    register_bank (regs t) = register_bank (regs s) \<and> plat t = plat s"
proof -
  have "bit (push_bit 3 1 :: 'a word) k \<longleftrightarrow> k = 3" "bit (push_bit 7 1 :: 'a word) k \<longleftrightarrow> k = 7" for k
    using xlen by (simp_all only: bit_push_bit_iff bit_1_iff possible_bit_def) auto
  note b = this [simplified]
  have u: "bit (ucast ((ucast v OR 8) OR 0x80 :: 'a word) :: 32 word) k \<longleftrightarrow>
        bit v k \<or> k = 7 \<or> k = 3"
    "bit (ucast (ucast v OR 0x80 :: 'a word) :: 32 word) k \<longleftrightarrow> bit v k \<or> k = 7"
    for v :: "32 word" and k
    using xlen by (auto simp: bit_simps b dest: bit_imp_le_length)
  show ?thesis
    using xlen
    by (auto simp: Exec_MRET_def trap_simps csr_at_setCSR [OF xlen] csr_bit [OF xlen] Let_def u)
qed

section \<open>Interrupts\<close>

text \<open>
  The interrupt logic as a state machine over four flags: an interrupt is pending, the line
  was seen down, interrupts are enabled (\<open>mstatus\<close> bit 3) and one is being served (\<open>mip\<close>
  bit 11). The first component of \<open>irq_next\<close> tells that the interrupt is taken.
\<close>

record irq_view =
  pending :: bool
  down :: bool
  enabled :: bool
  serving :: bool

definition irq_next :: "irq_view \<Rightarrow> bool \<times> irq_view" where
  "irq_next v =
     (if pending v then
        (if enabled v \<and> \<not> serving v
         then (True, v\<lparr>pending := False, down := False, serving := True\<rparr>)
         else (False, v))
      else if down v then (False, v)
      else (False, v\<lparr>down := True, serving := False\<rparr>))"

definition irq_view_of :: "'a::len cpu \<Rightarrow> irq_view" where
  "irq_view_of c =
     \<lparr>pending = interrupt c, down = irq_already_down c,
      enabled = bit (csr_at CSR_MSTATUS (regs (core c))) 3,
      serving = bit (csr_at CSR_MIP (regs (core c))) 11\<rparr>"

text \<open>What the program sees: a jump to the handler when the interrupt is taken, else nothing.\<close>

definition irq_visible :: "bool \<Rightarrow> 'a::len registers \<Rightarrow> 'a registers \<Rightarrow> bool" where
  "irq_visible taken r r' \<longleftrightarrow>
     register_bank r' = register_bank r \<and>
     csr_at CSR_MSTATUS r' = csr_at CSR_MSTATUS r \<and>
     csr_at CSR_MTVEC r' = csr_at CSR_MTVEC r \<and>
     (if taken then
        getPC r' = ucast (csr_at CSR_MTVEC r) \<and>
        csr_at CSR_MEPC r' = ucast (getPC r) \<and>
        csr_at CSR_MCAUSE r' = 0x80000000
      else
        getPC r' = getPC r \<and> csr_at CSR_MEPC r' = csr_at CSR_MEPC r \<and>
        csr_at CSR_MCAUSE r' = csr_at CSR_MCAUSE r)"

lemma irq_refines:
  fixes c :: "'a::len cpu"
  assumes xlen: "LENGTH('a) = 32 \<or> LENGTH('a) = 64"
  shows "\<exists>c'. cpu_process_IRQ c = Inr (fst (irq_next (irq_view_of c)), c') \<and>
    irq_view_of c' = snd (irq_next (irq_view_of c)) \<and>
    irq_visible (fst (irq_next (irq_view_of c))) (regs (core c)) (regs (core c')) \<and>
    plat (core c') = plat (core c)"
proof -
  note u = csr_set_bit(1) [OF xlen, where k = 11, simplified]
    csr_set_bit(2) [OF xlen, where k = 11, simplified]
  show ?thesis
    using xlen
    by (cases "interrupt c"; cases "irq_already_down c";
        cases "bit (csr_at CSR_MSTATUS (regs (core c))) 3";
        cases "bit (csr_at CSR_MIP (regs (core c))) 11";
        auto simp: cpu_process_IRQ_def trap_simps csr_bit [OF xlen] csr_at_setCSR [OF xlen] u
          irq_next_def irq_view_of_def irq_visible_def bit_simps)
qed

end
