(* ===== verification/System.thy ===== *)
theory System
  imports Traps
begin

text \<open>
  The processor and its devices running. First the processor against the abstract machine of
  the manual, for as many instructions as the machine makes (\<open>forward_simulation\<close>); then the
  whole simulation as a step relation (\<open>step_system\<close>), in which a round of the processor and
  the firing of a timer notification happen in any order, and what holds in every state it
  reaches. The initial state is the one the constructor in src/Simulator.cpp builds.
\<close>

section \<open>Forward simulation\<close>

locale forward_simulation =
  fixes astep :: "'a \<Rightarrow> 'a \<Rightarrow> bool"
    and cstep :: "'c \<Rightarrow> 'c \<Rightarrow> bool"
    and R :: "'c \<Rightarrow> 'a \<Rightarrow> bool"
  assumes forward: "R c a \<Longrightarrow> astep a a' \<Longrightarrow> \<exists>c'. cstep c c' \<and> R c' a'"
begin

lemma runs: "(astep ^^ n) a a' \<Longrightarrow> R c a \<Longrightarrow> \<exists>c'. (cstep ^^ n) c c' \<and> R c' a'"
proof (induction n arbitrary: a')
  case 0
  then show ?case by auto
next
  case (Suc n)
  then obtain b where b: "(astep ^^ n) a b" "astep b a'" by auto
  then obtain d where "(cstep ^^ n) c d" "R d b" using Suc by blast
  moreover obtain c' where "cstep d c'" "R c' a'" using forward [OF \<open>R d b\<close> b(2)] by blast
  ultimately show ?case by (blast intro: relpowp_Suc_I)
qed

text \<open>While the abstract machine can go on, so can the code.\<close>

lemma not_stuck: "astep\<^sup>*\<^sup>* a b \<Longrightarrow> astep b b' \<Longrightarrow> R c a \<Longrightarrow> \<exists>d d'. cstep\<^sup>*\<^sup>* c d \<and> cstep d d' \<and> R d' b'"
proof -
  assume "astep\<^sup>*\<^sup>* a b" "astep b b'" "R c a"
  then obtain n where "(astep ^^ n) a b" by (auto dest: rtranclp_imp_relpowp)
  then obtain d where "(cstep ^^ n) c d" "R d b" using runs \<open>R c a\<close> by blast
  then show ?thesis
    using forward [OF _ \<open>astep b b'\<close>] by (blast dest: relpowp_imp_rtranclp)
qed

end

section \<open>The processor against the abstract machine\<close>

text \<open>
  A processor in an abstract state: not interrupted, not stopped, register 0 zero. A round of
  the processor that leaves the simulation running is a concrete step.
\<close>

definition in_state :: "'a::len cpu \<Rightarrow> 'a arch \<Rightarrow> bool" where
  "in_state c a \<longleftrightarrow>
     abs_hart (core c) = a \<and> hart_x0 (core c) \<and> \<not> interrupt c \<and> \<not> sc_stopped (plat (core c))"

definition round_to :: "'a::len cpu \<Rightarrow> 'a cpu \<Rightarrow> bool" where
  "round_to c c' \<longleftrightarrow> CPU_round c = Inr ((), c') \<and> \<not> sc_stopped (plat (core c'))"

lemma abs_hart_eq:
  "register_bank (regs t) = register_bank (regs s) \<Longrightarrow> getPC (regs t) = getPC (regs s) \<Longrightarrow>
     plat t = plat s \<Longrightarrow> abs_hart t = abs_hart s"
  by (simp add: abs_hart_def getPC_def)

lemma round_forward:
  fixes c :: "'a::len cpu"
  assumes xlen: "LENGTH('a) = 32 \<or> LENGTH('a) = 64" and c: "in_state c a" and a: "isa_step a a'"
  shows "\<exists>c'. round_to c c' \<and> in_state c' a'"
proof -
  obtain d where d: "CPU_step c = Inr (False, d)" "step_to c a' d"
    using step_refines [OF xlen, of c a'] a c unfolding in_state_def by blast
  have view: "irq_next (irq_view_of d) = (False, (irq_view_of d)\<lparr>down := True,
      serving := serving (irq_view_of d) \<and> irq_already_down d\<rparr>)"
    using d(2) c by (auto simp: irq_next_def irq_view_of_def step_to_def in_state_def)
  obtain e where e: "cpu_process_IRQ d = Inr (False, e)" "irq_view_of e = snd (irq_next (irq_view_of d))"
      "irq_visible False (regs (core d)) (regs (core e))" "plat (core e) = plat (core d)"
    using irq_refines [OF xlen, of d] unfolding view by auto
  define c' where "c' = e\<lparr>core := core e\<lparr>plat := (plat (core e))\<lparr>sc_now := sc_now (plat (core e)) + 10\<rparr>\<rparr>\<rparr>"
  have r: "CPU_round c = Inr ((), c')"
    by (simp add: CPU_round_def bnd_run d(1) e(1) on_core_run on_plat_def onto_run
        wait_default_time_def c'_def)
  have "abs_hart (core e) = a'"
    using e(3,4) d(2) abs_hart_eq [of "core e" "core d"] by (simp add: irq_visible_def step_to_def)
  then have "abs_hart (core c') = a'" by (simp add: c'_def abs_hart_def)
  moreover have "hart_x0 (core c')"
    using keepsD [OF x0.round _ r] c by (simp add: in_state_def)
  moreover have "\<not> interrupt c'"
    using e(2) unfolding view by (simp add: c'_def irq_view_of_def) (use d(2) c in \<open>simp add: step_to_def in_state_def\<close>)
  moreover have "\<not> sc_stopped (plat (core c'))"
    using e(4) d(2) c by (simp add: c'_def step_to_def in_state_def)
  ultimately show ?thesis using r by (auto simp: round_to_def in_state_def)
qed

interpretation rv32: forward_simulation isa_step round_to "in_state :: 32 cpu \<Rightarrow> 32 arch \<Rightarrow> bool"
  by unfold_locales (rule round_forward; simp)

interpretation rv64: forward_simulation isa_step round_to "in_state :: 64 cpu \<Rightarrow> 64 arch \<Rightarrow> bool"
  by unfold_locales (rule round_forward; simp)

lemma thread_rounds: "(round_to ^^ n) c c' \<Longrightarrow> CPU_thread n c = Inr ((), c')"
proof (induction n arbitrary: c)
  case (Suc n)
  from Suc.prems obtain d where "round_to c d" "(round_to ^^ n) d c'"
    by (rule relpowp_Suc_E2)
  moreover from this have "CPU_thread n d = Inr ((), c')" by (intro Suc.IH)
  ultimately show ?case by (simp add: bnd_run round_to_def)
qed simp

section \<open>The whole simulation\<close>

text \<open>
  The state the constructor builds from the contents of the memory, and the transaction the
  timer's thread sends. A notification fires at some time after it was asked for; the model
  lets it fire at any time once there is one, which includes what the kernel does.
\<close>

definition Simulator_platform :: "memory \<Rightarrow> (nat \<Rightarrow> 32 word) \<Rightarrow> platform" where
  "Simulator_platform m u =
     \<lparr>main_memory = m, timer = Timer_init, trace = \<lparr>terminal = []\<rparr>, sc_now = 0,
      sc_stopped = False, uninit = u, uninit_ix = 0\<rparr>"

definition Simulator_RV32 :: "memory \<Rightarrow> (nat \<Rightarrow> 32 word) \<Rightarrow> 32 cpu" where
  "Simulator_RV32 m u =
     CPU_init (Registers_init initCSR_32) (getPCfromHEX m) (Simulator_platform m u)"

definition Simulator_RV64 :: "memory \<Rightarrow> (nat \<Rightarrow> 32 word) \<Rightarrow> 64 cpu" where
  "Simulator_RV64 m u =
     CPU_init (Registers_init initCSR_64) (ucast (getPCfromHEX m)) (Simulator_platform m u)"

definition irq_trans :: payload where
  "irq_trans =
     \<lparr>command = TLM_WRITE_COMMAND, address = 0, data = le_bytes 4 timer_cause, data_length = 4,
      streaming_width = 4, byte_enable = False, response_status = TLM_INCOMPLETE_RESPONSE,
      dmi_hint = False\<rparr>"

inductive sim_step :: "'a::len cpu \<Rightarrow> 'a cpu \<Rightarrow> bool" where
  cpu_round:
    "\<not> sc_stopped (plat (core c)) \<Longrightarrow> CPU_round c = Inr ((), c') \<Longrightarrow> sim_step c c'"
| timer_event:
    "notified (timer (plat (core c))) \<noteq> [] \<Longrightarrow> call_interrupt irq_trans c = Inr ((), c') \<Longrightarrow>
     sim_step c c'"

inductive_cases sim_stepE: "sim_step c c'"

inductive_simps sim_step_iff: "sim_step c c'"

locale step_system =
  fixes step :: "'s \<Rightarrow> 's \<Rightarrow> bool"
    and init :: "'s \<Rightarrow> bool"
    and inv :: "'s \<Rightarrow> bool"
  assumes init_inv: "init s \<Longrightarrow> inv s"
    and step_inv: "inv s \<Longrightarrow> step s t \<Longrightarrow> inv t"
begin

lemma reachable: "step\<^sup>*\<^sup>* s t \<Longrightarrow> init s \<Longrightarrow> inv t"
  by (induction rule: rtranclp_induct) (auto intro: init_inv step_inv)

lemma never: "step\<^sup>*\<^sup>* s t \<Longrightarrow> init s \<Longrightarrow> \<not> inv t \<Longrightarrow> False"
  using reachable by blast

end

subsection \<open>Direct access to the memory\<close>

text \<open>
  The processor reads through a pointer into the memory only when the memory grants it; what
  the memory grants (\<open>dmi_allowed\<close>) was settled when its contents were loaded.
\<close>

definition dmi_ok :: "'a::len cpu \<Rightarrow> bool" where
  "dmi_ok c \<longleftrightarrow> (dmi_ptr_valid c \<longrightarrow> dmi_allowed (main_memory (plat (core c))))"

lemma on_core_dmi: "on_core m c = Inr (x, c') \<Longrightarrow> dmi_ptr_valid c' = dmi_ptr_valid c"
  by (auto simp: on_core_def onto_Inr_iff)

lemma irq_dmi: "cpu_process_IRQ c = Inr (x, c') \<Longrightarrow> dmi_ptr_valid c' = dmi_ptr_valid c"
  by (auto simp: cpu_process_IRQ_def bnd_Inr_iff on_core_def onto_Inr_iff split: if_splits)

lemma fetch_bus_grant:
  "fetch_bus c = Inr (x, d) \<Longrightarrow> dmi_ptr_valid d \<Longrightarrow>
     dmi_ptr_valid c \<or> dmi_allowed (main_memory (plat (core d)))"
  unfolding fetch_bus_def bnd_Inr_iff on_core_def onto_Inr_iff
  by (elim exE conjE)
    (auto simp: instr_direct_mem_ptr_def get_direct_mem_ptr_def split: if_splits)

lemma fetch_dmi_ok:
  assumes f: "fetch c = Inr (x, d)" and c: "dmi_ok c"
  shows "dmi_ok d"
proof (cases "dmi_ptr_valid c")
  case True
  have "hart_platform (plat (core c)) (core d)"
    by (rule keepsD [OF platform.fetch _ f]) (simp add: hart_platform_def)
  then show ?thesis
    using True c by (simp add: dmi_ok_def hart_platform_def platform_frame_def)
next
  case False
  then have "fetch_bus c = Inr (x, d)" using f by (simp add: fetch_def bnd_run)
  then show ?thesis using fetch_bus_grant False by (auto simp: dmi_ok_def)
qed

lemma keeps_dmi_ok: "keeps dmi_ok (CPU_round :: ('a::len cpu, unit) exec)"
proof (rule keepsI)
  fix c c' :: "'a cpu" and x
  assume c: "dmi_ok c" and r: "CPU_round c = Inr (x, c')"
  then obtain d where f: "fetch c = Inr ((), d)" and v: "dmi_ptr_valid c' = dmi_ptr_valid d"
    by (auto simp: CPU_round_def CPU_step_def bnd_Inr_iff dest!: on_core_dmi irq_dmi)
  have "hart_platform (plat (core c)) (core c')" "hart_platform (plat (core c)) (core d)"
    by (rule keepsD [OF platform.round _ r] keepsD [OF platform.fetch _ f], simp add: hart_platform_def)+
  then show "dmi_ok c'"
    using fetch_dmi_ok [OF f c] v by (simp add: dmi_ok_def hart_platform_def platform_frame_def)
qed

lemma call_interrupt_core:
  "call_interrupt tr c = Inr (x, c') \<Longrightarrow> core c' = core c \<and> dmi_ptr_valid c' = dmi_ptr_valid c"
  by (auto simp: call_interrupt_def Let_def split: if_splits)

subsection \<open>Time, the count of instructions and MISA\<close>

lemma round_clock:
  assumes "CPU_round c = Inr (x, c')"
  shows "hart_clock (sc_now (plat (core c)) + 10) (instructions_executed (perf (core c)) + 1) (core c')"
proof -
  let ?C = "hart_clock (sc_now (plat (core c))) (instructions_executed (perf (core c)))"
  obtain d e h b where f: "fetch c = Inr ((), d)"
    and h: "CPU_dispatch (INSTR d) ((core d)\<lparr>perf := codeMemoryRead (perf (core d))\<rparr>) = Inr (b, h)"
    and e: "cpu_process_IRQ (d\<lparr>core := h\<lparr>perf := instructionsInc (perf h)\<rparr>\<rparr>) = Inr e"
    and c': "c' = snd e\<lparr>core := core (snd e)\<lparr>plat := (plat (core (snd e)))\<lparr>sc_now := sc_now (plat (core (snd e))) + 10\<rparr>\<rparr>\<rparr>"
    using assms
    by (auto simp: CPU_round_def CPU_step_def bnd_Inr_iff on_core_def onto_Inr_iff count_def
        wait_default_time_def on_plat_def)
  have "?C (core d)" by (rule keepsD [OF clock.fetch _ f]) (simp add: hart_clock_def)
  then have "?C ((core d)\<lparr>perf := codeMemoryRead (perf (core d))\<rparr>)" by (simp add: hart_clock_def)
  then have "?C h" by (rule keepsD [OF clock.dispatch _ h])
  then have "hart_clock (sc_now (plat (core c))) (instructions_executed (perf (core c)) + 1)
      (core (d\<lparr>core := h\<lparr>perf := instructionsInc (perf h)\<rparr>\<rparr>))"
    by (simp add: hart_clock_def)
  then have "hart_clock (sc_now (plat (core c))) (instructions_executed (perf (core c)) + 1)
      (core (snd e))"
    by (rule keepsD [OF clock.irq, where x = "fst e"]) (use e in simp)
  then show ?thesis by (simp add: c' hart_clock_def)
qed

definition hart_misa :: "32 word \<Rightarrow> 'a::len hart \<Rightarrow> bool" where
  "hart_misa v s \<longleftrightarrow> CSR (regs s) (of_int CSR_MISA) = Some v"

lemma misa_invariant:
  assumes "LENGTH('a) = 32 \<or> LENGTH('a) = 64"
  shows "cpu_invariant (hart_misa v :: 'a::len hart \<Rightarrow> bool)"
proof -
  have key: "(of_int CSR_MISA :: 'a word) = of_int csr \<longleftrightarrow> CSR_MISA = csr" if "0 \<le> csr" "csr < 4096" for csr
    using csr_key [OF assms, of CSR_MISA csr] that by simp
  show ?thesis
    by unfold_locales
      (auto simp: keeps_access_defs hart_misa_def getCSR_def setCSR_def key [simplified] split: option.splits if_splits)
qed

interpretation misa32: cpu_invariant "hart_misa v :: 32 hart \<Rightarrow> bool"
  by (rule misa_invariant) simp

interpretation misa64: cpu_invariant "hart_misa v :: 64 hart \<Rightarrow> bool"
  by (rule misa_invariant) simp

subsection \<open>The invariant of the simulation\<close>

definition sim_inv :: "32 word \<Rightarrow> 'a::len cpu \<Rightarrow> bool" where
  "sim_inv misa c \<longleftrightarrow>
     hart_x0 (core c) \<and> dmi_ok c \<and> hart_misa misa (core c) \<and>
     sc_now (plat (core c)) = 10 * instructions_executed (perf (core c))"

lemma sim_inv_round:
  assumes "cpu_invariant (hart_misa misa :: 'a::len hart \<Rightarrow> bool)"
    and "sim_inv misa (c :: 'a cpu)" "CPU_round c = Inr ((), c')"
  shows "sim_inv misa c'"
  using assms(2) round_clock [OF assms(3)] keepsD [OF x0.round _ assms(3)]
    keepsD [OF keeps_dmi_ok _ assms(3)]
    keepsD [OF cpu_invariant.round [OF assms(1)] _ assms(3)]
  by (simp add: sim_inv_def hart_clock_def algebra_simps)

lemma sim_inv_step:
  assumes "cpu_invariant (hart_misa misa :: 'a::len hart \<Rightarrow> bool)"
    and "sim_inv misa (c :: 'a cpu)" "sim_step c c'"
  shows "sim_inv misa c'"
  using assms(3)
proof (cases rule: sim_step.cases)
  case cpu_round
  then show ?thesis using sim_inv_round [OF assms(1,2)] by blast
next
  case timer_event
  then show ?thesis
    using assms(2) call_interrupt_core by (fastforce simp: sim_inv_def dmi_ok_def)
qed

definition sim_init_RV32 :: "32 cpu \<Rightarrow> bool" where
  "sim_init_RV32 c \<longleftrightarrow> (\<exists>m u. c = Simulator_RV32 m u)"

definition sim_init_RV64 :: "64 cpu \<Rightarrow> bool" where
  "sim_init_RV64 c \<longleftrightarrow> (\<exists>m u. c = Simulator_RV64 m u)"

lemmas init_defs =
  CPU_init_def Simulator_platform_def Registers_init_def setValue_def setPC_def Let_def
  sim_inv_def hart_x0_def x0_zero_def dmi_ok_def hart_misa_def Performance_init_def registerWrite_def

interpretation sim32: step_system sim_step sim_init_RV32 "sim_inv 0x40001105"
proof unfold_locales
  show "sim_inv 0x40001105 c" if "sim_init_RV32 c" for c
    using that by (auto simp: sim_init_RV32_def Simulator_RV32_def initCSR_32_def init_defs)
  show "sim_inv 0x40001105 c'" if "sim_inv 0x40001105 c" "sim_step c c'" for c c' :: "32 cpu"
    by (rule sim_inv_step [OF misa_invariant that]) simp
qed

interpretation sim64: step_system sim_step sim_init_RV64 "sim_inv 0x80001105"
proof unfold_locales
  show "sim_inv 0x80001105 c" if "sim_init_RV64 c" for c
    using that by (auto simp: sim_init_RV64_def Simulator_RV64_def initCSR_64_def init_defs)
  show "sim_inv 0x80001105 c'" if "sim_inv 0x80001105 c" "sim_step c c'" for c c' :: "64 cpu"
    by (rule sim_inv_step [OF misa_invariant that]) simp
qed

end
