(* ===== verification/Csr.thy ===== *)
theory Csr
  imports Traps
begin

text \<open>
  The instructions on CSRs against the manual: with a destination other than \<open>x0\<close> (or any, for
  the write) each reads the old value and writes the new one; with \<open>x0\<close> the code's set and clear
  instructions do nothing at all. CSRs hold 32 bits in both register widths, and \<open>misa\<close> ignores
  writes.
\<close>

datatype csr_op = CSR_write | CSR_set | CSR_clear

fun csr_f3 :: "csr_op \<Rightarrow> 3 word" where
  "csr_f3 CSR_write = 1" | "csr_f3 CSR_set = 2" | "csr_f3 CSR_clear = 3"

fun csr_imm_f3 :: "csr_op \<Rightarrow> 3 word" where
  "csr_imm_f3 CSR_write = 5" | "csr_imm_f3 CSR_set = 6" | "csr_imm_f3 CSR_clear = 7"

fun csr_new :: "csr_op \<Rightarrow> 32 word \<Rightarrow> 32 word \<Rightarrow> 32 word" where
  "csr_new CSR_write old v = v"
| "csr_new CSR_set old v = old OR v"
| "csr_new CSR_clear old v = old AND NOT v"

definition enc_csr :: "12 word \<Rightarrow> regno \<Rightarrow> 3 word \<Rightarrow> regno \<Rightarrow> 32 word" where
  "enc_csr csr rs1 f3 rd = enc_I csr rs1 f3 rd 0b1110011"

text \<open>What an instruction that reads and writes \<open>csr\<close> leaves.\<close>

definition csr_written :: "int \<Rightarrow> 32 word \<Rightarrow> regno \<Rightarrow> 'a::len hart \<Rightarrow> 'a hart \<Rightarrow> bool" where
  "csr_written csr new rd s t \<longleftrightarrow>
     abs_hart t = seq_next 4 (wX rd (ucast (csr_at csr (regs s))) (abs_hart s)) \<and>
     csr_at csr (regs t) = (if csr = CSR_MISA then csr_at csr (regs s) else new) \<and>
     (\<forall>c. plain_csr c \<longrightarrow> c \<noteq> csr \<longrightarrow> csr_at c (regs t) = csr_at c (regs s)) \<and>
     plat t = plat s \<and> TLB_A_Entries t = TLB_A_Entries s"

lemma get_csr_enc: "get_csr (enc_csr csr rs1 f3 rd) = ucast csr"
  by (simp add: get_csr_def enc_csr_def word_bitwise_eq enc_I_def bit_blast not_bit_beyond)

lemma uint_csr_enc [simp]: "uint (get_csr (enc_csr csr rs1 f3 rd)) = uint csr"
proof -
  have "uint csr < 2 ^ LENGTH(12)" by (rule unsigned_less)
  then show ?thesis by (simp add: get_csr_enc unsigned_ucast_eq take_bit_int_eq_self)
qed

lemma fields_csr [simp]:
  "get_rd (enc_csr csr rs1 f3 rd) = unat rd" "get_rs1 (enc_csr csr rs1 f3 rd) = unat rs1"
  by (simp_all add: enc_csr_def)

lemma decode_csr:
  "decode (enc_csr csr rs1 1 rd) = OP_CSRRW" "decode (enc_csr csr rs1 2 rd) = OP_CSRRS"
  "decode (enc_csr csr rs1 3 rd) = OP_CSRRC" "decode (enc_csr csr rs1 5 rd) = OP_CSRRWI"
  "decode (enc_csr csr rs1 6 rd) = OP_CSRRSI" "decode (enc_csr csr rs1 7 rd) = OP_CSRRCI"
  by (simp_all add: enc_csr_def decode_defs field_defs range_enc)

lemma through_register:
  fixes v :: "32 word" and w :: "'a::len word"
  assumes "LENGTH('a) = 32 \<or> LENGTH('a) = 64"
  shows "(ucast (ucast v OR w) :: 32 word) = v OR ucast w"
    and "(ucast (ucast v AND NOT w) :: 32 word) = v AND NOT (ucast w)"
    and "(ucast (ucast v :: 'a word) :: 32 word) = v"
  using assms by (intro bit_word_eqI; auto simp: bit_simps dest: bit_imp_le_length)+

lemmas csr_run_defs = CPU_dispatch_def decode_csr exec_instruction_def always_def advance_def
  exec_simps rd_csr_run getCSR_plain wr_csr_def access_defs isa_simps Let_def

lemma csr_register:
  fixes s :: "'a::len hart"
  assumes xlen: "LENGTH('a) = 32 \<or> LENGTH('a) = 64" and x0: "hart_x0 s"
    and csr: "plain_csr (uint csr)" and rd: "rd \<noteq> 0 \<or> k = CSR_write"
  shows "\<exists>t. CPU_dispatch (enc_csr csr rs1 (csr_f3 k) rd) s = Inr (False, t) \<and>
    csr_written (uint csr) (csr_new k (csr_at (uint csr) (regs s)) (ucast (rX (abs_hart s) rs1))) rd s t"
  using rd unfolding rX_bank [OF x0]
  by (cases k; cases "rd = 0")
    (simp_all add: csr_run_defs Exec_CSRRW_def Exec_CSRRS_def Exec_CSRRC_def csr csr_written_def
      abs_hart_def csr_at_setCSR [OF xlen] through_register [OF xlen])

lemma csr_immediate:
  fixes s :: "'a::len hart"
  assumes xlen: "LENGTH('a) = 32 \<or> LENGTH('a) = 64" and x0: "hart_x0 s"
    and csr: "plain_csr (uint csr)" and rs1: "imm \<noteq> 0 \<or> k = CSR_write"
  shows "\<exists>t. CPU_dispatch (enc_csr csr imm (csr_imm_f3 k) rd) s = Inr (False, t) \<and>
    csr_written (uint csr) (csr_new k (csr_at (uint csr) (regs s)) (ucast imm)) rd s t"
proof -
  have i: "(of_nat (unat imm) :: 'a word) = ucast imm" "(ucast (ucast imm :: 'a word) :: 32 word) = ucast imm"
    using xlen by (simp_all add: unsigned_of_nat) (intro bit_word_eqI, auto simp: bit_simps)
  show ?thesis
    using rs1
    by (cases k; cases "rd = 0")
      (simp_all add: csr_run_defs Exec_CSRRWI_def Exec_CSRRSI_def Exec_CSRRCI_def csr csr_written_def
        abs_hart_def csr_at_setCSR [OF xlen] through_register [OF xlen] i)
qed

section \<open>Where the code differs\<close>

lemma csr_x0:
  assumes "k \<noteq> CSR_write"
  shows "CPU_dispatch (enc_csr csr rs1 (csr_f3 k) 0) s = Inr (False, s\<lparr>regs := incPC (regs s)\<rparr>)"
  using assms
  by (cases k) (simp_all add: csr_run_defs Exec_CSRRS_def Exec_CSRRC_def)

lemma csr_zero_immediate:
  assumes "k \<noteq> CSR_write"
  shows "CPU_dispatch (enc_csr csr 0 (csr_imm_f3 k) rd) s = Inr (False, s\<lparr>regs := incPC (regs s)\<rparr>)"
  using assms
  by (cases k) (simp_all add: csr_run_defs Exec_CSRRSI_def Exec_CSRRCI_def)

end
