(* ===== verification/Foreign.thy ===== *)
theory Foreign
  imports M_Word A_Correct
begin

text \<open>
  What the processor does with instructions of extensions it does not have. The decoder of the
  multiplications looks at the opcode only to tell the two widths apart and never at \<open>funct7\<close>; the
  decoder of the atomics looks at neither the opcode nor the width. Most foreign words are
  therefore executed as a multiplication, a division or an atomic operation.
\<close>

definition base_opcodes :: "7 word set" where
  "base_opcodes = {0b0110111, 0b0010111, 0b1101111, 0b1100111, 0b1100011, 0b0000011, 0b0100011,
     0b0010011, 0b0110011, 0b0001111, 0b1110011, 0b0011011, 0b0111011}"

definition foreign_opcode :: "7 word \<Rightarrow> bool" where
  "foreign_opcode op \<longleftrightarrow> take_bit 2 op = 3 \<and> op \<notin> base_opcodes"

lemma opcode_eq: "ucast op = (c :: 32 word) \<Longrightarrow> op = ucast c" for op :: "7 word"
  by (auto intro!: bit_word_eqI simp: bit_simps)

lemma foreign_decode:
  assumes "foreign_opcode op"
  shows "decode (enc_R f7 rs2 rs1 f3 rd op) = OP_ERROR"
    "C_decode rv32 (enc_R f7 rs2 rs1 f3 rd op) = OP_C_ERROR"
    "(ucast op :: 32 word) \<noteq> 0b110011"
proof -
  have n: "(ucast op :: 32 word) \<noteq> c" if "ucast c \<in> base_opcodes" for c
    using assms that opcode_eq [of op c] by (auto simp: foreign_opcode_def)
  show "decode (enc_R f7 rs2 rs1 f3 rd op) = OP_ERROR"
    by (simp add: decode_def opcode_def range_R n base_opcodes_def Let_def)
  show "(ucast op :: 32 word) \<noteq> 0b110011" by (rule n) (simp add: base_opcodes_def)
  have "take_bit 2 (ucast op :: 32 word) = ucast (take_bit 2 op)"
    by (intro bit_word_eqI) (auto simp: bit_simps)
  then have "take_bit 2 (ucast op :: 32 word) = 3" using assms by (simp add: foreign_opcode_def)
  then show "C_decode rv32 (enc_R f7 rs2 rs1 f3 rd op) = OP_C_ERROR"
    by (simp add: C_decode_def C_opcode_def range_R_low [simplified] Let_def)
qed

section \<open>Words executed as multiplications and divisions\<close>

lemma mdw_fields:
  "M_exec_instruction (enc_R f7 rs2 rs1 f3 rd op) (mdw_code m) = M_exec_instruction (enc_mdw m rd rs1 rs2) (mdw_code m)"
  by (cases m) (simp_all add: M_exec_instruction_def Exec_M_MULW_def Exec_M_DIVW_def Exec_M_DIVUW_def
      Exec_M_REMW_def Exec_M_REMUW_def)

lemma foreign_mdw:
  assumes "foreign_opcode op"
  shows "CPU_dispatch (enc_R f7 rs2 rs1 (md_f3 (mdw_md m)) rd op) = CPU_dispatch (enc_mdw m rd rs1 rs2)"
proof -
  have "M_decode (enc_R f7 rs2 rs1 (md_f3 (mdw_md m)) rd op) = mdw_code m"
    using foreign_decode(3) [OF assms] by (cases m) (simp_all add: M_decode_def M_opcode_def range_R)
  moreover have "mdw_code m \<noteq> OP_M_ERROR" by (cases m) simp_all
  ultimately show ?thesis
    unfolding dispatch_mdw
    by (simp add: CPU_dispatch_def foreign_decode [OF assms] mdw_fields)
qed

lemma md_fields:
  "M_exec_instruction (enc_R f7 rs2 rs1 f3 rd op) (md_code k) = M_exec_instruction (encode (MULDIV k rd rs1 rs2)) (md_code k)"
  by (cases k) (simp_all add: M_exec_instruction_def Exec_M_MUL_def Exec_M_MULH_def Exec_M_MULHSU_def
      Exec_M_MULHU_def Exec_M_MULH_32_def Exec_M_MULHSU_32_def Exec_M_MULHU_32_def Exec_M_MULH_64_def
      Exec_M_MULHSU_64_def Exec_M_MULHU_64_def Exec_M_DIV_def Exec_M_DIVU_def Exec_M_REM_def Exec_M_REMU_def)

lemma foreign_md:
  assumes "f7 \<noteq> 0" "f7 \<noteq> 0b0100000"
  shows "CPU_dispatch (enc_R f7 rs2 rs1 (md_f3 k) rd 0b0110011) = CPU_dispatch (encode (MULDIV k rd rs1 rs2))"
proof -
  let ?w = "enc_R f7 rs2 rs1 (md_f3 k) rd 0b0110011"
  have "(ucast f7 :: 32 word) \<noteq> 0" "(ucast f7 :: 32 word) \<noteq> 0b0100000"
    using assms opcode_eq [of f7] by fastforce+
  then have "decode ?w = OP_ERROR"
    by (simp add: decode_def decode_op_def opcode_def get_funct7_def range_R Let_def)
  moreover have "C_decode b ?w = OP_C_ERROR" for b
    by (simp add: C_decode_def C_opcode_def range_R_low [simplified] Let_def)
  moreover have "M_decode ?w = md_code k"
    by (cases k) (simp_all add: M_decode_def M_opcode_def range_R)
  moreover have "md_code k \<noteq> OP_M_ERROR" by (cases k) simp_all
  ultimately show ?thesis
    unfolding dispatch_M by (simp add: CPU_dispatch_def md_fields del: encode.simps)
qed

section \<open>Words executed as atomic operations\<close>

text \<open>
  Two words with the same registers and top bits are the same atomic operation, but for the
  \<open>LR\<close> with a nonzero \<open>rs2\<close>, whose exception saves the word.
\<close>

lemma range_f5: "sc_range 31 27 (enc_R f7 rs2 rs1 f3 rd op) = ucast (drop_bit 2 f7)"
  by (simp add: enc_blast)

lemma A_fields:
  assumes "k = OP_A_LR \<longrightarrow> rs2 = 0"
  shows "A_exec_instruction (enc_R f7 rs2 rs1 f3 rd op) k = A_exec_instruction (enc_R f7 rs2 rs1 f3' rd op') k"
  using assms by (cases k) (simp_all add: A_exec_instruction_def Exec_A_defs amo_read_def)

definition atomic_word :: "7 word \<Rightarrow> regno \<Rightarrow> regno \<Rightarrow> regno \<Rightarrow> 32 word" where
  "atomic_word f7 rs2 rs1 rd = enc_R f7 rs2 rs1 2 rd 0b0101111"

lemma enc_A_word: "enc_A f5 aqrl rs2 rs1 rd = atomic_word (push_bit 2 (ucast f5) OR ucast aqrl) rs2 rs1 rd"
  by (simp add: atomic_word_def enc_A_def enc_blast)

lemma dispatch_foreign_A:
  assumes op: "foreign_opcode op" and f3: "f3 \<in> {1, 2, 3}"
  shows "CPU_dispatch (enc_R f7 rs2 rs1 f3 rd op) =
    (let k = A_decode (enc_R f7 rs2 rs1 f3 rd op) in
     if k \<noteq> OP_A_ERROR then
       bnd (A_exec_instruction (enc_R f7 rs2 rs1 f3 rd op) k) (\<lambda>b. bnd (advance inc_pc b) (\<lambda>_. ret False))
     else bnd NOP (\<lambda>_. ret False))"
proof -
  have "M_decode (enc_R f7 rs2 rs1 f3 rd op) = OP_M_ERROR"
    using foreign_decode(3) [OF op] f3 by (auto simp: M_decode_def M_opcode_def range_R Let_def)
  then show ?thesis by (simp add: CPU_dispatch_def foreign_decode [OF op])
qed

lemma foreign_amo:
  assumes op: "foreign_opcode op" and f3: "f3 \<in> {1, 2, 3}" and lr: "drop_bit 2 f7 = 2 \<longrightarrow> rs2 = 0"
  shows "CPU_dispatch (enc_R f7 rs2 rs1 f3 rd op) =
    (CPU_dispatch (atomic_word f7 rs2 rs1 rd) :: ('a::len hart, bool) exec)"
proof -
  have a: "foreign_opcode 0b0101111" by (simp add: foreign_opcode_def base_opcodes_def)
  have k: "A_decode (enc_R f7 rs2 rs1 f3 rd op) = A_decode (enc_R f7 rs2 rs1 2 rd 0b0101111)"
    by (simp add: A_decode_def A_opcode_def range_f5)
  have "rs2 = 0" if "A_decode (enc_R f7 rs2 rs1 2 rd 0b0101111) = OP_A_LR"
    using that lr opcode_eq [of "drop_bit 2 f7"]
    by (simp add: A_decode_def A_opcode_def range_f5 Let_def split: if_splits)
  then show ?thesis
    unfolding atomic_word_def dispatch_foreign_A [OF op f3] dispatch_foreign_A [OF a insertI2 [OF insertI1]] k Let_def
    using A_fields [of "A_decode (enc_R f7 rs2 rs1 2 rd 0b0101111)" rs2 f7 rs1 f3 rd op 2 "0b0101111", where 'a = 'a]
    by simp
qed

section \<open>Words that run as others\<close>

text \<open>The pairs of a foreign word and the word of the processor's own instructions it runs as.\<close>

inductive runs_as :: "32 word \<Rightarrow> 32 word \<Rightarrow> bool" where
  as_word_operation:
    "foreign_opcode op \<Longrightarrow>
     runs_as (enc_R f7 rs2 rs1 (md_f3 (mdw_md m)) rd op) (enc_mdw m rd rs1 rs2)"
| as_operation:
    "f7 \<noteq> 0 \<Longrightarrow> f7 \<noteq> 0b0100000 \<Longrightarrow>
     runs_as (enc_R f7 rs2 rs1 (md_f3 k) rd 0b0110011) (encode (MULDIV k rd rs1 rs2))"
| as_atomic:
    "foreign_opcode op \<Longrightarrow> f3 \<in> {1, 2, 3} \<Longrightarrow> (drop_bit 2 f7 = 2 \<longrightarrow> rs2 = 0) \<Longrightarrow>
     runs_as (enc_R f7 rs2 rs1 f3 rd op) (atomic_word f7 rs2 rs1 rd)"

lemma runs_as_dispatch:
  "runs_as v w \<Longrightarrow> (CPU_dispatch v :: ('a::len hart, bool) exec) = CPU_dispatch w"
  by (erule runs_as.cases) (simp_all only: foreign_mdw foreign_md foreign_amo not_False_eq_True)

end
