(* ===== verification/System_Machine.thy ===== *)
theory System_Machine
  imports System Csr Foreign
begin

text \<open>
  The abstract machine with its privileged state and its devices: the CSRs, the reservations, the
  interrupt flags, the clock, the timer, the console and the request to stop. It executes the
  instructions of the user machine (\<open>isa_step\<close>), traps, returns, fences, the instructions on CSRs,
  atomics on any address, the compressed break and the compressed illegal instruction, loads and stores
  (compressed ones too) at the addresses of the devices. It stops at words no decoder knows, and runs
  foreign words as the instructions the decoders take them for (\<open>runs_as\<close>). It
  takes interrupts between instructions, and receives the timer's interrupt at any time once the
  timer is armed. Where the code is not what the manual says (the status register of a trap, the
  cause of an interrupt, \<open>x0\<close> as destination of set and clear, the set of reservations, atomics
  with one register twice, what an exchange does to its source), this machine is what the code
  implements.
\<close>

section \<open>State\<close>

record (overloaded) 'a sys =
  prog :: "'a arch"
  csrs :: "int \<Rightarrow> 32 word"
  resv :: "32 word set"
  irq_waiting :: bool
  irq_seen_down :: bool
  halted :: bool
  clock :: "64 word"
  mtime :: "64 word"
  mtimecmp :: "64 word"
  armed :: bool
  console :: "byte list"

text \<open>The counters show the clock; every other CSR is a register of 32 bits.\<close>

definition csr_old :: "int \<Rightarrow> 'a::len sys \<Rightarrow> 32 word" where
  "csr_old k p =
     (if k \<in> {CSR_CYCLE, CSR_MCYCLE, CSR_TIME} then ucast (clock p)
      else if k \<in> {CSR_CYCLEH, CSR_MCYCLEH, CSR_TIMEH} then ucast (drop_bit 32 (clock p))
      else csrs p k)"

definition csr_put :: "int \<Rightarrow> 32 word \<Rightarrow> 'a sys \<Rightarrow> 'a sys" where
  "csr_put k v p = (if plain_csr k \<and> k \<noteq> CSR_MISA then p\<lparr>csrs := (csrs p)(k := v)\<rparr> else p)"

definition user :: "('a arch \<Rightarrow> 'a arch) \<Rightarrow> 'a sys \<Rightarrow> 'a sys" where
  "user f p = p\<lparr>prog := f (prog p)\<rparr>"

section \<open>Devices\<close>

text \<open>The halves of a doubleword.\<close>

definition low_half :: "64 word \<Rightarrow> 32 word" where
  "low_half w = ucast w"

definition high_half :: "64 word \<Rightarrow> 32 word" where
  "high_half w = ucast (drop_bit 32 w)"

definition halves :: "32 word \<Rightarrow> 32 word \<Rightarrow> 64 word" where
  "halves hi lo = push_bit 32 (ucast hi) OR ucast lo"

text \<open>
  A load of a word from the timer: its time is the clock when the low half was last read, or what
  was written since. A store to the high half of the comparator arms the timer for good.
\<close>

definition dev_load :: "nat \<Rightarrow> 'a::len sys \<Rightarrow> (32 word \<times> 'a sys) option" where
  "dev_load ea p =
     (if ea = 0x40004000 then Some (low_half (clock p), p\<lparr>mtime := clock p\<rparr>)
      else if ea = 0x40004004 then Some (high_half (mtime p), p)
      else if ea = 0x40004008 then Some (low_half (mtimecmp p), p)
      else if ea = 0x4000400C then Some (high_half (mtimecmp p), p)
      else None)"

text \<open>
  A store to the console, of any width, prints the lowest byte. A store where there is neither
  memory nor a device does nothing; beyond 0x90000000 nothing is promised.
\<close>

definition dev_store :: "store_op \<Rightarrow> nat \<Rightarrow> 32 word \<Rightarrow> 'a::len sys \<Rightarrow> 'a sys option" where
  "dev_store st ea v p =
     (if st = S_D then None
      else if 0x40000000 \<le> ea \<and> ea < 0x40000004 then Some (p\<lparr>console := console p @ [ucast v]\<rparr>)
      else if 0x40004000 \<le> ea \<and> ea < 0x40004010 then
        (if st \<noteq> S_W then None
         else if ea = 0x40004000 then Some (p\<lparr>mtime := halves (high_half (mtime p)) v\<rparr>)
         else if ea = 0x40004004 then Some (p\<lparr>mtime := halves v (low_half (mtime p))\<rparr>)
         else if ea = 0x40004008 then Some (p\<lparr>mtimecmp := halves (high_half (mtimecmp p)) v\<rparr>)
         else if ea = 0x4000400C then
           Some (p\<lparr>mtimecmp := halves v (low_half (mtimecmp p)), armed := True\<rparr>)
         else None)
      else if RAM_SIZE \<le> ea \<and> ea < 0x90000000 then Some p
      else None)"

section \<open>Instructions\<close>

datatype csr_source = From_register regno | Immediate regno

datatype sys_insn =
    S_ECALL
  | S_EBREAK
  | S_MRET
  | S_SRET
  | S_WFI
  | S_FENCE "12 word" regno regno
  | S_CSR csr_op csr_source "12 word" regno
  | S_LR "2 word" regno regno
  | S_SC "2 word" regno regno regno
  | S_AMO amo_op "2 word" regno regno regno
  | S_SWAP "2 word" regno regno regno
  | S_LOAD regno regno "12 word"
  | S_STORE store_op regno regno "12 word"
  | S_COMPRESSED "16 word" cinsn
  | S_C_EBREAK "16 word"
  | S_C_ILLEGAL "16 word" regp
  | S_UNKNOWN "7 word" regno regno "3 word" regno "7 word"

fun enc_sys :: "sys_insn \<Rightarrow> 32 word" where
  "enc_sys S_ECALL = 0x00000073"
| "enc_sys S_EBREAK = 0x00100073"
| "enc_sys S_MRET = 0x30200073"
| "enc_sys S_SRET = 0x10200073"
| "enc_sys S_WFI = 0x10500073"
| "enc_sys (S_FENCE m rs1 rd) = enc_I m rs1 0 rd 0b0001111"
| "enc_sys (S_CSR k (From_register rs1) csr rd) = enc_csr csr rs1 (csr_f3 k) rd"
| "enc_sys (S_CSR k (Immediate imm) csr rd) = enc_csr csr imm (csr_imm_f3 k) rd"
| "enc_sys (S_LR aqrl rs1 rd) = enc_A 0b00010 aqrl 0 rs1 rd"
| "enc_sys (S_SC aqrl rs2 rs1 rd) = enc_A 0b00011 aqrl rs2 rs1 rd"
| "enc_sys (S_AMO k aqrl rs2 rs1 rd) = enc_A (amo_f5 k) aqrl rs2 rs1 rd"
| "enc_sys (S_SWAP aqrl rs2 rs1 rd) = enc_A 0b00001 aqrl rs2 rs1 rd"
| "enc_sys (S_LOAD rd rs1 imm) = encode (LOAD L_W rd rs1 imm)"
| "enc_sys (S_STORE st rs1 rs2 imm) = encode (STORE st rs1 rs2 imm)"
| "enc_sys (S_COMPRESSED hi ci) = c_encode hi ci"
| "enc_sys (S_C_EBREAK hi) = cenc hi 4 2 (mid_CR 1 0 0)"
| "enc_sys (S_C_ILLEGAL hi rd) = cenc hi 0 0 (mid_CIW rd 0)"
| "enc_sys (S_UNKNOWN f7 rs2 rs1 f3 rd op) = enc_R f7 rs2 rs1 f3 rd op"

section \<open>Effects\<close>

definition trap :: "Exception_cause \<Rightarrow> 32 word \<Rightarrow> 'a::len sys \<Rightarrow> 'a sys" where
  "trap cause inst p =
     (let pc = ucast (PC (prog p)) in
      p\<lparr>prog := go (ucast (csrs p CSR_MTVEC)) (prog p),
        csrs := (csrs p)
          (CSR_MEPC := pc, CSR_MTVAL := trap_value cause inst pc (csrs p CSR_MTVAL),
           CSR_MCAUSE := cause_code cause, CSR_MSTATUS := csrs p CSR_MSTATUS OR cause_code cause),
        halted := halted p \<or> cause = BREAK\<rparr>)"

definition mret :: "'a::len sys \<Rightarrow> 'a sys" where
  "mret p =
     (let st = csrs p CSR_MSTATUS in
      p\<lparr>prog := go (ucast (csrs p CSR_MEPC)) (prog p),
        csrs := (csrs p)(CSR_MSTATUS := (if bit st 7 then st OR push_bit 3 1 else st) OR push_bit 7 1)\<rparr>)"

fun csr_operand :: "csr_source \<Rightarrow> 'a::len arch \<Rightarrow> 32 word" where
  "csr_operand (From_register rs1) a = ucast (rX a rs1)"
| "csr_operand (Immediate imm) a = ucast imm"

text \<open>Set and clear do nothing for \<open>x0\<close> as destination, or for an immediate 0.\<close>

fun csr_idle :: "csr_op \<Rightarrow> csr_source \<Rightarrow> regno \<Rightarrow> bool" where
  "csr_idle CSR_write src rd \<longleftrightarrow> False"
| "csr_idle _ (From_register rs1) rd \<longleftrightarrow> rd = 0"
| "csr_idle _ (Immediate imm) rd \<longleftrightarrow> imm = 0"

definition csr_step :: "csr_op \<Rightarrow> csr_source \<Rightarrow> int \<Rightarrow> regno \<Rightarrow> 'a::len sys \<Rightarrow> 'a sys" where
  "csr_step k src csr rd p =
     (if csr_idle k src rd then user (seq_next 4) p
      else user (\<lambda>a. seq_next 4 (wX rd (ucast (csr_old csr p)) a))
             (csr_put csr (csr_new k (csr_old csr p) (csr_operand src (prog p))) p))"

text \<open>A load or store at a device, of an instruction of \<open>len\<close> bytes.\<close>

definition dev_op :: "'a::len word \<Rightarrow> insn \<Rightarrow> 'a sys \<Rightarrow> 'a sys option" where
  "dev_op len ins p =
     (case ins of
        LOAD L_W rd rs1 imm \<Rightarrow>
          map_option (\<lambda>(v, p). user (\<lambda>a. seq_next len (wX rd (scast v) a)) p)
            (dev_load (unat (rX (prog p) rs1 + scast imm)) p)
      | STORE st rs1 rs2 imm \<Rightarrow>
          map_option (user (seq_next len))
            (dev_store st (unat (rX (prog p) rs1 + scast imm)) (ucast (rX (prog p) rs2)) p)
      | _ \<Rightarrow> None)"

text \<open>
  Words that none of the decoders knows: an opcode of no extension, with a number the atomic
  operations do not have.
\<close>

definition unknown_word :: "7 word \<Rightarrow> 3 word \<Rightarrow> 7 word \<Rightarrow> bool" where
  "unknown_word f7 f3 op \<longleftrightarrow> foreign_opcode op \<and> f3 \<in> {1, 2, 3} \<and>
     drop_bit 2 f7 \<notin> {0b00000, 0b00001, 0b00010, 0b00011, 0b00100, 0b01000, 0b01100, 0b10000, 0b10100,
       0b11000, 0b11100}"

fun sys_op :: "sys_insn \<Rightarrow> 'a::len sys \<Rightarrow> 'a sys option" where
  "sys_op S_ECALL p = Some (trap CALL_FROM_M_MODE 0x00000073 p)"
| "sys_op S_EBREAK p = Some (trap BREAK 0x00100073 p)"
| "sys_op S_MRET p = Some (mret p)"
| "sys_op S_SRET p = Some (user (go (ucast (csrs p CSR_SEPC))) p)"
| "sys_op S_WFI p = Some (user (seq_next 4) p)"
| "sys_op (S_FENCE m rs1 rd) p =
     (let next_pc = ucast (PC (prog p)) + 4 in
      if RAM_SIZE < unat next_pc + 4 then None
      else Some (user (seq_next 4) p
        \<lparr>halted := halted p \<or> ram_word next_pc (prog p) = enc_sys S_ECALL\<rparr>))"
| "sys_op (S_CSR k src csr rd) p = Some (csr_step k src (uint csr) rd p)"
| "sys_op (S_LR aqrl rs1 rd) p =
     (let adr = word_addr rs1 (prog p) in
      if RAM_SIZE < unat adr + 4 then None
      else Some (user (lr_result rd rs1) (p\<lparr>resv := insert adr (resv p)\<rparr>)))"
| "sys_op (S_SC aqrl rs2 rs1 rd) p =
     (let adr = word_addr rs1 (prog p); reserved = adr \<in> resv p in
      if reserved \<and> RAM_SIZE < unat adr + 4 then None
      else Some (user (sc_result reserved rd rs1 rs2) (p\<lparr>resv := resv p - {adr}\<rparr>)))"
| "sys_op (S_AMO k aqrl rs2 rs1 rd) p =
     (if RAM_SIZE < unat (word_addr rs1 (prog p)) + 4 then None
      else Some (user (\<lambda>a. amo_with k rd rs1 (amo_operand rd rs1 rs2 a) a) p))"
| "sys_op (S_SWAP aqrl rs2 rs1 rd) p =
     (if RAM_SIZE < unat (word_addr rs1 (prog p)) + 4 then None
      else Some (user (swap_result rd rs1 rs2) p))"
| "sys_op (S_LOAD rd rs1 imm) p = dev_op 4 (LOAD L_W rd rs1 imm) p"
| "sys_op (S_STORE st rs1 rs2 imm) p = dev_op 4 (STORE st rs1 rs2 imm) p"
| "sys_op (S_COMPRESSED hi ci) p = (if has_cinsn LENGTH('a) ci then dev_op 2 (c_expand ci) p else None)"
| "sys_op (S_C_EBREAK hi) p = Some (trap BREAK (enc_sys (S_C_EBREAK hi)) p)"
| "sys_op (S_C_ILLEGAL hi rd) p = Some (trap ILLEGAL_INSTRUCTION (enc_sys (S_C_ILLEGAL hi rd)) p)"
| "sys_op (S_UNKNOWN f7 rs2 rs1 f3 rd op) p =
     (if unknown_word f7 f3 op then Some (p\<lparr>halted := True\<rparr>) else None)"

text \<open>
  The instructions that report a breakpoint: environment calls and the compressed break, not the
  break of 32 bits.
\<close>

fun breaks :: "sys_insn \<Rightarrow> bool" where
  "breaks S_ECALL \<longleftrightarrow> True"
| "breaks (S_C_EBREAK hi) \<longleftrightarrow> True"
| "breaks _ \<longleftrightarrow> False"

text \<open>The words of user instructions that a foreign word can run as.\<close>

definition user_word :: "32 word \<Rightarrow> 'a::len arch \<Rightarrow> 'a arch \<Rightarrow> bool" where
  "user_word w a a' \<longleftrightarrow>
     (\<exists>ins. w = encode ins \<and> isa_exec ins a = Some a') \<or>
     (\<exists>m rd rs1 rs2. w = enc_mdw m rd rs1 rs2 \<and> mdw_exec m rd rs1 rs2 a = Some a')"

text \<open>A step, with what it reports.\<close>

inductive sys_insn_step :: "bool \<Rightarrow> 'a::len sys \<Rightarrow> 'a sys \<Rightarrow> bool" where
  sys_user:
    "isa_step (prog p) a \<Longrightarrow> sys_insn_step False p (p\<lparr>prog := a\<rparr>)"
| sys_privileged:
    "unat (PC (prog p)) + 4 \<le> RAM_SIZE \<Longrightarrow>
     ram_bytes (unat (PC (prog p))) 4 (prog p) = le_bytes 4 (enc_sys i) \<Longrightarrow>
     sys_op i p = Some p' \<Longrightarrow> sys_insn_step (breaks i) p p'"
| sys_foreign_user:
    "unat (PC (prog p)) + 4 \<le> RAM_SIZE \<Longrightarrow>
     ram_bytes (unat (PC (prog p))) 4 (prog p) = le_bytes 4 v \<Longrightarrow>
     runs_as v w \<Longrightarrow> user_word w (prog p) a \<Longrightarrow> sys_insn_step False p (p\<lparr>prog := a\<rparr>)"
| sys_foreign:
    "unat (PC (prog p)) + 4 \<le> RAM_SIZE \<Longrightarrow>
     ram_bytes (unat (PC (prog p))) 4 (prog p) = le_bytes 4 v \<Longrightarrow>
     runs_as v (enc_sys i) \<Longrightarrow> sys_op i p = Some p' \<Longrightarrow> sys_insn_step (breaks i) p p'"

section \<open>Interrupts and events\<close>

definition interrupt_phase :: "'a::len sys \<Rightarrow> 'a sys" where
  "interrupt_phase p =
     (if irq_waiting p then
        (if bit (csrs p CSR_MSTATUS) 3 \<and> \<not> bit (csrs p CSR_MIP) 11 then
           p\<lparr>prog := go (ucast (csrs p CSR_MTVEC)) (prog p),
             csrs := (csrs p)
               (CSR_MIP := csrs p CSR_MIP OR push_bit 11 1, CSR_MEPC := ucast (PC (prog p)),
                CSR_MCAUSE := 0x80000000),
             irq_waiting := False, irq_seen_down := False\<rparr>
         else p)
      else if irq_seen_down p then p
      else p\<lparr>csrs := (csrs p)(CSR_MIP := csrs p CSR_MIP AND NOT (push_bit 11 1)), irq_seen_down := True\<rparr>)"

datatype event = Round | Timer_fires

inductive sys_step :: "event \<Rightarrow> 'a::len sys \<Rightarrow> 'a sys \<Rightarrow> bool" where
  sys_round:
    "\<not> halted p \<Longrightarrow> sys_insn_step b p q \<Longrightarrow>
     sys_step Round p ((interrupt_phase q)\<lparr>clock := clock q + 10\<rparr>)"
| sys_timer:
    "armed p \<Longrightarrow> sys_step Timer_fires p (p\<lparr>irq_waiting := True\<rparr>)"

text \<open>The same events of the code.\<close>

inductive sim_event :: "event \<Rightarrow> 'a::len cpu \<Rightarrow> 'a cpu \<Rightarrow> bool" where
  event_round:
    "\<not> sc_stopped (plat (core c)) \<Longrightarrow> CPU_round c = Inr ((), c') \<Longrightarrow> sim_event Round c c'"
| event_timer:
    "notified (timer (plat (core c))) \<noteq> [] \<Longrightarrow> call_interrupt irq_trans c = Inr ((), c') \<Longrightarrow>
     sim_event Timer_fires c c'"

lemma sim_step_event: "sim_step c c' \<longleftrightarrow> (\<exists>e. sim_event e c c')"
  by (auto simp: sim_step.simps sim_event.simps)

end
