(* ===== verification/Devices.thy ===== *)
theory Devices
  imports MemoryInterface
begin

text \<open>
  What stands behind the bus, as the data port sees it: the map of addresses (\<open>route\<close>), the
  timer's registers, the terminal, the addresses nothing answers at, and the address that ends
  a simulation.
\<close>

section \<open>The map of addresses\<close>

datatype target = To_host | To_timer | To_trace | To_memory

definition route :: "nat \<Rightarrow> target" where
  "route a =
     (if 0x90000000 \<le> a then To_host
      else if 0x40004000 \<le> a \<and> a < 0x40004010 then To_timer
      else if 0x40000000 \<le> a \<and> a < 0x40000004 then To_trace
      else To_memory)"

text \<open>What a module did, with the status the bus puts over the one it answered with.\<close>

definition answered ::
  "('m \<Rightarrow> platform \<Rightarrow> platform) \<Rightarrow> platform \<Rightarrow> sim_error + payload \<times> 'm \<Rightarrow>
     sim_error + payload \<times> platform" where
  "answered put p r =
     (case r of Inl e \<Rightarrow> Inl e
      | Inr (tr, m) \<Rightarrow> Inr (tr\<lparr>response_status := TLM_OK_RESPONSE\<rparr>, put m p))"

lemma bus_routes:
  "BusCtrl_b_transport tr p =
     (case route (unat (address tr)) of
        To_host \<Rightarrow> Inr (tr, p\<lparr>sc_stopped := True\<rparr>)
      | To_timer \<Rightarrow> answered (\<lambda>t p. p\<lparr>timer := t\<rparr>) p (Timer_b_transport (sc_now p) tr (timer p))
      | To_trace \<Rightarrow> answered (\<lambda>t p. p\<lparr>trace := t\<rparr>) p (Trace_b_transport tr (trace p))
      | To_memory \<Rightarrow> answered (\<lambda>m p. p\<lparr>main_memory := m\<rparr>) p (Memory_b_transport tr (main_memory p)))"
proof -
  let ?a = "unat (address tr)"
  consider "0x90000000 \<le> ?a" | "0x40004000 \<le> ?a" "?a < 0x40004010" | "0x40000000 \<le> ?a" "?a < 0x40000004"
    | "?a < 0x90000000" "\<not> (0x40004000 \<le> ?a \<and> ?a < 0x40004010)" "\<not> (0x40000000 \<le> ?a \<and> ?a < 0x40000004)"
    by linarith
  note cases = this
  have timer: "0x40004000 \<le> ?a \<and> ?a < 0x40004010 \<longleftrightarrow>
      0x40004004 \<le> ?a \<and> ?a < 0x40004008 \<or> 0x40004000 \<le> ?a \<and> ?a < 0x40004004 \<or>
      0x4000400C \<le> ?a \<and> ?a < 0x40004010 \<or> 0x40004008 \<le> ?a \<and> ?a < 0x4000400C"
    by linarith
  show ?thesis
    unfolding BusCtrl_b_transport_def Let_def to_host_iff route_iff timer [symmetric]
    using cases by cases (auto simp: route_def word_le_nat_alt exec_simps onto_run answered_def split: sum.splits)
qed

section \<open>Addresses without a device\<close>

text \<open>
  Between the end of the array and the first device, and between the devices, an access goes
  to the memory, which refuses it; the bus then says that all went well.
\<close>

definition nowhere :: "64 word \<Rightarrow> bool" where
  "nowhere a \<longleftrightarrow> route (unat a) = To_memory \<and> SIZE \<le> unat a"

lemma read_nowhere:
  "nowhere a \<Longrightarrow> readDataMem a n p =
     Inr (uninit p (uninit_ix p), p\<lparr>uninit_ix := Suc (uninit_ix p)\<rparr>)"
  by (simp add: readDataMem_def uninitialised_def bnd_run bus_routes nowhere_def answered_def
      Memory_outside is_response_error_iff)

lemma write_nowhere: "nowhere a \<Longrightarrow> writeDataMem a v n p = Inr ((), p)"
  by (simp add: writeDataMem_def bnd_run bus_routes nowhere_def answered_def
      Memory_outside is_response_error_iff)

section \<open>The end of a simulation\<close>

text \<open>
  The bus stops the simulation but leaves the status as the initiator set it, incomplete, which
  the data port takes for an error.
\<close>

lemma to_host_transport:
  "0x90000000 \<le> unat (address tr) \<Longrightarrow>
     BusCtrl_b_transport tr p = Inr (tr, p\<lparr>sc_stopped := True\<rparr>)"
  by (simp add: bus_routes route_def)

lemma to_host_access:
  assumes "0x90000000 \<le> unat a"
  shows "writeDataMem a v n p = Inl (SC_report_error a)"
    and "readDataMem a n p = Inl (SC_report_error a)"
  using assms
  by (simp_all add: writeDataMem_def readDataMem_def uninitialised_def bnd_run to_host_transport
      is_response_error_iff)

section \<open>Terminal\<close>

lemma trace_transport:
  assumes "0x40000000 \<le> unat (address tr)" "unat (address tr) < 0x40000004" "data tr = b # bs"
  shows "BusCtrl_b_transport tr p =
    Inr (tr\<lparr>response_status := TLM_OK_RESPONSE\<rparr>,
         p\<lparr>trace := (trace p)\<lparr>terminal := terminal (trace p) @ [b]\<rparr>\<rparr>)"
  using assms by (simp add: bus_routes route_def answered_def Trace_b_transport_def)

lemma le_bytes_4_Cons: "le_bytes 4 v = ucast v # le_bytes 3 (drop_bit 8 v)" for v :: "32 word"
  by (simp add: eval_nat_numeral)

lemma trace_write:
  assumes "0x40000000 \<le> unat a" "unat a < 0x40000004"
  shows "writeDataMem a v n p =
    Inr ((), p\<lparr>trace := (trace p)\<lparr>terminal := terminal (trace p) @ [ucast v]\<rparr>\<rparr>)"
  by (simp add: writeDataMem_def bnd_run trace_transport [OF _ _ , of _ "ucast v" "le_bytes 3 (drop_bit 8 v)"]
      assms le_bytes_4_Cons is_response_error_iff del: le_bytes.simps)

text \<open>A string written one character at a time.\<close>

primrec put_string :: "64 word \<Rightarrow> byte list \<Rightarrow> (platform, unit) exec" where
  "put_string a [] = ret ()"
| "put_string a (b # bs) = bnd (writeDataMem a (ucast b) 1) (\<lambda>_. put_string a bs)"

lemma ucast_ucast_b: "(ucast (ucast b :: 32 word) :: byte) = b"
  by (rule bit_word_eqI) (auto simp: bit_simps dest: bit_imp_le_length)

lemma put_string_run:
  assumes "0x40000000 \<le> unat a" "unat a < 0x40000004"
  shows "put_string a bs p =
    Inr ((), p\<lparr>trace := (trace p)\<lparr>terminal := terminal (trace p) @ bs\<rparr>\<rparr>)"
  by (induction bs arbitrary: p) (simp_all add: bnd_run trace_write [OF assms] ucast_ucast_b)

section \<open>Timer\<close>

lemma timer_transport:
  assumes "0x40004000 \<le> unat (address tr)" "unat (address tr) < 0x40004010"
  shows "BusCtrl_b_transport tr p =
    answered (\<lambda>t p. p\<lparr>timer := t\<rparr>) p (Timer_b_transport (sc_now p) tr (timer p))"
  using assms by (simp add: bus_routes route_def)

lemma timer_word_write:
  assumes "0x40004000 \<le> unat a" "unat a < 0x40004010" "timer_write a v (timer p) = Some t"
  shows "writeDataMem a v 4 p = Inr ((), p\<lparr>timer := t\<rparr>)"
  using assms
  by (simp add: writeDataMem_def bnd_run timer_transport Timer_b_transport_def answered_def
      is_response_error_iff)

lemma timer_word_read:
  assumes "0x40004000 \<le> unat a" "unat a < 0x40004010"
    and "timer_read (sc_now p) a (timer p) = Some (v, t)"
  shows "readDataMem a 4 p = Inr (v, p\<lparr>uninit_ix := Suc (uninit_ix p), timer := t\<rparr>)"
  using assms
  by (simp add: readDataMem_def uninitialised_def bnd_run timer_transport Timer_b_transport_def
      answered_def is_response_error_iff)

text \<open>The comparator set low word first.\<close>

definition set_mtimecmp :: "32 word \<Rightarrow> 32 word \<Rightarrow> (platform, unit) exec" where
  "set_mtimecmp lo hi =
     bnd (writeDataMem TIMERCMP_MEMORY_ADDRESS_LO lo 4) (\<lambda>_.
     writeDataMem TIMERCMP_MEMORY_ADDRESS_HI hi 4)"

lemma set_mtimecmp_run:
  "set_mtimecmp lo hi p =
     (let cmp = push_bit 32 (ucast hi) OR ucast lo in
      Inr ((), p\<lparr>timer := (timer p)\<lparr>m_mtimecmp := cmp,
          notified := (cmp - m_mtime (timer p)) # notified (timer p)\<rparr>\<rparr>))"
proof -
  let ?t = "(timer p)\<lparr>m_mtimecmp := sc_set_range 31 0 (ucast lo) (m_mtimecmp (timer p))\<rparr>"
  have "writeDataMem TIMERCMP_MEMORY_ADDRESS_LO lo 4 p = Inr ((), p\<lparr>timer := ?t\<rparr>)"
    by (rule timer_word_write) (simp_all add: timer_write_def)
  moreover have "writeDataMem TIMERCMP_MEMORY_ADDRESS_HI hi 4 (p\<lparr>timer := ?t\<rparr>) =
      Inr ((), p\<lparr>timer := ?t\<lparr>m_mtimecmp := push_bit 32 (ucast hi) OR ucast lo,
        notified := ((push_bit 32 (ucast hi) OR ucast lo) - m_mtime (timer p)) # notified (timer p)\<rparr>\<rparr>)"
    by (subst timer_word_write) (simp_all add: timer_write_def mtime_from_halves Let_def)
  ultimately show ?thesis by (simp add: set_mtimecmp_def bnd_run Let_def)
qed

text \<open>The time read low word first, and high word first.\<close>

definition get_mtime :: "(platform, 32 word \<times> 32 word) exec" where
  "get_mtime =
     bnd (readDataMem TIMER_MEMORY_ADDRESS_LO 4) (\<lambda>lo.
     bnd (readDataMem TIMER_MEMORY_ADDRESS_HI 4) (\<lambda>hi. ret (lo, hi)))"

lemma read_lo: "readDataMem TIMER_MEMORY_ADDRESS_LO 4 p =
    Inr (ucast (sc_now p), p\<lparr>uninit_ix := Suc (uninit_ix p),
      timer := (timer p)\<lparr>m_mtime := sc_now p\<rparr>\<rparr>)"
proof (rule timer_word_read)
  have "(ucast (sc_range 31 0 (sc_now p)) :: 32 word) = ucast (sc_now p)"
    by (rule bit_word_eqI) (auto simp: bit_blast dest: bit_imp_le_length)
  then show "timer_read (sc_now p) TIMER_MEMORY_ADDRESS_LO (timer p) =
      Some (ucast (sc_now p), (timer p)\<lparr>m_mtime := sc_now p\<rparr>)"
    by (simp add: timer_read_def Let_def)
qed simp_all

lemma read_hi: "readDataMem TIMER_MEMORY_ADDRESS_HI 4 p =
    Inr (ucast (drop_bit 32 (m_mtime (timer p))), p\<lparr>uninit_ix := Suc (uninit_ix p)\<rparr>)"
proof -
  have "(ucast (sc_range 63 32 (m_mtime (timer p))) :: 32 word) = ucast (drop_bit 32 (m_mtime (timer p)))"
    by (rule bit_word_eqI) (auto simp: bit_blast dest: bit_imp_le_length)
  then show ?thesis
    by (subst timer_word_read [where t = "timer p" and v = "ucast (drop_bit 32 (m_mtime (timer p)))"])
      (simp_all add: timer_read_def)
qed

lemma get_mtime_run:
  "\<exists>q. get_mtime p = Inr ((ucast (sc_now p), ucast (drop_bit 32 (sc_now p))), q) \<and>
     m_mtime (timer q) = sc_now p"
  by (simp add: get_mtime_def bnd_run read_lo read_hi)

end
