(* ===== verification/System_Correct.thy ===== *)
theory System_Correct
  imports System_Machine Devices
begin

text \<open>
  The processor and its devices refine the machine with privileged state, instruction by instruction and
  event by event.
\<close>

section \<open>Abstraction\<close>

definition csr_view :: "'a::len registers \<Rightarrow> int \<Rightarrow> 32 word" where
  "csr_view r k = (if plain_csr k then csr_at k r else 0)"

definition abs_sys :: "bool \<Rightarrow> bool \<Rightarrow> 'a::len hart \<Rightarrow> 'a sys" where
  "abs_sys f d s =
     \<lparr>prog = abs_hart s, csrs = csr_view (regs s), resv = TLB_A_Entries s, irq_waiting = f,
      irq_seen_down = d, halted = sc_stopped (plat s), clock = sc_now (plat s),
      mtime = m_mtime (timer (plat s)), mtimecmp = m_mtimecmp (timer (plat s)),
      armed = (notified (timer (plat s)) \<noteq> []), console = terminal (trace (plat s))\<rparr>"

lemma csr_view_plain [simp]: "plain_csr k \<Longrightarrow> csr_view r k = csr_at k r"
  by (simp add: csr_view_def)

lemma csr_view_frame [simp]:
  "csr_view (r\<lparr>register_PC := pc\<rparr>) = csr_view r"
  "csr_view (r\<lparr>register_bank := b\<rparr>) = csr_view r"
  "csr_view (snd (getCSR now csr r)) = csr_view r"
  by (simp_all add: csr_view_def fun_eq_iff)

text \<open>A write to one of the counters goes to the map of the CSRs but is never read.\<close>

lemma csr_view_setCSR:
  fixes r :: "'a::len registers"
  assumes xlen: "LENGTH('a) = 32 \<or> LENGTH('a) = 64" and csr: "0 \<le> csr" "csr < 4096"
  shows "csr_view (setCSR csr v r) =
    (if plain_csr csr \<and> csr \<noteq> CSR_MISA then (csr_view r)(csr := ucast v) else csr_view r)"
proof -
  have "(of_int k :: 'a word) = of_int csr \<longleftrightarrow> k = csr" if "plain_csr k" for k
    by (rule csr_key [OF xlen]) (use that csr in \<open>simp_all add: plain_csr_def\<close>)
  then show ?thesis by (auto simp: csr_view_def csr_at_def setCSR_def fun_eq_iff)
qed

lemma getCSR_old:
  fixes s :: "'a::len hart"
  assumes xlen: "LENGTH('a) = 32 \<or> LENGTH('a) = 64" and csr: "0 \<le> csr" "csr < 4096"
  shows "fst (getCSR (sc_now (plat s)) csr (regs s)) = ucast (csr_old csr (abs_sys f d s))"
proof (cases "plain_csr csr")
  case True
  then show ?thesis
    by (simp add: getCSR_plain csr_old_def abs_sys_def) (auto simp: plain_csr_def)
next
  case False
  have l: "(ucast (w AND 0xFFFFFFFF) :: 'a word) = ucast (ucast w :: 32 word)" for w :: "64 word"
    using xlen by (intro bit_word_eqI) (auto simp: bit_blast dest: bit_imp_le_length)
  have h: "(ucast (ucast (w AND 0xFFFFFFFF) :: 32 word) :: 'a word) = ucast (ucast w :: 32 word)" for w :: "64 word"
    by (intro bit_word_eqI) (auto simp: bit_blast dest: bit_imp_le_length)
  from False csr show ?thesis
    by (auto simp: plain_csr_def getCSR_def csr_old_def abs_sys_def l h)
qed

text \<open>What a run of the code leaves, as a state of the machine.\<close>

definition leaves :: "('a::len hart, 'b) exec \<Rightarrow> 'b \<Rightarrow> bool \<Rightarrow> bool \<Rightarrow> 'a hart \<Rightarrow> 'a sys \<Rightarrow> bool" where
  "leaves m x f d s p \<longleftrightarrow> (\<exists>t. m s = Inr (x, t) \<and> abs_sys f d t = p)"

lemma leavesI: "m s = Inr (x, t) \<Longrightarrow> abs_sys f d t = p \<Longrightarrow> leaves m x f d s p"
  by (auto simp: leaves_def)

section \<open>Traps and returns\<close>

lemma raise_leaves:
  fixes s :: "'a::len hart"
  assumes xlen: "LENGTH('a) = 32 \<or> LENGTH('a) = 64"
  shows "leaves (RaiseException cause i) () f d s (trap cause i (abs_sys f d s))"
proof -
  have u: "(ucast (ucast v :: 'a word) :: 32 word) = v" for v :: "32 word"
    by (rule through_register(3) [OF xlen])
  show ?thesis
    using xlen
    by (cases cause)
      (auto simp: leaves_def RaiseException_def trap_simps csr_view_setCSR [OF xlen] u Let_def
        onto_run sc_stop_def trap_def abs_sys_def abs_hart_def go_def)
qed

lemma mret_leaves:
  fixes s :: "'a::len hart"
  assumes xlen: "LENGTH('a) = 32 \<or> LENGTH('a) = 64"
  shows "leaves (Exec_MRET i) True f d s (mret (abs_sys f d s))"
proof -
  have "(ucast v OR 8 :: 'a word) = ucast (v OR 8)" for v :: "32 word"
    by (simp add: unsigned_or_eq)
  then have "(ucast ((ucast v OR 8 :: 'a word) OR 0x80) :: 32 word) = (v OR 8) OR 0x80" for v :: "32 word"
    using csr_set_bit(1) [OF xlen, of "v OR 8" 7] by simp
  then show ?thesis
    using csr_set_bit(1) [OF xlen, where k = 7]
    by (auto simp: leaves_def Exec_MRET_def trap_simps csr_view_setCSR [OF xlen] csr_bit [OF xlen] Let_def
        mret_def abs_sys_def abs_hart_def go_def)
qed

lemma op_ecall:
  fixes s :: "'a::len hart"
  assumes xlen: "LENGTH('a) = 32 \<or> LENGTH('a) = 64"
  shows "leaves (CPU_dispatch (enc_sys S_ECALL)) True f d s (trap CALL_FROM_M_MODE 0x00000073 (abs_sys f d s))"
    and "leaves (CPU_dispatch (enc_sys S_EBREAK)) False f d s (trap BREAK 0x00100073 (abs_sys f d s))"
    and "leaves (CPU_dispatch (enc_sys S_MRET)) False f d s (mret (abs_sys f d s))"
  using raise_leaves [OF xlen, of CALL_FROM_M_MODE "0x00000073" f d s]
    raise_leaves [OF xlen, of BREAK "0x00100073" f d s] mret_leaves [OF xlen, of "0x30200073" f d s]
  by (auto simp: leaves_def CPU_dispatch_def decode_system exec_instruction_def always_def answer_def
      Exec_ECALL_def Exec_EBREAK_def exec_simps advance_def)

lemma op_sret:
  fixes s :: "'a::len hart"
  shows "leaves (CPU_dispatch (enc_sys S_SRET)) False f d s
      (user (go (ucast (csrs (abs_sys f d s) CSR_SEPC))) (abs_sys f d s))"
    and "leaves (CPU_dispatch (enc_sys S_WFI)) False f d s (user (seq_next 4) (abs_sys f d s))"
  by (auto simp: leaves_def CPU_dispatch_def decode_system exec_instruction_def always_def
      Exec_SRET_def Exec_WFI_def advance_def trap_simps exec_simps user_def seq_next_def go_def
      abs_sys_def abs_hart_def)

section \<open>Instructions on CSRs\<close>

lemma prog_abs_sys [simp]: "prog (abs_sys f d s) = abs_hart s"
  by (simp add: abs_sys_def)

lemma op_csr:
  fixes s :: "'a::len hart"
  assumes xlen: "LENGTH('a) = 32 \<or> LENGTH('a) = 64" and x0: "hart_x0 s"
  shows "leaves (CPU_dispatch (enc_sys (S_CSR k src csr rd))) False f d s
    (csr_step k src (uint csr) rd (abs_sys f d s))"
proof -
  have b: "0 \<le> uint csr" "uint csr < 4096"
    using unsigned_less [where w = csr and 'a = int] by simp_all
  have i: "(of_nat (unat imm) :: 'a word) = ucast imm" "(ucast (ucast imm :: 'a word) :: 32 word) = ucast imm"
    for imm :: regno
    using xlen by (simp_all add: unsigned_of_nat) (intro bit_word_eqI, auto simp: bit_simps)
  note old = getCSR_old [OF xlen b, of s f d]
  note defs = leaves_def CPU_dispatch_def decode_csr exec_instruction_def always_def advance_def exec_simps
    rd_csr_run wr_csr_def access_defs isa_simps Let_def csr_step_def old csr_view_setCSR [OF xlen b]
    through_register [OF xlen] i csr_put_def user_def
  note after = abs_sys_def abs_hart_def csr_view_setCSR [OF xlen b] through_register [OF xlen] i
  show ?thesis
  proof (cases src)
    case (From_register rs1)
    note r = rX_bank [OF x0, of rs1]
    show ?thesis
      using From_register
      by (cases k; cases "rd = 0")
        (simp_all add: defs r Exec_CSRRW_def Exec_CSRRS_def Exec_CSRRC_def, simp_all add: after)
  next
    case (Immediate imm)
    then show ?thesis
      by (cases k; cases "rd = 0"; cases "imm = 0")
        (simp_all add: defs Exec_CSRRWI_def Exec_CSRRSI_def Exec_CSRRCI_def, simp_all add: after)
  qed
qed

section \<open>Reservations\<close>

lemma reserving_leaves:
  "reserving m s x a R \<Longrightarrow> leaves m x f d s ((abs_sys f d s)\<lparr>prog := a, resv := R\<rparr>)"
  unfolding reserving_def leaves_def
  by (elim exE, rule exI, auto simp: abs_sys_def same_rest_def csr_view_def csr_at_def fun_eq_iff)

lemma op_lr:
  fixes s :: "'a::len hart"
  assumes xlen: "LENGTH('a) = 32 \<or> LENGTH('a) = 64" and x0: "hart_x0 s"
    and p: "sys_op (S_LR aqrl rs1 rd) (abs_sys f d s) = Some p"
  shows "leaves (CPU_dispatch (enc_sys (S_LR aqrl rs1 rd))) False f d s p"
  using reserving_leaves [OF lr_effect [OF xlen x0, of rs1 aqrl rd], of f d] p
  by (simp add: Let_def user_def split: if_splits) (auto simp: abs_sys_def)

lemma op_sc:
  fixes s :: "'a::len hart"
  assumes xlen: "LENGTH('a) = 32 \<or> LENGTH('a) = 64" and x0: "hart_x0 s"
    and p: "sys_op (S_SC aqrl rs2 rs1 rd) (abs_sys f d s) = Some p"
  shows "leaves (CPU_dispatch (enc_sys (S_SC aqrl rs2 rs1 rd))) False f d s p"
  using reserving_leaves [OF sc_effect [OF xlen x0 refl, of rs1 aqrl rs2 rd], of f d] p
  by (simp add: Let_def user_def split: if_splits) (auto simp: abs_sys_def)

section \<open>Read, modify, write\<close>

lemma outcome_leaves:
  "outcome m s x a \<Longrightarrow> leaves m x f d s ((abs_sys f d s)\<lparr>prog := a\<rparr>)"
  unfolding outcome_def leaves_def
  by (elim exE, rule exI, auto simp: abs_sys_def same_rest_def csr_view_def csr_at_def fun_eq_iff)

lemma op_amo:
  fixes s :: "'a::len hart"
  assumes xlen: "LENGTH('a) = 32 \<or> LENGTH('a) = 64" and x0: "hart_x0 s"
  shows "sys_op (S_AMO k aqrl rs2 rs1 rd) (abs_sys f d s) = Some p \<Longrightarrow>
      leaves (CPU_dispatch (enc_sys (S_AMO k aqrl rs2 rs1 rd))) False f d s p"
    and "sys_op (S_SWAP aqrl rs2 rs1 rd) (abs_sys f d s) = Some p \<Longrightarrow>
      leaves (CPU_dispatch (enc_sys (S_SWAP aqrl rs2 rs1 rd))) False f d s p"
  using outcome_leaves [OF amo_effect [OF xlen x0, where ?rs1.0 = rs1 and k = k and aqrl = aqrl and ?rs2.0 = rs2 and rd = rd], of f d]
    outcome_leaves [OF swap_effect [OF xlen x0, where ?rs1.0 = rs1 and aqrl = aqrl and ?rs2.0 = rs2 and rd = rd], of f d]
  by (auto simp: user_def split: if_splits)

section \<open>Words without a meaning\<close>

lemma op_unknown:
  fixes s :: "'a::len hart"
  assumes p: "sys_op (S_UNKNOWN f7 rs2 rs1 f3 rd op) (abs_sys f d s) = Some p"
  shows "leaves (CPU_dispatch (enc_sys (S_UNKNOWN f7 rs2 rs1 f3 rd op))) False f d s p"
proof -
  have u: "foreign_opcode op" "f3 \<in> {1, 2, 3}" and q: "p = (abs_sys f d s)\<lparr>halted := True\<rparr>"
    using p by (auto simp: unknown_word_def split: if_splits)
  have n: "(ucast (drop_bit 2 f7) :: 32 word) \<noteq> c"
    if "ucast c \<in> {0b00000, 0b00001, 0b00010, 0b00011, 0b00100, 0b01000, 0b01100, 0b10000, 0b10100,
      0b11000, 0b11100 :: 7 word}" for c
    using that p opcode_eq [of "drop_bit 2 f7" c] by (auto simp: unknown_word_def split: if_splits)
  have "A_decode (enc_R f7 rs2 rs1 f3 rd op) = OP_A_ERROR"
    by (simp add: A_decode_def A_opcode_def range_f5 Let_def n)
  then show ?thesis
    by (simp add: leaves_def dispatch_foreign_A [OF u] NOP_def stop_sim_def exec_simps q)
      (simp add: abs_sys_def abs_hart_def)
qed

section \<open>Fences\<close>

lemma decode_fence: "decode (enc_sys (S_FENCE m rs1 rd)) = OP_FENCE"
  by (simp add: decode_defs field_defs range_enc)

lemma op_fence:
  fixes s :: "'a::len hart"
  assumes p: "sys_op (S_FENCE m rs1 rd) (abs_sys f d s) = Some p"
  shows "leaves (CPU_dispatch (enc_sys (S_FENCE m rs1 rd))) False f d s p"
proof -
  define adr where "adr = (ucast (PC (abs_hart s)) :: 32 word) + 4"
  define stop where "stop \<longleftrightarrow> ram_word adr (abs_hart s) = 0x73"
  have r: "\<not> RAM_SIZE < unat adr + 4"
    and p: "p = user (seq_next 4) (abs_sys f d s)
        \<lparr>halted := halted (abs_sys f d s) \<or> stop\<rparr>"
    using p by (auto simp: Let_def adr_def stop_def split: if_splits)
  have "Exec_FENCE w s = Inr (True, s\<lparr>plat := (plat s)\<lparr>uninit_ix := Suc (uninit_ix (plat s)),
      sc_stopped := sc_stopped (plat s) \<or> stop\<rparr>\<rparr>)" for w
    using word_ram(1) [OF r, of s] unfolding adr_def stop_def
    by (simp add: Exec_FENCE_def exec_simps abs_hart_def)
  then show ?thesis
    by (simp add: leaves_def CPU_dispatch_def decode_fence [simplified] exec_instruction_def always_def exec_simps
        advance_def p user_def) (simp add: abs_sys_def abs_hart_def isa_simps)
qed

section \<open>Devices\<close>

lemma timer_halves:
  "ucast (sc_range 31 0 w) = low_half w" "ucast (sc_range 63 32 w) = high_half w"
  "sc_set_range 31 0 (ucast v) w = halves (high_half w) v"
  "sc_set_range 63 32 (ucast v) w = halves v (low_half w)"
  by (rule bit_word_eqI;
      auto simp: low_half_def high_half_def halves_def bit_blast dest: bit_imp_le_length)+

lemma timer_addr:
  fixes a :: "64 word"
  assumes "unat a \<in> {0x40004000, 0x40004004, 0x40004008, 0x4000400C}"
  shows "a \<in> {0x40004000, 0x40004004, 0x40004008, 0x4000400C}"
  using assms by (simp add: word_unat_eq_iff)

lemma dev_load_runs:
  assumes "dev_load (unat a) (abs_sys f d s) = Some (v, p)"
  shows "\<exists>q. readDataMem a 4 (plat s) = Inr (v, q) \<and> p = abs_sys f d (s\<lparr>plat := q\<rparr>) \<and>
    main_memory q = main_memory (plat s)"
proof -
  have e: "unat a \<in> {0x40004000, 0x40004004, 0x40004008, 0x4000400C}"
    using assms by (auto simp: dev_load_def split: if_splits)
  note a = timer_addr [OF e]
  have "\<exists>t. timer_read (sc_now (plat s)) a (timer (plat s)) = Some (v, t) \<and>
      p = abs_sys f d (s\<lparr>plat := (plat s)\<lparr>timer := t\<rparr>\<rparr>)"
    using a assms by (auto simp: dev_load_def timer_read_def timer_halves abs_sys_def abs_hart_def)
  then obtain t where t: "timer_read (sc_now (plat s)) a (timer (plat s)) = Some (v, t)"
    "p = abs_sys f d (s\<lparr>plat := (plat s)\<lparr>timer := t\<rparr>\<rparr>)" by blast
  have "0x40004000 \<le> unat a" "unat a < 0x40004010" using e by auto
  from timer_word_read [OF this t(1)] show ?thesis
    by (simp add: t(2) abs_sys_def abs_hart_def)
qed

lemma dev_store_runs:
  assumes "dev_store st (unat a) v (abs_sys f d s) = Some p" and "n = store_width st"
  shows "\<exists>q. writeDataMem a v n (plat s) = Inr ((), q) \<and> p = abs_sys f d (s\<lparr>plat := q\<rparr>)"
proof -
  consider (console) "0x40000000 \<le> unat a" "unat a < 0x40000004"
    | (timer) "unat a \<in> {0x40004000, 0x40004004, 0x40004008, 0x4000400C}" "st = S_W"
    | (none) "nowhere a"
    using assms(1)
    by (auto simp: dev_store_def nowhere_def route_def RAM_SIZE_def SIZE_def split: if_splits)
  then show ?thesis
  proof cases
    case console
    then show ?thesis
      using assms(1) trace_write [OF console, of v n "plat s"]
      by (auto simp: dev_store_def abs_sys_def abs_hart_def split: if_splits)
  next
    case timer
    note a = timer_addr [OF timer(1)]
    have "\<exists>t. timer_write a v (timer (plat s)) = Some t \<and>
        p = abs_sys f d (s\<lparr>plat := (plat s)\<lparr>timer := t\<rparr>\<rparr>)"
      using a timer(2) assms(1)
      by (auto simp: dev_store_def timer_write_def timer_halves abs_sys_def abs_hart_def Let_def)
    then obtain t where t: "timer_write a v (timer (plat s)) = Some t"
      "p = abs_sys f d (s\<lparr>plat := (plat s)\<lparr>timer := t\<rparr>\<rparr>)" by blast
    have "0x40004000 \<le> unat a" "unat a < 0x40004010" using timer(1) by auto
    from timer_word_write [OF this t(1)] show ?thesis using timer(2) assms(2) by (simp add: t(2))
  next
    case none
    then have "p = abs_sys f d s"
      using assms(1) by (auto simp: dev_store_def nowhere_def route_def RAM_SIZE_def SIZE_def split: if_splits)
    then show ?thesis using write_nowhere [OF none] by simp
  qed
qed

text \<open>What an access to a device by an instruction of the machine is in the code.\<close>

lemma dev_op_load:
  fixes s :: "'a::len hart"
  assumes xlen: "LENGTH('a) = 32 \<or> LENGTH('a) = 64" and x0: "hart_x0 s"
    and p: "dev_op len (LOAD L_W rd rs1 imm) (abs_sys f d s) = Some p"
  obtains v q where "readDataMem (ucast (scast imm + register_bank (regs s) (unat rs1))) 4 (plat s) = Inr (v, q)"
    and "p = user (\<lambda>a. seq_next len (wX rd (scast v) a)) (abs_sys f d (s\<lparr>plat := q\<rparr>))"
proof -
  let ?m = "scast imm + register_bank (regs s) (unat rs1)"
  have m: "unat (rX (abs_hart s) rs1 + scast imm) = unat (ucast ?m :: 64 word)"
    unfolding rX_bank [OF x0] ea [OF xlen] by (simp add: add.commute)
  obtain v p' where "dev_load (unat (ucast ?m :: 64 word)) (abs_sys f d s) = Some (v, p')"
    and p: "p = user (\<lambda>a. seq_next len (wX rd (scast v) a)) p'"
    using p by (auto simp: m dev_op_def)
  then show thesis using dev_load_runs that by blast
qed

lemma dev_store_bound: "dev_store st n v p = Some q \<Longrightarrow> st \<noteq> S_D \<and> n < 2 ^ 32"
  by (auto simp: dev_store_def split: if_splits)

lemma dev_op_store:
  fixes s :: "'a::len hart"
  assumes xlen: "LENGTH('a) = 32 \<or> LENGTH('a) = 64" and x0: "hart_x0 s"
    and p: "dev_op len (STORE st rs1 rs2 imm) (abs_sys f d s) = Some p"
  obtains q where "st \<noteq> S_D" "unat (scast imm + register_bank (regs s) (unat rs1)) < 2 ^ 32"
    and "writeDataMem (ucast (scast imm + register_bank (regs s) (unat rs1)))
      (ucast (register_bank (regs s) (unat rs2))) (store_width st) (plat s) = Inr ((), q)"
    and "p = user (seq_next len) (abs_sys f d (s\<lparr>plat := q\<rparr>))"
proof -
  let ?m = "scast imm + register_bank (regs s) (unat rs1)"
  have m: "unat (rX (abs_hart s) rs1 + scast imm) = unat (ucast ?m :: 64 word)"
    unfolding rX_bank [OF x0] ea [OF xlen] by (simp add: add.commute)
  obtain p' where l: "dev_store st (unat (ucast ?m :: 64 word)) (ucast (rX (abs_hart s) rs2))
      (abs_sys f d s) = Some p'" and p: "p = user (seq_next len) p'"
    using p by (auto simp: m dev_op_def)
  note l = l [unfolded rX_bank [OF x0]]
  show thesis
    using dev_store_runs [OF l refl] dev_store_bound [OF l] that p unfolding ea [OF xlen] by blast
qed

lemma op_load:
  fixes s :: "'a::len hart"
  assumes xlen: "LENGTH('a) = 32 \<or> LENGTH('a) = 64" and x0: "hart_x0 s"
    and p: "sys_op (S_LOAD rd rs1 imm) (abs_sys f d s) = Some p"
  shows "leaves (CPU_dispatch (enc_sys (S_LOAD rd rs1 imm))) False f d s p"
proof -
  define m where "m = scast imm + register_bank (regs s) (unat rs1)"
  obtain v q where q: "readDataMem (ucast m) 4 (plat s) = Inr (v, q)"
      "p = user (\<lambda>a. seq_next 4 (wX rd (scast v) a)) (abs_sys f d (s\<lparr>plat := q\<rparr>))"
    using dev_op_load [OF xlen x0] p unfolding m_def sys_op.simps by blast
  have run: "CPU_dispatch (enc_sys (S_LOAD rd rs1 imm)) = (run_base (LOAD L_W rd rs1 imm) :: ('a hart, bool) exec)"
    unfolding enc_sys.simps by (rule dispatch_base) simp
  show ?thesis
    unfolding q(2) run
    by (cases "rd = 0")
      (simp_all add: leaves_def run_base_def exec_instruction_def always_def advance_def exec_simps
        Exec_LW_def load_addr_def imm_enc [OF xlen] m_def [symmetric] rd_mem_def q(1) Let_def,
        simp_all add: abs_sys_def abs_hart_def user_def isa_simps)
qed

lemma dispatch_store:
  fixes s :: "'a::len hart"
  assumes xlen: "LENGTH('a) = 32 \<or> LENGTH('a) = 64" and x0: "hart_x0 s" and st: "st \<noteq> S_D"
    and m: "m = scast imm + register_bank (regs s) (unat rs1)"
    and q: "writeDataMem (ucast m) (ucast (register_bank (regs s) (unat rs2))) (store_width st) (plat s) =
      Inr ((), q)"
  shows "leaves (run_base (STORE st rs1 rs2 imm)) False f d s (user (seq_next 4) (abs_sys f d (s\<lparr>plat := q\<rparr>)))"
  using q st
  by (cases st) (simp_all add: leaves_def run_base_def exec_instruction_def always_def advance_def exec_simps
      store_defs imm_enc [OF xlen] m [symmetric] wr_mem_def,
      simp_all add: abs_sys_def abs_hart_def user_def isa_simps)

lemma op_store:
  fixes s :: "'a::len hart"
  assumes xlen: "LENGTH('a) = 32 \<or> LENGTH('a) = 64" and x0: "hart_x0 s"
    and p: "sys_op (S_STORE st rs1 rs2 imm) (abs_sys f d s) = Some p"
  shows "leaves (CPU_dispatch (enc_sys (S_STORE st rs1 rs2 imm))) False f d s p"
proof -
  obtain q where q: "st \<noteq> S_D" "writeDataMem (ucast (scast imm + register_bank (regs s) (unat rs1)))
      (ucast (register_bank (regs s) (unat rs2))) (store_width st) (plat s) = Inr ((), q)"
    "p = user (seq_next 4) (abs_sys f d (s\<lparr>plat := q\<rparr>))"
    using dev_op_store [OF xlen x0] p unfolding sys_op.simps by blast
  have run: "CPU_dispatch (enc_sys (S_STORE st rs1 rs2 imm)) = (run_base (STORE st rs1 rs2 imm) :: ('a hart, bool) exec)"
    unfolding enc_sys.simps by (rule dispatch_base) (use q(1) in \<open>cases st; simp\<close>)
  show ?thesis
    unfolding q(3) run by (rule dispatch_store [OF xlen x0 q(1) refl q(2)])
qed

section \<open>Compressed instructions\<close>

lemma op_c_trap:
  fixes s :: "'a::len hart"
  assumes xlen: "LENGTH('a) = 32 \<or> LENGTH('a) = 64"
  shows "leaves (CPU_dispatch (enc_sys (S_C_EBREAK hi))) True f d s
      (trap BREAK (enc_sys (S_C_EBREAK hi)) (abs_sys f d s))"
    and "leaves (CPU_dispatch (enc_sys (S_C_ILLEGAL hi q))) False f d s
      (trap ILLEGAL_INSTRUCTION (enc_sys (S_C_ILLEGAL hi q)) (abs_sys f d s))"
proof -
  let ?b = "cenc hi 4 2 (mid_CR 1 0 0)" and ?i = "cenc hi 0 0 (mid_CIW q 0)"
  have "decode ?b = OP_ERROR" "decode ?i = OP_ERROR"
    by (rule decode_compressed, simp add: cenc_fields)+
  moreover have "C_decode rv32 ?b = OP_C_EBREAK" "C_decode rv32 ?i = OP_C_ADDI4SPN" for rv32
    by (simp_all add: C_decode_defs C_opcode_def C_get_funct3_def cenc_fields mid_ranges mid_bits mid_CR_low Let_def)
  moreover have "get_imm_ADDI4SPN ?i = 0" by (simp add: c_imm_u)
  ultimately show "leaves (CPU_dispatch (enc_sys (S_C_EBREAK hi))) True f d s
      (trap BREAK (enc_sys (S_C_EBREAK hi)) (abs_sys f d s))"
    and "leaves (CPU_dispatch (enc_sys (S_C_ILLEGAL hi q))) False f d s
      (trap ILLEGAL_INSTRUCTION (enc_sys (S_C_ILLEGAL hi q)) (abs_sys f d s))"
    using raise_leaves [OF xlen, of BREAK ?b f d s] raise_leaves [OF xlen, of ILLEGAL_INSTRUCTION ?i f d s]
    by (auto simp: leaves_def CPU_dispatch_def C_exec_instruction_def Exec_C_EBREAK_def Exec_C_ADDI4SPN_def
        exec_simps advance_def)
qed

lemma c_load_leaves:
  fixes s :: "'a::len hart"
  assumes xlen: "LENGTH('a) = 32 \<or> LENGTH('a) = 64"
  shows "readDataMem (ucast (push_bit 2 (ucast imm5) + register_bank (regs s) (unat (rp q')))) 4 (plat s) = Inr (v, p) \<Longrightarrow>
      leaves (run_c hi (C_LW q q' imm5)) False f d s
        (user (\<lambda>a. seq_next 2 (wX (rp q) (scast v) a)) (abs_sys f d (s\<lparr>plat := p\<rparr>)))"
    and "readDataMem (ucast (push_bit 2 (ucast imm6) + register_bank (regs s) 2)) 4 (plat s) = Inr (v, p) \<Longrightarrow> rd \<noteq> 0 \<Longrightarrow>
      leaves (run_c hi (C_LWSP rd imm6)) False f d s
        (user (\<lambda>a. seq_next 2 (wX rd (scast v) a)) (abs_sys f d (s\<lparr>plat := p\<rparr>)))"
proof -
  have u: "(scast (ucast (scast w :: 'a word) :: 32 word) :: 'a word) = scast w" for w :: "32 word"
    using xlen by (intro bit_word_eqI) (auto simp: bit_simps min_def)
  show "leaves (run_c hi (C_LW q q' imm5)) False f d s
        (user (\<lambda>a. seq_next 2 (wX (rp q) (scast v) a)) (abs_sys f d (s\<lparr>plat := p\<rparr>)))"
    if "readDataMem (ucast (push_bit 2 (ucast imm5) + register_bank (regs s) (unat (rp q')))) 4 (plat s) = Inr (v, p)"
    using that by (simp add: leaves_def run_c_defs Exec_C_LW_def Let_def c_imm_u c_conv_u [OF xlen] rd_mem_def)
      (simp add: abs_sys_def abs_hart_def user_def isa_simps)
  show "leaves (run_c hi (C_LWSP rd imm6)) False f d s
        (user (\<lambda>a. seq_next 2 (wX rd (scast v) a)) (abs_sys f d (s\<lparr>plat := p\<rparr>)))"
    if "readDataMem (ucast (push_bit 2 (ucast imm6) + register_bank (regs s) 2)) 4 (plat s) = Inr (v, p)" "rd \<noteq> 0"
    using that by (simp add: leaves_def run_c_defs Exec_C_LWSP_def Let_def c_imm_u c_conv_u [OF xlen] rd_mem_def u)
      (simp add: abs_sys_def abs_hart_def user_def isa_simps)
qed

lemma c_store_leaves:
  fixes s :: "'a::len hart"
  assumes xlen: "LENGTH('a) = 32 \<or> LENGTH('a) = 64"
  shows "m = push_bit 2 (ucast imm5) + register_bank (regs s) (unat (rp q)) \<Longrightarrow> unat m < 2 ^ 32 \<Longrightarrow>
      writeDataMem (ucast m) (ucast (register_bank (regs s) (unat (rp q')))) 4 (plat s) = Inr ((), p) \<Longrightarrow>
      leaves (run_c hi (C_SW q q' imm5)) False f d s (user (seq_next 2) (abs_sys f d (s\<lparr>plat := p\<rparr>)))"
    and "m = push_bit 2 (ucast imm6) + register_bank (regs s) 2 \<Longrightarrow> unat m < 2 ^ 32 \<Longrightarrow>
      writeDataMem (ucast m) (ucast (register_bank (regs s) (unat rs2))) 4 (plat s) = Inr ((), p) \<Longrightarrow>
      leaves (run_c hi (C_SWSP rs2 imm6)) False f d s (user (seq_next 2) (abs_sys f d (s\<lparr>plat := p\<rparr>)))"
proof -
  note u = addr_32 [OF xlen, of m]
  show "leaves (run_c hi (C_SW q q' imm5)) False f d s (user (seq_next 2) (abs_sys f d (s\<lparr>plat := p\<rparr>)))"
    if m: "m = push_bit 2 (ucast imm5) + register_bank (regs s) (unat (rp q))" and "unat m < 2 ^ 32"
      "writeDataMem (ucast m) (ucast (register_bank (regs s) (unat (rp q')))) 4 (plat s) = Inr ((), p)"
    using that(2,3) u
    by (simp add: leaves_def run_c_defs Exec_C_SW_def Let_def c_imm_u c_conv_u [OF xlen] m [symmetric] wr_mem_def)
      (simp add: abs_sys_def abs_hart_def user_def isa_simps)
  show "leaves (run_c hi (C_SWSP rs2 imm6)) False f d s (user (seq_next 2) (abs_sys f d (s\<lparr>plat := p\<rparr>)))"
    if m: "m = push_bit 2 (ucast imm6) + register_bank (regs s) 2" and "unat m < 2 ^ 32"
      "writeDataMem (ucast m) (ucast (register_bank (regs s) (unat rs2))) 4 (plat s) = Inr ((), p)"
    using that(2,3) u
    by (simp add: leaves_def run_c_defs Exec_C_SWSP_def Let_def c_imm_u c_conv_u [OF xlen] m [symmetric] wr_mem_def)
      (simp add: abs_sys_def abs_hart_def user_def isa_simps)
qed

lemma op_compressed:
  fixes s :: "'a::len hart"
  assumes xlen: "LENGTH('a) = 32 \<or> LENGTH('a) = 64" and x0: "hart_x0 s"
    and p: "sys_op (S_COMPRESSED hi ci) (abs_sys f d s) = Some p"
  shows "leaves (CPU_dispatch (enc_sys (S_COMPRESSED hi ci))) False f d s p"
proof -
  have has: "has_cinsn LENGTH('a) ci" and p: "dev_op 2 (c_expand ci) (abs_sys f d s) = Some p"
    using p by (auto split: if_splits)
  note run = dispatch_C [OF xlen has, of hi]
  have "leaves (run_c hi ci) False f d s p"
  proof (cases ci)
    case (C_LW q q' imm)
    obtain v r where "readDataMem (ucast (push_bit 2 (ucast imm) + register_bank (regs s) (unat (rp q')))) 4 (plat s) = Inr (v, r)"
      "p = user (\<lambda>a. seq_next 2 (wX (rp q) (scast v) a)) (abs_sys f d (s\<lparr>plat := r\<rparr>))"
      using dev_op_load [OF xlen x0 p [unfolded C_LW c_expand.simps]] c_conv_u(5) [OF xlen, of imm] by auto
    then show ?thesis unfolding C_LW by (simp only: c_load_leaves(1) [OF xlen])
  next
    case (C_LWSP rd imm)
    obtain v r where r: "readDataMem (ucast (push_bit 2 (ucast imm) + register_bank (regs s) 2)) 4 (plat s) = Inr (v, r)"
      "p = user (\<lambda>a. seq_next 2 (wX rd (scast v) a)) (abs_sys f d (s\<lparr>plat := r\<rparr>))"
      using dev_op_load [OF xlen x0 p [unfolded C_LWSP c_expand.simps]] c_conv_u(5) [OF xlen, of imm] by auto
    have "rd \<noteq> 0" using has C_LWSP by simp
    then show ?thesis unfolding C_LWSP r(2) by (rule c_load_leaves(2) [OF xlen r(1)])
  next
    case (C_SW q q' imm)
    obtain r where "unat (push_bit 2 (ucast imm) + register_bank (regs s) (unat (rp q))) < 2 ^ 32"
      "writeDataMem (ucast (push_bit 2 (ucast imm) + register_bank (regs s) (unat (rp q))))
        (ucast (register_bank (regs s) (unat (rp q')))) 4 (plat s) = Inr ((), r)"
      "p = user (seq_next 2) (abs_sys f d (s\<lparr>plat := r\<rparr>))"
      using dev_op_store [OF xlen x0 p [unfolded C_SW c_expand.simps]] c_conv_u(5) [OF xlen, of imm] by auto
    then show ?thesis unfolding C_SW by (simp only: c_store_leaves(1) [OF xlen refl])
  next
    case (C_SWSP rs2 imm)
    obtain r where "unat (push_bit 2 (ucast imm) + register_bank (regs s) 2) < 2 ^ 32"
      "writeDataMem (ucast (push_bit 2 (ucast imm) + register_bank (regs s) 2))
        (ucast (register_bank (regs s) (unat rs2))) 4 (plat s) = Inr ((), r)"
      "p = user (seq_next 2) (abs_sys f d (s\<lparr>plat := r\<rparr>))"
      using dev_op_store [OF xlen x0 p [unfolded C_SWSP c_expand.simps]] c_conv_u(5) [OF xlen, of imm] by auto
    then show ?thesis unfolding C_SWSP by (simp only: c_store_leaves(2) [OF xlen refl])
  qed (use p in \<open>simp_all add: dev_op_def dev_store_def\<close>)
  then show ?thesis by (simp add: run)
qed

section \<open>All instructions\<close>

lemma sys_op_refines:
  fixes s :: "'a::len hart"
  assumes xlen: "LENGTH('a) = 32 \<or> LENGTH('a) = 64" and x0: "hart_x0 s"
    and p: "sys_op i (abs_sys f d s) = Some p"
  shows "leaves (CPU_dispatch (enc_sys i)) (breaks i) f d s p"
proof (cases i)
  case (S_CSR k src csr rd)
  then show ?thesis using p op_csr [OF xlen x0, of k src csr rd f d] by simp
next
  case (S_LR aqrl rs1 rd)
  then show ?thesis using op_lr [OF xlen x0] p by simp
next
  case (S_SC aqrl rs2 rs1 rd)
  then show ?thesis using op_sc [OF xlen x0] p by simp
next
  case (S_FENCE m rs1 rd)
  then show ?thesis using op_fence p by simp
next
  case (S_AMO k aqrl rs2 rs1 rd)
  then show ?thesis using op_amo(1) [OF xlen x0] p by simp
next
  case (S_SWAP aqrl rs2 rs1 rd)
  then show ?thesis using op_amo(2) [OF xlen x0] p by simp
next
  case (S_UNKNOWN f7 rs2 rs1 f3 rd op)
  then show ?thesis using op_unknown p by simp
next
  case (S_COMPRESSED hi ci)
  then show ?thesis using op_compressed [OF xlen x0] p by simp
next
  case (S_C_EBREAK hi)
  then show ?thesis using op_c_trap(1) [OF xlen, of hi f d s] p by simp
next
  case (S_C_ILLEGAL hi rd)
  then show ?thesis using op_c_trap(2) [OF xlen, of hi rd f d s] p by simp
next
  case (S_LOAD rd rs1 imm)
  then show ?thesis using op_load [OF xlen x0] p by simp
next
  case (S_STORE st rs1 rs2 imm)
  then show ?thesis using op_store [OF xlen x0] p by simp
qed (use p op_ecall [OF xlen, of f d s] op_sret [of f d s] in simp_all)

end
