(* ===== verification/CString.thy ===== *)
theory CString
  imports Prelude
begin

text \<open>
  The parts of the C++ string library the sources use on file lines and debugger packets:
  \<open>substr\<close>, \<open>strtol\<close> in base 16 with its end pointer, \<open>stoi\<close> and \<open>stol\<close>, \<open>strchr\<close>, and
  numbers written to a stream with \<open>std::hex\<close>, \<open>std::setfill('0')\<close> and \<open>std::setw\<close>. The lemmas
  say that what the stream writes is read back.
\<close>

section \<open>Digits\<close>

definition hex_value :: "char \<Rightarrow> nat option" where
  "hex_value c =
     (let n = of_char c in
      if 48 \<le> n \<and> n \<le> 57 then Some (n - 48)
      else if 97 \<le> n \<and> n \<le> 102 then Some (n - 87)
      else if 65 \<le> n \<and> n \<le> 70 then Some (n - 55)
      else None)"

definition is_hex :: "char \<Rightarrow> bool" where
  "is_hex c \<longleftrightarrow> hex_value c \<noteq> None"

definition nibble_to_hex :: "nat \<Rightarrow> char" where
  "nibble_to_hex n = ''0123456789abcdef'' ! n"

definition digit_of :: "char \<Rightarrow> nat" where
  "digit_of c = (case hex_value c of Some d \<Rightarrow> d | None \<Rightarrow> 0)"

definition hex_number :: "string \<Rightarrow> nat" where
  "hex_number ds = foldl (\<lambda>v c. 16 * v + digit_of c) 0 ds"

lemma below_16: "n < 16 \<longleftrightarrow> n \<in> {0, 1, 2, 3, 4, 5, 6, 7, 8, 9, 10, 11, 12, 13, 14, 15}" for n :: nat
  unfolding insert_iff empty_iff by presburger

lemma hex_value_nibble: "n < 16 \<Longrightarrow> hex_value (nibble_to_hex n) = Some n"
  unfolding below_16 by (auto simp: hex_value_def nibble_to_hex_def)

lemma is_hex_nibble [simp]: "n < 16 \<Longrightarrow> is_hex (nibble_to_hex n)"
  by (simp add: is_hex_def hex_value_nibble)

lemma digit_of_nibble [simp]: "n < 16 \<Longrightarrow> digit_of (nibble_to_hex n) = n"
  by (simp add: digit_of_def hex_value_nibble)

lemma hex_number_snoc [simp]: "hex_number (ds @ [c]) = 16 * hex_number ds + digit_of c"
  by (simp add: hex_number_def)

lemma hex_number_Nil [simp]: "hex_number [] = 0"
  by (simp add: hex_number_def)

section \<open>Reading numbers\<close>

definition isspace :: "char \<Rightarrow> bool" where
  "isspace c \<longleftrightarrow> (of_char c :: nat) \<in> {9, 10, 11, 12, 13, 32}"

text \<open>
  The number at the front of a string and what is left of the string; \<open>None\<close> when there is none.
\<close>

definition skip_prefix :: "string \<Rightarrow> string" where
  "skip_prefix s = (case s of
     z # x # d # t \<Rightarrow> if z = CHR ''0'' \<and> (x = CHR ''x'' \<or> x = CHR ''X'') \<and> is_hex d then d # t else s
   | _ \<Rightarrow> s)"

definition split_sign :: "string \<Rightarrow> int \<times> string" where
  "split_sign s = (case s of
     [] \<Rightarrow> (1, s)
   | c # t \<Rightarrow> if c = CHR ''-'' then (- 1, t) else if c = CHR ''+'' then (1, t) else (1, s))"

definition strtol_parse :: "string \<Rightarrow> (int \<times> string) option" where
  "strtol_parse s =
     (let (sgn, s) = split_sign (dropWhile isspace s); s = skip_prefix s; ds = takeWhile is_hex s in
      if ds = [] then None else Some (sgn * int (hex_number ds), dropWhile is_hex s))"

text \<open>\<open>long\<close> has 64 bits, \<open>int\<close> has 32. \<open>strtol\<close> stays inside the range of its result.\<close>

definition strtol :: "string \<Rightarrow> int \<times> string" where
  "strtol s = (case strtol_parse s of
     None \<Rightarrow> (0, s)
   | Some (v, r) \<Rightarrow> (max (- (2 ^ 63)) (min (2 ^ 63 - 1) v), r))"

definition sto :: "nat \<Rightarrow> string \<Rightarrow> ('s, int) exec" where
  "sto bits s = (case strtol_parse s of
     None \<Rightarrow> fail Invalid_argument
   | Some (v, _) \<Rightarrow>
       if - (2 ^ (bits - 1)) \<le> v \<and> v < 2 ^ (bits - 1) then ret v else fail Out_of_range)"

abbreviation (input) stoi :: "string \<Rightarrow> ('s, int) exec" where "stoi \<equiv> sto 32"
abbreviation (input) stol :: "string \<Rightarrow> ('s, int) exec" where "stol \<equiv> sto 64"

definition substr :: "nat \<Rightarrow> nat \<Rightarrow> string \<Rightarrow> ('s, string) exec" where
  "substr pos n s = (if length s < pos then fail Out_of_range else ret (take n (drop pos s)))"

text \<open>The pointer one past \<open>p\<close>, which may be dereferenced only if \<open>p\<close> is not the end.\<close>

definition past :: "nat \<Rightarrow> string \<Rightarrow> ('s, string) exec" where
  "past n s = (if length s < n then fail String_overrun else ret (drop n s))"

section \<open>Writing numbers\<close>

fun to_hex :: "nat \<Rightarrow> string" where
  "to_hex v = (if v < 16 then [nibble_to_hex v] else to_hex (v div 16) @ [nibble_to_hex (v mod 16)])"

declare to_hex.simps [simp del]

definition setw_hex :: "nat \<Rightarrow> nat \<Rightarrow> string" where
  "setw_hex w v = replicate (w - length (to_hex v)) CHR ''0'' @ to_hex v"

text \<open>The digits of a number in a field of fixed width.\<close>

primrec hex_field :: "nat \<Rightarrow> nat \<Rightarrow> string" where
  "hex_field 0 v = []"
| "hex_field (Suc n) v = hex_field n (v div 16) @ [nibble_to_hex (v mod 16)]"

lemma length_hex_field [simp]: "length (hex_field n v) = n"
  by (induction n arbitrary: v) simp_all

lemma hex_field_digits: "list_all is_hex (hex_field n v)"
  by (induction n arbitrary: v) simp_all

lemma hex_number_field: "hex_number (hex_field n v) = v mod 16 ^ n"
proof (induction n arbitrary: v)
  case (Suc n)
  have "v mod 16 ^ Suc n = 16 * (v div 16 mod 16 ^ n) + v mod 16"
    by (simp add: mod_mult2_eq)
  then show ?case using Suc by simp
qed simp

lemma hex_field_zero: "hex_field n 0 = replicate n CHR ''0''"
  by (induction n) (simp_all add: nibble_to_hex_def replicate_append_same)

lemma setw_hex_field: "v < 16 ^ w \<Longrightarrow> 0 < w \<Longrightarrow> setw_hex w v = hex_field w v"
proof (induction w arbitrary: v)
  case (Suc w)
  show ?case
  proof (cases "v < 16")
    case True
    then show ?thesis by (simp add: setw_hex_def to_hex.simps [of v] hex_field_zero)
  next
    case False
    then have "0 < w" using Suc.prems by (cases w) auto
    moreover have "v div 16 < 16 ^ w" using Suc.prems by (simp add: less_mult_imp_div_less mult.commute)
    ultimately have "setw_hex w (v div 16) = hex_field w (v div 16)" by (intro Suc.IH)
    then show ?thesis using False by (simp add: setw_hex_def to_hex.simps [of v])
  qed
qed simp

section \<open>What was written is read back\<close>

definition no_digit :: "string \<Rightarrow> bool" where
  "no_digit r = (case r of [] \<Rightarrow> True | c # _ \<Rightarrow> \<not> is_hex c \<and> c \<noteq> CHR ''x'' \<and> c \<noteq> CHR ''X'')"

lemma hex_not_special:
  "is_hex c \<Longrightarrow> \<not> isspace c \<and> c \<noteq> CHR ''-'' \<and> c \<noteq> CHR ''+'' \<and> c \<noteq> CHR ''x'' \<and> c \<noteq> CHR ''X''"
  by (auto simp: is_hex_def hex_value_def isspace_def Let_def split: if_splits)

lemma skip_prefix_digits:
  assumes "list_all is_hex ds" "ds \<noteq> []" "no_digit r"
  shows "skip_prefix (ds @ r) = ds @ r"
proof (cases ds)
  case (Cons c cs)
  show ?thesis
  proof (cases cs)
    case Nil
    then show ?thesis using Cons assms by (cases r) (auto simp: skip_prefix_def no_digit_def split: list.splits)
  next
    case (Cons d t)
    then show ?thesis
      using \<open>ds = c # cs\<close> assms hex_not_special [of d] by (auto simp: skip_prefix_def split: list.splits)
  qed
qed (use assms in simp)

lemma strtol_parse_digits:
  assumes "list_all is_hex ds" "ds \<noteq> []" "no_digit r"
  shows "strtol_parse (ds @ r) = Some (int (hex_number ds), r)"
proof -
  obtain c cs where ds: "ds = c # cs" using assms(2) by (cases ds) auto
  have "dropWhile isspace (ds @ r) = ds @ r" "split_sign (ds @ r) = (1, ds @ r)"
    using hex_not_special [of c] assms(1) ds by (auto simp: split_sign_def)
  moreover have "takeWhile is_hex (ds @ r) = ds" "dropWhile is_hex (ds @ r) = r"
    using assms by (auto simp: list_all_iff no_digit_def takeWhile_append dropWhile_append split: list.splits)
  ultimately show ?thesis
    using assms(2) skip_prefix_digits [OF assms] by (simp add: strtol_parse_def Let_def)
qed

lemma sto_field:
  assumes "0 < n" "16 ^ n \<le> (2 :: nat) ^ (bits - 1)"
  shows "sto bits (hex_field n v) s = Inr (int (v mod 16 ^ n), s)"
proof -
  have "hex_field n v \<noteq> []" using assms(1) by (metis length_hex_field length_0_conv less_irrefl)
  then have "strtol_parse (hex_field n v) = Some (int (v mod 16 ^ n), [])"
    using strtol_parse_digits [OF hex_field_digits, of n v "[]"] by (simp add: no_digit_def hex_number_field)
  moreover have "v mod 16 ^ n < 16 ^ n" by simp
  then have "v mod 16 ^ n < 2 ^ (bits - 1)" using assms(2) by linarith
  then have "int (v mod 16 ^ n) < int (2 ^ (bits - 1))" by (simp only: of_nat_less_iff)
  then have "int (v mod 16 ^ n) < 2 ^ (bits - 1)" by simp
  moreover have "- (2 ^ (bits - 1)) \<le> int (v mod 16 ^ n)"
    by (rule order_trans [of _ 0]) simp_all
  ultimately show ?thesis by (simp add: sto_def)
qed

lemma strtol_field:
  assumes "0 < n" "n \<le> 15" "no_digit r"
  shows "strtol (hex_field n v @ r) = (int (v mod 16 ^ n), r)"
proof -
  have "hex_field n v \<noteq> []" using assms(1) by (metis length_hex_field length_0_conv less_irrefl)
  then have p: "strtol_parse (hex_field n v @ r) = Some (int (v mod 16 ^ n), r)"
    using strtol_parse_digits [OF hex_field_digits, of n v r] assms(3) by (simp add: hex_number_field)
  have "(16 :: nat) ^ n \<le> 16 ^ 15" using assms(2) by (intro power_increasing) simp_all
  moreover have "v mod 16 ^ n < 16 ^ n" by simp
  ultimately have "v mod 16 ^ n < 16 ^ 15" by linarith
  then show ?thesis using p by (simp add: strtol_def)
qed

end
