(* ===== verification/HexFile.thy ===== *)
theory HexFile
  imports Memory CString
begin

text \<open>
  The loader of program files (src/Memory.cpp, \<open>readHexFile\<close> and the constructor that calls it)
  and what it is for: files of Intel HEX records. \<open>hex_apply\<close> is the meaning of a record, from the
  format's definition; \<open>hex_line_of\<close> prints one. The loader reads a printed file into the memory
  the records mean. Messages to the console are not modelled.
\<close>

section \<open>Operations\<close>

record hex_reader =
  loaded :: memory
  extended_address :: "32 word"
  memory_offset :: "32 word"

text \<open>\<open>getline\<close>, called until the file ends; the first argument is the line so far, backwards.\<close>

primrec getlines :: "string \<Rightarrow> string \<Rightarrow> string list" where
  "getlines acc [] = (if acc = [] then [] else [rev acc])"
| "getlines acc (c # cs) = (if c = CHR 0x0A then rev acc # getlines [] cs else getlines (c # acc) cs)"

definition set_byte :: "32 word \<Rightarrow> int \<Rightarrow> (hex_reader, unit) exec" where
  "set_byte a v = (\<lambda>r.
     if SIZE \<le> unat a then Inl (Array_overrun (ucast a) 1)
     else Inr ((), r\<lparr>loaded := mem_update (unat a) [word_of_int v] (loaded r)\<rparr>))"

text \<open>The loop over the bytes of a data record; \<open>i\<close> is the code's counter.\<close>

primrec read_data :: "nat \<Rightarrow> nat \<Rightarrow> string \<Rightarrow> 32 word \<Rightarrow> (hex_reader, unit) exec" where
  "read_data 0 i line addr = ret ()"
| "read_data (Suc n) i line addr =
     bnd (substr (9 + i * 2) 2 line) (\<lambda>d.
     bnd (stol d) (\<lambda>v.
     bnd (set_byte (addr + of_nat i) v) (\<lambda>_.
     read_data n (Suc i) line addr)))"

definition hex_line :: "string \<Rightarrow> (hex_reader, unit) exec" where
  "hex_line line =
     (if line \<noteq> [] \<and> hd line = CHR '':'' then
        bnd (substr 7 2 line) (\<lambda>ty.
        if ty = ''00'' then
          bnd (substr 1 2 line) (\<lambda>s. bnd (stoi s) (\<lambda>byte_count.
          bnd (substr 3 4 line) (\<lambda>s. bnd (stoi s) (\<lambda>offs.
          bnd (gets (\<lambda>r. word_of_int offs + extended_address r + memory_offset r)) (\<lambda>addr.
          read_data (nat byte_count) 0 line addr)))))
        else if ty = ''02'' then
          bnd (substr 9 4 line) (\<lambda>s. bnd (stol s) (\<lambda>v.
          modify (\<lambda>r. r\<lparr>extended_address := word_of_int (v * 16)\<rparr>)))
        else if ty = ''03'' then
          bnd (substr 9 4 line) (\<lambda>s. bnd (stol s) (\<lambda>v. let code_segment = word_of_int (v * 16) in
          bnd (substr 13 4 line) (\<lambda>s. bnd (stol s) (\<lambda>pc.
          modify (\<lambda>r. r\<lparr>loaded := (loaded r)\<lparr>program_counter := word_of_int pc + code_segment\<rparr>\<rparr>)))))
        else if ty = ''04'' then
          bnd (substr 9 4 line) (\<lambda>s. bnd (stol s) (\<lambda>v.
          modify (\<lambda>r. r\<lparr>memory_offset := word_of_int (v * 2 ^ 16), extended_address := 0\<rparr>)))
        else if ty = ''05'' then
          bnd (substr 9 8 line) (\<lambda>s. bnd (stol s) (\<lambda>pc.
          modify (\<lambda>r. r\<lparr>loaded := (loaded r)\<lparr>program_counter := word_of_int pc\<rparr>\<rparr>)))
        else ret ())
      else ret ())"

primrec hex_lines :: "string list \<Rightarrow> (hex_reader, unit) exec" where
  "hex_lines [] = ret ()"
| "hex_lines (l # ls) = bnd (hex_line l) (\<lambda>_. hex_lines ls)"

text \<open>The file is its contents, or \<open>None\<close> when it cannot be opened.\<close>

definition readHexFile :: "string option \<Rightarrow> (memory, unit) exec" where
  "readHexFile file = (\<lambda>m.
     case file of
       None \<Rightarrow> Inl Open_file_error
     | Some contents \<Rightarrow>
         (case hex_lines (getlines [] contents) \<lparr>loaded = m, extended_address = 0, memory_offset = 0\<rparr> of
            Inl e \<Rightarrow> Inl e
          | Inr (_, r) \<Rightarrow> Inr ((), (loaded r)\<lparr>dmi_allowed := (memory_offset r = 0)\<rparr>)))"

definition Memory_file :: "string option \<Rightarrow> sim_error + memory" where
  "Memory_file file =
     (case readHexFile file Memory_init of Inl e \<Rightarrow> Inl e | Inr (_, m) \<Rightarrow> Inr m)"

section \<open>Intel HEX records\<close>

datatype hex_record =
    Data "16 word" "byte list"
  | End_of_file
  | Segment "16 word"
  | Start_segment "16 word" "16 word"
  | Linear "16 word"
  | Start_linear "32 word"

text \<open>Where data goes: relative to a segment or to the upper half of an address.\<close>

datatype hex_base = Seg_base "16 word" | Lin_base "16 word"

fun base_addr :: "hex_base \<Rightarrow> nat" where
  "base_addr (Seg_base w) = unat w * 16"
| "base_addr (Lin_base w) = unat w * 65536"

text \<open>
  The meaning of a record. Data must lie inside the memory and must not cross the end of the 64
  KiB its 16-bit address reaches; a segment after a linear base other than 0 is left out: the
  format lets it replace the base, the code adds both.
\<close>

fun hex_apply :: "hex_record \<Rightarrow> hex_base \<times> memory \<Rightarrow> (hex_base \<times> memory) option" where
  "hex_apply (Data a bs) (b, m) =
     (if length bs < 256 \<and> unat a + length bs \<le> 65536 \<and> base_addr b + unat a + length bs \<le> SIZE
      then Some (b, mem_update (base_addr b + unat a) bs m) else None)"
| "hex_apply End_of_file (b, m) = Some (b, m)"
| "hex_apply (Segment w) (b, m) =
     (if \<exists>v. b = Lin_base v \<and> v \<noteq> 0 then None else Some (Seg_base w, m))"
| "hex_apply (Start_segment cs ip) (b, m) =
     Some (b, m\<lparr>program_counter := ucast cs * 16 + ucast ip\<rparr>)"
| "hex_apply (Linear w) (b, m) = Some (Lin_base w, m)"
| "hex_apply (Start_linear pc) (b, m) = Some (b, m\<lparr>program_counter := pc\<rparr>)"

fun hex_load :: "hex_record list \<Rightarrow> hex_base \<times> memory \<Rightarrow> (hex_base \<times> memory) option" where
  "hex_load [] s = Some s"
| "hex_load (r # rs) s = (case hex_apply r s of None \<Rightarrow> None | Some t \<Rightarrow> hex_load rs t)"

section \<open>Printing records\<close>

fun record_count :: "hex_record \<Rightarrow> nat" where
  "record_count (Data a bs) = length bs" | "record_count End_of_file = 0"
| "record_count (Segment w) = 2" | "record_count (Start_segment cs ip) = 4"
| "record_count (Linear w) = 2" | "record_count (Start_linear pc) = 4"

fun record_address :: "hex_record \<Rightarrow> 16 word" where
  "record_address (Data a bs) = a" | "record_address _ = 0"

fun record_type :: "hex_record \<Rightarrow> string" where
  "record_type (Data a bs) = ''00''" | "record_type End_of_file = ''01''"
| "record_type (Segment w) = ''02''" | "record_type (Start_segment cs ip) = ''03''"
| "record_type (Linear w) = ''04''" | "record_type (Start_linear pc) = ''05''"

fun record_text :: "hex_record \<Rightarrow> string" where
  "record_text (Data a bs) = concat (map (\<lambda>b. hex_field 2 (unat b)) bs)"
| "record_text End_of_file = []"
| "record_text (Segment w) = hex_field 4 (unat w)"
| "record_text (Start_segment cs ip) = hex_field 4 (unat cs) @ hex_field 4 (unat ip)"
| "record_text (Linear w) = hex_field 4 (unat w)"
| "record_text (Start_linear pc) = hex_field 8 (unat pc)"

text \<open>
  A line with whatever stands for its checksum, which the loader does not look at (and for the
  carriage return of files that have one).
\<close>

definition hex_line_of :: "hex_record \<times> string \<Rightarrow> string" where
  "hex_line_of = (\<lambda>(r, ck). CHR '':'' # hex_field 2 (record_count r) @
     hex_field 4 (unat (record_address r)) @ record_type r @ record_text r @ ck)"

definition hex_file :: "(hex_record \<times> string) list \<Rightarrow> string" where
  "hex_file rs = concat (map (\<lambda>r. hex_line_of r @ [CHR 0x0A]) rs)"

section \<open>Lines\<close>

lemma getlines_line:
  "CHR 0x0A \<notin> set l \<Longrightarrow> getlines acc (l @ CHR 0x0A # cs) = (rev acc @ l) # getlines [] cs"
  by (induction l arbitrary: acc) auto

lemma getlines_last: "CHR 0x0A \<notin> set l \<Longrightarrow> rev acc @ l \<noteq> [] \<Longrightarrow> getlines acc l = [rev acc @ l]"
  by (induction l arbitrary: acc) auto

lemma no_newline_field: "CHR 0x0A \<notin> set (hex_field n v)"
proof
  assume "CHR 0x0A \<in> set (hex_field n v)"
  then have "is_hex (CHR 0x0A)" using hex_field_digits [of n v] by (simp add: list_all_iff)
  then show False by (simp add: is_hex_def hex_value_def)
qed

lemma no_newline_line: "CHR 0x0A \<notin> set ck \<Longrightarrow> CHR 0x0A \<notin> set (hex_line_of (r, ck))"
  using no_newline_field by (cases r) (auto simp: hex_line_of_def)

lemma getlines_file:
  "\<forall>(r, ck) \<in> set rs. CHR 0x0A \<notin> set ck \<Longrightarrow> getlines [] (hex_file rs) = map hex_line_of rs"
  by (induction rs) (auto simp: hex_file_def getlines_line no_newline_line)

section \<open>Records read back\<close>

lemma take_front: "length xs = n \<Longrightarrow> take n (xs @ ys) = xs" "length xs = n \<Longrightarrow> drop n (xs @ ys) = ys"
  by auto

lemma stol_fields:
  "sto 64 (hex_field 2 v) s = Inr (int (v mod 16 ^ 2), s)"
  "sto 64 (hex_field 4 v) s = Inr (int (v mod 16 ^ 4), s)"
  "sto 64 (hex_field 8 v) s = Inr (int (v mod 16 ^ 8), s)"
  "sto 32 (hex_field 2 v) s = Inr (int (v mod 16 ^ 2), s)"
  "sto 32 (hex_field 4 v) s = Inr (int (v mod 16 ^ 4), s)"
  by (rule sto_field; simp)+

lemma hex_line_fields:
  "substr 7 2 (hex_line_of (r, ck)) s = Inr (record_type r, s)"
  "substr 1 2 (hex_line_of (r, ck)) s = Inr (hex_field 2 (record_count r), s)"
  "substr 3 4 (hex_line_of (r, ck)) s = Inr (hex_field 4 (unat (record_address r)), s)"
  "drop 9 (hex_line_of (r, ck)) = record_text r @ ck"
  "9 \<le> length (hex_line_of (r, ck))"
proof -
  define f where "f = hex_field 2 (record_count r)"
  define g where "g = hex_field 4 (unat (record_address r))"
  have l: "length f = 2" "length g = 4" "length (record_type r) = 2"
    by (simp_all add: f_def g_def) (cases r; simp)
  have line: "hex_line_of (r, ck) = CHR '':'' # f @ g @ record_type r @ record_text r @ ck"
    by (simp add: hex_line_of_def f_def g_def)
  have d: "drop 1 (hex_line_of (r, ck)) = f @ g @ record_type r @ record_text r @ ck" by (simp add: line)
  have d3: "drop 3 (hex_line_of (r, ck)) = g @ record_type r @ record_text r @ ck"
    using arg_cong [OF d, of "drop 2"] l by simp
  have d7: "drop 7 (hex_line_of (r, ck)) = record_type r @ record_text r @ ck"
    using arg_cong [OF d3, of "drop 4"] l by simp
  show "drop 9 (hex_line_of (r, ck)) = record_text r @ ck"
    using arg_cong [OF d7, of "drop 2"] l by simp
  show "9 \<le> length (hex_line_of (r, ck))" using l by (simp add: line)
  then show "substr 7 2 (hex_line_of (r, ck)) s = Inr (record_type r, s)"
    "substr 1 2 (hex_line_of (r, ck)) s = Inr (hex_field 2 (record_count r), s)"
    "substr 3 4 (hex_line_of (r, ck)) s = Inr (hex_field 4 (unat (record_address r)), s)"
    using d d3 d7 l line by (auto simp: substr_def f_def [symmetric] g_def [symmetric] not_less)
qed

lemma substr_text:
  assumes "record_text r = xs @ ys" "length xs = n"
  shows "substr 9 n (hex_line_of (r, ck)) s = Inr (xs, s)"
  using hex_line_fields(5) [of r ck] assms by (simp add: substr_def hex_line_fields(4) not_less)

lemma mem_update_Nil [simp]: "mem_update a [] m = m"
proof -
  have "(\<lambda>k. if a \<le> k \<and> k < a + length [] then [] ! (k - a) else mem m k) = mem m"
    by (rule ext) auto
  then show ?thesis by (simp add: mem_update_def)
qed

lemma mem_update_Cons:
  "mem_update a (b # bs) m = mem_update (Suc a) bs (mem_update a [b] m)"
  by (auto simp: mem_update_def fun_eq_iff nth_Cons' Suc_diff_Suc)

text \<open>The digits of bytes from position \<open>i\<close> of the loop on, and the step that reads one.\<close>

definition bytes_at :: "nat \<Rightarrow> string \<Rightarrow> byte list \<Rightarrow> string \<Rightarrow> bool" where
  "bytes_at i line bs ck \<longleftrightarrow> 9 + i * 2 \<le> length line \<and>
     drop (9 + i * 2) line = concat (map (\<lambda>b. hex_field 2 (unat b)) bs) @ ck"

lemma bytes_at_Cons:
  assumes "bytes_at i line (b # bs) ck"
  shows "bytes_at (Suc i) line bs ck" "substr (9 + i * 2) 2 line s = Inr (hex_field 2 (unat b), s)"
proof -
  have d: "drop (9 + i * 2) line = hex_field 2 (unat b) @ concat (map (\<lambda>b. hex_field 2 (unat b)) bs) @ ck"
    using assms by (simp add: bytes_at_def)
  then have "drop 2 (drop (9 + i * 2) line) = concat (map (\<lambda>b. hex_field 2 (unat b)) bs) @ ck"
    by (simp only: take_front length_hex_field)
  moreover have "length (drop (9 + i * 2) line) \<ge> 2" unfolding d by simp
  then have "9 + Suc i * 2 \<le> length line" by simp
  ultimately show "bytes_at (Suc i) line bs ck" by (simp add: bytes_at_def add.commute)
  show "substr (9 + i * 2) 2 line s = Inr (hex_field 2 (unat b), s)"
    using assms d by (simp add: substr_def bytes_at_def take_front not_less del: hex_field.simps)
qed

lemma read_data_step:
  assumes "bytes_at i line (b # bs) ck" and "unat (addr :: 32 word) + i < SIZE"
  shows "read_data (Suc n) i line addr r =
    read_data n (Suc i) line addr (r\<lparr>loaded := mem_update (unat addr + i) [b] (loaded r)\<rparr>)"
proof -
  have i: "unat (of_nat i :: 32 word) = i"
    using assms(2) by (simp add: SIZE_def unat_of_nat)
  then have a: "unat (addr + of_nat i) = unat addr + i"
    using assms(2) by (simp add: unat_word_ariths i SIZE_def)
  have b: "(word_of_int (int (unat b mod 16 ^ 2)) :: byte) = b"
    using unsigned_less [of b, where 'a = nat] by simp
  have "set_byte (addr + of_nat i) (int (unat b mod 16 ^ 2)) r =
      Inr ((), r\<lparr>loaded := mem_update (unat addr + i) [b] (loaded r)\<rparr>)"
    unfolding set_byte_def a b using assms(2) by simp
  then show ?thesis
    unfolding read_data.simps bnd_run bytes_at_Cons(2) [OF assms(1)] sum.case prod.case stol_fields(1) by simp
qed

lemma read_data_run:
  "bytes_at i line bs ck \<Longrightarrow> unat (addr :: 32 word) + i + length bs \<le> SIZE \<Longrightarrow>
     read_data (length bs) i line addr r =
       Inr ((), r\<lparr>loaded := mem_update (unat addr + i) bs (loaded r)\<rparr>)"
proof (induction bs arbitrary: i r)
  case (Cons b bs)
  then show ?case
    using Cons.IH [OF bytes_at_Cons(1) [OF Cons.prems(1)]] mem_update_Cons [of "unat addr + i" b bs]
    by (simp add: read_data_step [OF Cons.prems(1)] del: read_data.simps)
qed simp

section \<open>The loader against the format\<close>

text \<open>The reader's two summands of an address and the base of the format.\<close>

fun same_base :: "hex_reader \<Rightarrow> hex_base \<Rightarrow> bool" where
  "same_base r (Seg_base w) \<longleftrightarrow> extended_address r = ucast w * 16 \<and> memory_offset r = 0"
| "same_base r (Lin_base w) \<longleftrightarrow> extended_address r = 0 \<and> memory_offset r = ucast w * 65536"

lemma bound_16: "unat w < 65536" for w :: "16 word"
  using unsigned_less [of w, where 'a = nat] by simp

lemma unat_16 [simp]: "unat (ucast w :: 32 word) = unat w" for w :: "16 word"
  using bound_16 [of w] by (simp add: unsigned_ucast_eq take_bit_nat_eq_self)

lemma word_fields:
  "(word_of_int (int (unat w mod 16 ^ 4)) :: 32 word) = ucast w"
  "(word_of_int (int (unat v mod 16 ^ 8)) :: 32 word) = v"
  for w :: "16 word" and v :: "32 word"
  using bound_16 [of w] unsigned_less [of v, where 'a = nat]
  by (simp_all add: word_unat_eq_iff unat_of_nat)

lemma base_address:
  assumes "same_base r b" "base_addr b + unat a < 2 ^ 32"
  shows "unat (ucast (a :: 16 word) + extended_address r + memory_offset r :: 32 word) = base_addr b + unat a"
  using assms bound_16 [of a]
  by (cases b; simp add: unat_word_ariths bound_16 mult.commute)

lemma hex_line_colon: "hex_line_of (r, ck) \<noteq> []" "hd (hex_line_of (r, ck)) = CHR '':''"
  by (simp_all add: hex_line_of_def)

lemma substr_pc:
  "substr 13 4 (hex_line_of (Start_segment cs ip, ck)) s = Inr (hex_field 4 (unat ip), s)"
proof -
  have t: "drop 9 (hex_line_of (Start_segment cs ip, ck)) =
      hex_field 4 (unat cs) @ hex_field 4 (unat ip) @ ck"
    by (simp add: hex_line_fields(4) del: hex_field.simps)
  have "drop 13 (hex_line_of (Start_segment cs ip, ck)) = hex_field 4 (unat ip) @ ck"
    using arg_cong [OF t, of "drop 4"] by (simp del: hex_field.simps)
  moreover have "length (drop 9 (hex_line_of (Start_segment cs ip, ck))) \<ge> 4" unfolding t by simp
  then have "13 \<le> length (hex_line_of (Start_segment cs ip, ck))" by simp
  ultimately show ?thesis by (simp add: substr_def not_less del: hex_field.simps)
qed

lemmas record_read_defs = hex_line_def bnd_run if_run gets_run modify_run Let_def hex_line_colon
  hex_line_fields(1-3) stol_fields

lemma hex_data_read:
  assumes "same_base r b" "hex_apply (Data a bs) (b, loaded r) = Some (b', m')"
  shows "hex_line (hex_line_of (Data a bs, ck)) r = Inr ((), r\<lparr>loaded := m'\<rparr>) \<and> b' = b"
proof -
  have n: "length bs < 256" and fits: "base_addr b + unat a + length bs \<le> SIZE"
    and m': "m' = mem_update (base_addr b + unat a) bs (loaded r)" "b' = b"
    using assms(2) by (auto split: if_splits)
  let ?a = "ucast a + extended_address r + memory_offset r"
  have a: "unat ?a = base_addr b + unat a"
    using fits by (intro base_address [OF assms(1)]) (simp add: SIZE_def)
  have "read_data (length bs) 0 (hex_line_of (Data a bs, ck)) ?a r = Inr ((), r\<lparr>loaded := m'\<rparr>)"
    unfolding m'(1) a [symmetric] using fits a hex_line_fields(4,5) [of "Data a bs" ck]
    by (subst read_data_run [of _ _ bs ck]) (simp_all add: bytes_at_def)
  moreover have "length bs mod 16 ^ 2 = length bs" "(word_of_int (int (unat a mod 16 ^ 4)) :: 32 word) = ucast a"
    using n word_fields(1) [of a] by simp_all
  ultimately show ?thesis
    using m'(2) by (simp add: record_read_defs del: hex_field.simps One_nat_def)
qed

lemma hex_record_read:
  assumes "same_base r b" "hex_apply rc (b, loaded r) = Some (b', m')"
  shows "\<exists>r'. hex_line (hex_line_of (rc, ck)) r = Inr ((), r') \<and> loaded r' = m' \<and> same_base r' b'"
proof (cases rc)
  case (Data a bs)
  have "same_base (r\<lparr>loaded := m'\<rparr>) b" using assms(1) by (cases b) simp_all
  then show ?thesis using hex_data_read [of r b a bs b' m' ck] assms Data by auto
next
  case End_of_file
  then show ?thesis using assms by (simp add: record_read_defs)
next
  case (Segment w)
  have "substr 9 4 (hex_line_of (Segment w, ck)) r = Inr (hex_field 4 (unat w), r)"
    by (rule substr_text [of _ _ "[]"]) (simp_all del: hex_field.simps)
  then show ?thesis
    using assms Segment word_fields(1) [of w]
    by (cases b) (auto simp: record_read_defs simp del: hex_field.simps split: if_splits)
next
  case (Start_segment cs ip)
  have "substr 9 4 (hex_line_of (Start_segment cs ip, ck)) r = Inr (hex_field 4 (unat cs), r)"
    by (rule substr_text) (simp_all del: hex_field.simps)
  then show ?thesis
    using assms Start_segment word_fields(1) [of cs] word_fields(1) [of ip]
    by (cases b) (auto simp: record_read_defs substr_pc add.commute simp del: hex_field.simps)
next
  case (Linear w)
  have "substr 9 4 (hex_line_of (Linear w, ck)) r = Inr (hex_field 4 (unat w), r)"
    by (rule substr_text [of _ _ "[]"]) (simp_all del: hex_field.simps)
  then show ?thesis
    using assms Linear word_fields(1) [of w]
    by (cases b) (auto simp: record_read_defs simp del: hex_field.simps)
next
  case (Start_linear pc)
  have "substr 9 8 (hex_line_of (Start_linear pc, ck)) r = Inr (hex_field 8 (unat pc), r)"
    by (rule substr_text [of _ _ "[]"]) (simp_all del: hex_field.simps)
  then show ?thesis
    using assms Start_linear word_fields(2) [of pc]
    by (cases b) (auto simp: record_read_defs simp del: hex_field.simps)
qed

lemma hex_records_read:
  assumes "same_base r b" "hex_load (map fst rs) (b, loaded r) = Some (b', m')"
  shows "\<exists>r'. hex_lines (map hex_line_of rs) r = Inr ((), r') \<and> loaded r' = m' \<and> same_base r' b'"
  using assms
proof (induction rs arbitrary: r b)
  case Nil
  then show ?case by simp
next
  case (Cons x rs)
  obtain rc ck where x: "x = (rc, ck)" by (cases x)
  obtain b1 m1 where s1: "hex_apply rc (b, loaded r) = Some (b1, m1)"
    and rest: "hex_load (map fst rs) (b1, m1) = Some (b', m')"
    using Cons.prems(2) x by (auto split: option.splits)
  obtain r1 where r1: "hex_line (hex_line_of (rc, ck)) r = Inr ((), r1)" "loaded r1 = m1" "same_base r1 b1"
    using hex_record_read [OF Cons.prems(1) s1] by blast
  show ?case
    using Cons.IH [OF r1(3)] rest r1(1,2) x by (simp add: bnd_run)
qed

lemma same_base_offset:
  assumes "same_base r b"
  shows "memory_offset r = 0 \<longleftrightarrow> (\<forall>w. b = Lin_base w \<longrightarrow> w = 0)"
proof -
  have "ucast w * (65536 :: 32 word) = 0 \<longleftrightarrow> w = 0" for w :: "16 word"
    using bound_16 [of w] by (simp add: word_unat_eq_iff unat_word_ariths)
  then show ?thesis using assms by (cases b) simp_all
qed

lemma readHexFile_records:
  assumes "\<forall>(r, ck) \<in> set rs. CHR 0x0A \<notin> set ck"
    and "hex_load (map fst rs) (Lin_base 0, m) = Some (b, m')"
  shows "readHexFile (Some (hex_file rs)) m =
    Inr ((), m'\<lparr>dmi_allowed := (\<forall>w. b = Lin_base w \<longrightarrow> w = 0)\<rparr>)"
proof -
  obtain r where r: "hex_lines (map hex_line_of rs)
      \<lparr>loaded = m, extended_address = 0, memory_offset = 0\<rparr> = Inr ((), r)"
    and m': "loaded r = m'" and b: "same_base r b"
    using hex_records_read [of "\<lparr>loaded = m, extended_address = 0, memory_offset = 0\<rparr>" "Lin_base 0" rs b m']
      assms(2) by auto
  show ?thesis
    using r m' same_base_offset [OF b] by (simp add: readHexFile_def getlines_file [OF assms(1)])
qed

section \<open>Files that are not well formed\<close>

lemma short_record:
  assumes "hd line = CHR '':''" "0 < length line" "length line < 7"
  shows "hex_line line r = Inl Out_of_range"
  using assms by (auto simp: hex_line_def bnd_run substr_def)

text \<open>
  A data record for \<open>n\<close> bytes whose line ends after the digits of \<open>bs\<close> and, when \<open>h\<close> is not
  empty, one digit of the byte after them.
\<close>

definition cut_line :: "nat \<Rightarrow> 16 word \<Rightarrow> byte list \<Rightarrow> nat list \<Rightarrow> string" where
  "cut_line n a bs h = CHR '':'' # hex_field 2 n @ hex_field 4 (unat a) @ ''00'' @
     concat (map (\<lambda>b. hex_field 2 (unat b)) bs) @ map nibble_to_hex h"

text \<open>The loop at the end of such a line: no byte, or half a byte, which is read as a byte.\<close>

lemma read_data_end:
  assumes "length line = 9 + i * 2"
  shows "read_data (Suc n) i line addr r = Inl Invalid_argument"
  using assms by (simp add: bnd_run substr_def sto_def strtol_parse_def split_sign_def skip_prefix_def)

lemma read_data_half:
  assumes "bytes_at i line [] [nibble_to_hex d]" "d < 16" "unat (addr :: 32 word) + i < SIZE"
  shows "read_data (Suc n) i line addr r =
    (if 0 < n then Inl Out_of_range
     else Inr ((), r\<lparr>loaded := mem_update (unat addr + i) [of_nat d] (loaded r)\<rparr>))"
proof -
  have "length (drop (9 + i * 2) line) = 1" using assms(1) by (simp add: bytes_at_def)
  then have l: "length line = 10 + i * 2" by simp
  have s: "substr (9 + i * 2) 2 line r = Inr (hex_field (Suc 0) d, r)"
    using assms(1,2) by (simp add: bytes_at_def substr_def)
  have "sto 64 (hex_field (Suc 0) d) r = Inr (int (d mod 16 ^ Suc 0), r)" by (rule sto_field) simp_all
  then have v: "sto 64 (hex_field (Suc 0) d) r = Inr (int d, r)" using assms(2) by simp
  have "unat (of_nat i :: 32 word) = i" using assms(3) by (simp add: SIZE_def unat_of_nat)
  then have a: "unat (addr + of_nat i) = unat addr + i"
    using assms(3) by (simp add: unat_word_ariths SIZE_def)
  have "set_byte (addr + of_nat i) (int d) r =
      Inr ((), r\<lparr>loaded := mem_update (unat addr + i) [of_nat d] (loaded r)\<rparr>)"
    unfolding set_byte_def a using assms(3) by simp
  moreover have "read_data n (Suc i) line addr r' = (if 0 < n then Inl Out_of_range else Inr ((), r'))" for r'
    using l by (cases n) (simp_all add: bnd_run substr_def)
  ultimately show ?thesis unfolding read_data.simps bnd_run s sum.case prod.case v by simp
qed

lemma read_data_cut:
  assumes "bytes_at i line bs (map nibble_to_hex h)" "length h \<le> 1" "\<forall>k \<in> set h. k < 16"
    and "unat (addr :: 32 word) + i + length bs + length h \<le> SIZE" "length bs + length h \<le> n"
  shows "read_data n i line addr r =
    (if length bs + length h < n then Inl (if h = [] then Invalid_argument else Out_of_range)
     else Inr ((), r\<lparr>loaded := mem_update (unat addr + i) (bs @ map of_nat h) (loaded r)\<rparr>))"
  using assms
proof (induction bs arbitrary: i r n)
  case Nil
  show ?case
  proof (cases h)
    case Nil
    then have "length line = 9 + i * 2" using Nil.prems(1) by (simp add: bytes_at_def)
    then show ?thesis using Nil read_data_end by (cases n) simp_all
  next
    case (Cons d t)
    then have h: "h = [d]" using Nil.prems(2) by simp
    then show ?thesis
      using Nil.prems read_data_half [of i line d addr "n - 1"] by (cases n) auto
  qed
next
  case (Cons b bs)
  obtain k where k: "n = Suc k" using Cons.prems(5) by (cases n) auto
  show ?case
    using Cons.IH [OF bytes_at_Cons(1) [OF Cons.prems(1)], of k] Cons.prems(2-5)
      mem_update_Cons [of "unat addr + i" b "bs @ map of_nat h"]
    by (simp add: k read_data_step [OF Cons.prems(1)] del: read_data.simps)
qed

lemma hex_lines_append: "hex_lines (xs @ ys) r = bnd (hex_lines xs) (\<lambda>_. hex_lines ys) r"
  by (induction xs arbitrary: r) (auto simp: bnd_run split: sum.splits)

lemma getlines_file_line:
  "\<forall>(r, ck) \<in> set rs. CHR 0x0A \<notin> set ck \<Longrightarrow> CHR 0x0A \<notin> set l \<Longrightarrow> l \<noteq> [] \<Longrightarrow>
     getlines [] (hex_file rs @ l) = map hex_line_of rs @ [l]"
  by (induction rs) (auto simp: hex_file_def getlines_line getlines_last no_newline_line)

lemma hex_cut_line:
  assumes "same_base r b" and n: "n < 256" "length bs + length h \<le> n" and h: "length h \<le> 1" "\<forall>k \<in> set h. k < 16"
    and fits: "base_addr b + unat a + length bs + length h \<le> SIZE"
  shows "hex_line (cut_line n a bs h) r =
    (if length bs + length h < n then Inl (if h = [] then Invalid_argument else Out_of_range)
     else Inr ((), r\<lparr>loaded := mem_update (base_addr b + unat a) (bs @ map of_nat h) (loaded r)\<rparr>))"
proof -
  define f where "f = hex_field 2 n"
  define g where "g = hex_field 4 (unat a)"
  define t where "t = concat (map (\<lambda>b. hex_field 2 (unat b)) bs) @ map nibble_to_hex h"
  define line where "line = CHR '':'' # f @ g @ ''00'' @ t"
  let ?a = "ucast a + extended_address r + memory_offset r"
  have line_cut: "cut_line n a bs h = line" by (simp add: cut_line_def line_def f_def g_def t_def)
  have l: "length f = 2" "length g = 4" by (simp_all add: f_def g_def)
  have d1: "drop 1 line = f @ g @ ''00'' @ t" by (simp add: line_def)
  have d3: "drop 3 line = g @ ''00'' @ t" using arg_cong [OF d1, of "drop 2"] l by simp
  have d7: "drop 7 line = ''00'' @ t" using arg_cong [OF d3, of "drop 4"] l by simp
  have d9: "drop 9 line = t" using arg_cong [OF d7, of "drop 2"] l by simp
  have sub: "substr 7 2 line r = Inr (''00'', r)" "substr 1 2 line r = Inr (f, r)" "substr 3 4 line r = Inr (g, r)"
    using l d1 d3 d7 by (auto simp: substr_def line_def)
  have a: "unat ?a = base_addr b + unat a"
    using fits by (intro base_address [OF assms(1)]) (simp add: SIZE_def)
  have "bytes_at 0 line bs (map nibble_to_hex h)" using d9 l by (simp add: bytes_at_def t_def line_def)
  from read_data_cut [OF this h _ n(2), of ?a r] fits a
  have "read_data n 0 line ?a r =
    (if length bs + length h < n then Inl (if h = [] then Invalid_argument else Out_of_range)
     else Inr ((), r\<lparr>loaded := mem_update (base_addr b + unat a) (bs @ map of_nat h) (loaded r)\<rparr>))"
    by simp
  moreover have "sto 32 f r = Inr (int n, r)" "sto 32 g r = Inr (int (unat a mod 16 ^ 4), r)"
    using n by (simp_all add: f_def g_def stol_fields del: hex_field.simps)
  moreover have "line \<noteq> []" "hd line = CHR '':''" by (simp_all add: line_def)
  moreover have "word_of_int (int (unat a mod 16 ^ 4)) = (ucast a :: 32 word)" by (rule word_fields)
  ultimately show ?thesis
    by (simp add: line_cut hex_line_def bnd_run gets_run Let_def sub del: One_nat_def)
qed

lemma readHexFile_cut:
  assumes ck: "\<forall>(r, ck) \<in> set rs. CHR 0x0A \<notin> set ck"
    and rs: "hex_load (map fst rs) (Lin_base 0, m) = Some (b, m')"
    and n: "n < 256" "length bs + length h \<le> n" and h: "length h \<le> 1" "\<forall>k \<in> set h. k < 16"
    and fits: "base_addr b + unat a + length bs + length h \<le> SIZE"
  shows "readHexFile (Some (hex_file rs @ cut_line n a bs h)) m =
    (if length bs + length h < n then Inl (if h = [] then Invalid_argument else Out_of_range)
     else Inr ((), (mem_update (base_addr b + unat a) (bs @ map of_nat h) m')
       \<lparr>dmi_allowed := (\<forall>w. b = Lin_base w \<longrightarrow> w = 0)\<rparr>))"
proof -
  obtain r where r: "hex_lines (map hex_line_of rs)
      \<lparr>loaded = m, extended_address = 0, memory_offset = 0\<rparr> = Inr ((), r)"
    and m': "loaded r = m'" and b: "same_base r b"
    using hex_records_read [of "\<lparr>loaded = m, extended_address = 0, memory_offset = 0\<rparr>" "Lin_base 0" rs b m']
      rs by auto
  have digit: "nibble_to_hex k \<noteq> CHR 0x0A" if "k < 16" for k
    using is_hex_nibble [OF that] by (auto simp: is_hex_def hex_value_def)
  have "CHR 0x0A \<notin> set (cut_line n a bs h)"
    using no_newline_field digit h(2) by (fastforce simp: cut_line_def simp del: hex_field.simps)
  then have lines: "getlines [] (hex_file rs @ cut_line n a bs h) = map hex_line_of rs @ [cut_line n a bs h]"
    by (intro getlines_file_line [OF ck]) (simp_all add: cut_line_def)
  show ?thesis
    using hex_cut_line [OF b n h fits] m' same_base_offset [OF b]
    by (simp add: readHexFile_def lines hex_lines_append bnd_run r)
qed

end
