(* ===== verification/Examples.thy ===== *)
theory Examples
  imports System A_Correct
begin

text \<open>
  Concrete programs and states, used by the witnesses of the properties: a program of two
  additions and a compressed move in the memory of a processor the constructors have just built.
\<close>

definition demo_memory :: memory where
  "demo_memory =
     mem_update 0 (le_bytes 4 (encode (OP_IMM I_ADD 1 0 5)) @ le_bytes 4 (encode (OP A_ADD 3 1 1)) @
         le_bytes 4 (c_encode 0 (C_MV 4 3))) Memory_init"

definition demo_32 :: "32 cpu" where
  "demo_32 = Simulator_RV32 demo_memory (\<lambda>_. 0)"

definition demo_64 :: "64 cpu" where
  "demo_64 = Simulator_RV64 demo_memory (\<lambda>_. 0)"

text \<open>The states of the abstract machine along the program.\<close>

definition demo_mid :: "'a::len arch \<Rightarrow> 'a arch" where
  "demo_mid a = seq_next 4 (wX 1 5 a)"

definition demo_sum :: "'a::len arch \<Rightarrow> 'a arch" where
  "demo_sum a = seq_next 4 (wX 3 10 (demo_mid a))"

definition demo_end :: "'a::len arch \<Rightarrow> 'a arch" where
  "demo_end a = seq_next 2 (wX 4 10 (demo_sum a))"

lemma demo_bytes:
  "mem_bytes 0 4 demo_memory = le_bytes 4 (encode (OP_IMM I_ADD 1 0 5))"
  "mem_bytes 4 4 demo_memory = le_bytes 4 (encode (OP A_ADD 3 1 1))"
  "mem_bytes 8 4 demo_memory = le_bytes 4 (c_encode 0 (C_MV 4 3))"
proof -
  define i1 where "i1 = le_bytes 4 (encode (OP_IMM I_ADD 1 0 5))"
  define i2 where "i2 = le_bytes 4 (encode (OP A_ADD 3 1 1))"
  define i3 where "i3 = le_bytes 4 (c_encode 0 (C_MV 4 3))"
  have l: "length i1 = 4" "length i2 = 4" "length i3 = 4" by (simp_all add: i1_def i2_def i3_def)
  have m: "demo_memory = mem_update 8 i3 (mem_update 4 i2 (mem_update 0 i1 Memory_init))"
    using mem_update_append [of 0 i1 i2 Memory_init] mem_update_append [of 0 "i1 @ i2" i3 Memory_init]
    unfolding demo_memory_def i1_def [symmetric] i2_def [symmetric] i3_def [symmetric]
    by (simp add: l)
  show "mem_bytes 0 4 demo_memory = le_bytes 4 (encode (OP_IMM I_ADD 1 0 5))"
    "mem_bytes 4 4 demo_memory = le_bytes 4 (encode (OP A_ADD 3 1 1))"
    "mem_bytes 8 4 demo_memory = le_bytes 4 (c_encode 0 (C_MV 4 3))"
    unfolding m i1_def [symmetric] i2_def [symmetric] i3_def [symmetric]
    by (simp_all add: mem_bytes_update_other l)
qed

text \<open>A state in which the program starts.\<close>

definition demo_start :: "'a::len cpu \<Rightarrow> bool" where
  "demo_start c \<longleftrightarrow>
     main_memory (plat (core c)) = demo_memory \<and> register_PC (regs (core c)) = 0 \<and>
     hart_x0 (core c) \<and> \<not> interrupt c \<and> \<not> sc_stopped (plat (core c))"

lemma demo_starts: "demo_start demo_32" "demo_start demo_64"
  by (simp_all add: demo_start_def demo_32_def demo_64_def Simulator_RV32_def Simulator_RV64_def
      initCSR_32_def initCSR_64_def init_defs getPCfromHEX_def demo_memory_def Memory_init_def
      del: encode.simps le_bytes.simps)

lemma demo_in_state: "demo_start c \<Longrightarrow> in_state c (abs_hart (core c))"
  by (simp add: demo_start_def in_state_def)

lemma demo_PC: "demo_start c \<Longrightarrow> PC (abs_hart (core c)) = 0"
  by (simp add: demo_start_def abs_hart_def)

lemma demo_ram: "demo_start c \<Longrightarrow>
    ram_bytes a n (abs_hart (core c)) = mem_bytes a n demo_memory"
  by (simp add: ram_mem_bytes demo_start_def)

lemma demo_first: "isa_exec (OP_IMM I_ADD 1 0 5) a = Some (demo_mid a)"
  if "LENGTH('a) = 32 \<or> LENGTH('a) = 64" for a :: "'a::len arch"
proof -
  have "(scast (5 :: 12 word) :: 'a word) = 5"
    using that by (intro bit_word_eqI) (auto simp: bit_simps bit_numeral_word_iff)
  then show ?thesis by (simp add: isa_exec_def demo_mid_def rX_def)
qed

lemma demo_second: "isa_exec (OP A_ADD 3 1 1) (demo_mid a) = Some (demo_sum a)"
  by (simp add: isa_exec_def demo_mid_def demo_sum_def rX_def wX_def seq_next_def go_def)

lemma demo_third: "c_isa_exec (C_MV 4 3) (demo_sum a) = Some (demo_end a)"
  by (simp add: c_isa_exec_def demo_sum_def demo_end_def rX_def wX_def seq_next_def go_def)

lemma ram_bytes_demo:
  "ram_bytes k n (demo_mid a) = ram_bytes k n a" "ram_bytes k n (demo_sum a) = ram_bytes k n a"
  by (simp_all add: demo_mid_def demo_sum_def ram_bytes_def seq_next_def go_def wX_def)

lemma demo_steps:
  fixes c :: "'a::len cpu"
  assumes "LENGTH('a) = 32 \<or> LENGTH('a) = 64" "demo_start c"
  shows "isa_step (abs_hart (core c)) (demo_mid (abs_hart (core c)))"
    and "isa_step (demo_mid (abs_hart (core c))) (demo_sum (abs_hart (core c)))"
    and "isa_step (demo_sum (abs_hart (core c))) (demo_end (abs_hart (core c)))"
    and "(isa_step ^^ 3) (abs_hart (core c)) (demo_end (abs_hart (core c)))"
proof -
  let ?a = "abs_hart (core c)"
  have 4: "unat (4 :: 'a word) = 4" "unat (8 :: 'a word) = 8"
    using assms(1) by (auto simp: take_bit_nat_eq_self_iff)
  show 1: "isa_step ?a (demo_mid ?a)"
    by (rule isa_fetch [OF _ _ demo_first [OF assms(1)]])
      (simp_all add: demo_PC [OF assms(2)] demo_ram [OF assms(2)] demo_bytes RAM_SIZE_def
        del: encode.simps le_bytes.simps)
  have pc: "unat (PC (demo_mid ?a)) = 4" "unat (PC (demo_sum ?a)) = 8"
    using 4 by (simp_all add: demo_mid_def demo_sum_def seq_next_def go_def demo_PC [OF assms(2)] wX_def)
  show 2: "isa_step (demo_mid ?a) (demo_sum ?a)"
    by (rule isa_fetch [OF _ _ demo_second])
      (simp_all only: pc ram_bytes_demo demo_ram [OF assms(2)] demo_bytes, simp add: RAM_SIZE_def)
  show 3: "isa_step (demo_sum ?a) (demo_end ?a)"
    by (rule isa_compressed [OF _ _ demo_third])
      (simp_all only: pc ram_bytes_demo demo_ram [OF assms(2)] demo_bytes, simp add: RAM_SIZE_def)
  show "(isa_step ^^ 3) ?a (demo_end ?a)"
    using 1 2 3 by (auto simp: numeral_3_eq_3)
qed

lemma demo_end_4: "rX (demo_end a) 4 = 10"
  by (simp add: demo_end_def rX_def seq_next_def go_def wX_def)

text \<open>The program running in the whole simulation.\<close>

lemma round_to_sim: "round_to c c' \<Longrightarrow> \<not> sc_stopped (plat (core c)) \<Longrightarrow> sim_step c c'"
  by (auto simp: round_to_def intro: sim_step.cpu_round)

lemma rounds_sim:
  "(round_to ^^ n) c c' \<Longrightarrow> \<not> sc_stopped (plat (core c)) \<Longrightarrow> sim_step\<^sup>*\<^sup>* c c'"
proof (induction n arbitrary: c)
  case 0
  then show ?case by simp
next
  case (Suc n)
  from Suc.prems(1) obtain d where d: "round_to c d" "(round_to ^^ n) d c'" by (rule relpowp_Suc_E2)
  from d(1) have "\<not> sc_stopped (plat (core d))" by (simp add: round_to_def)
  then have "sim_step\<^sup>*\<^sup>* d c'" by (rule Suc.IH [OF d(2)])
  then show ?case
    using round_to_sim [OF d(1) Suc.prems(2)] by (blast intro: converse_rtranclp_into_rtranclp)
qed

lemma demo_runs_32: "\<exists>c'. sim_step\<^sup>*\<^sup>* demo_32 c' \<and> rX (abs_hart (core c')) 4 = 10"
proof -
  obtain c' where "(round_to ^^ 3) demo_32 c'" "in_state c' (demo_end (abs_hart (core demo_32)))"
    using rv32.runs [OF demo_steps(4) demo_in_state] demo_starts by auto
  then show ?thesis
    using rounds_sim [of 3 demo_32 c'] demo_starts(1)
    by (auto simp: in_state_def demo_start_def demo_end_4)
qed

lemma demo_runs_64: "\<exists>c'. sim_step\<^sup>*\<^sup>* demo_64 c' \<and> rX (abs_hart (core c')) 4 = 10"
proof -
  obtain c' where "(round_to ^^ 3) demo_64 c'" "in_state c' (demo_end (abs_hart (core demo_64)))"
    using rv64.runs [OF demo_steps(4) demo_in_state] demo_starts by auto
  then show ?thesis
    using rounds_sim [of 3 demo_64 c'] demo_starts(2)
    by (auto simp: in_state_def demo_start_def demo_end_4)
qed

section \<open>States with given registers\<close>

definition with_regs :: "(nat \<Rightarrow> 'a::len word) \<Rightarrow> 'a hart \<Rightarrow> 'a hart" where
  "with_regs b s = s\<lparr>regs := (regs s)\<lparr>register_bank := b\<rparr>\<rparr>"

lemma with_regs_x0: "b 0 = 0 \<Longrightarrow> hart_x0 (with_regs b s)"
  by (simp add: with_regs_def hart_x0_def x0_zero_def)

lemma with_regs_rX: "b 0 = 0 \<Longrightarrow> rX (abs_hart (with_regs b s)) r = b (unat r)"
  by (simp add: rX_bank [OF with_regs_x0]) (simp add: with_regs_def)

lemma demo_x0: "hart_x0 (core demo_32)" "hart_x0 (core demo_64)"
  using demo_starts by (simp_all add: demo_start_def)

text \<open>Registers 1 and 2 hold the operands, all others zero.\<close>

definition operands :: "'a::len word \<Rightarrow> 'a word \<Rightarrow> nat \<Rightarrow> 'a word" where
  "operands v w = (\<lambda>_. 0)(1 := v, 2 := w)"

lemma operands_simps [simp]:
  "operands v w 0 = 0" "operands v w (Suc 0) = v" "operands v w 2 = w" "operands v w 3 = 0"
  by (simp_all add: operands_def)

definition state_32 :: "32 word \<Rightarrow> 32 word \<Rightarrow> 32 hart" where
  "state_32 v w = with_regs (operands v w) (core demo_32)"

definition state_64 :: "64 word \<Rightarrow> 64 word \<Rightarrow> 64 hart" where
  "state_64 v w = with_regs (operands v w) (core demo_64)"

lemma state_x0 [simp]: "hart_x0 (state_32 v w)" "hart_x0 (state_64 x y)"
  by (simp_all add: state_32_def state_64_def with_regs_x0)

lemma state_rX [simp]:
  "rX (abs_hart (state_32 v w)) r = operands v w (unat r)"
  "rX (abs_hart (state_64 x y)) r = operands x y (unat r)"
  by (simp_all add: state_32_def state_64_def with_regs_rX)

end
