(* ===== verification/Boot.thy ===== *)
theory Boot
  imports HexFile Examples
begin

text \<open>
  From a program file to a running processor: the memory loaded from the file, the processor the
  constructors build on it, and its run, against the records of the file and the abstract machine.
\<close>

text \<open>The state in which the abstract machine starts: the file's image and start address.\<close>

definition boot_arch :: "memory \<Rightarrow> 'a::len arch" where
  "boot_arch m =
     \<lparr>X = (\<lambda>_. 0)(2 := of_nat (Memory_SIZE div 4 - 1)), PC = ucast (program_counter m), RAM = mem m\<rparr>"

lemma boot_state_32: "in_state (Simulator_RV32 m u) (boot_arch m)"
  by (simp add: in_state_def boot_arch_def abs_hart_def Simulator_RV32_def initCSR_32_def init_defs
      getPCfromHEX_def)

lemma boot_state_64: "in_state (Simulator_RV64 m u) (boot_arch m)"
  by (simp add: in_state_def boot_arch_def abs_hart_def Simulator_RV64_def initCSR_64_def init_defs
      getPCfromHEX_def)

lemma boot_arch_dmi [simp]: "boot_arch (m\<lparr>dmi_allowed := d\<rparr>) = boot_arch m"
  by (simp add: boot_arch_def)

lemma Memory_file_records:
  assumes "\<forall>(r, ck) \<in> set rs. CHR 0x0A \<notin> set ck"
    and "hex_load (map fst rs) (Lin_base 0, Memory_init) = Some (b, m)"
  shows "\<exists>d. Memory_file (Some (hex_file rs)) = Inr (m\<lparr>dmi_allowed := d\<rparr>)"
  by (intro exI [of _ "\<forall>w. b = Lin_base w \<longrightarrow> w = 0"])
     (simp add: Memory_file_def readHexFile_records [OF assms])

end
