(* ===== verification/System_Run.thy ===== *)
theory System_Run
  imports System_Correct Boot
begin

text \<open>
  Runs of the processor and its devices under a sequence of events (rounds of the processor and
  notifications of the timer) against the machine with privileged state.
\<close>

section \<open>Simulation along events\<close>

primrec events :: "('e \<Rightarrow> 's \<Rightarrow> 's \<Rightarrow> bool) \<Rightarrow> 'e list \<Rightarrow> 's \<Rightarrow> 's \<Rightarrow> bool" where
  "events step [] s t \<longleftrightarrow> s = t"
| "events step (e # es) s t \<longleftrightarrow> (\<exists>u. step e s u \<and> events step es u t)"

text \<open>
  Each event the abstract system takes, the concrete one takes too, in one way only.
\<close>

locale labelled_simulation =
  fixes astep :: "'e \<Rightarrow> 'a \<Rightarrow> 'a \<Rightarrow> bool"
    and cstep :: "'e \<Rightarrow> 'c \<Rightarrow> 'c \<Rightarrow> bool"
    and R :: "'c \<Rightarrow> 'a \<Rightarrow> bool"
  assumes labelled: "R c a \<Longrightarrow> astep e a a' \<Longrightarrow> \<exists>c'. cstep e c c' \<and> R c' a'"
    and unique: "R c a \<Longrightarrow> cstep e c c1 \<Longrightarrow> cstep e c c2 \<Longrightarrow> c1 = c2"
begin

lemma outcome_of_events:
  "events astep es a a' \<Longrightarrow> R c a \<Longrightarrow>
     (\<exists>c'. events cstep es c c') \<and> (\<forall>c'. events cstep es c c' \<longrightarrow> R c' a')"
proof (induction es arbitrary: a c)
  case Nil
  then show ?case by (auto intro: exI [of _ c])
next
  case (Cons e es)
  obtain b where b: "astep e a b" "events astep es b a'" using Cons.prems(1) by auto
  obtain d where d: "cstep e c d" "R d b" using labelled [OF Cons.prems(2) b(1)] by blast
  have u: "d' = d" if "cstep e c d'" for d' using unique [OF Cons.prems(2) that d(1)] .
  then have "events cstep (e # es) c c' \<longleftrightarrow> events cstep es d c'" for c'
    unfolding events.simps using d(1) by blast
  then show ?case using Cons.IH [OF b(2) d(2)] by simp
qed

end

text \<open>Forgetting the names of the events leaves a simulation.\<close>

sublocale labelled_simulation \<subseteq> unlabelled: forward_simulation
  "\<lambda>a a'. \<exists>e. astep e a a'" "\<lambda>c c'. \<exists>e. cstep e c c'" R
  by unfold_locales (use labelled in blast)

section \<open>Steps\<close>

definition abs_cpu :: "'a::len cpu \<Rightarrow> 'a sys" where
  "abs_cpu c = abs_sys (interrupt c) (irq_already_down c) (core c)"

definition cpu_rel :: "'a::len cpu \<Rightarrow> 'a sys \<Rightarrow> bool" where
  "cpu_rel c p \<longleftrightarrow> abs_cpu c = p \<and> hart_x0 (core c)"

lemma abs_sys_perf [simp]: "abs_sys f d (s\<lparr>perf := q\<rparr>) = abs_sys f d s"
  by (simp add: abs_sys_def)

lemma prog_abs_cpu [simp]: "prog (abs_cpu c) = abs_hart (core c)"
  by (simp add: abs_cpu_def)

text \<open>What an instruction leaves, a step leaves when the memory holds a word that is executed alike.\<close>

lemma step_word:
  fixes c :: "'a::len cpu"
  assumes xlen: "LENGTH('a) = 32 \<or> LENGTH('a) = 64"
    and pc: "unat (PC (abs_hart (core c))) + 4 \<le> RAM_SIZE"
    and v: "ram_bytes (unat (PC (abs_hart (core c)))) 4 (abs_hart (core c)) = le_bytes 4 v"
    and p: "leaves (CPU_dispatch v) b (interrupt c) (irq_already_down c)
      (core c\<lparr>perf := codeMemoryRead (perf (core c))\<rparr>) p"
  shows "\<exists>c'. CPU_step c = Inr (b, c') \<and> abs_cpu c' = p"
proof -
  have size: "SIZE = RAM_SIZE" by (simp add: SIZE_def RAM_SIZE_def)
  obtain st hint valid where f: "fetch c = Inr ((), c\<lparr>INSTR := v, trans_status := st,
      trans_dmi := hint, dmi_ptr_valid := valid\<rparr>)"
    using fetch_ram [OF xlen, of c v] pc v size
    unfolding ram_mem_bytes by (auto simp: abs_hart_def)
  obtain t where "CPU_dispatch v (core c\<lparr>perf := codeMemoryRead (perf (core c))\<rparr>) = Inr (b, t)"
      "abs_sys (interrupt c) (irq_already_down c) t = p"
    using p unfolding leaves_def by blast
  then show ?thesis
    using f by (simp add: CPU_step_def bnd_run on_core_run count_def abs_cpu_def)
qed

lemma counted_read:
  "hart_x0 s \<Longrightarrow> hart_x0 (s\<lparr>perf := q\<rparr>)" "abs_hart (s\<lparr>perf := q\<rparr>) = abs_hart s"
  by (simp_all add: hart_x0_def abs_hart_def)

lemma word_refines:
  fixes s :: "'a::len hart"
  assumes xlen: "LENGTH('a) = 32 \<or> LENGTH('a) = 64" and x0: "hart_x0 s" and a: "user_word w (abs_hart s) a"
  shows "leaves (CPU_dispatch w) False f d s ((abs_sys f d s)\<lparr>prog := a\<rparr>)"
  using a dispatch_refines [OF xlen x0] refine_mdw [OF x0] unfolding user_word_def
  by (auto intro: outcome_leaves)

lemma step_user:
  fixes c :: "'a::len cpu"
  assumes xlen: "LENGTH('a) = 32 \<or> LENGTH('a) = 64" and x0: "hart_x0 (core c)"
    and a: "isa_step (abs_hart (core c)) a"
  shows "\<exists>c'. CPU_step c = Inr (False, c') \<and> abs_cpu c' = (abs_cpu c)\<lparr>prog := a\<rparr>"
proof -
  obtain c' where c': "CPU_step c = Inr (False, c')" "step_to c a c'"
    using step_refines [OF xlen x0 a] by blast
  then show ?thesis
    by (auto simp: step_to_def abs_cpu_def abs_sys_def csr_view_def csr_at_def fun_eq_iff)
qed

lemma step_sys:
  fixes c :: "'a::len cpu"
  assumes xlen: "LENGTH('a) = 32 \<or> LENGTH('a) = 64" and x0: "hart_x0 (core c)"
    and p: "sys_insn_step b (abs_cpu c) p"
  shows "\<exists>c'. CPU_step c = Inr (b, c') \<and> abs_cpu c' = p"
  using p
proof (cases rule: sys_insn_step.cases)
  case (sys_user a)
  then show ?thesis using step_user [OF xlen x0] by simp
next
  case (sys_privileged i)
  then show ?thesis
    using sys_op_refines [OF xlen counted_read(1) [OF x0]]
    by (intro step_word [OF xlen]) (simp_all add: abs_cpu_def)
next
  case (sys_foreign_user v w a)
  note same = runs_as_dispatch [OF sys_foreign_user(5)]
  have "leaves (CPU_dispatch v) False (interrupt c) (irq_already_down c)
      (core c\<lparr>perf := codeMemoryRead (perf (core c))\<rparr>) p"
    unfolding same using word_refines [OF xlen counted_read(1) [OF x0], of w _ a] sys_foreign_user(2,6)
    by (simp add: abs_cpu_def counted_read(2))
  then show ?thesis
    using sys_foreign_user(1,3,4) by (intro step_word [OF xlen, of c v]) simp_all
next
  case (sys_foreign v i)
  note same = runs_as_dispatch [OF sys_foreign(4)]
  have "leaves (CPU_dispatch v) b (interrupt c) (irq_already_down c)
      (core c\<lparr>perf := codeMemoryRead (perf (core c))\<rparr>) p"
    unfolding same using sys_op_refines [OF xlen counted_read(1) [OF x0], of i] sys_foreign(1,5)
    by (simp add: abs_cpu_def)
  then show ?thesis
    using sys_foreign(2,3) by (intro step_word [OF xlen, of c v]) simp_all
qed

section \<open>Interrupts\<close>

lemma irq_forward:
  fixes c :: "'a::len cpu"
  assumes xlen: "LENGTH('a) = 32 \<or> LENGTH('a) = 64"
  shows "\<exists>b c'. cpu_process_IRQ c = Inr (b, c') \<and> abs_cpu c' = interrupt_phase (abs_cpu c)"
proof -
  note u = csr_set_bit(1) [OF xlen, where k = 11, simplified]
    csr_set_bit(2) [OF xlen, where k = 11, simplified]
  show ?thesis
    using xlen
    by (cases "interrupt c"; cases "irq_already_down c";
        cases "bit (csr_at CSR_MSTATUS (regs (core c))) 3";
        cases "bit (csr_at CSR_MIP (regs (core c))) 11")
      (auto simp: cpu_process_IRQ_def trap_simps csr_bit [OF xlen] csr_view_setCSR [OF xlen]
          csr_at_setCSR [OF xlen] u
          interrupt_phase_def abs_cpu_def abs_sys_def abs_hart_def go_def)
qed

section \<open>Events\<close>

lemma round_sys:
  fixes c :: "'a::len cpu"
  assumes xlen: "LENGTH('a) = 32 \<or> LENGTH('a) = 64" and c: "cpu_rel c p" and p: "sys_insn_step b p q"
  shows "\<exists>c'. CPU_round c = Inr ((), c') \<and> cpu_rel c' ((interrupt_phase q)\<lparr>clock := clock q + 10\<rparr>)"
proof -
  obtain d where d: "CPU_step c = Inr (b, d)" "abs_cpu d = q"
    using step_sys [OF xlen, of c b q] c p by (auto simp: cpu_rel_def)
  obtain b' e where e: "cpu_process_IRQ d = Inr (b', e)" "abs_cpu e = interrupt_phase q"
    using irq_forward [OF xlen, of d] d(2) by auto
  define c' where "c' = e\<lparr>core := core e\<lparr>plat := (plat (core e))\<lparr>sc_now := sc_now (plat (core e)) + 10\<rparr>\<rparr>\<rparr>"
  have r: "CPU_round c = Inr ((), c')"
    by (simp add: CPU_round_def bnd_run d(1) e(1) on_core_run on_plat_def onto_run
        wait_default_time_def c'_def)
  have "clock (interrupt_phase q) = clock q" by (simp add: interrupt_phase_def Let_def)
  then have "abs_cpu c' = (interrupt_phase q)\<lparr>clock := clock q + 10\<rparr>"
    unfolding e(2) [symmetric] by (simp add: c'_def abs_cpu_def abs_sys_def abs_hart_def)
  moreover have "hart_x0 (core c')"
    using keepsD [OF x0.round _ r] c by (simp add: cpu_rel_def)
  ultimately show ?thesis using r by (auto simp: cpu_rel_def)
qed

lemma sim_event_unique: "sim_event e c c1 \<Longrightarrow> sim_event e c c2 \<Longrightarrow> c1 = c2"
  by (auto simp: sim_event.simps)

text \<open>On the 64-bit processor a notification of the timer has no result, so only rounds go on.\<close>

definition sys_event :: "event \<Rightarrow> 'a::len sys \<Rightarrow> 'a sys \<Rightarrow> bool" where
  "sys_event e p q \<longleftrightarrow> sys_step e p q \<and> (e = Round \<or> LENGTH('a) = 32)"

lemma timer_sys:
  fixes c :: "'a::len cpu"
  assumes "LENGTH('a) = 32" and c: "cpu_rel c p" and p: "armed p"
  shows "\<exists>c'. sim_event Timer_fires c c' \<and> cpu_rel c' (p\<lparr>irq_waiting := True\<rparr>)"
proof -
  have "call_interrupt irq_trans c = Inr ((), c\<lparr>interrupt := True, int_cause := of_bytes (le_bytes 4 timer_cause)\<rparr>)"
    using assms(1) by (simp add: call_interrupt_def irq_trans_def del: le_bytes.simps)
  moreover have "notified (timer (plat (core c))) \<noteq> []"
    using c p by (auto simp: cpu_rel_def abs_cpu_def abs_sys_def)
  ultimately show ?thesis
    using c by (auto simp: sim_event.simps cpu_rel_def abs_cpu_def abs_sys_def)
qed

lemma event_forward:
  fixes c :: "'a::len cpu"
  assumes xlen: "LENGTH('a) = 32 \<or> LENGTH('a) = 64" and c: "cpu_rel c p" and e: "sys_event e p q"
  shows "\<exists>c'. sim_event e c c' \<and> cpu_rel c' q"
  using e [unfolded sys_event_def, THEN conjunct1]
proof (cases rule: sys_step.cases)
  case (sys_round b r)
  moreover have "\<not> sc_stopped (plat (core c))"
    using sys_round c by (auto simp: cpu_rel_def abs_cpu_def abs_sys_def)
  ultimately show ?thesis using round_sys [OF xlen c] by (auto simp: sim_event.simps)
next
  case sys_timer
  then show ?thesis using e timer_sys [OF _ c] by (auto simp: sys_event_def)
qed

lemma sys_simulation:
  assumes "LENGTH('a::len) = 32 \<or> LENGTH('a) = 64"
  shows "labelled_simulation sys_event sim_event (cpu_rel :: 'a cpu \<Rightarrow> 'a sys \<Rightarrow> bool)"
  by unfold_locales (erule (1) event_forward [OF assms], erule (1) sim_event_unique)

interpretation sys32: labelled_simulation sys_event sim_event "cpu_rel :: 32 cpu \<Rightarrow> 32 sys \<Rightarrow> bool"
  by (rule sys_simulation) simp

interpretation sys64: labelled_simulation sys_event sim_event "cpu_rel :: 64 cpu \<Rightarrow> 64 sys \<Rightarrow> bool"
  by (rule sys_simulation) simp

lemma sys_event_32: "(sys_event :: event \<Rightarrow> 32 sys \<Rightarrow> 32 sys \<Rightarrow> bool) = sys_step"
  by (simp add: sys_event_def fun_eq_iff)

lemma sys_event_rounds: "events sys_step (replicate n Round) p q \<Longrightarrow> events sys_event (replicate n Round) p q"
  by (induction n arbitrary: p) (auto simp: sys_event_def)

text \<open>On the 64-bit processor every sequence of events is a number of rounds.\<close>

lemma sys_event_64: "events sys_event es p q \<Longrightarrow> events sys_step (replicate (length es) Round) p q"
  for p :: "64 sys"
  by (induction es arbitrary: p) (auto simp: sys_event_def)

section \<open>The initial state\<close>

definition boot_sys :: "32 word \<Rightarrow> memory \<Rightarrow> 'a::len sys" where
  "boot_sys misa m =
     \<lparr>prog = boot_arch m, csrs = (\<lambda>_. 0)(CSR_MISA := misa, CSR_MSTATUS := 0x40000000), resv = {},
      irq_waiting = False, irq_seen_down = False, halted = False, clock = 0, mtime = 0, mtimecmp = 0,
      armed = False, console = []\<rparr>"

lemma csr_view_init:
  fixes r :: "'a::len registers"
  assumes xlen: "LENGTH('a) = 32 \<or> LENGTH('a) = 64"
    and r: "CSR r = [of_int CSR_MISA \<mapsto> misa, of_int CSR_MSTATUS \<mapsto> st]"
  shows "csr_view r = (\<lambda>_. 0)(CSR_MISA := misa, CSR_MSTATUS := st)"
proof (rule ext)
  fix k
  have "(of_int k :: 'a word) = of_int j \<longleftrightarrow> k = j" if "plain_csr k" "0 \<le> j" "j < 4096" for j
    by (rule csr_key [OF xlen]) (use that in \<open>simp_all add: plain_csr_def\<close>)
  from this [of CSR_MISA] this [of CSR_MSTATUS]
  show "csr_view r k = ((\<lambda>_. 0)(CSR_MISA := misa, CSR_MSTATUS := st)) k"
    by (auto simp: csr_view_def csr_at_def r plain_csr_def)
qed

lemma boot_cpu_rel:
  "cpu_rel (Simulator_RV32 m u) (boot_sys 0x40001105 m)"
  "cpu_rel (Simulator_RV64 m u) (boot_sys 0x80001105 m)"
proof -
  have "csr_view (Registers_init initCSR_32) = (\<lambda>_. 0)(CSR_MISA := 0x40001105, CSR_MSTATUS := 0x40000000)"
    "csr_view (Registers_init initCSR_64) = (\<lambda>_. 0)(CSR_MISA := 0x80001105, CSR_MSTATUS := 0x40000000)"
    by (rule csr_view_init; simp add: Registers_init_def initCSR_32_def initCSR_64_def Let_def)+
  then show "cpu_rel (Simulator_RV32 m u) (boot_sys 0x40001105 m)"
    "cpu_rel (Simulator_RV64 m u) (boot_sys 0x80001105 m)"
    using boot_state_32 [of m u] boot_state_64 [of m u]
    by (auto simp: cpu_rel_def abs_cpu_def abs_sys_def boot_sys_def in_state_def Simulator_RV32_def
        Simulator_RV64_def CPU_init_def setValue_def setPC_def Let_def Simulator_platform_def Timer_init_def)
qed

lemma boot_events_32:
  assumes "\<forall>(r, ck) \<in> set rs. CHR 0x0A \<notin> set ck"
    and "hex_load (map fst rs) (Lin_base 0, Memory_init) = Some (b, m)"
    and p: "events sys_step es (boot_sys 0x40001105 m) p"
  shows "\<exists>m'. Memory_file (Some (hex_file rs)) = Inr m' \<and>
    (\<exists>c. events sim_event es (Simulator_RV32 m' u) c) \<and>
    (\<forall>c. events sim_event es (Simulator_RV32 m' u) c \<longrightarrow> abs_cpu c = p)"
proof -
  obtain d where d: "Memory_file (Some (hex_file rs)) = Inr (m\<lparr>dmi_allowed := d\<rparr>)"
    using Memory_file_records [OF assms(1,2)] by blast
  have "cpu_rel (Simulator_RV32 (m\<lparr>dmi_allowed := d\<rparr>) u) (boot_sys 0x40001105 m)"
    using boot_cpu_rel(1) [of "m\<lparr>dmi_allowed := d\<rparr>" u] by (simp add: boot_sys_def)
  note run = sys32.outcome_of_events [unfolded sys_event_32, OF p this]
  show ?thesis
    by (rule exI [of _ "m\<lparr>dmi_allowed := d\<rparr>"]) (use run in \<open>auto simp: d cpu_rel_def\<close>)
qed

end
