(* ===== verification/Alarm.thy ===== *)
theory Alarm
  imports System_Run
begin

text \<open>
  The example of the machine with interrupts: a program that enables interrupts, sets the timer's
  comparator, waits and breaks, and the interrupt that ends the wait. The handler is the program
  itself. It also exists as a program file.
\<close>

definition alarm_code :: "32 word list" where
  "alarm_code =
     [enc_sys (S_CSR CSR_write (Immediate 8) 0x300 0), encode (LUI 1 0x40004),
      enc_sys (S_STORE S_W 1 2 12), enc_sys S_WFI, enc_sys S_EBREAK]"

definition alarm_records :: "(hex_record \<times> string) list" where
  "alarm_records = [(Data 0 (concat (map (le_bytes 4) alarm_code)), ''00''), (End_of_file, ''FF'')]"

definition alarm_memory :: memory where
  "alarm_memory = mem_update 0 (concat (map (le_bytes 4) alarm_code)) Memory_init"

lemma length_words: "length (concat (map (le_bytes 4) ws)) = 4 * length ws" for ws :: "32 word list"
  by (induction ws) simp_all

lemma nth_words:
  fixes ws :: "32 word list"
  assumes "k < length ws"
  shows "take 4 (drop (4 * k) (concat (map (le_bytes 4) ws))) = le_bytes 4 (ws ! k)"
  using assms
proof (induction ws arbitrary: k)
  case (Cons w ws)
  show ?case
  proof (cases k)
    case (Suc j)
    then have "drop (4 * k) (concat (map (le_bytes 4) (w # ws))) = drop (4 * j) (concat (map (le_bytes 4) ws))"
      by (simp del: le_bytes.simps)
    then show ?thesis using Cons Suc by (simp del: le_bytes.simps)
  qed (simp del: le_bytes.simps)
qed simp

lemma alarm_ram:
  assumes "k < 5"
  shows "ram_bytes (4 * k) 4 (boot_arch alarm_memory :: 'a::len arch) = le_bytes 4 (alarm_code ! k)"
proof -
  define bs where "bs = concat (map (le_bytes 4) alarm_code)"
  have l: "length bs = 20" by (simp add: bs_def length_words alarm_code_def del: enc_sys.simps encode.simps)
  have "ram_bytes (4 * k) 4 (boot_arch alarm_memory :: 'a arch) = take 4 (drop (4 * k) bs)"
    using assms l
    by (intro nth_equalityI) (auto simp: ram_bytes_def boot_arch_def alarm_memory_def mem_update_def bs_def [symmetric])
  then show ?thesis
    using nth_words [of k alarm_code] assms by (simp add: bs_def alarm_code_def del: enc_sys.simps encode.simps le_bytes.simps)
qed

lemma alarm_records_load:
  "hex_load (map fst alarm_records) (Lin_base 0, Memory_init) = Some (Lin_base 0, alarm_memory)"
  using length_words [of alarm_code]
  by (simp add: alarm_records_def alarm_memory_def alarm_code_def SIZE_def
      del: enc_sys.simps encode.simps le_bytes.simps)

lemma alarm_records_ok: "\<forall>(r, ck) \<in> set alarm_records. CHR 0x0A \<notin> set ck"
  by (simp add: alarm_records_def)

lemma alarm_pc: "PC (boot_arch alarm_memory) = 0" "rX (boot_arch alarm_memory :: 32 arch) 2 = 0x3FFFFF"
  by (simp_all add: boot_arch_def alarm_memory_def Memory_init_def mem_update_def rX_def)

section \<open>The run\<close>

text \<open>A round, for the next states given as an instruction of either kind.\<close>

definition tick :: "'a::len sys \<Rightarrow> 'a sys" where
  "tick q = (interrupt_phase q)\<lparr>clock := clock q + 10\<rparr>"

definition alarm_pc_at :: "nat \<Rightarrow> 'a::len sys \<Rightarrow> bool" where
  "alarm_pc_at k p \<longleftrightarrow>
     RAM (prog p) = RAM (boot_arch alarm_memory :: 'a arch) \<and> PC (prog p) = of_nat (4 * k) \<and> \<not> halted p"

lemma alarm_at:
  fixes p :: "'a::len sys"
  assumes xlen: "LENGTH('a) = 32 \<or> LENGTH('a) = 64" and p: "alarm_pc_at k p" and k: "k < 5"
  shows "unat (PC (prog p)) + 4 \<le> RAM_SIZE"
    "ram_bytes (unat (PC (prog p))) 4 (prog p) = le_bytes 4 (alarm_code ! k)"
proof -
  have "4 * k < 2 ^ LENGTH('a)" using k xlen by auto
  then have "unat (of_nat (4 * k) :: 'a word) = 4 * k"
    by (simp only: unsigned_of_nat take_bit_nat_eq_self of_nat_id)
  then have pc: "unat (PC (prog p)) = 4 * k" using p by (simp add: alarm_pc_at_def)
  then show "unat (PC (prog p)) + 4 \<le> RAM_SIZE" using k by (simp add: RAM_SIZE_def)
  show "ram_bytes (unat (PC (prog p))) 4 (prog p) = le_bytes 4 (alarm_code ! k)"
    using alarm_ram [OF k, where 'a = 'a] p unfolding pc by (simp add: ram_bytes_def alarm_pc_at_def)
qed

lemma alarm_privileged:
  fixes p :: "'a::len sys"
  assumes xlen: "LENGTH('a) = 32 \<or> LENGTH('a) = 64" and p: "alarm_pc_at k p" "k < 5"
    and i: "alarm_code ! k = enc_sys i" and q: "sys_op i p = Some q"
  shows "sys_step Round p (tick q)"
  unfolding tick_def
proof (rule sys_round)
  show "sys_insn_step (breaks i) p q"
    using alarm_at [OF xlen p] i q by (intro sys_privileged) simp_all
qed (use p in \<open>simp add: alarm_pc_at_def\<close>)

lemma alarm_user:
  fixes p :: "'a::len sys"
  assumes xlen: "LENGTH('a) = 32 \<or> LENGTH('a) = 64" and p: "alarm_pc_at k p" "k < 5"
    and i: "alarm_code ! k = encode ins" and a: "isa_exec ins (prog p) = Some a"
  shows "sys_step Round p (tick (p\<lparr>prog := a\<rparr>))"
  unfolding tick_def
proof (rule sys_round)
  have "isa_step (prog p) a"
    using alarm_at [OF xlen p] i a by (intro isa_fetch) simp_all
  then show "sys_insn_step False p (p\<lparr>prog := a\<rparr>)" by (rule sys_user)
qed (use p in \<open>simp add: alarm_pc_at_def\<close>)

definition alarm_enabled :: "'a::len sys \<Rightarrow> 'a sys" where
  "alarm_enabled p = tick (csr_step CSR_write (Immediate 8) 0x300 0 p)"

definition alarm_based :: "'a::len sys \<Rightarrow> 'a sys" where
  "alarm_based p = tick (p\<lparr>prog := seq_next 4 (wX 1 0x40004000 (prog p))\<rparr>)"

definition alarm_set :: "32 sys \<Rightarrow> 32 sys" where
  "alarm_set p = tick (user (seq_next 4) (p\<lparr>mtimecmp := halves (rX (prog p) 2) (low_half (mtimecmp p)), armed := True\<rparr>))"

definition alarm_taken :: "'a::len sys \<Rightarrow> 'a sys" where
  "alarm_taken p = tick (user (seq_next 4) (p\<lparr>irq_waiting := True\<rparr>))"

lemmas alarm_defs = alarm_enabled_def alarm_based_def alarm_set_def alarm_taken_def tick_def
  interrupt_phase_def boot_sys_def csr_step_def csr_put_def csr_old_def user_def isa_simps
  alarm_pc_at_def alarm_pc Let_def

definition alarm_start :: "'a::len sys" where
  "alarm_start = boot_sys 0x40001105 alarm_memory"

lemma alarm_pcs:
  "alarm_pc_at 0 (alarm_start :: 32 sys)"
  "alarm_pc_at 1 (alarm_enabled alarm_start :: 32 sys)"
  "alarm_pc_at 2 (alarm_based (alarm_enabled alarm_start) :: 32 sys)"
  "alarm_pc_at 3 (alarm_set (alarm_based (alarm_enabled alarm_start)) :: 32 sys)"
  by (simp_all add: alarm_defs alarm_start_def)

lemma alarm_steps:
  fixes p :: "32 sys"
  defines "p \<equiv> alarm_start"
  shows "sys_step Round p (alarm_enabled p)"
    and "sys_step Round (alarm_enabled p) (alarm_based (alarm_enabled p))"
    and "sys_step Round (alarm_based (alarm_enabled p)) (alarm_set (alarm_based (alarm_enabled p)))"
    and "sys_step Round ((alarm_set (alarm_based (alarm_enabled p)))\<lparr>irq_waiting := True\<rparr>)
      (alarm_taken (alarm_set (alarm_based (alarm_enabled p))))"
proof -
  show "sys_step Round p (alarm_enabled p)"
    unfolding alarm_enabled_def p_def
    by (rule alarm_privileged [OF _ alarm_pcs(1), where i = "S_CSR CSR_write (Immediate 8) 0x300 0"])
      (simp_all add: alarm_code_def del: enc_sys.simps)
  show "sys_step Round (alarm_enabled p) (alarm_based (alarm_enabled p))"
    unfolding alarm_based_def p_def
    by (rule alarm_user [OF _ alarm_pcs(2), where ins = "LUI 1 0x40004"])
      (simp_all add: alarm_code_def isa_exec_def field_def del: encode.simps)
  show "sys_step Round (alarm_based (alarm_enabled p)) (alarm_set (alarm_based (alarm_enabled p)))"
    unfolding alarm_set_def p_def
  proof (rule alarm_privileged [OF _ alarm_pcs(3), where i = "S_STORE S_W 1 2 12"])
    let ?q = "alarm_based (alarm_enabled alarm_start) :: 32 sys"
    have "rX (prog ?q) 1 = 0x40004000" by (simp add: alarm_defs rX_def)
    then show "sys_op (S_STORE S_W 1 2 12) ?q = Some (user (seq_next 4) (?q\<lparr>
        mtimecmp := halves (rX (prog ?q) 2) (low_half (mtimecmp ?q)), armed := True\<rparr>))"
      by (simp add: dev_op_def dev_store_def)
  qed (simp_all add: alarm_code_def del: enc_sys.simps)
  show "sys_step Round ((alarm_set (alarm_based (alarm_enabled p)))\<lparr>irq_waiting := True\<rparr>)
      (alarm_taken (alarm_set (alarm_based (alarm_enabled p))))"
    unfolding alarm_taken_def p_def
  proof (rule alarm_privileged [where k = 3 and i = S_WFI])
    show "alarm_pc_at 3 ((alarm_set (alarm_based (alarm_enabled alarm_start)) :: 32 sys)\<lparr>irq_waiting := True\<rparr>)"
      using alarm_pcs(4) by (simp add: alarm_pc_at_def)
  qed (simp_all add: alarm_code_def del: enc_sys.simps)
qed

definition alarm_end :: "32 sys" where
  "alarm_end = alarm_taken (alarm_set (alarm_based (alarm_enabled alarm_start)))"

lemma alarm_events:
  "events sys_step [Round, Round, Round, Timer_fires, Round] alarm_start alarm_end"
proof -
  let ?p = "alarm_set (alarm_based (alarm_enabled alarm_start)) :: 32 sys"
  have "armed ?p" by (simp add: alarm_set_def tick_def interrupt_phase_def user_def Let_def)
  then have fires: "sys_step Timer_fires ?p (?p\<lparr>irq_waiting := True\<rparr>)" by (rule sys_timer)
  show ?thesis
    unfolding events.simps alarm_end_def
    by (rule exI, rule conjI [OF alarm_steps(1)], rule exI, rule conjI [OF alarm_steps(2)],
        rule exI, rule conjI [OF alarm_steps(3)], rule exI, rule conjI [OF fires],
        rule exI, rule conjI [OF alarm_steps(4) refl])
qed

lemma alarm_end:
  "csrs alarm_end CSR_MCAUSE = 0x80000000" "csrs alarm_end CSR_MEPC = 16" "clock alarm_end = 40"
  "PC (prog alarm_end) = 0"
  by (simp_all add: alarm_end_def alarm_start_def alarm_defs bit_simps)

text \<open>The first round, on the 64-bit processor.\<close>

lemma alarm_first:
  "sys_step Round (boot_sys 0x80001105 alarm_memory) (alarm_enabled (boot_sys 0x80001105 alarm_memory) :: 64 sys)"
proof -
  have "alarm_pc_at 0 (boot_sys 0x80001105 alarm_memory :: 64 sys)" by (simp add: alarm_defs)
  from alarm_privileged [OF _ this, where i = "S_CSR CSR_write (Immediate 8) 0x300 0"] show ?thesis
    unfolding alarm_enabled_def by (simp add: alarm_code_def del: enc_sys.simps)
qed

lemma alarm_first_state:
  "csrs (alarm_enabled (boot_sys 0x80001105 alarm_memory) :: 64 sys) CSR_MSTATUS = 8"
  "clock (alarm_enabled (boot_sys 0x80001105 alarm_memory) :: 64 sys) = 10"
  by (simp_all add: alarm_defs)

end
