(* ===== verification/Dump.thy ===== *)
theory Dump
  imports System CString
begin

text \<open>
  The memory dump at the end of a simulation (src/Simulator.cpp, \<open>MemoryDump\<close>): the words between
  two addresses, given on the command line or in registers \<open>t0\<close> and \<open>t1\<close>, written in hexadecimal
  to a signature file. The loop counts in 32 bits and need not end.
\<close>

section \<open>Operations\<close>

definition dump_payload :: "32 word \<Rightarrow> byte list \<Rightarrow> payload" where
  "dump_payload i buf =
     \<lparr>command = TLM_READ_COMMAND, address = ucast i, data = buf, data_length = 4,
      streaming_width = 4, byte_enable = False, response_status = TLM_INCOMPLETE_RESPONSE,
      dmi_hint = False\<rparr>"

definition dump_line :: "byte list \<Rightarrow> string" where
  "dump_line buf = setw_hex 8 (unat (of_bytes (take 4 buf) :: 32 word)) @ [CHR 0x0A]"

text \<open>\<open>buf\<close> is the array the words are read into; the response of the memory is not looked at.\<close>

partial_function (option) dump_loop ::
    "32 word \<Rightarrow> 32 word \<Rightarrow> byte list \<Rightarrow> memory \<Rightarrow> (sim_error + string) option" where
  "dump_loop i stop buf m =
     (if i < stop then
        (case Memory_b_transport (dump_payload i buf) m of
           Inl e \<Rightarrow> Some (Inl e)
         | Inr (tr, _) \<Rightarrow>
             Option.bind (dump_loop (i + 4) stop (data tr) m) (\<lambda>r.
             Some (case r of Inl e \<Rightarrow> Inl e | Inr t \<Rightarrow> Inr (dump_line (data tr) @ t))))
      else Some (Inr []))"

definition dump_bounds :: "32 word \<Rightarrow> 32 word \<Rightarrow> ('a::len cpu, 32 word \<times> 32 word) exec" where
  "dump_bounds dump_addr_st dump_addr_end =
     bnd (if dump_addr_st = 0 then bnd getStartDumpAddress (\<lambda>v. ret (ucast v)) else ret dump_addr_st) (\<lambda>st.
     bnd (if dump_addr_end = 0 then bnd getEndDumpAddress (\<lambda>v. ret (ucast v)) else ret dump_addr_end) (\<lambda>en.
     ret (st, en)))"

definition MemoryDump ::
    "32 word \<Rightarrow> 32 word \<Rightarrow> byte list \<Rightarrow> 'a::len cpu \<Rightarrow> (sim_error + string) option" where
  "MemoryDump dump_addr_st dump_addr_end buf c =
     (case dump_bounds dump_addr_st dump_addr_end c of
        Inl e \<Rightarrow> Some (Inl e)
      | Inr ((st, en), c) \<Rightarrow> dump_loop st en buf (main_memory (plat (core c))))"

text \<open>The name of the file: that of the program without its directory and extensions.\<close>

definition signature_name :: "string \<Rightarrow> string" where
  "signature_name filename =
     takeWhile (\<lambda>c. c \<noteq> CHR ''.'') (rev (takeWhile (\<lambda>c. c \<noteq> CHR ''/'' \<and> c \<noteq> CHR 0x5C) (rev filename)))
       @ ''.signature.output''"

section \<open>The signature\<close>

definition word_at :: "nat \<Rightarrow> 'a::len arch \<Rightarrow> 32 word" where
  "word_at a s = of_bytes (ram_bytes a 4 s)"

definition signature :: "nat \<Rightarrow> nat \<Rightarrow> 'a::len arch \<Rightarrow> string" where
  "signature a n s = concat (map (\<lambda>k. hex_field 8 (unat (word_at (a + 4 * k) s)) @ [CHR 0x0A]) [0..<n])"

lemma signature_Suc:
  "signature a (Suc n) s = hex_field 8 (unat (word_at a s)) @ CHR 0x0A # signature (a + 4) n s"
proof -
  have "[0..<Suc n] = 0 # map Suc [0..<n]" by (simp add: map_Suc_upt upt_conv_Cons)
  then show ?thesis by (simp add: signature_def comp_def algebra_simps del: upt_Suc hex_field.simps)
qed

lemma dump_loop_run:
  assumes "unat i + 4 * n \<le> SIZE" "unat stop = unat i + 4 * n" "length buf = 16"
  shows "dump_loop i stop buf (main_memory (plat (core c))) =
    Some (Inr (signature (unat i) n (abs_hart (core c))))"
  using assms
proof (induction n arbitrary: i buf)
  case 0
  then show ?case by (subst dump_loop.simps) (simp add: word_less_nat_alt signature_def)
next
  case (Suc n)
  let ?m = "main_memory (plat (core c))"
  have i: "unat (i + 4) = unat i + 4" using Suc.prems(1) by (simp add: unat_word_ariths SIZE_def)
  have a: "unat (ucast i :: 64 word) = unat i" by (simp add: ea)
  let ?b = "copy_into (mem_bytes (unat i) 4 ?m) buf"
  have "Memory_b_transport (dump_payload i buf) ?m =
      Inr (dump_payload i buf\<lparr>data := ?b, dmi_hint := dmi_allowed ?m, response_status := TLM_OK_RESPONSE\<rparr>, ?m)"
    using Suc.prems(1,3) a by (subst Memory_read) (simp_all add: dump_payload_def plain_access_def)
  moreover have "dump_loop (i + 4) stop ?b ?m = Some (Inr (signature (unat i + 4) n (abs_hart (core c))))"
    using Suc.IH [of "i + 4" ?b] Suc.prems i by simp
  moreover have "dump_line ?b = hex_field 8 (unat (word_at (unat i) (abs_hart (core c)))) @ [CHR 0x0A]"
    using unsigned_less [of "word_at (unat i) (abs_hart (core c))", where 'a = nat]
    by (simp add: dump_line_def setw_hex_field word_at_def ram_mem_bytes del: hex_field.simps)
  ultimately show ?case
    using Suc.prems(2)
    by (subst dump_loop.simps) (simp add: word_less_nat_alt signature_Suc del: hex_field.simps)
qed

lemma dump_bounds_run:
  assumes "hart_x0 (core c)"
  shows "\<exists>c'. dump_bounds st en c =
      Inr ((if st = 0 then ucast (rX (abs_hart (core c)) 5) else st,
            if en = 0 then ucast (rX (abs_hart (core c)) 6) else en), c') \<and>
    main_memory (plat (core c')) = main_memory (plat (core c)) \<and> abs_hart (core c') = abs_hart (core c)"
proof -
  have "(ucast (ucast w :: 64 word) :: 32 word) = ucast w" for w :: "'a word"
    by (rule bit_word_eqI) (simp add: bit_simps)
  then show ?thesis
    unfolding rX_bank [OF assms]
    by (simp add: dump_bounds_def getStartDumpAddress_def getEndDumpAddress_def bnd_run on_core_run rd_reg_run
        abs_hart_def)
qed

lemma MemoryDump_run:
  fixes c :: "'a::len cpu"
  assumes "hart_x0 (core c)" "length buf = 16"
    and "a = (if st = 0 then ucast (rX (abs_hart (core c)) 5) else st)"
    and "b = (if en = 0 then ucast (rX (abs_hart (core c)) 6) else en)"
    and "unat a + 4 * n \<le> SIZE" "unat b = unat a + 4 * n"
  shows "MemoryDump st en buf c = Some (Inr (signature (unat a) n (abs_hart (core c))))"
proof -
  obtain c' where "dump_bounds st en c = Inr ((a, b), c')" "abs_hart (core c') = abs_hart (core c)"
    using dump_bounds_run [OF assms(1), of st en] assms(3,4) by auto
  then show ?thesis
    using dump_loop_run [OF assms(5,6,2), of c'] by (simp add: MemoryDump_def)
qed

end
