(* ===== verification/Options.thy ===== *)
theory Options
  imports CString
begin

text \<open>
  The command line (src/Simulator.cpp, \<open>process_arguments\<close>): what it leaves in the variables of
  the program. \<open>getopt\<close> belongs to the C library of the host: its results, the option characters
  with their arguments and the first argument that is no option, are the input here. So is
  \<open>create\<close>, which says whether the log library gives the program a log, given the one it has.
\<close>

section \<open>State\<close>

datatype cpu_types_t = RV32 | RV64

datatype log_level = Level_debug | Level_info | Level_warn | Level_err

record options =
  filename :: string
  debug_session :: bool
  mem_dump :: bool
  dump_addr_st :: "32 word"
  dump_addr_end :: "32 word"
  cpu_type_opt :: cpu_types_t
  logger :: "log_level option"

definition options_init :: options where
  "options_init = \<lparr>filename = '''', debug_session = False, mem_dump = False, dump_addr_st = 0,
     dump_addr_end = 0, cpu_type_opt = RV32, logger = None\<rparr>"

section \<open>Numbers of the command line\<close>

text \<open>\<open>strtoul\<close> in base 16 negates modulo \<open>2 ^ 64\<close>; \<open>strtol\<close> in base 10 stays in its range.\<close>

definition strtoul_16 :: "string \<Rightarrow> 64 word" where
  "strtoul_16 s = (case strtol_parse s of
     None \<Rightarrow> 0
   | Some (v, _) \<Rightarrow> if 2 ^ 64 \<le> \<bar>v\<bar> then - 1 else word_of_int v)"

definition is_dec :: "char \<Rightarrow> bool" where
  "is_dec c \<longleftrightarrow> (of_char c :: nat) \<in> {48..57}"

definition dec_number :: "string \<Rightarrow> nat" where
  "dec_number ds = foldl (\<lambda>v c. 10 * v + (of_char c - 48)) 0 ds"

definition strtol_10 :: "string \<Rightarrow> int" where
  "strtol_10 s =
     (let (sgn, s) = split_sign (dropWhile isspace s)
      in max (- (2 ^ 63)) (min (2 ^ 63 - 1) (sgn * int (dec_number (takeWhile is_dec s)))))"

section \<open>Operations\<close>

definition create_logger :: "(log_level option \<Rightarrow> sim_error option) \<Rightarrow> (options, unit) exec" where
  "create_logger create =
     bnd (gets logger) (\<lambda>l.
     case create l of
       Some e \<Rightarrow> fail e
     | None \<Rightarrow> modify (\<lambda>s. s\<lparr>logger := Some Level_info\<rparr>))"

definition set_level :: "log_level \<Rightarrow> (options, unit) exec" where
  "set_level l =
     bnd (gets logger) (\<lambda>lg.
     if lg = None then fail Null_pointer else modify (\<lambda>s. s\<lparr>logger := Some l\<rparr>))"

definition process_level :: "(log_level option \<Rightarrow> sim_error option) \<Rightarrow> string \<Rightarrow> (options, unit) exec" where
  "process_level create optarg =
     (let debug_level = strtol_10 optarg in
      bnd (if 0 \<le> debug_level then create_logger create else modify (\<lambda>s. s\<lparr>logger := None\<rparr>)) (\<lambda>_.
      set_level (if debug_level = 3 then Level_info else if debug_level = 2 then Level_warn
                 else if debug_level = 1 then Level_debug else if debug_level = 0 then Level_err
                 else Level_info)))"

definition process_option ::
    "(log_level option \<Rightarrow> sim_error option) \<Rightarrow> char \<times> string \<Rightarrow> (options, unit) exec" where
  "process_option create = (\<lambda>(c, optarg).
     if c = CHR ''D'' then modify (\<lambda>s. s\<lparr>debug_session := True\<rparr>)
     else if c = CHR ''T'' then modify (\<lambda>s. s\<lparr>mem_dump := True\<rparr>)
     else if c = CHR ''B'' then modify (\<lambda>s. s\<lparr>dump_addr_st := ucast (strtoul_16 optarg)\<rparr>)
     else if c = CHR ''E'' then modify (\<lambda>s. s\<lparr>dump_addr_end := ucast (strtoul_16 optarg)\<rparr>)
     else if c = CHR ''L'' then process_level create optarg
     else if c = CHR ''f'' then modify (\<lambda>s. s\<lparr>filename := optarg\<rparr>)
     else if c = CHR ''R'' then
       modify (\<lambda>s. s\<lparr>cpu_type_opt := (if optarg = ''32'' then RV32 else RV64)\<rparr>)
     else ret ())"

primrec process_options ::
    "(log_level option \<Rightarrow> sim_error option) \<Rightarrow> (char \<times> string) list \<Rightarrow> (options, unit) exec" where
  "process_options create [] = ret ()"
| "process_options create (opt # opts) =
     bnd (process_option create opt) (\<lambda>_. process_options create opts)"

text \<open>\<open>arg\<close> is the argument at \<open>optind\<close>, a null pointer when there is none.\<close>

definition process_arguments ::
    "(log_level option \<Rightarrow> sim_error option) \<Rightarrow> (char \<times> string) list \<Rightarrow> string option \<Rightarrow>
     (options, unit) exec" where
  "process_arguments create opts arg =
     bnd (modify (\<lambda>s. s\<lparr>debug_session := False, cpu_type_opt := RV32\<rparr>)) (\<lambda>_.
     bnd (process_options create opts) (\<lambda>_.
     bnd (gets filename) (\<lambda>f.
     if f = '''' then
       (case arg of None \<Rightarrow> fail Null_pointer | Some a \<Rightarrow> modify (\<lambda>s. s\<lparr>filename := a\<rparr>))
     else ret ())))"

text \<open>What \<open>sc_main\<close> does when no option asked for a log.\<close>

definition default_logger :: "(log_level option \<Rightarrow> sim_error option) \<Rightarrow> (options, unit) exec" where
  "default_logger create =
     bnd (gets logger) (\<lambda>l. if l = None then create_logger create else ret ())"

section \<open>Properties\<close>

text \<open>A negative log level crashes the program.\<close>

lemma negative_level:
  "strtol_10 optarg < 0 \<Longrightarrow> process_arguments create ((CHR ''L'', optarg) # opts) arg s = Inl Null_pointer"
  by (simp add: process_arguments_def process_option_def process_level_def set_level_def bnd_run
      Let_def modify_def gets_def fail_def)

lemma no_arguments: "process_arguments create [] None options_init = Inl Null_pointer"
  by (simp add: process_arguments_def options_init_def bnd_run modify_def gets_def fail_def ret_def)

lemma strtoul_field: "strtoul_16 (hex_field 8 (unat (w :: 32 word))) = ucast w"
proof -
  have "hex_field 8 (unat w) \<noteq> []" by (metis length_hex_field length_0_conv zero_neq_numeral)
  then have "strtol_parse (hex_field 8 (unat w)) = Some (int (unat w mod 16 ^ 8), [])"
    using strtol_parse_digits [OF hex_field_digits, of 8 "unat w" "[]"]
    by (simp add: no_digit_def hex_number_field del: hex_field.simps)
  moreover have "unat w mod 16 ^ 8 = unat w" using unsigned_less [of w, where 'a = nat] by simp
  ultimately show ?thesis
    using unsigned_less [of w, where 'a = int] by (simp add: strtoul_16_def del: hex_field.simps)
qed

text \<open>The command line of a memory dump: \<open>-T -B lo -E hi -R 32 file\<close>.\<close>

definition dump_command :: "cpu_types_t \<Rightarrow> 32 word \<Rightarrow> 32 word \<Rightarrow> (char \<times> string) list" where
  "dump_command cpu lo hi =
     [(CHR ''T'', ''''), (CHR ''B'', hex_field 8 (unat lo)), (CHR ''E'', hex_field 8 (unat hi)),
      (CHR ''R'', (if cpu = RV32 then ''32'' else ''64''))]"

lemma process_dump_command:
  "process_arguments create (dump_command cpu lo hi) (Some name) options_init =
     Inr ((), \<lparr>filename = name, debug_session = False, mem_dump = True, dump_addr_st = lo,
       dump_addr_end = hi, cpu_type_opt = cpu, logger = None\<rparr>)"
proof -
  have "(ucast (ucast w :: 64 word) :: 32 word) = w" for w :: "32 word"
    by (rule bit_word_eqI) (simp add: bit_simps)
  then show ?thesis
    by (cases cpu) (simp_all add: process_arguments_def options_init_def dump_command_def process_option_def
      bnd_run modify_def gets_def ret_def strtoul_field del: hex_field.simps)
qed

end
