(* ===== verification/Debug.thy ===== *)
theory Debug
  imports CPU CString "HOL-Library.Sublist"
begin

text \<open>
  The debugger stub (inc/Debug.h, src/Debug.cpp), which answers the packets of GDB's remote
  protocol in place of the simulation thread: \<open>send_packet\<close>, \<open>receive_packet\<close>, the checksum and
  \<open>handle_gdb_loop\<close>, one definition for each message that does more than send a fixed answer. The
  socket is the list of chunks \<open>recv\<close> returns and the list of frames sent; the buffer both
  directions share keeps what was last copied into it. The two processor types are the
  instances at 32 and 64. The status of the debug transaction, which nothing reads, is left out.
\<close>

section \<open>State\<close>

record (overloaded) 'a debug =
  dbg_cpu :: "'a cpu"
  iobuf :: string
  pyld_array :: "byte list"
  breakpoints :: "32 word set"
  sent :: "string list"

definition bufsize :: nat where
  "bufsize = 1024 * 8"

definition Debug_init :: "'a::len cpu \<Rightarrow> 'a debug" where
  "Debug_init c = \<lparr>dbg_cpu = c, iobuf = replicate bufsize (CHR 0x00), pyld_array = replicate 128 0,
     breakpoints = {}, sent = []\<rparr>"

definition on_cpu :: "('a::len cpu, 'b) exec \<Rightarrow> ('a debug, 'b) exec" where
  "on_cpu = onto dbg_cpu (\<lambda>c d. d\<lparr>dbg_cpu := c\<rparr>)"

definition on_hart :: "('a::len hart, 'b) exec \<Rightarrow> ('a debug, 'b) exec" where
  "on_hart m = on_cpu (on_core m)"

section \<open>Packets\<close>

text \<open>Characters are signed: the sum adds their sign extensions.\<close>

definition compute_checksum_string :: "string \<Rightarrow> string" where
  "compute_checksum_string msg =
     (let total = foldl (\<lambda>n c. n + (scast (of_char c :: 8 word) :: 32 word)) 0 msg;
          total = total mod 256;
          low = nibble_to_hex (unat (total AND 0xf));
          high = nibble_to_hex (unat (drop_bit 4 (total AND push_bit 4 0xf)))
      in [high, low])"

definition frame_of :: "string \<Rightarrow> string" where
  "frame_of msg = ''+$'' @ msg @ ''#'' @ compute_checksum_string msg"

definition send_packet :: "string \<Rightarrow> ('a::len debug, unit) exec" where
  "send_packet msg =
     (let frame = frame_of msg in
      if bufsize < length frame then fail (Array_overrun 0 (length frame))
      else modify (\<lambda>d. d\<lparr>iobuf := frame @ drop (length frame) (iobuf d), sent := sent d @ [frame]\<rparr>))"

definition strchr :: "string \<Rightarrow> char \<Rightarrow> nat option" where
  "strchr s c =
     (if c \<in> set (takeWhile (\<lambda>x. x \<noteq> CHR 0x00) s) then Some (length (takeWhile (\<lambda>x. x \<noteq> c) s)) else None)"

text \<open>
  \<open>recv\<close> returns at most \<open>bufsize\<close> bytes, none when the connection is closed, and -1 (here
  \<open>None\<close>) when it fails; then the message is looked for in what the buffer held before.
\<close>

definition message_in_buffer :: "('a::len debug, string) exec" where
  "message_in_buffer =
     bnd (gets iobuf) (\<lambda>buf.
     case (strchr buf (CHR ''$''), strchr buf (CHR ''#'')) of
       (Some start, Some end) \<Rightarrow>
         if end < start + 1 then fail Length_error
         else ret (take (end - (start + 1)) (drop (start + 1) buf))
     | _ \<Rightarrow> fail String_overrun)"

definition receive_packet :: "string option \<Rightarrow> ('a::len debug, string) exec" where
  "receive_packet r =
     (case r of
        None \<Rightarrow> message_in_buffer
      | Some chunk \<Rightarrow>
          let chunk = take bufsize chunk; nbytes = length chunk in
          bnd (modify (\<lambda>d. d\<lparr>iobuf := chunk @ drop nbytes (iobuf d)\<rparr>)) (\<lambda>_.
          if nbytes = 0 then ret ''''
          else if nbytes = 1 then ret ''+''
          else message_in_buffer))"

section \<open>Messages\<close>

definition reply :: "string \<Rightarrow> ('a::len debug, bool) exec" where
  "reply msg = bnd (send_packet msg) (\<lambda>_. ret True)"

text \<open>The four bytes of a word in the order of the network, as a word.\<close>

definition htonl :: "32 word \<Rightarrow> 32 word" where
  "htonl v = of_bytes (rev (le_bytes 4 v))"

text \<open>The conversions of \<open>long\<close> arguments: to \<open>unsigned\<close> and to \<open>int\<close>.\<close>

definition to_unsigned :: "int \<Rightarrow> nat" where
  "to_unsigned n = unat (word_of_int n :: 32 word)"

definition to_int :: "int \<Rightarrow> int" where
  "to_int n = sint (word_of_int n :: 32 word)"

primrec registers_text :: "nat list \<Rightarrow> ('a::len debug, string) exec" where
  "registers_text [] = ret []"
| "registers_text (n # ns) =
     bnd (on_hart (rd_reg n)) (\<lambda>v.
     bnd (registers_text ns) (\<lambda>t. ret (setw_hex 8 (unat v) @ t)))"

definition gdb_g :: "('a::len debug, bool) exec" where
  "gdb_g = bnd (if LENGTH('a) = 32 then registers_text [1..<32] else ret []) reply"

definition gdb_p :: "string \<Rightarrow> ('a::len debug, bool) exec" where
  "gdb_p msg =
     (let n = fst (strtol (drop 1 msg)) in
      bnd (on_hart (if n < 32 then rd_reg (to_unsigned n) else if n = 32 then get_pc
                    else rd_csr (to_int (n - 65)))) (\<lambda>v.
      let reg_value = (ucast v :: 64 word) in
      reply (setw_hex (if LENGTH('a) = 32 then 8 else 16) (unat (htonl (ucast reg_value))))))"

definition gdb_P :: "string \<Rightarrow> ('a::len debug, bool) exec" where
  "gdb_P msg =
     (let (reg, pEnd) = strtol (drop 1 msg) in
      bnd (past 1 pEnd) (\<lambda>s. let val = to_int (fst (strtol s)) in
      bnd (on_hart (wr_reg (to_unsigned (reg + 1)) (word_of_int val))) (\<lambda>_. reply ''OK'')))"

definition gdb_m :: "string \<Rightarrow> ('a::len debug, bool) exec" where
  "gdb_m msg =
     (let (addr, pEnd) = strtol (drop 1 msg) in
      bnd (past 1 pEnd) (\<lambda>s. let len = to_int (fst (strtol s)) in
      bnd (gets pyld_array) (\<lambda>pyld.
      bnd (on_hart (on_plat (on_memory (transport_dbg
        \<lparr>command = TLM_READ_COMMAND, address = word_of_int addr, data = pyld,
         data_length = to_unsigned len, streaming_width = 0, byte_enable = False,
         response_status = TLM_INCOMPLETE_RESPONSE, dmi_hint = False\<rparr>)))) (\<lambda>(n, tr).
      bnd (modify (\<lambda>d. d\<lparr>pyld_array := data tr\<rparr>)) (\<lambda>_.
      reply (concat (map (\<lambda>c. setw_hex 2 (unat c)) (data tr))))))))"

definition at_breakpoint :: "32 word set \<Rightarrow> 'a::len cpu \<Rightarrow> bool" where
  "at_breakpoint bps c \<longleftrightarrow> ucast (getPC (regs (core c))) \<in> bps"

text \<open>The loop of a continue message, which may not end: then there is no result.\<close>

partial_function (option) gdb_continue ::
    "32 word set \<Rightarrow> 'a::len cpu \<Rightarrow> (sim_error + unit \<times> 'a cpu) option" where
  "gdb_continue bps c =
     (case CPU_step c of
        Inl e \<Rightarrow> Some (Inl e)
      | Inr (bkpt, d) \<Rightarrow>
          if at_breakpoint bps d \<or> bkpt then Some (Inr ((), d)) else gdb_continue bps d)"

definition gdb_c :: "'a::len debug \<Rightarrow> (sim_error + bool \<times> 'a debug) option" where
  "gdb_c d =
     (case gdb_continue (breakpoints d) (dbg_cpu d) of
        None \<Rightarrow> None
      | Some (Inl e) \<Rightarrow> Some (Inl e)
      | Some (Inr (_, c)) \<Rightarrow> Some (reply ''S05'' (d\<lparr>dbg_cpu := c\<rparr>)))"

definition gdb_s :: "('a::len debug, bool) exec" where
  "gdb_s =
     bnd (on_cpu CPU_step) (\<lambda>_.
     bnd (gets (\<lambda>d. at_breakpoint (breakpoints d) (dbg_cpu d))) (\<lambda>breakpoint.
     if breakpoint then reply ''S03'' else reply ''S05''))"

definition gdb_breakpoint ::
    "(32 word \<Rightarrow> 32 word set \<Rightarrow> 32 word set) \<Rightarrow> string \<Rightarrow> string \<Rightarrow> ('a::len debug, bool) exec" where
  "gdb_breakpoint change confirm msg =
     bnd (past 3 msg) (\<lambda>s. let addr = fst (strtol s) in
     bnd (modify (\<lambda>d. d\<lparr>breakpoints := change (word_of_int addr) (breakpoints d)\<rparr>)) (\<lambda>_.
     reply confirm))"

text \<open>One round of the loop on a message; the value tells whether the loop goes on.\<close>

definition gdb_message :: "string \<Rightarrow> 'a::len debug \<Rightarrow> (sim_error + bool \<times> 'a debug) option" where
  "gdb_message msg d =
     (if msg = '''' then Some (ret False d)
      else if msg = ''+'' then Some (ret True d)
      else if prefix ''qSupported'' msg then
        Some (reply ''PacketSize=256;swbreak+;hwbreak+;vContSupported+;multiprocess-'' d)
      else if msg = ''vMustReplyEmpty'' then Some (reply '''' d)
      else if msg = ''Hg0'' then Some (reply ''OK'' d)
      else if msg = ''Hc0'' then Some (reply '''' d)
      else if msg = ''qTStatus'' then Some (reply '''' d)
      else if msg = ''?'' then Some (reply ''S05'' d)
      else if msg = ''qfThreadInfo'' then Some (reply '''' d)
      else if prefix ''qL'' msg then Some (reply '''' d)
      else if msg = ''Hc-1'' then Some (reply ''OK'' d)
      else if msg = ''qC'' then Some (reply ''-1'' d)
      else if msg = ''qAttached'' then Some (reply ''0'' d)
      else if msg = ''g'' then Some (gdb_g d)
      else if prefix ''p'' msg then Some (gdb_p msg d)
      else if prefix ''P'' msg then Some (gdb_P msg d)
      else if prefix ''m'' msg then Some (gdb_m msg d)
      else if prefix ''M'' msg then Some (reply ''OK'' d)
      else if prefix ''X'' msg then Some (reply '''' d)
      else if msg = ''qOffsets'' then Some (reply ''Text=0;Data=0;Bss=0'' d)
      else if msg = ''qSymbol::'' then Some (reply ''OK'' d)
      else if msg = ''vCont?'' then Some (reply ''vCont;cs'' d)
      else if msg = ''c'' then gdb_c d
      else if msg = ''s'' then Some (gdb_s d)
      else if prefix ''vKill'' msg then Some (bnd (reply ''OK'') (\<lambda>_. ret False) d)
      else if prefix ''Z1'' msg then Some (gdb_breakpoint insert ''OK'' msg d)
      else if prefix ''z1'' msg then Some (gdb_breakpoint (\<lambda>a s. s - {a}) ''OK'' msg d)
      else if prefix ''z0'' msg then Some (gdb_breakpoint (\<lambda>a s. s - {a}) '''' msg d)
      else if prefix ''Z0'' msg then Some (gdb_breakpoint insert ''OK'' msg d)
      else Some (ret False d))"

text \<open>The loop over what \<open>recv\<close> returns; after the last answer the connection is closed.\<close>

fun handle_gdb_loop :: "string option list \<Rightarrow> 'a::len debug \<Rightarrow> (sim_error + unit \<times> 'a debug) option" where
  "handle_gdb_loop [] d = Some (Inr ((), d))"
| "handle_gdb_loop (chunk # chunks) d =
     (case receive_packet chunk d of
        Inl e \<Rightarrow> Some (Inl e)
      | Inr (msg, d) \<Rightarrow>
          (case gdb_message msg d of
             None \<Rightarrow> None
           | Some (Inl e) \<Rightarrow> Some (Inl e)
           | Some (Inr (go_on, d)) \<Rightarrow>
               if go_on then handle_gdb_loop chunks d else Some (Inr ((), d))))"

section \<open>The connection\<close>

text \<open>
  The constructor waits for a client on port 1234 and runs the loop on the connection. It looks at
  none of the answers of the system; a read from a connection that was not made fails.
\<close>

datatype net_call =
    Socket_call int
  | Setsockopt_call int
  | Bind_call int nat
  | Listen_call int nat
  | Accept_call int int

record net =
  socket_answer :: int
  accept_answer :: int
  received :: "string option list"

definition Debug_listen :: "net \<Rightarrow> net_call list \<times> int" where
  "Debug_listen n =
     (let sock = socket_answer n; conn = accept_answer n in
      ([Socket_call sock, Setsockopt_call sock, Bind_call sock 1234, Listen_call sock 1,
        Accept_call sock conn], conn))"

definition Debug_new ::
    "net \<Rightarrow> 'a::len cpu \<Rightarrow> net_call list \<times> (sim_error + unit \<times> 'a debug) option" where
  "Debug_new n c =
     (let (calls, conn) = Debug_listen n in
      (calls, handle_gdb_loop (if conn = - 1 then [None] else received n) (Debug_init c)))"

end
