(* ===== verification/Program.thy ===== *)
theory Program
  imports Boot Dump Options Debug
begin

text \<open>
  The program as a whole (\<open>sc_main\<close> and the class \<open>Simulator\<close> of src/Simulator.cpp): from the
  command line over the program file, the construction of the platform and its run, free or under
  the debugger, to the signature file the destructor writes. How the kernel interleaves the
  processor with the timer is not fixed, so the program is a relation. A free run takes place
  until the stop request; the time report and the console are left out.
\<close>

section \<open>The program\<close>

definition timer_fires :: "'a::len cpu \<Rightarrow> 'a cpu \<Rightarrow> bool" where
  "timer_fires c c' \<longleftrightarrow>
     notified (timer (plat (core c))) \<noteq> [] \<and> call_interrupt irq_trans c = Inr ((), c')"

text \<open>
  With a debugger there is no thread: the stub runs in the constructor on what it reads from the
  socket, and after it the timer alone.
\<close>

inductive session :: "options \<Rightarrow> string option list \<Rightarrow> 'a::len cpu \<Rightarrow> 'a cpu \<Rightarrow> bool" where
  free_run:
    "\<not> debug_session opt \<Longrightarrow> sim_step\<^sup>*\<^sup>* c c' \<Longrightarrow> sc_stopped (plat (core c')) \<Longrightarrow> session opt chunks c c'"
| debugged:
    "debug_session opt \<Longrightarrow> handle_gdb_loop chunks (Debug_init c) = Some (Inr ((), d)) \<Longrightarrow>
     timer_fires\<^sup>*\<^sup>* (dbg_cpu d) c' \<Longrightarrow> session opt chunks c c'"

inductive_simps session_iff: "session opt chunks c c'"

text \<open>The destructor: the name and the contents of the file it writes, if any.\<close>

definition Simulator_delete ::
    "options \<Rightarrow> byte list \<Rightarrow> 'a::len cpu \<Rightarrow> (sim_error + (string \<times> string) option) option" where
  "Simulator_delete opt buf c =
     (if mem_dump opt then
        map_option (map_sum id (\<lambda>t. Some (signature_name (filename opt), t)))
          (MemoryDump (dump_addr_st opt) (dump_addr_end opt) buf c)
      else Some (Inr None))"

text \<open>
  \<open>files\<close> is the file system, \<open>u\<close> and \<open>buf\<close> the values of uninitialised locals, \<open>chunks\<close> the reads
  from the socket of the debugger.
\<close>

inductive sc_main ::
    "(log_level option \<Rightarrow> sim_error option) \<Rightarrow> (string \<Rightarrow> string option) \<Rightarrow> string option list \<Rightarrow>
     (nat \<Rightarrow> 32 word) \<Rightarrow> byte list \<Rightarrow> (char \<times> string) list \<Rightarrow> string option \<Rightarrow>
     (string \<times> string) option \<Rightarrow> bool"
  for create files chunks u buf where
  sc_main_32:
    "bnd (process_arguments create opts arg) (\<lambda>_. default_logger create) options_init = Inr ((), opt) \<Longrightarrow>
     cpu_type_opt opt = RV32 \<Longrightarrow> Memory_file (files (filename opt)) = Inr m \<Longrightarrow>
     session opt chunks (Simulator_RV32 m u) c \<Longrightarrow> Simulator_delete opt buf c = Some (Inr out) \<Longrightarrow>
     sc_main create files chunks u buf opts arg out"
| sc_main_64:
    "bnd (process_arguments create opts arg) (\<lambda>_. default_logger create) options_init = Inr ((), opt) \<Longrightarrow>
     cpu_type_opt opt = RV64 \<Longrightarrow> Memory_file (files (filename opt)) = Inr m \<Longrightarrow>
     session opt chunks (Simulator_RV64 m u) c \<Longrightarrow> Simulator_delete opt buf c = Some (Inr out) \<Longrightarrow>
     sc_main create files chunks u buf opts arg out"

inductive_simps sc_main_iff: "sc_main create files chunks u buf opts arg out"

section \<open>The last instruction\<close>

text \<open>The abstract machine arrives at an \<open>EBREAK\<close>, which ends the simulation.\<close>

definition at_ebreak :: "'a::len arch \<Rightarrow> bool" where
  "at_ebreak a \<longleftrightarrow> unat (PC a) + 4 \<le> RAM_SIZE \<and> ram_bytes (unat (PC a)) 4 a = le_bytes 4 (0x00100073 :: 32 word)"

lemma dispatch_ebreak:
  fixes s :: "'a::len hart"
  assumes xlen: "LENGTH('a) = 32 \<or> LENGTH('a) = 64"
  shows "\<exists>t. CPU_dispatch 0x00100073 s = Inr (False, t) \<and> register_bank (regs t) = register_bank (regs s) \<and>
    plat t = (plat s)\<lparr>sc_stopped := True\<rparr>"
proof -
  obtain t where "RaiseException BREAK 0x00100073 s = Inr ((), t)"
    "register_bank (regs t) = register_bank (regs s)" "plat t = (plat s)\<lparr>sc_stopped := True\<rparr>"
    using raise_effects [OF xlen, of BREAK "0x00100073" s] by auto
  then show ?thesis
    by (simp add: CPU_dispatch_def decode_system exec_instruction_def Exec_EBREAK_def bnd_run ret_def
        advance_def answer_def Let_def)
qed

lemma round_ebreak:
  fixes c :: "'a::len cpu"
  assumes xlen: "LENGTH('a) = 32 \<or> LENGTH('a) = 64" and a: "at_ebreak (abs_hart (core c))"
    and x0: "hart_x0 (core c)"
  shows "\<exists>c'. CPU_round c = Inr ((), c') \<and> sc_stopped (plat (core c')) \<and> hart_x0 (core c') \<and>
    X (abs_hart (core c')) = X (abs_hart (core c)) \<and> RAM (abs_hart (core c')) = RAM (abs_hart (core c)) \<and>
    timer (plat (core c')) = timer (plat (core c))"
proof -
  let ?pc = "unat (register_PC (regs (core c)))"
  have "?pc + 4 \<le> SIZE" "mem_bytes ?pc 4 (main_memory (plat (core c))) = le_bytes 4 (0x00100073 :: 32 word)"
    using a unfolding at_ebreak_def ram_mem_bytes by (simp_all add: abs_hart_def SIZE_def RAM_SIZE_def)
  from fetch_ram [OF xlen this] obtain st hint valid where
    f: "fetch c = Inr ((), c\<lparr>INSTR := 0x00100073, trans_status := st, trans_dmi := hint, dmi_ptr_valid := valid\<rparr>)"
    by blast
  obtain t where t: "CPU_dispatch 0x00100073 (core c\<lparr>perf := codeMemoryRead (perf (core c))\<rparr>) = Inr (False, t)"
    "register_bank (regs t) = register_bank (regs (core c))" "plat t = (plat (core c))\<lparr>sc_stopped := True\<rparr>"
    using dispatch_ebreak [OF xlen, of "core c\<lparr>perf := codeMemoryRead (perf (core c))\<rparr>"] by auto
  then obtain d where d: "CPU_step c = Inr (False, d)" "register_bank (regs (core d)) = register_bank (regs (core c))"
    "plat (core d) = (plat (core c))\<lparr>sc_stopped := True\<rparr>"
    using f by (simp add: CPU_step_def bnd_run on_core_run count_def)
  obtain b e where e: "cpu_process_IRQ d = Inr (b, e)" "plat (core e) = plat (core d)"
    "register_bank (regs (core e)) = register_bank (regs (core d))"
    using irq_refines [OF xlen, of d] by (auto simp: irq_visible_def)
  show ?thesis
    using d e x0 by (simp add: CPU_round_def bnd_run on_core_run on_plat_def onto_run wait_default_time_def
        modify_def abs_hart_def hart_x0_def x0_zero_def)
qed

section \<open>Runs without the timer\<close>

text \<open>
  While no notification of the timer is asked for, the rounds of the processor are the only steps
  of the simulation, which then has one outcome.
\<close>

definition quiet :: "'a::len cpu \<Rightarrow> bool" where
  "quiet c \<longleftrightarrow> notified (timer (plat (core c))) = []"

definition quiet_round :: "'a::len cpu \<Rightarrow> 'a cpu \<Rightarrow> bool" where
  "quiet_round c c' \<longleftrightarrow> quiet c \<and> \<not> sc_stopped (plat (core c)) \<and> round_to c c'"

definition quiet_state :: "'a::len cpu \<Rightarrow> 'a arch \<Rightarrow> bool" where
  "quiet_state c a \<longleftrightarrow> in_state c a \<and> quiet c"

lemma quiet_round_forward:
  fixes c :: "'a::len cpu"
  assumes xlen: "LENGTH('a) = 32 \<or> LENGTH('a) = 64" and c: "quiet_state c a" and a: "isa_step a a'"
  shows "\<exists>c'. quiet_round c c' \<and> quiet_state c' a'"
proof -
  obtain c' where c': "round_to c c'" "in_state c' a'"
    using round_forward [OF xlen _ a] c by (auto simp: quiet_state_def)
  obtain d where d: "CPU_step c = Inr (False, d)" "timer (plat (core d)) = timer (plat (core c))"
    using step_refines [OF xlen, of c a'] a c by (auto simp: quiet_state_def in_state_def step_to_def)
  obtain b e where "cpu_process_IRQ d = Inr (b, e)" "plat (core e) = plat (core d)"
    using irq_refines [OF xlen, of d] by auto
  then have "timer (plat (core c')) = timer (plat (core c))"
    using c'(1) d by (auto simp: round_to_def CPU_round_def bnd_run on_core_run on_plat_def onto_run
        wait_default_time_def modify_def)
  then show ?thesis
    using c c' by (auto simp: quiet_round_def quiet_state_def quiet_def in_state_def)
qed

interpretation quiet32: forward_simulation isa_step quiet_round "quiet_state :: 32 cpu \<Rightarrow> 32 arch \<Rightarrow> bool"
  by unfold_locales (rule quiet_round_forward; simp)

interpretation quiet64: forward_simulation isa_step quiet_round "quiet_state :: 64 cpu \<Rightarrow> 64 arch \<Rightarrow> bool"
  by unfold_locales (rule quiet_round_forward; simp)

lemma quiet_step: "quiet c \<Longrightarrow> sim_step c x \<longleftrightarrow> \<not> sc_stopped (plat (core c)) \<and> CPU_round c = Inr ((), x)"
  by (auto simp: sim_step_iff quiet_def)

lemma quiet_stopped: "sim_step\<^sup>*\<^sup>* e x \<Longrightarrow> quiet e \<Longrightarrow> sc_stopped (plat (core e)) \<Longrightarrow> x = e"
  by (induction rule: converse_rtranclp_induct) (auto simp: quiet_step)

lemma rtranclp_first: "r\<^sup>*\<^sup>* a b \<longleftrightarrow> a = b \<or> (\<exists>c. r a c \<and> r\<^sup>*\<^sup>* c b)"
  by (metis converse_rtranclpE converse_rtranclp_into_rtranclp rtranclp.rtrancl_refl)

lemma quiet_outcome:
  assumes "(quiet_round ^^ n) c d" "quiet d" "\<not> sc_stopped (plat (core d))" "CPU_round d = Inr ((), e)"
    and "quiet e" "sc_stopped (plat (core e))"
  shows "sim_step\<^sup>*\<^sup>* c x \<and> sc_stopped (plat (core x)) \<longleftrightarrow> x = e"
  using assms
proof (induction n arbitrary: c)
  case 0
  then have "sim_step c y \<longleftrightarrow> y = e" for y by (auto simp: quiet_step)
  then show ?case
    using 0 quiet_stopped [of e x] by (subst rtranclp_first) auto
next
  case (Suc n)
  obtain c1 where c1: "quiet_round c c1" "(quiet_round ^^ n) c1 d"
    using Suc.prems(1) by (rule relpowp_Suc_E2)
  then have "sim_step c y \<longleftrightarrow> y = c1" for y by (auto simp: quiet_step quiet_round_def round_to_def)
  moreover have "\<not> sc_stopped (plat (core c))" using c1(1) by (simp add: quiet_round_def)
  ultimately have "sim_step\<^sup>*\<^sup>* c x \<and> sc_stopped (plat (core x)) \<longleftrightarrow> sim_step\<^sup>*\<^sup>* c1 x \<and> sc_stopped (plat (core x))"
    by (subst rtranclp_first) auto
  then show ?case using Suc.IH [OF c1(2) Suc.prems(2-)] by blast
qed

section \<open>From the command line to the signature\<close>

lemma quiet_init: "quiet (Simulator_RV32 m u)" "quiet (Simulator_RV64 m u)"
  by (simp_all add: quiet_def Simulator_RV32_def Simulator_RV64_def CPU_init_def Simulator_platform_def
      Timer_init_def split: prod.split)

lemma signature_RAM: "RAM a = RAM b \<Longrightarrow> signature p n a = signature p n b"
  by (simp add: signature_def word_at_def ram_bytes_def)

lemma free_session:
  fixes c :: "'a::len cpu"
  assumes xlen: "LENGTH('a) = 32 \<or> LENGTH('a) = 64" and run: "(quiet_round ^^ n) c d"
    and d: "quiet_state d a" "at_ebreak a" and opt: "\<not> debug_session opt"
  shows "\<exists>c'. (\<forall>x. session opt chunks c x \<longleftrightarrow> x = c') \<and> hart_x0 (core c') \<and>
    X (abs_hart (core c')) = X a \<and> RAM (abs_hart (core c')) = RAM a"
proof -
  obtain c' where c': "CPU_round d = Inr ((), c')" "sc_stopped (plat (core c'))" "hart_x0 (core c')"
    "X (abs_hart (core c')) = X a" "RAM (abs_hart (core c')) = RAM a" "quiet c'"
    using round_ebreak [OF xlen, of d] d by (auto simp: quiet_state_def in_state_def quiet_def)
  have "sim_step\<^sup>*\<^sup>* c x \<and> sc_stopped (plat (core x)) \<longleftrightarrow> x = c'" for x
    using d(1) c' by (intro quiet_outcome [OF run]) (simp_all add: quiet_state_def in_state_def)
  then show ?thesis using c' opt by (auto simp: session_iff)
qed

lemma dump_delete:
  fixes c :: "'a::len cpu"
  assumes "hart_x0 (core c)" "X (abs_hart (core c)) = X a" "RAM (abs_hart (core c)) = RAM a"
    and "mem_dump opt" "length buf = 16"
    and "p = (if dump_addr_st opt = 0 then ucast (rX a 5) else dump_addr_st opt)"
    and "q = (if dump_addr_end opt = 0 then ucast (rX a 6) else dump_addr_end opt)"
    and "unat p + 4 * k \<le> SIZE" "unat q = unat p + 4 * k"
  shows "Simulator_delete opt buf c = Some (Inr (Some (signature_name (filename opt), signature (unat p) k a)))"
proof -
  have "rX (abs_hart (core c)) r = rX a r" for r using assms(2) by (simp add: rX_def)
  then have "MemoryDump (dump_addr_st opt) (dump_addr_end opt) buf c =
      Some (Inr (signature (unat p) k (abs_hart (core c))))"
    by (intro MemoryDump_run [OF assms(1,5)]) (use assms(6-9) in simp_all)
  then show ?thesis
    using assms(4) signature_RAM [OF assms(3)] by (simp add: Simulator_delete_def)
qed

lemma dump_session:
  fixes c :: "'a::len cpu"
  assumes xlen: "LENGTH('a) = 32 \<or> LENGTH('a) = 64" and run: "(quiet_round ^^ n) c d"
    and d: "quiet_state d a" "at_ebreak a" and opt: "\<not> debug_session opt" "mem_dump opt" "length buf = 16"
    and "p = (if dump_addr_st opt = 0 then ucast (rX a 5) else dump_addr_st opt)"
    and "q = (if dump_addr_end opt = 0 then ucast (rX a 6) else dump_addr_end opt)"
    and "unat p + 4 * k \<le> SIZE" "unat q = unat p + 4 * k"
  shows "(\<exists>x. session opt chunks c x \<and> Simulator_delete opt buf x = Some (Inr out)) \<longleftrightarrow>
    out = Some (signature_name (filename opt), signature (unat p) k a)"
proof -
  obtain c' where c': "\<And>x. session opt chunks c x \<longleftrightarrow> x = c'" "hart_x0 (core c')"
    "X (abs_hart (core c')) = X a" "RAM (abs_hart (core c')) = RAM a"
    using free_session [OF xlen run d opt(1)] by blast
  have "Simulator_delete opt buf c' = Some (Inr (Some (signature_name (filename opt), signature (unat p) k a)))"
    using c'(2-4) opt(2,3) assms(8-11) by (rule dump_delete)
  then show ?thesis using c'(1) by auto
qed

lemma dump_arguments:
  "create None = None \<Longrightarrow>
   bnd (process_arguments create (dump_command cpu lo hi) (Some name)) (\<lambda>_. default_logger create) options_init =
     Inr ((), \<lparr>filename = name, debug_session = False, mem_dump = True, dump_addr_st = lo,
       dump_addr_end = hi, cpu_type_opt = cpu, logger = Some Level_info\<rparr>)"
  by (simp add: process_dump_command bnd_run default_logger_def create_logger_def modify_def gets_def)

lemma dump_program_32:
  fixes a :: "32 arch"
  assumes create: "create None = None" and image: "files name = Some (hex_file rs)"
    and records: "\<forall>(r, ck) \<in> set rs. CHR 0x0A \<notin> set ck"
      "hex_load (map fst rs) (Lin_base 0, Memory_init) = Some (b, m)"
    and run: "(isa_step ^^ n) (boot_arch m) a" "at_ebreak a"
    and dump: "length buf = 16"
      "p = (if lo = 0 then ucast (rX a 5) else lo)" "q = (if hi = 0 then ucast (rX a 6) else hi)"
      "unat p + 4 * k \<le> SIZE" "unat q = unat p + 4 * k"
  shows "sc_main create files chunks u buf (dump_command RV32 lo hi) (Some name) out \<longleftrightarrow>
    out = Some (signature_name name, signature (unat p) k a)"
proof -
  obtain d where d: "Memory_file (files name) = Inr (m\<lparr>dmi_allowed := d\<rparr>)"
    using Memory_file_records [OF records] image by auto
  let ?m = "m\<lparr>dmi_allowed := d\<rparr>"
  have "quiet_state (Simulator_RV32 ?m u) (boot_arch m)"
    using boot_state_32 [of ?m u] quiet_init by (simp add: quiet_state_def)
  then obtain e where e: "(quiet_round ^^ n) (Simulator_RV32 ?m u) e" "quiet_state e a"
    using quiet32.runs [OF run(1)] by blast
  let ?opt = "\<lparr>filename = name, debug_session = False, mem_dump = True, dump_addr_st = lo,
    dump_addr_end = hi, cpu_type_opt = RV32, logger = Some Level_info\<rparr>"
  have "(\<exists>x. session ?opt chunks (Simulator_RV32 ?m u) x \<and> Simulator_delete ?opt buf x = Some (Inr out)) \<longleftrightarrow>
      out = Some (signature_name (filename ?opt), signature (unat p) k a)"
    by (rule dump_session [OF _ e run(2), where q = q]) (use dump in simp_all)
  then show ?thesis
    by (simp add: sc_main_iff dump_arguments [of create, OF create] d)
qed

lemma dump_program_64:
  fixes a :: "64 arch"
  assumes create: "create None = None" and image: "files name = Some (hex_file rs)"
    and records: "\<forall>(r, ck) \<in> set rs. CHR 0x0A \<notin> set ck"
      "hex_load (map fst rs) (Lin_base 0, Memory_init) = Some (b, m)"
    and run: "(isa_step ^^ n) (boot_arch m) a" "at_ebreak a"
    and dump: "length buf = 16"
      "p = (if lo = 0 then ucast (rX a 5) else lo)" "q = (if hi = 0 then ucast (rX a 6) else hi)"
      "unat p + 4 * k \<le> SIZE" "unat q = unat p + 4 * k"
  shows "sc_main create files chunks u buf (dump_command RV64 lo hi) (Some name) out \<longleftrightarrow>
    out = Some (signature_name name, signature (unat p) k a)"
proof -
  obtain d where d: "Memory_file (files name) = Inr (m\<lparr>dmi_allowed := d\<rparr>)"
    using Memory_file_records [OF records] image by auto
  let ?m = "m\<lparr>dmi_allowed := d\<rparr>"
  have "quiet_state (Simulator_RV64 ?m u) (boot_arch m)"
    using boot_state_64 [of ?m u] quiet_init by (simp add: quiet_state_def)
  then obtain e where e: "(quiet_round ^^ n) (Simulator_RV64 ?m u) e" "quiet_state e a"
    using quiet64.runs [OF run(1)] by blast
  let ?opt = "\<lparr>filename = name, debug_session = False, mem_dump = True, dump_addr_st = lo,
    dump_addr_end = hi, cpu_type_opt = RV64, logger = Some Level_info\<rparr>"
  have "(\<exists>x. session ?opt chunks (Simulator_RV64 ?m u) x \<and> Simulator_delete ?opt buf x = Some (Inr out)) \<longleftrightarrow>
      out = Some (signature_name (filename ?opt), signature (unat p) k a)"
    by (rule dump_session [OF _ e run(2), where q = q]) (use dump in simp_all)
  then show ?thesis
    by (simp add: sc_main_iff dump_arguments [of create, OF create] d)
qed

section \<open>An example\<close>

text \<open>A program file that stores the stack pointer at 0x40 and breaks.\<close>

definition store_image :: memory where
  "store_image = mem_update 4 (le_bytes 4 (0x00100073 :: 32 word))
     (mem_update 0 (le_bytes 4 (encode (STORE S_W 0 2 0x40))) Memory_init)"

definition store_records :: "(hex_record \<times> string) list" where
  "store_records =
     [(Data 0 (le_bytes 4 (encode (STORE S_W 0 2 0x40))), ''00''),
      (Data 4 (le_bytes 4 (0x00100073 :: 32 word)), ''74''), (End_of_file, ''FF'')]"

definition store_end :: "32 arch" where
  "store_end = seq_next 4 (ram_write 0x40 (le_bytes 4 (0x3FFFFF :: 32 word)) (boot_arch store_image))"

lemma store_records_load:
  "hex_load (map fst store_records) (Lin_base 0, Memory_init) = Some (Lin_base 0, store_image)"
  by (simp add: store_records_def store_image_def SIZE_def del: encode.simps le_bytes.simps)

lemma store_ram:
  "ram_bytes 0 4 (boot_arch store_image :: 32 arch) = le_bytes 4 (encode (STORE S_W 0 2 0x40))"
  "ram_bytes 4 4 (boot_arch store_image :: 32 arch) = le_bytes 4 (0x00100073 :: 32 word)"
proof -
  have "ram_bytes k n (boot_arch store_image :: 32 arch) = mem_bytes k n store_image" for k n
    by (simp add: ram_bytes_def mem_bytes_def boot_arch_def)
  then show "ram_bytes 0 4 (boot_arch store_image :: 32 arch) = le_bytes 4 (encode (STORE S_W 0 2 0x40))"
    "ram_bytes 4 4 (boot_arch store_image :: 32 arch) = le_bytes 4 (0x00100073 :: 32 word)"
    by (simp_all add: store_image_def mem_bytes_update_other del: encode.simps le_bytes.simps)
qed

lemma store_start: "PC (boot_arch store_image :: 32 arch) = 0" "rX (boot_arch store_image :: 32 arch) 2 = 0x3FFFFF"
  by (simp_all add: boot_arch_def store_image_def Memory_init_def mem_update_def rX_def)

lemma store_step: "isa_step (boot_arch store_image) store_end"
proof (rule isa_fetch [where ins = "STORE S_W 0 2 0x40"])
  show "isa_exec (STORE S_W 0 2 0x40) (boot_arch store_image) = Some store_end"
    by (simp add: isa_exec_def store_end_def store_start RAM_SIZE_def rX_def [of _ 0] del: le_bytes.simps)
qed (simp_all add: store_start store_ram RAM_SIZE_def del: encode.simps le_bytes.simps)

lemma store_breaks: "at_ebreak store_end"
proof -
  have "PC store_end = 4" by (simp add: store_end_def seq_next_def go_def ram_write_def store_start)
  moreover have "ram_bytes 4 4 store_end = ram_bytes 4 4 (boot_arch store_image :: 32 arch)"
    by (simp add: store_end_def seq_next_def go_def ram_write_def ram_bytes_def)
  ultimately show ?thesis by (simp add: at_ebreak_def RAM_SIZE_def store_ram del: le_bytes.simps)
qed

lemma ram_bytes_write: "n = length bs \<Longrightarrow> ram_bytes k n (ram_write k bs a) = bs"
  by (rule nth_equalityI) (simp_all add: ram_bytes_def ram_write_def)

lemma store_signature: "signature 0x40 1 store_end = ''003fffff'' @ [CHR 0x0A]"
proof -
  have "ram_bytes k n (seq_next len a) = ram_bytes k n a" for k n len and a :: "32 arch"
    by (simp add: ram_bytes_def seq_next_def go_def)
  then have "word_at 0x40 store_end = 0x3FFFFF"
    by (simp add: word_at_def store_end_def ram_bytes_write del: le_bytes.simps)
  moreover have "hex_field 8 4194303 = ''003fffff''"
  proof -
    have "(8 :: nat) = Suc (Suc (Suc (Suc (Suc (Suc (Suc (Suc 0)))))))" by simp
    then show ?thesis by (simp only: hex_field.simps) (simp add: nibble_to_hex_def)
  qed
  ultimately show ?thesis by (simp add: signature_def del: hex_field.simps)
qed

end
