(* ===== verification/Outcomes.thy ===== *)
theory Outcomes
  imports Alarm Program
begin

text \<open>
  All results of the program on a file whose instructions the machine with privileged state
  covers: whatever the order of rounds and timer notifications, the signature file is the one of a
  halted state the machine reaches, and every such state is a result.
\<close>

section \<open>Runs of the code are runs of the machine\<close>

lemma events_snoc: "events step (es @ [e]) s t \<longleftrightarrow> (\<exists>u. events step es s u \<and> step e u t)"
  by (induction es arbitrary: s) auto

lemma steps_events: "(\<lambda>s t. \<exists>e. step e s t)\<^sup>*\<^sup>* s t \<longleftrightarrow> (\<exists>es. events step es s t)"
proof
  show "(\<lambda>s t. \<exists>e. step e s t)\<^sup>*\<^sup>* s t \<Longrightarrow> \<exists>es. events step es s t"
  proof (induction rule: rtranclp_induct)
    case base
    show ?case by (rule exI [of _ "[]"]) simp
  next
    case (step t u)
    then obtain es e where "events step es s t" "step e t u" by blast
    then have "events step (es @ [e]) s u" by (auto simp: events_snoc)
    then show ?case ..
  qed
next
  have "events step es s t \<Longrightarrow> (\<lambda>s t. \<exists>e. step e s t)\<^sup>*\<^sup>* s t" for es
  proof (induction es arbitrary: s)
    case (Cons e es)
    then obtain u where "step e s u" "(\<lambda>s t. \<exists>e. step e s t)\<^sup>*\<^sup>* u t" by auto
    then show ?case by (blast intro: converse_rtranclp_into_rtranclp)
  qed simp
  then show "\<exists>es. events step es s t \<Longrightarrow> (\<lambda>s t. \<exists>e. step e s t)\<^sup>*\<^sup>* s t" by blast
qed

lemma sim_steps_events:
  fixes c :: "'a::len cpu"
  shows "sim_step\<^sup>*\<^sup>* c c' \<longleftrightarrow> (\<exists>es. events sim_event es c c')"
proof -
  have eq: "(sim_step :: 'a cpu \<Rightarrow> 'a cpu \<Rightarrow> bool) = (\<lambda>c c'. \<exists>e. sim_event e c c')"
    by (simp add: sim_step_event fun_eq_iff)
  show ?thesis unfolding eq by (rule steps_events)
qed

context labelled_simulation begin

lemma complete:
  assumes "R c a"
    and progress: "\<And>es b d e d'. events astep es a b \<Longrightarrow> R d b \<Longrightarrow> cstep e d d' \<Longrightarrow> \<exists>b'. astep e b b'"
  shows "events cstep es c d \<Longrightarrow> \<exists>b. events astep es a b \<and> R d b"
proof (induction es arbitrary: d rule: rev_induct)
  case Nil
  then show ?case using assms(1) by auto
next
  case (snoc e es)
  from snoc.prems obtain d0 where d: "events cstep es c d0" "cstep e d0 d" by (auto simp: events_snoc)
  then obtain b0 where d0: "cstep e d0 d" "events astep es a b0" "R d0 b0" using snoc.IH by blast
  obtain b where b: "astep e b0 b" using progress [OF d0(2,3,1)] by blast
  obtain d' where "cstep e d0 d'" "R d' b" using labelled [OF d0(3) b] by blast
  then have "R d b" using unique [OF d0(3) d0(1)] by blast
  then show ?case using b d0(2) by (auto simp: events_snoc)
qed

end

text \<open>The machine covers a program when it can go on in every state it reaches until it halts.\<close>

definition covers :: "'a::len sys \<Rightarrow> bool" where
  "covers p \<longleftrightarrow> (\<forall>es q. events sys_event es p q \<longrightarrow> \<not> halted q \<longrightarrow> (\<exists>r. sys_step Round q r))"

lemma covers_progress:
  fixes d :: "'a::len cpu"
  assumes xlen: "LENGTH('a) = 32 \<or> LENGTH('a) = 64" and "covers p" "events sys_event es p q" "cpu_rel d q"
    and step: "sim_event e d d'"
  shows "\<exists>r. sys_event e q r"
  using step
proof (cases rule: sim_event.cases)
  case event_round
  then have "\<not> halted q" using assms(4) by (auto simp: cpu_rel_def abs_cpu_def abs_sys_def)
  then show ?thesis using assms(2,3) event_round(1) by (auto simp: covers_def sys_event_def)
next
  case event_timer
  then have "armed q" using assms(4) by (auto simp: cpu_rel_def abs_cpu_def abs_sys_def)
  moreover have "LENGTH('a) = 32"
    using event_timer(3) xlen by (auto simp: call_interrupt_def irq_trans_def Let_def)
  ultimately show ?thesis using event_timer(1) by (auto simp: sys_event_def intro: sys_timer)
qed

section \<open>The signatures\<close>

lemma dump_outcome:
  fixes c :: "'a::len cpu"
  assumes "cpu_rel c p" "lo \<noteq> 0" "hi \<noteq> 0" "length buf = 16"
    and "unat lo + 4 * k \<le> SIZE" "unat hi = unat lo + 4 * k"
    and "opt = \<lparr>filename = name, debug_session = False, mem_dump = True, dump_addr_st = lo,
      dump_addr_end = hi, cpu_type_opt = cpu, logger = Some Level_info\<rparr>"
  shows "Simulator_delete opt buf c = Some (Inr (Some (signature_name name, signature (unat lo) k (prog p))))"
proof -
  have "hart_x0 (core c)" "prog p = abs_hart (core c)" using assms(1) by (auto simp: cpu_rel_def)
  then have "Simulator_delete opt buf c =
      Some (Inr (Some (signature_name (filename opt), signature (unat lo) k (prog p))))"
    using assms(2-) by (intro dump_delete) simp_all
  then show ?thesis using assms(7) by simp
qed

text \<open>The states of the code are those of the machine.\<close>

lemma reached_states:
  fixes c :: "'a::len cpu"
  assumes xlen: "LENGTH('a) = 32 \<or> LENGTH('a) = 64" and c: "cpu_rel c p" and covers: "covers p"
    and same: "\<And>d q. cpu_rel d q \<Longrightarrow> P d \<longleftrightarrow> Q q"
  shows "(\<exists>d. sim_step\<^sup>*\<^sup>* c d \<and> P d) \<longleftrightarrow> (\<exists>es q. events sys_event es p q \<and> Q q)"
proof -
  note sim = sys_simulation [OF xlen]
  have "\<exists>q. events sys_event es p q \<and> cpu_rel d q" if "events sim_event es c d" for es d
    using labelled_simulation.complete [OF sim c _ that] covers_progress [OF xlen covers] by blast
  moreover have "\<exists>d. events sim_event es c d \<and> cpu_rel d q" if "events sys_event es p q" for es q
    using labelled_simulation.outcome_of_events [OF sim that c] by blast
  ultimately show ?thesis using same unfolding sim_steps_events by blast
qed

lemma halted_runs:
  fixes c :: "'a::len cpu"
  assumes xlen: "LENGTH('a) = 32 \<or> LENGTH('a) = 64" and c: "cpu_rel c p" and covers: "covers p"
    and same: "\<And>d q. cpu_rel d q \<Longrightarrow> P d \<longleftrightarrow> Q q"
  shows "(\<exists>d. sim_step\<^sup>*\<^sup>* c d \<and> sc_stopped (plat (core d)) \<and> P d) \<longleftrightarrow>
    (\<exists>es q. events sys_event es p q \<and> halted q \<and> Q q)"
  by (rule reached_states [OF xlen c covers])
    (use same in \<open>auto simp: cpu_rel_def abs_cpu_def abs_sys_def\<close>)

lemma signatures_of_runs:
  fixes c :: "'a::len cpu"
  assumes xlen: "LENGTH('a) = 32 \<or> LENGTH('a) = 64" and c: "cpu_rel c p" and covers: "covers p"
    and dump: "length buf = 16" "lo \<noteq> 0" "hi \<noteq> 0" "unat lo + 4 * k \<le> SIZE" "unat hi = unat lo + 4 * k"
    and opt: "opt = \<lparr>filename = name, debug_session = False, mem_dump = True, dump_addr_st = lo,
      dump_addr_end = hi, cpu_type_opt = cpu, logger = Some Level_info\<rparr>"
  shows "(\<exists>d. session opt chunks c d \<and> Simulator_delete opt buf d = Some (Inr out)) \<longleftrightarrow>
    (\<exists>es q. events sys_event es p q \<and> halted q \<and>
       out = Some (signature_name name, signature (unat lo) k (prog q)))"
proof -
  have "Simulator_delete opt buf d = Some (Inr out) \<longleftrightarrow>
      out = Some (signature_name name, signature (unat lo) k (prog q))" if "cpu_rel d q" for d :: "'a cpu" and q
    using dump_outcome [OF that dump(2,3,1,4,5) opt] by auto
  moreover have "session opt chunks c d \<longleftrightarrow> sim_step\<^sup>*\<^sup>* c d \<and> sc_stopped (plat (core d))" for d
    by (simp add: session_iff opt)
  ultimately show ?thesis
    using halted_runs [OF xlen c covers, of "\<lambda>d. Simulator_delete opt buf d = Some (Inr out)"
      "\<lambda>q. out = Some (signature_name name, signature (unat lo) k (prog q))"] by simp
qed

lemma outcomes_32:
  assumes create: "create None = None" and image: "files name = Some (hex_file rs)"
    and records: "\<forall>(r, ck) \<in> set rs. CHR 0x0A \<notin> set ck"
      "hex_load (map fst rs) (Lin_base 0, Memory_init) = Some (b, m)"
    and covers: "covers (boot_sys 0x40001105 m :: 32 sys)"
    and dump: "length buf = 16" "lo \<noteq> 0" "hi \<noteq> 0" "unat lo + 4 * k \<le> SIZE" "unat hi = unat lo + 4 * k"
  shows "sc_main create files chunks u buf (dump_command RV32 lo hi) (Some name) out \<longleftrightarrow>
    (\<exists>es p. events sys_step es (boot_sys 0x40001105 m :: 32 sys) p \<and> halted p \<and>
       out = Some (signature_name name, signature (unat lo) k (prog p)))"
proof -
  obtain d where d: "Memory_file (files name) = Inr (m\<lparr>dmi_allowed := d\<rparr>)"
    using Memory_file_records [OF records] image by auto
  have "cpu_rel (Simulator_RV32 (m\<lparr>dmi_allowed := d\<rparr>) u) (boot_sys 0x40001105 m)"
    using boot_cpu_rel(1) [of "m\<lparr>dmi_allowed := d\<rparr>" u] by (simp add: boot_sys_def)
  from signatures_of_runs [OF _ this covers dump refl, of name RV32 chunks out] show ?thesis
    unfolding sys_event_32 by (simp add: sc_main_iff dump_arguments [of create, OF create] d)
qed

lemma outcomes_64:
  assumes create: "create None = None" and image: "files name = Some (hex_file rs)"
    and records: "\<forall>(r, ck) \<in> set rs. CHR 0x0A \<notin> set ck"
      "hex_load (map fst rs) (Lin_base 0, Memory_init) = Some (b, m)"
    and covers: "covers (boot_sys 0x80001105 m :: 64 sys)"
    and dump: "length buf = 16" "lo \<noteq> 0" "hi \<noteq> 0" "unat lo + 4 * k \<le> SIZE" "unat hi = unat lo + 4 * k"
  shows "sc_main create files chunks u buf (dump_command RV64 lo hi) (Some name) out \<longleftrightarrow>
    (\<exists>n p. events sys_step (replicate n Round) (boot_sys 0x80001105 m :: 64 sys) p \<and> halted p \<and>
       out = Some (signature_name name, signature (unat lo) k (prog p)))"
proof -
  obtain d where d: "Memory_file (files name) = Inr (m\<lparr>dmi_allowed := d\<rparr>)"
    using Memory_file_records [OF records] image by auto
  have "cpu_rel (Simulator_RV64 (m\<lparr>dmi_allowed := d\<rparr>) u) (boot_sys 0x80001105 m)"
    using boot_cpu_rel(2) [of "m\<lparr>dmi_allowed := d\<rparr>" u] by (simp add: boot_sys_def)
  from signatures_of_runs [OF _ this covers dump refl, of name RV64 chunks out]
  have "sc_main create files chunks u buf (dump_command RV64 lo hi) (Some name) out \<longleftrightarrow>
    (\<exists>es p. events sys_event es (boot_sys 0x80001105 m :: 64 sys) p \<and> halted p \<and>
       out = Some (signature_name name, signature (unat lo) k (prog p)))"
    by (simp add: sc_main_iff dump_arguments [of create, OF create] d)
  then show ?thesis using sys_event_64 sys_event_rounds by blast
qed

section \<open>Programs that do not arm the timer\<close>

lemma sys_event_unique:
  fixes c :: "'a::len cpu"
  assumes xlen: "LENGTH('a) = 32 \<or> LENGTH('a) = 64" and c: "cpu_rel c p"
    and q: "sys_event e p q" "sys_event e p r"
  shows "q = r"
proof -
  obtain d where d: "sim_event e c d" "cpu_rel d q" using event_forward [OF xlen c q(1)] by blast
  obtain d' where d': "sim_event e c d'" "cpu_rel d' r" using event_forward [OF xlen c q(2)] by blast
  have "d = d'" using d(1) d'(1) by (rule sim_event_unique)
  then show ?thesis using d(2) d'(2) by (simp add: cpu_rel_def)
qed

lemma armed_dev_op: "dev_op len ins p = Some q \<Longrightarrow> armed p \<Longrightarrow> armed q"
  by (auto simp: dev_op_def user_def dev_load_def dev_store_def
      split: insn.splits load_op.splits if_splits)

lemma armed_op: "sys_op i p = Some q \<Longrightarrow> armed p \<Longrightarrow> armed q"
  by (cases i) (auto simp: trap_def mret_def user_def csr_step_def csr_put_def Let_def
      simp del: enc_sys.simps split: if_splits dest: armed_dev_op)

lemma armed_insn: "sys_insn_step b p q \<Longrightarrow> armed p \<Longrightarrow> armed q"
  by (erule sys_insn_step.cases) (simp_all add: armed_op)

lemma armed_step: "sys_step e p q \<Longrightarrow> armed p \<Longrightarrow> armed q"
  by (erule sys_step.cases) (simp_all add: armed_insn interrupt_phase_def Let_def)

lemma armed_events: "events sys_event es p q \<Longrightarrow> armed p \<Longrightarrow> armed q"
  by (induction es arbitrary: p) (auto simp: sys_event_def dest: armed_step)

lemma covers_step:
  assumes "\<And>e q. sys_event e p q \<Longrightarrow> covers q" and "\<not> halted p \<Longrightarrow> \<exists>q. sys_step Round p q"
  shows "covers p"
  unfolding covers_def
proof (intro allI impI)
  fix es q
  assume q: "events sys_event es p q" "\<not> halted q"
  show "\<exists>r. sys_step Round q r"
  proof (cases es)
    case Nil
    then show ?thesis using q assms(2) by simp
  next
    case (Cons e es')
    then obtain r where "sys_event e p r" "events sys_event es' r q" using q(1) by auto
    then show ?thesis using assms(1) q(2) by (auto simp: covers_def)
  qed
qed

lemma sys_event_end: "sys_event e p q \<Longrightarrow> \<not> halted p \<or> armed p"
  by (auto simp: sys_event_def elim: sys_step.cases)

lemma sys_event_timer: "sys_event Timer_fires p q \<Longrightarrow> armed p"
  by (auto simp: sys_event_def elim: sys_step.cases)

lemma covers_straight:
  fixes c :: "'a::len cpu"
  assumes xlen: "LENGTH('a) = 32 \<or> LENGTH('a) = 64"
    and "cpu_rel c p" "events sys_event (replicate n Round) p q" "halted q" "\<not> armed q"
  shows "covers p"
  using assms(2-)
proof (induction n arbitrary: c p)
  case 0
  then have "halted p" "\<not> armed p" by simp_all
  show ?case
    by (rule covers_step) (use sys_event_end \<open>halted p\<close> \<open>\<not> armed p\<close> in blast)+
next
  case (Suc n)
  then obtain r where r: "sys_event Round p r" "events sys_event (replicate n Round) r q" by auto
  obtain d where d: "cpu_rel d r" using event_forward [OF xlen Suc.prems(1) r(1)] by blast
  have "\<not> armed p" using armed_events [OF Suc.prems(2)] Suc.prems(4) by blast
  then have "r' = r" if "sys_event e p r'" for e r'
  proof (cases e)
    case Round
    then show ?thesis using sys_event_unique [OF xlen Suc.prems(1)] that r(1) by blast
  next
    case Timer_fires
    then show ?thesis using that \<open>\<not> armed p\<close> sys_event_timer by blast
  qed
  then show ?case
    by (intro covers_step [of p]) (use Suc.IH [OF d r(2) Suc.prems(3,4)] r(1) in \<open>auto simp: sys_event_def\<close>)
qed

section \<open>The example\<close>

text \<open>
  The example program under any order of events: it stays within its five instructions, because the
  handler of the interrupt is its first instruction, and its memory never changes.
\<close>

definition alarm_inv :: "32 sys \<Rightarrow> bool" where
  "alarm_inv p \<longleftrightarrow>
     RAM (prog p) = RAM (boot_arch alarm_memory :: 32 arch) \<and> csrs p CSR_MTVEC = 0 \<and>
     (halted p \<or> (\<exists>k < 5. PC (prog p) = of_nat (4 * k) \<and> (k = 2 \<longrightarrow> X (prog p) 1 = 0x40004000)))"

lemma alarm_inv_tick: "alarm_inv p \<Longrightarrow> alarm_inv (tick p)"
  unfolding alarm_inv_def tick_def interrupt_phase_def Let_def go_def
  by (auto intro: exI [of _ "0 :: nat"])

lemma alarm_inv_goes:
  assumes "alarm_inv p" "\<not> halted p"
  shows "\<exists>q. sys_step Round p q \<and> alarm_inv q"
proof -
  obtain k where k: "k < 5" "PC (prog p) = of_nat (4 * k)" "k = 2 \<longrightarrow> X (prog p) 1 = 0x40004000"
    using assms by (auto simp: alarm_inv_def)
  have p: "alarm_pc_at k p" using assms k by (simp add: alarm_inv_def alarm_pc_at_def)
  note priv = alarm_privileged [OF _ p k(1)] and user = alarm_user [OF _ p k(1)]
  have base: "RAM (prog p) = RAM (boot_arch alarm_memory :: 32 arch)" "csrs p CSR_MTVEC = 0"
    using assms by (simp_all add: alarm_inv_def)
  consider "k = 0" | "k = 1" | "k = 2" | "k = 3" | "k = 4" using k(1) by linarith
  then show ?thesis
  proof cases
    case 1
    let ?q = "csr_step CSR_write (Immediate 8) 0x300 0 p"
    have "sys_step Round p (tick ?q)"
      by (rule priv [where i = "S_CSR CSR_write (Immediate 8) 0x300 0"])
        (simp_all add: 1 alarm_code_def del: enc_sys.simps)
    moreover have "alarm_inv ?q"
      using base k 1 by (auto simp: alarm_inv_def csr_step_def csr_put_def user_def isa_simps intro!: exI [of _ 1])
    ultimately show ?thesis using alarm_inv_tick by blast
  next
    case 2
    let ?q = "p\<lparr>prog := seq_next 4 (wX 1 0x40004000 (prog p))\<rparr>"
    have "sys_step Round p (tick ?q)"
      by (rule user [where ins = "LUI 1 0x40004"])
        (simp_all add: 2 alarm_code_def isa_exec_def field_def del: encode.simps)
    moreover have "alarm_inv ?q"
      using base k 2 by (auto simp: alarm_inv_def isa_simps intro!: exI [of _ 2])
    ultimately show ?thesis using alarm_inv_tick by blast
  next
    case 3
    let ?q = "user (seq_next 4) (p\<lparr>mtimecmp := halves (rX (prog p) 2) (low_half (mtimecmp p)), armed := True\<rparr>)"
    have "rX (prog p) 1 = 0x40004000" using k 3 by (simp add: rX_def)
    then have "sys_step Round p (tick ?q)"
      by (intro priv [where i = "S_STORE S_W 1 2 12"])
        (simp_all add: 3 alarm_code_def dev_op_def dev_store_def del: enc_sys.simps)
    moreover have "alarm_inv ?q"
      using base k 3 by (auto simp: alarm_inv_def user_def isa_simps intro!: exI [of _ 3])
    ultimately show ?thesis using alarm_inv_tick by blast
  next
    case 4
    let ?q = "user (seq_next 4) p"
    have "sys_step Round p (tick ?q)"
      by (rule priv [where i = S_WFI]) (simp_all add: 4 alarm_code_def del: enc_sys.simps)
    moreover have "alarm_inv ?q"
      using base k 4 by (auto simp: alarm_inv_def user_def isa_simps intro!: exI [of _ 4])
    ultimately show ?thesis using alarm_inv_tick by blast
  next
    case 5
    let ?q = "trap BREAK 0x00100073 p"
    have "sys_step Round p (tick ?q)"
      by (rule priv [where i = S_EBREAK]) (simp_all add: 5 alarm_code_def del: enc_sys.simps)
    moreover have "alarm_inv ?q"
      using base by (auto simp: alarm_inv_def trap_def go_def Let_def)
    ultimately show ?thesis using alarm_inv_tick by blast
  qed
qed

lemma alarm_inv_events:
  fixes c :: "32 cpu"
  shows "events sys_event es p q \<Longrightarrow> cpu_rel c p \<Longrightarrow> alarm_inv p \<Longrightarrow> alarm_inv q"
proof (induction es arbitrary: c p)
  case (Cons e es)
  then obtain r where r: "sys_event e p r" "events sys_event es r q" by auto
  have "alarm_inv r"
  proof (cases e)
    case Round
    then have "\<not> halted p" using r(1) by (auto simp: sys_event_def elim: sys_step.cases)
    then obtain r' where "sys_event Round p r'" "alarm_inv r'"
      using alarm_inv_goes [OF Cons.prems(3)] by (auto simp: sys_event_def)
    then show ?thesis
      using sys_event_unique [OF _ Cons.prems(2)] r(1) Round by auto
  next
    case Timer_fires
    then have "r = p\<lparr>irq_waiting := True\<rparr>" using r(1) by (auto simp: sys_event_def elim: sys_step.cases)
    then show ?thesis using Cons.prems(3) by (simp add: alarm_inv_def)
  qed
  moreover obtain d where "cpu_rel d r" using event_forward [OF _ Cons.prems(2) r(1)] by auto
  ultimately show ?case using Cons.IH r(2) by blast
qed simp

lemma alarm_inv_start: "alarm_inv alarm_start"
  by (auto simp: alarm_inv_def alarm_defs alarm_start_def intro!: exI [of _ "0 :: nat"])

lemma alarm_rel: "cpu_rel (Simulator_RV32 alarm_memory (\<lambda>_. 0)) alarm_start"
  unfolding alarm_start_def by (rule boot_cpu_rel)

lemma alarm_covered: "covers (alarm_start :: 32 sys)"
  unfolding covers_def
  using alarm_inv_events [OF _ alarm_rel alarm_inv_start] alarm_inv_goes by blast

text \<open>Without a notification of the timer the program breaks in its fifth round.\<close>

definition alarm_waited :: "32 sys \<Rightarrow> 32 sys" where
  "alarm_waited p = tick (user (seq_next 4) p)"

definition alarm_broken :: "32 sys \<Rightarrow> 32 sys" where
  "alarm_broken p = tick (trap BREAK 0x00100073 p)"

lemma alarm_breaks:
  "\<exists>es p. events sys_step es (alarm_start :: 32 sys) p \<and> halted p"
proof -
  let ?p = "alarm_set (alarm_based (alarm_enabled alarm_start)) :: 32 sys"
  have "sys_step Round ?p (alarm_waited ?p)"
    unfolding alarm_waited_def
    by (rule alarm_privileged [OF _ alarm_pcs(4), where i = S_WFI])
      (simp_all add: alarm_code_def del: enc_sys.simps)
  moreover have "sys_step Round (alarm_waited ?p) (alarm_broken (alarm_waited ?p))"
    unfolding alarm_broken_def
  proof (rule alarm_privileged [where i = S_EBREAK and k = 4])
    show "alarm_pc_at 4 (alarm_waited ?p)"
      by (simp add: alarm_waited_def alarm_start_def alarm_defs)
  qed (simp_all add: alarm_code_def del: enc_sys.simps)
  ultimately have "events sys_step [Round, Round, Round, Round, Round] alarm_start (alarm_broken (alarm_waited ?p))"
    unfolding events.simps using alarm_steps(1-3) by blast
  moreover have "halted (alarm_broken (alarm_waited ?p))"
    by (simp add: alarm_broken_def tick_def interrupt_phase_def trap_def Let_def)
  ultimately show ?thesis by blast
qed

lemma alarm_signature:
  assumes "RAM a = RAM (boot_arch alarm_memory :: 32 arch)"
  shows "signature 4 1 (a :: 32 arch) = ''400040b7'' @ [CHR 0x0A]"
proof -
  have "ram_bytes 4 4 (boot_arch alarm_memory :: 32 arch) = le_bytes 4 (encode (LUI 1 0x40004))"
    using alarm_ram [of 1, where 'a = 32] by (simp add: alarm_code_def del: enc_sys.simps encode.simps le_bytes.simps)
  moreover have "encode (LUI 1 0x40004) = 0x400040B7" by (simp add: enc_U_def field_def)
  ultimately have "word_at 4 a = 0x400040B7"
    using assms by (simp add: word_at_def ram_bytes_def del: encode.simps le_bytes.simps)
  moreover have "hex_field 8 0x400040B7 = ''400040b7''"
  proof -
    have "(8 :: nat) = Suc (Suc (Suc (Suc (Suc (Suc (Suc (Suc 0)))))))" by simp
    then show ?thesis by (simp only: hex_field.simps) (simp add: nibble_to_hex_def)
  qed
  ultimately show ?thesis by (simp add: signature_def del: hex_field.simps)
qed

lemma alarm_memory_stays:
  "events sys_step es (alarm_start :: 32 sys) p \<Longrightarrow> signature 4 1 (prog p) = ''400040b7'' @ [CHR 0x0A]"
  using alarm_inv_events [unfolded sys_event_32, OF _ alarm_rel alarm_inv_start]
  by (intro alarm_signature) (simp add: alarm_inv_def)

lemma alarm_signatures:
  "(\<exists>es p. events sys_step es (alarm_start :: 32 sys) p \<and> halted p \<and> out = Some (name, signature 4 1 (prog p))) \<longleftrightarrow>
     out = Some (name, ''400040b7'' @ [CHR 0x0A])"
  using alarm_memory_stays alarm_breaks by fastforce

section \<open>An example on the 64-bit processor\<close>

text \<open>A file with one word, the \<open>EBREAK\<close>.\<close>

definition break_memory :: memory where
  "break_memory = mem_update 0 (le_bytes 4 (enc_sys S_EBREAK)) Memory_init"

definition break_records :: "(hex_record \<times> string) list" where
  "break_records = [(Data 0 (le_bytes 4 (enc_sys S_EBREAK)), ''00''), (End_of_file, ''FF'')]"

lemma break_records_ok: "\<forall>(r, ck) \<in> set break_records. CHR 0x0A \<notin> set ck"
  by (simp add: break_records_def)

lemma break_records_load:
  "hex_load (map fst break_records) (Lin_base 0, Memory_init) = Some (Lin_base 0, break_memory)"
  by (simp add: break_records_def break_memory_def SIZE_def del: enc_sys.simps le_bytes.simps)

definition break_start :: "64 sys" where
  "break_start = boot_sys 0x80001105 break_memory"

definition break_end :: "64 sys" where
  "break_end = tick (trap BREAK 0x00100073 break_start)"

lemma break_rel: "cpu_rel (Simulator_RV64 break_memory (\<lambda>_. 0)) break_start"
  unfolding break_start_def by (rule boot_cpu_rel)

lemma break_step: "sys_event Round break_start break_end"
proof -
  have pc: "PC (prog break_start) = 0"
    by (simp add: break_start_def boot_sys_def boot_arch_def break_memory_def Memory_init_def mem_update_def)
  have "ram_bytes 0 4 (prog break_start) = mem_bytes 0 4 break_memory"
    by (simp add: break_start_def boot_sys_def boot_arch_def ram_bytes_def mem_bytes_def)
  then have "ram_bytes 0 4 (prog break_start) = le_bytes 4 (enc_sys S_EBREAK)"
    by (simp add: break_memory_def del: enc_sys.simps le_bytes.simps)
  then have "sys_insn_step (breaks S_EBREAK) break_start (trap BREAK 0x00100073 break_start)"
    by (intro sys_privileged [where i = S_EBREAK]) (simp_all add: pc RAM_SIZE_def del: enc_sys.simps)
  moreover have "\<not> halted break_start" by (simp add: break_start_def boot_sys_def)
  ultimately show ?thesis
    unfolding sys_event_def break_end_def tick_def using sys_round by blast
qed

lemma break_end_state: "halted break_end" "\<not> armed break_end" "RAM (prog break_end) = mem break_memory"
  by (simp_all add: break_end_def tick_def interrupt_phase_def trap_def Let_def go_def break_start_def
      boot_sys_def boot_arch_def)

lemma break_covered: "covers break_start"
  by (rule covers_straight [OF _ break_rel, where n = 1]) (use break_step break_end_state in auto)

lemma break_only:
  assumes "events sys_step (replicate n Round) break_start p" "halted p"
  shows "p = break_end"
proof (cases n)
  case 0
  then show ?thesis using assms by (auto simp: break_start_def boot_sys_def)
next
  case (Suc m)
  then obtain r where r: "sys_step Round break_start r" "events sys_step (replicate m Round) r p"
    using assms(1) by auto
  have "r = break_end"
    using sys_event_unique [OF _ break_rel, of Round r break_end] r(1) break_step by (simp add: sys_event_def)
  then show ?thesis
    using r(2) break_end_state(1) by (cases m) (auto elim: sys_step.cases)
qed

lemma break_signatures:
  "(\<exists>n p. events sys_step (replicate n Round) break_start p \<and> halted p \<and> out = Some (name, signature 4 1 (prog p))) \<longleftrightarrow>
     out = Some (name, ''00000000'' @ [CHR 0x0A])"
proof -
  have "ram_bytes 4 4 (prog break_end) = [0, 0, 0, 0]"
    by (simp add: ram_bytes_def break_end_state break_memory_def mem_update_def Memory_init_def upt_rec)
  then have "word_at 4 (prog break_end) = 0" by (simp add: word_at_def)
  moreover have "hex_field 8 0 = ''00000000''" by (simp add: hex_field_zero eval_nat_numeral)
  ultimately have sig: "signature 4 1 (prog break_end) = ''00000000'' @ [CHR 0x0A]"
    by (simp add: signature_def del: hex_field.simps)
  have "events sys_step (replicate 1 Round) break_start break_end"
    using break_step by (simp add: sys_event_def)
  then show ?thesis using break_only break_end_state(1) sig by metis
qed

end
