(* ===== verification/Interrupted.thy ===== *)
theory Interrupted
  imports Outcomes
begin

text \<open>
  The program ended by the signal of the keyboard (\<open>intHandler\<close> of src/Simulator.cpp). The handler
  deletes the simulator, when there is one, and exits; the destructor then writes the signature
  of whatever state the simulation is in. The signal arrives between two steps. A signal after
  the program has deleted the simulator itself deletes it again, which has no meaning and no
  result here.
\<close>

section \<open>The program\<close>

text \<open>The states of a constructed simulator; under the debugger construction ends with the session.\<close>

definition running :: "options \<Rightarrow> string option list \<Rightarrow> 'a::len cpu \<Rightarrow> 'a cpu \<Rightarrow> bool" where
  "running opt chunks c c' \<longleftrightarrow>
     (if debug_session opt then
        \<exists>d. handle_gdb_loop chunks (Debug_init c) = Some (Inr ((), d)) \<and> timer_fires\<^sup>*\<^sup>* (dbg_cpu d) c'
      else sim_step\<^sup>*\<^sup>* c c')"

lemma session_running: "session opt chunks c c' \<Longrightarrow> running opt chunks c c'"
  by (auto simp: session_iff running_def)

text \<open>The file it writes, if any.\<close>

inductive intHandler ::
    "(log_level option \<Rightarrow> sim_error option) \<Rightarrow> (string \<Rightarrow> string option) \<Rightarrow> string option list \<Rightarrow>
     (nat \<Rightarrow> 32 word) \<Rightarrow> byte list \<Rightarrow> (char \<times> string) list \<Rightarrow> string option \<Rightarrow>
     (string \<times> string) option \<Rightarrow> bool"
  for create files chunks u buf where
  no_simulator:
    "intHandler create files chunks u buf opts arg None"
| simulator_32:
    "bnd (process_arguments create opts arg) (\<lambda>_. default_logger create) options_init = Inr ((), opt) \<Longrightarrow>
     cpu_type_opt opt = RV32 \<Longrightarrow> Memory_file (files (filename opt)) = Inr m \<Longrightarrow>
     running opt chunks (Simulator_RV32 m u) c \<Longrightarrow> Simulator_delete opt buf c = Some (Inr out) \<Longrightarrow>
     intHandler create files chunks u buf opts arg out"
| simulator_64:
    "bnd (process_arguments create opts arg) (\<lambda>_. default_logger create) options_init = Inr ((), opt) \<Longrightarrow>
     cpu_type_opt opt = RV64 \<Longrightarrow> Memory_file (files (filename opt)) = Inr m \<Longrightarrow>
     running opt chunks (Simulator_RV64 m u) c \<Longrightarrow> Simulator_delete opt buf c = Some (Inr out) \<Longrightarrow>
     intHandler create files chunks u buf opts arg out"

inductive_simps intHandler_iff: "intHandler create files chunks u buf opts arg out"

text \<open>What the program writes when it is left alone it can also write when it is interrupted.\<close>

lemma sc_main_interrupted:
  "sc_main create files chunks u buf opts arg out \<Longrightarrow> intHandler create files chunks u buf opts arg out"
  by (erule sc_main.cases) (auto intro: intHandler.intros dest: session_running)

section \<open>The signatures\<close>

lemma dump_interrupted:
  fixes c :: "'a::len cpu"
  assumes xlen: "LENGTH('a) = 32 \<or> LENGTH('a) = 64" and c: "cpu_rel c p" and covers: "covers p"
    and dump: "length buf = 16" "lo \<noteq> 0" "hi \<noteq> 0" "unat lo + 4 * k \<le> SIZE" "unat hi = unat lo + 4 * k"
    and opt: "opt = \<lparr>filename = name, debug_session = False, mem_dump = True, dump_addr_st = lo,
      dump_addr_end = hi, cpu_type_opt = cpu, logger = Some Level_info\<rparr>"
  shows "(\<exists>d. running opt chunks c d \<and> Simulator_delete opt buf d = Some (Inr out)) \<longleftrightarrow>
    (\<exists>es q. events sys_event es p q \<and> out = Some (signature_name name, signature (unat lo) k (prog q)))"
proof -
  have "Simulator_delete opt buf d = Some (Inr out) \<longleftrightarrow>
      out = Some (signature_name name, signature (unat lo) k (prog q))" if "cpu_rel d q" for d :: "'a cpu" and q
    using dump_outcome [OF that dump(2,3,1,4,5) opt] by auto
  then show ?thesis
    using reached_states [OF xlen c covers, of "\<lambda>d. Simulator_delete opt buf d = Some (Inr out)"
      "\<lambda>q. out = Some (signature_name name, signature (unat lo) k (prog q))"]
    by (simp add: running_def opt)
qed

lemma interrupted_32:
  assumes create: "create None = None" and image: "files name = Some (hex_file rs)"
    and records: "\<forall>(r, ck) \<in> set rs. CHR 0x0A \<notin> set ck"
      "hex_load (map fst rs) (Lin_base 0, Memory_init) = Some (b, m)"
    and covers: "covers (boot_sys 0x40001105 m :: 32 sys)"
    and dump: "length buf = 16" "lo \<noteq> 0" "hi \<noteq> 0" "unat lo + 4 * k \<le> SIZE" "unat hi = unat lo + 4 * k"
  shows "intHandler create files chunks u buf (dump_command RV32 lo hi) (Some name) out \<longleftrightarrow>
    out = None \<or> (\<exists>es p. events sys_step es (boot_sys 0x40001105 m :: 32 sys) p \<and>
       out = Some (signature_name name, signature (unat lo) k (prog p)))"
proof -
  obtain d where d: "Memory_file (files name) = Inr (m\<lparr>dmi_allowed := d\<rparr>)"
    using Memory_file_records [OF records] image by auto
  have "cpu_rel (Simulator_RV32 (m\<lparr>dmi_allowed := d\<rparr>) u) (boot_sys 0x40001105 m)"
    using boot_cpu_rel(1) [of "m\<lparr>dmi_allowed := d\<rparr>" u] by (simp add: boot_sys_def)
  from dump_interrupted [OF _ this covers dump refl, of name RV32 chunks out] show ?thesis
    unfolding sys_event_32 by (auto simp: intHandler_iff dump_arguments [of create, OF create] d)
qed

lemma alarm_interrupted:
  "(\<exists>es p. events sys_step es (alarm_start :: 32 sys) p \<and> out = Some (name, signature 4 1 (prog p))) \<longleftrightarrow>
     out = Some (name, ''400040b7'' @ [CHR 0x0A])"
  using alarm_memory_stays alarm_breaks by fastforce

end
