(* ===== verification/Report.thy ===== *)
theory Report
  imports Registers CString
begin

text \<open>
  The reports of the registers and of the counters (\<open>Registers::dump\<close> in src/Registers.cpp, written
  once for each width, and \<open>Performance::dump\<close>): their texts as functions of the state. The stream
  keeps its flags: upper case digits and zeroes as fill.
\<close>

section \<open>Numbers\<close>

definition uppercase :: "char \<Rightarrow> char" where
  "uppercase c = (if (of_char c :: nat) \<in> {97..122} then char_of (of_char c - 32 :: nat) else c)"

definition setw_HEX :: "nat \<Rightarrow> nat \<Rightarrow> string" where
  "setw_HEX w v = map uppercase (setw_hex w v)"

fun to_dec :: "nat \<Rightarrow> string" where
  "to_dec v = (if v < 10 then [nibble_to_hex v] else to_dec (v div 10) @ [nibble_to_hex (v mod 10)])"

declare to_dec.simps [simp del]

section \<open>Registers\<close>

definition stars :: string where
  "stars = replicate 36 (CHR ''*'') @ [CHR 0x0A]"

definition register_labels :: "string list" where
  "register_labels =
     [''x0 (zero):  0x'', '' x1 (ra):    0x'', '' x2 (sp):    0x'', '' x3 (gp):    0x'',
      ''x4 (tp):    0x'', '' x5 (t0):    0x'', '' x6 (t1):    0x'', '' x7 (t2):    0x'',
      ''x8 (s0/fp): 0x'', '' x9 (s1):    0x'', '' x10 (a0):   0x'', '' x11 (a1):   0x'',
      ''x12 (a2):   0x'', '' x13 (a3):   0x'', '' x14 (a4):   0x'', '' x15 (a5):   0x'',
      ''x16 (a6):   0x'', '' x17 (a7):   0x'', '' x18 (s2):   0x'', '' x19 (s3):   0x'',
      ''x20 (s4):   0x'', '' x21 (s5):   0x'', '' x22 (s6):   0x'', '' x23 (s7):   0x'',
      ''x24 (s8):   0x'', '' x25 (s9):   0x'', '' x26 (s10):  0x'', '' x27 (s11):  0x'',
      ''x28 (t3):   0x'', '' x29 (t4):   0x'', '' x30 (t5):   0x'', '' x31 (t6):   0x'']"

definition register_item :: "nat \<Rightarrow> 'a::len registers \<Rightarrow> nat \<times> string \<Rightarrow> string" where
  "register_item w r = (\<lambda>(n, label).
     label @ setw_HEX w (unat (register_bank r n)) @ (if n mod 4 = 3 then [CHR 0x0A] else []))"

definition registers_report :: "nat \<Rightarrow> 'a::len registers \<Rightarrow> string" where
  "registers_report w r =
     stars @ ''Registers dump'' @ [CHR 0x0A] @
     concat (map (register_item w r) (enumerate 0 register_labels)) @
     ''PC: 0x'' @ setw_HEX w (unat (register_PC r)) @ [CHR 0x0A] @ stars"

definition Registers_dump_32 :: "32 registers \<Rightarrow> string" where
  "Registers_dump_32 = registers_report 8"

definition Registers_dump_64 :: "64 registers \<Rightarrow> string" where
  "Registers_dump_64 = registers_report 16"

section \<open>Counters\<close>

definition counter_line :: "string \<Rightarrow> 64 word \<Rightarrow> string" where
  "counter_line label v = ''# '' @ label @ '': '' @ to_dec (unat v) @ [CHR 0x0A]"

definition Performance_dump :: "performance \<Rightarrow> string" where
  "Performance_dump p =
     stars @
     counter_line ''data memory reads'' (data_memory_read p) @
     counter_line ''data memory writes'' (data_memory_write p) @
     counter_line ''code memory reads'' (code_memory_read p) @
     counter_line ''code memory writes'' (code_memory_write p) @
     counter_line ''registers read'' (register_read p) @
     counter_line ''registers write'' (register_write p) @
     counter_line ''instructions executed'' (instructions_executed p) @
     stars"

section \<open>What a report tells\<close>

text \<open>The report of the registers determines them: every field has its full width.\<close>

lemma uppercase_nibble: "n < 16 \<Longrightarrow> uppercase (nibble_to_hex n) = ''0123456789ABCDEF'' ! n"
  unfolding below_16 by (elim insertE emptyE; simp add: uppercase_def nibble_to_hex_def char_of_eq_iff)

lemma uppercase_nibble_inj:
  "m < 16 \<Longrightarrow> n < 16 \<Longrightarrow> uppercase (nibble_to_hex m) = uppercase (nibble_to_hex n) \<longleftrightarrow> m = n"
  by (simp add: uppercase_nibble nth_eq_iff_index_eq)

lemma same_digit: "a < 16 \<Longrightarrow> b < 16 \<Longrightarrow> 16 * x + a = 16 * y + b \<longleftrightarrow> x = y \<and> a = b" for a b :: nat
proof -
  assume "a < 16" "b < 16"
  then have "(16 * x + a) div 16 = x" "(16 * y + b) div 16 = y" by simp_all
  then show ?thesis by (metis add_left_cancel)
qed

lemma uppercase_field:
  "map uppercase (hex_field n v) = map uppercase (hex_field n u) \<longleftrightarrow> v mod 16 ^ n = u mod 16 ^ n"
proof (induction n arbitrary: v u)
  case (Suc n)
  have "v mod 16 ^ Suc n = u mod 16 ^ Suc n \<longleftrightarrow>
      16 * (v div 16 mod 16 ^ n) + v mod 16 = 16 * (u div 16 mod 16 ^ n) + u mod 16"
    by (simp only: power_Suc mod_mult2_eq)
  also have "\<dots> \<longleftrightarrow> v div 16 mod 16 ^ n = u div 16 mod 16 ^ n \<and> v mod 16 = u mod 16"
    using same_digit [of "v mod 16" "u mod 16"] by simp
  finally show ?case
    using Suc.IH [of "v div 16" "u div 16"] by (simp add: uppercase_nibble_inj)
qed simp

lemma length_setw_HEX: "v < 16 ^ w \<Longrightarrow> 0 < w \<Longrightarrow> length (setw_HEX w v) = w"
  by (simp add: setw_HEX_def setw_hex_field)

lemma setw_HEX_inj:
  "setw_HEX w v = setw_HEX w u \<Longrightarrow> v < 16 ^ w \<Longrightarrow> u < 16 ^ w \<Longrightarrow> 0 < w \<Longrightarrow> v = u"
  using uppercase_field [of w v u] by (simp add: setw_HEX_def setw_hex_field)

lemma length_register_labels: "length register_labels = 32"
  by (simp add: register_labels_def)

lemma concat_same_lengths:
  assumes "\<forall>x \<in> set xs. length (f x) = length (g x)"
  shows "concat (map f xs) @ s = concat (map g xs) @ t \<longleftrightarrow> (\<forall>x \<in> set xs. f x = g x) \<and> s = t"
  using assms by (induction xs) auto

lemma registers_report_inj:
  fixes r s :: "'a::len registers"
  assumes w: "LENGTH('a) \<le> 4 * w" and eq: "registers_report w r = registers_report w s"
  shows "(\<forall>n < 32. register_bank r n = register_bank s n) \<and> register_PC r = register_PC s"
proof -
  have "0 < w" using w len_gt_0 [where 'a = 'a] by (cases w) auto
  have b: "unat v < 16 ^ w" for v :: "'a word"
  proof -
    have "unat v < 2 ^ LENGTH('a)" using unsigned_less [of v, where 'a = nat] .
    also have "\<dots> \<le> 2 ^ (4 * w)" using w by (intro power_increasing) simp_all
    finally show ?thesis by (simp add: power_mult)
  qed
  note l = length_setw_HEX [OF b \<open>0 < w\<close>] and i = setw_HEX_inj [OF _ b b \<open>0 < w\<close>]
  have items: "\<forall>x \<in> set (enumerate 0 register_labels). length (register_item w r x) = length (register_item w s x)"
    by (auto simp: register_item_def l)
  from eq have "(\<forall>x \<in> set (enumerate 0 register_labels). register_item w r x = register_item w s x) \<and>
      setw_HEX w (unat (register_PC r)) = setw_HEX w (unat (register_PC s))"
    unfolding registers_report_def append_assoc same_append_eq concat_same_lengths [OF items] by simp
  moreover have "register_bank r n = register_bank s n"
    if "n < 32" "\<forall>x \<in> set (enumerate 0 register_labels). register_item w r x = register_item w s x" for n
  proof -
    have "(n, register_labels ! n) \<in> set (enumerate 0 register_labels)"
      using that(1) by (simp add: in_set_enumerate_eq length_register_labels)
    then have "register_item w r (n, register_labels ! n) = register_item w s (n, register_labels ! n)"
      using that(2) by blast
    then have "setw_HEX w (unat (register_bank r n)) = setw_HEX w (unat (register_bank s n))"
      by (simp add: register_item_def)
    then show ?thesis by (rule i [THEN word_unat_eq_iff [THEN iffD2]])
  qed
  ultimately show ?thesis using i by (simp add: word_unat_eq_iff)
qed

lemma registers_report_iff:
  fixes r s :: "'a::len registers"
  assumes "LENGTH('a) \<le> 4 * w"
  shows "registers_report w r = registers_report w s \<longleftrightarrow>
    (\<forall>n < 32. register_bank r n = register_bank s n) \<and> register_PC r = register_PC s"
proof
  assume same: "(\<forall>n < 32. register_bank r n = register_bank s n) \<and> register_PC r = register_PC s"
  then have items: "map (register_item w r) (enumerate 0 register_labels) =
      map (register_item w s) (enumerate 0 register_labels)"
    by (auto simp: register_item_def in_set_enumerate_eq length_register_labels)
  show "registers_report w r = registers_report w s"
    unfolding registers_report_def items using same by simp
qed (rule registers_report_inj [OF assms])

end
