(* ===== verification/C_Fields.thy ===== *)
theory C_Fields
  imports C_Decode
begin

text \<open>
  The accessors of inc/C_extension.h that no compressed instruction uses: the fields of the
  32-bit formats and the functions that set a field of the instruction word. The setters of
  immediates are written as functions of the value and the word; they are declared \<open>const\<close>, which
  no instance of the template allows.
\<close>

section \<open>Reading\<close>

definition C_get_imm_I :: "32 word \<Rightarrow> 32 word" where
  "C_get_imm_I i =
     (let aux = sc_range 31 20 i in
      if sc_bit 31 i = 1 then aux OR push_bit 12 0b11111111111111111111 else aux)"

definition C_get_imm_S :: "32 word \<Rightarrow> 32 word" where
  "C_get_imm_S i =
     (let aux = push_bit 5 (sc_range 31 25 i);
          aux = aux OR sc_range 11 7 i in
      if sc_bit 31 i = 1 then aux OR push_bit 12 0b11111111111111111111 else aux)"

definition C_get_imm_U :: "32 word \<Rightarrow> 32 word" where
  "C_get_imm_U i = sc_range 31 12 i"

definition C_get_imm_B :: "32 word \<Rightarrow> 32 word" where
  "C_get_imm_B i =
     (let aux = push_bit 11 (sc_bit 7 i);
          aux = aux OR push_bit 5 (sc_range 30 25 i);
          aux = aux OR push_bit 12 (sc_bit 31 i);
          aux = aux OR push_bit 1 (sc_range 11 8 i) in
      if sc_bit 31 i = 1 then aux OR push_bit 12 0b11111111111111111111 else aux)"

definition C_get_csr :: "32 word \<Rightarrow> 32 word" where
  "C_get_csr i = C_get_imm_I i"

section \<open>Writing\<close>

definition C_set_rs1 :: "32 word \<Rightarrow> 32 word \<Rightarrow> 32 word" where
  "C_set_rs1 v i = sc_set_range 11 7 v i"

definition C_set_rs2 :: "32 word \<Rightarrow> 32 word \<Rightarrow> 32 word" where
  "C_set_rs2 v i = sc_set_range 6 2 v i"

definition C_set_funct3 :: "32 word \<Rightarrow> 32 word \<Rightarrow> 32 word" where
  "C_set_funct3 v i = sc_set_range 15 13 v i"

definition C_set_imm_I :: "32 word \<Rightarrow> 32 word \<Rightarrow> 32 word" where
  "C_set_imm_I v i = sc_set_range 31 20 v i"

definition C_set_imm_S :: "32 word \<Rightarrow> 32 word \<Rightarrow> 32 word" where
  "C_set_imm_S v i = sc_set_range 11 7 (sc_range 4 0 v) (sc_set_range 31 25 (sc_range 11 5 v) i)"

definition C_set_imm_U :: "32 word \<Rightarrow> 32 word \<Rightarrow> 32 word" where
  "C_set_imm_U v i = sc_set_range 31 12 (push_bit 12 v) i"

definition C_set_imm_B :: "32 word \<Rightarrow> 32 word \<Rightarrow> 32 word" where
  "C_set_imm_B v i =
     (let i = sc_set_range 31 31 (sc_bit 12 v) i;
          i = sc_set_range 30 25 (sc_range 10 5 v) i;
          i = sc_set_range 11 7 (sc_range 4 1 v) i in
      sc_set_range 6 6 (sc_bit 11 v) i)"

definition C_set_imm_J :: "32 word \<Rightarrow> 32 word \<Rightarrow> 32 word" where
  "C_set_imm_J v i =
     (let aux = push_bit 20 v;
          i = sc_set_range 31 31 (sc_bit 20 aux) i;
          i = sc_set_range 30 21 (sc_range 10 1 aux) i;
          i = sc_set_range 20 20 (sc_bit 11 aux) i in
      sc_set_range 19 12 (sc_range 19 12 aux) i)"

section \<open>Reading back what was written\<close>

text \<open>The register fields, and the immediates of the I and S formats up to twelve bits.\<close>

lemma C_field_roundtrips:
  "C_get_rs1 (C_set_rs1 v i) = unat (take_bit 5 v)"
  "C_get_rs2 (C_set_rs2 v i) = unat (take_bit 5 v)"
  "C_get_funct3 (C_set_funct3 v i) = take_bit 3 v"
  by (simp_all add: C_get_rs1_def C_set_rs1_def C_get_rs2_def C_set_rs2_def C_get_funct3_def
      C_set_funct3_def sc_range_set_range)

lemma signed_12_bits: "bit (signed_take_bit 11 v :: 32 word) n \<longleftrightarrow> n < 32 \<and> bit v (if n < 12 then n else 11)"
  by (auto simp: bit_simps min_def dest: le_less_Suc_eq)

lemma C_imm_I_roundtrip: "C_get_imm_I (C_set_imm_I v i) = signed_take_bit 11 v"
  by (rule bit_word_eqI)
    (auto simp: C_get_imm_I_def C_set_imm_I_def Let_def signed_12_bits bit_blast bit_simps sc_bit_eq
      bit_numeral_word_iff)

lemma C_imm_S_roundtrip: "C_get_imm_S (C_set_imm_S v i) = signed_take_bit 11 v"
  by (rule bit_word_eqI)
    (auto simp: C_get_imm_S_def C_set_imm_S_def Let_def signed_12_bits bit_blast bit_simps sc_bit_eq
      bit_numeral_word_iff)

text \<open>The other two setters do not fit their readers.\<close>

lemma C_imm_U_lost: "C_get_imm_U (C_set_imm_U 1 0) = 0x1000"
  by (simp add: C_get_imm_U_def C_set_imm_U_def sc_range_set_range take_bit_eq_mod)

lemma C_imm_B_shifted: "C_get_imm_B (C_set_imm_B 2 0) = 0x800"
  by code_simp

end
