(* ===== verification/Instruction.thy ===== *)
theory Instruction
  imports Extension_Base
begin

text \<open>
  The classification of an instruction word by extension (inc/Instruction.h,
  src/Instruction.cpp). The processor does not call it: it asks the decoders in turn.
\<close>

datatype extension_t =
    BASE_EXTENSION | M_EXTENSION | A_EXTENSION | F_EXTENSION | D_EXTENSION | Q_EXTENSION
  | L_EXTENSION | C_EXTENSION | R_EXTENSION | J_EXTENSION | P_EXTENSION | V_EXTENSION
  | N_EXTENSION | UNKNOWN_EXTENSION

definition check_extension :: "32 word \<Rightarrow> extension_t" where
  "check_extension m_instr =
     (if (m_instr AND 0x0000007F = 0b0110011 \<or> m_instr AND 0x0000007F = 0b0111011) \<and>
         drop_bit 25 (m_instr AND 0x7F000000) = 0b0000001 then M_EXTENSION
      else if m_instr AND 0x0000007F = 0b0101111 then A_EXTENSION
      else if m_instr AND 0x00000003 = 0b00 then C_EXTENSION
      else if m_instr AND 0x00000003 = 0b01 then C_EXTENSION
      else if m_instr AND 0x00000003 = 0b10 then C_EXTENSION
      else BASE_EXTENSION)"

end
