(* ===== verification/Limits.thy ===== *)
theory Limits
  imports System Csr Devices Instruction
begin

text \<open>
  Sequences that cross components (a trap and its return, a timer notification and the interrupt
  it causes, a reservation and its store), and the places where the code goes another way than
  the manual.
\<close>

section \<open>Traps\<close>

text \<open>The environment call, from its encoding.\<close>

lemma ecall_effects:
  fixes s :: "'a::len hart"
  assumes xlen: "LENGTH('a) = 32 \<or> LENGTH('a) = 64"
  shows "\<exists>t. CPU_dispatch 0x00000073 s = Inr (True, t) \<and>
    getPC (regs t) = ucast (csr_at CSR_MTVEC (regs s)) \<and>
    csr_at CSR_MEPC (regs t) = ucast (getPC (regs s)) \<and>
    csr_at CSR_MCAUSE (regs t) = 11 \<and>
    csr_at CSR_MSTATUS (regs t) = csr_at CSR_MSTATUS (regs s) OR 11"
  using raise_effects [OF xlen, of CALL_FROM_M_MODE "0x00000073" s]
  by (auto simp: CPU_dispatch_def decode_system exec_instruction_def Exec_ECALL_def exec_simps advance_def)

lemma bit_3_of_11: "bit (w OR 11 :: 32 word) 3"
  by (simp add: bit_simps bit_numeral_word_iff)

text \<open>A trap and its return, on the 32-bit processor.\<close>

lemma trap_and_return:
  fixes s :: "32 hart"
  shows "\<exists>t. bnd (RaiseException cause i) (\<lambda>_. Exec_MRET j) s = Inr (True, t) \<and>
    getPC (regs t) = getPC (regs s) \<and> register_bank (regs t) = register_bank (regs s)"
proof -
  obtain t where t: "RaiseException cause i s = Inr ((), t)"
    "csr_at CSR_MEPC (regs t) = ucast (getPC (regs s))" "register_bank (regs t) = register_bank (regs s)"
    using raise_effects [where 'a = 32, of cause i s] by auto
  obtain u where "Exec_MRET j t = Inr (True, u)" "getPC (regs u) = ucast (csr_at CSR_MEPC (regs t))"
    "register_bank (regs u) = register_bank (regs t)"
    using mret_effects [where 'a = 32, of j t] by auto
  then show ?thesis using t by (simp add: bnd_run)
qed

text \<open>
  An exception inside an instruction whose answer is dropped: the program counter goes on from
  the handler's address by 4, past its first instruction.
\<close>

lemma skip_after_trap:
  fixes s :: "'a::len hart"
  assumes xlen: "LENGTH('a) = 32 \<or> LENGTH('a) = 64"
  shows "\<exists>t. bnd (bad_shamt i) (\<lambda>_. inc_pc) s = Inr ((), t) \<and>
    getPC (regs t) = ucast (csr_at CSR_MTVEC (regs s)) + 4 \<and> sc_stopped (plat t)"
  using raise_effects [OF xlen, of ILLEGAL_INSTRUCTION i "s\<lparr>plat := (plat s)\<lparr>sc_stopped := True\<rparr>\<rparr>"]
  by (auto simp: bad_shamt_def stop_sim_def on_plat_def onto_run sc_stop_def bnd_run inc_pc_def
      incPC_def getPC_def)

lemma slliw_illegal:
  fixes s :: "'a::len hart"
  assumes xlen: "LENGTH('a) = 64" and sh: "32 \<le> unat (sh :: 6 word)"
  shows "\<exists>t. CPU_dispatch (enc_shift 0 sh rs1 1 rd 0b0011011) s = Inr (False, t) \<and>
    getPC (regs t) = ucast (csr_at CSR_MTVEC (regs s)) + 4 \<and> sc_stopped (plat t)"
proof -
  have d: "decode (enc_shift 0 sh rs1 1 rd 0b0011011) = OP_SLLIW"
    by (simp add: decode_defs field_defs range_enc)
  have "0x20 \<le> get_shamt (enc_shift 0 sh rs1 1 rd 0b0011011)"
    using sh by (simp add: word_le_nat_alt unat_shamt)
  then show ?thesis
    using skip_after_trap [of "enc_shift 0 sh rs1 1 rd 0b0011011" s] xlen
    by (auto simp: CPU_dispatch_def d exec_instruction_def always_def Exec_SLLIW_def exec_simps
        advance_def Let_def bad_shamt_def split: sum.splits)
qed

section \<open>Interrupts\<close>

lemma irq_int_cause: "cpu_process_IRQ c = Inr (x, c') \<Longrightarrow> int_cause c' = int_cause c"
  by (auto simp: cpu_process_IRQ_def bnd_Inr_iff on_core_def onto_Inr_iff split: if_splits)

text \<open>What the timer's thread sends, and what becomes of it.\<close>

lemma irq_trans_32: "call_interrupt irq_trans (c :: 32 cpu) =
    Inr ((), c\<lparr>interrupt := True, int_cause := 0x80000007\<rparr>)"
  by (simp add: call_interrupt_def irq_trans_def timer_cause_def del: le_bytes.simps)

lemma timer_interrupt_taken:
  fixes c :: "32 cpu"
  assumes "bit (csr_at CSR_MSTATUS (regs (core c))) 3" "\<not> bit (csr_at CSR_MIP (regs (core c))) 11"
  shows "\<exists>c'. bnd (call_interrupt irq_trans) (\<lambda>_. cpu_process_IRQ) c = Inr (True, c') \<and>
    irq_visible True (regs (core c)) (regs (core c')) \<and> \<not> interrupt c' \<and> int_cause c' = 0x80000007"
proof -
  let ?d = "c\<lparr>interrupt := True, int_cause := 0x80000007\<rparr>"
  have v: "irq_next (irq_view_of ?d) =
      (True, \<lparr>pending = False, down = False, enabled = True, serving = True\<rparr>)"
    using assms by (simp add: irq_next_def irq_view_of_def)
  obtain c' where c': "cpu_process_IRQ ?d = Inr (True, c')"
    "irq_view_of c' = \<lparr>pending = False, down = False, enabled = True, serving = True\<rparr>"
    "irq_visible True (regs (core ?d)) (regs (core c'))"
    using irq_refines [where 'a = 32, of ?d] unfolding v by auto
  moreover have "int_cause c' = int_cause ?d" using irq_int_cause [OF c'(1)] .
  ultimately show ?thesis by (simp add: bnd_run irq_trans_32 irq_view_of_def)
qed

text \<open>On the 64-bit processor the callback copies more bytes than the timer sends.\<close>

lemma irq_trans_64: "call_interrupt irq_trans (c :: 64 cpu) = Inl (Array_overrun 0 8)"
  by (simp add: call_interrupt_def irq_trans_def Let_def)

text \<open>An interrupt that arrives while another is being served waits, and the flag it waits for
  is cleared only when none is waiting.\<close>

lemma interrupt_waits:
  fixes c :: "'a::len cpu"
  assumes xlen: "LENGTH('a) = 32 \<or> LENGTH('a) = 64"
    and "interrupt c" "bit (csr_at CSR_MIP (regs (core c))) 11"
  shows "\<exists>c'. cpu_process_IRQ c = Inr (False, c') \<and> irq_view_of c' = irq_view_of c \<and>
    irq_visible False (regs (core c)) (regs (core c'))"
proof -
  have "irq_next (irq_view_of c) = (False, irq_view_of c)"
    using assms(2,3) by (simp add: irq_next_def irq_view_of_def)
  then show ?thesis using irq_refines [OF xlen, of c] by auto
qed

section \<open>Reservations\<close>

text \<open>A load reserved and a store conditional to the same address.\<close>

lemma lr_sc:
  fixes s :: "'a::len hart"
  assumes xlen: "LENGTH('a) = 32 \<or> LENGTH('a) = 64" and x0: "hart_x0 s"
    and r: "\<not> RAM_SIZE < unat (word_addr rs1 (abs_hart s)) + 4" and d: "rd1 \<noteq> rs1"
  shows "reserving (bnd (CPU_dispatch (enc_A 0b00010 q1 0 rs1 rd1))
       (\<lambda>_. CPU_dispatch (enc_A 0b00011 q2 rs2 rs1 rd2))) s False
     (sc_result True rd2 rs1 rs2 (lr_result rd1 rs1 (abs_hart s)))
     (TLB_A_Entries s - {word_addr rs1 (abs_hart s)})"
proof -
  obtain t where t: "CPU_dispatch (enc_A 0b00010 q1 0 rs1 rd1) s = Inr (False, t)"
    "abs_hart t = lr_result rd1 rs1 (abs_hart s)"
    "TLB_A_Entries t = insert (word_addr rs1 (abs_hart s)) (TLB_A_Entries s)"
    "same_rest s (t\<lparr>TLB_A_Entries := TLB_A_Entries s\<rparr>)"
    using lr_effect [OF xlen x0 r, of q1 rd1] unfolding reserving_def by blast
  have unat_inj: "unat a = unat b \<Longrightarrow> a = b" for a b :: regno by (simp add: word_unat_eq_iff)
  have x0': "hart_x0 t" by (rule keepsD [OF x0.dispatch x0 t(1)])
  have w: "word_addr rs1 (abs_hart t) = word_addr rs1 (abs_hart s)"
    using unat_inj [of rs1 rd1] d unfolding t(2)
    by (auto simp add: lr_result_def word_addr_def rX_def seq_next_def go_def wX_def)
  have m: "True = (word_addr rs1 (abs_hart t) \<in> TLB_A_Entries t)" by (simp add: w t(3))
  have "reserving (CPU_dispatch (enc_A 0b00011 q2 rs2 rs1 rd2)) t False
     (sc_result True rd2 rs1 rs2 (abs_hart t)) (TLB_A_Entries t - {word_addr rs1 (abs_hart t)})"
    by (rule sc_effect [OF xlen x0' m]) (simp only: w r not_False_eq_True)
  then obtain u where u: "CPU_dispatch (enc_A 0b00011 q2 rs2 rs1 rd2) t = Inr (False, u)"
    "abs_hart u = sc_result True rd2 rs1 rs2 (abs_hart t)"
    "TLB_A_Entries u = TLB_A_Entries t - {word_addr rs1 (abs_hart t)}"
    "same_rest t (u\<lparr>TLB_A_Entries := TLB_A_Entries t\<rparr>)"
    unfolding reserving_def by blast
  have "same_rest s (u\<lparr>TLB_A_Entries := TLB_A_Entries s\<rparr>)"
    using t(4) u(4) by (simp add: same_rest_def)
  moreover have "TLB_A_Entries u = TLB_A_Entries s - {word_addr rs1 (abs_hart s)}"
    unfolding u(3) t(3) w by blast
  ultimately show ?thesis
    unfolding reserving_def using t(1,2) u(1,2) by (intro exI [of _ u]) (simp add: bnd_run)
qed

section \<open>Compressed shifts on 64-bit registers\<close>

lemma c_shift_amount:
  assumes xlen: "LENGTH('b) = 32 \<or> LENGTH('b) = 64" and sh: "32 \<le> unat (sh :: 6 word)"
  shows "64 \<le> unat (scast sh :: 'b::len word)"
proof (rule ccontr)
  assume "\<not> 64 \<le> unat (scast sh :: 'b word)"
  then have "take_bit 6 (scast sh :: 'b word) = scast sh"
    by (simp add: word_unat_eq_iff unsigned_take_bit_eq take_bit_nat_eq_self)
  then have "bit (scast sh :: 'b word) 31 = bit (take_bit 6 (scast sh :: 'b word)) 31" by simp
  then have "\<not> bit (scast sh :: 'b word) 31" by (simp only: bit_take_bit_iff) simp
  then have "\<not> bit sh 5" using xlen by (auto simp: bit_simps min_def)
  then have "n < 5" if "bit sh n" for n
    using that bit_imp_le_length [OF that] by (cases "n = 5") auto
  then have "take_bit 5 sh = sh"
    by (intro bit_word_eqI) (auto simp: bit_simps)
  then have "unat sh = take_bit 5 (unat sh)" by (metis unsigned_take_bit_eq)
  then have "unat sh < 2 ^ 5" by (metis take_bit_nat_less_exp)
  then show False using sh by simp
qed

lemma c_shift_undefined:
  fixes s :: "'a::len hart"
  assumes xlen: "LENGTH('a) = 64" and sh: "32 \<le> unat sh" "unat sh < 64"
    and ci: "ci = C_SRLI q sh \<or> ci = C_SRAI q sh \<or> ci = C_SLLI rd sh"
  shows "\<exists>n \<ge> 64. CPU_dispatch (c_encode hi ci) s = Inl (Shift_undefined n)"
proof -
  have xl: "LENGTH('a) = 32 \<or> LENGTH('a) = 64" using xlen by simp
  have "\<not> unat (scast sh :: 32 word) < 64" "\<not> unat (scast (scast sh :: 32 word) :: 'a word) < 64"
    using c_shift_amount [where 'b = 32, OF _ sh(1)] c_shift_amount [where 'b = 'a, OF xl sh(1)]
      c_conv_s(1) [OF xl, of sh] by simp_all
  moreover have "has_cinsn LENGTH('a) ci" using ci sh xlen by auto
  ultimately show ?thesis
    using ci xlen
    by (auto simp: dispatch_C [OF xl] run_c_defs Exec_C_defs Let_def c_imm_s not_less)
qed

section \<open>What stays\<close>

text \<open>Along every run of the simulation.\<close>

lemma sim_platform: "sim_step\<^sup>*\<^sup>* c c' \<Longrightarrow> platform_frame (plat (core c)) (plat (core c'))"
proof (induction rule: rtranclp_induct)
  case base
  then show ?case by simp
next
  case (step d e)
  from step(2) have "platform_frame (plat (core d)) (plat (core e))"
  proof (cases rule: sim_step.cases)
    case cpu_round
    have "hart_platform (plat (core d)) (core e)"
      by (rule keepsD [OF platform.round _ cpu_round(2)]) (simp add: hart_platform_def)
    then show ?thesis by (simp add: hart_platform_def)
  next
    case timer_event
    then show ?thesis using call_interrupt_core [OF timer_event(2)] by simp
  qed
  then show ?case using step(3) platform_frame_trans by blast
qed

section \<open>The end of a program\<close>

text \<open>A store to the address that ends the simulation.\<close>

lemma store_to_host:
  fixes s :: "'a::len hart"
  assumes xlen: "LENGTH('a) = 32 \<or> LENGTH('a) = 64" and x0: "hart_x0 s"
    and a: "0x90000000 \<le> unat (rX (abs_hart s) rs1 + scast imm)"
  shows "CPU_dispatch (encode (STORE S_W rs1 rs2 imm)) s =
    Inl (SC_report_error (ucast (rX (abs_hart s) rs1 + scast imm)))"
proof -
  define m where "m = scast imm + register_bank (regs s) (unat rs1)"
  have m: "rX (abs_hart s) rs1 + scast imm = m" by (simp add: rX_bank [OF x0] m_def)
  have w: "wr_mem (ucast m) v 4 t = Inl (SC_report_error (ucast m))" for v and t :: "'a hart"
    using a unfolding m by (simp add: wr_mem_def on_plat_def onto_run to_host_access(1) ea [OF xlen])
  show ?thesis
    unfolding m
    by (subst dispatch_base) (simp_all add: run_base_def exec_instruction_def always_def exec_simps
        store_defs access_defs imm_enc [OF xlen] m_def [symmetric] w)
qed

section \<open>The two ways to fetch\<close>

text \<open>Through the direct pointer or over the bus, the word fetched is the one in the memory.\<close>

lemma fetch_word:
  fixes c :: "'a::len cpu"
  assumes xlen: "LENGTH('a) = 32 \<or> LENGTH('a) = 64"
    and pc: "unat (getPC (regs (core c))) + 4 \<le> SIZE"
  shows "\<exists>c'. fetch c = Inr ((), c') \<and> core c' = core c \<and> interrupt c' = interrupt c \<and>
    INSTR c' = of_bytes (mem_bytes (unat (getPC (regs (core c)))) 4 (main_memory (plat (core c))))"
proof -
  let ?bs = "mem_bytes (unat (getPC (regs (core c)))) 4 (main_memory (plat (core c)))"
  have "?bs = le_bytes 4 (of_bytes ?bs :: 32 word)"
    using le_bytes_of_bytes [of ?bs, where 'a = 32] by simp
  then show ?thesis
    using fetch_ram [OF xlen, of c "of_bytes ?bs"] pc by (auto simp: getPC_def)
qed

section \<open>The classes of instructions\<close>

lemma mask_fields:
  "i AND 0x0000007F = sc_range 6 0 i" "i AND 0x00000003 = sc_range 1 0 i"
  "drop_bit 25 (i AND 0x7F000000) = sc_range 30 25 i" for i :: "32 word"
  by (simp_all add: word_bitwise_eq bit_blast not_bit_beyond bit_numeral_word_iff)

lemma range_6: "sc_range 30 25 (enc_R f7 rs2 rs1 f3 rd op) = take_bit 6 (ucast f7)"
  by (simp add: enc_blast)

lemma low_two: "v \<noteq> 3 \<Longrightarrow> v = 0 \<or> v = 1 \<or> v = 2" if "v = take_bit 2 w" for v w :: "32 word"
proof -
  have "unat v < 2 ^ 2" unfolding that unsigned_take_bit_eq by (rule take_bit_nat_less_exp)
  then have "unat v = 0 \<or> unat v = 1 \<or> unat v = 2 \<or> unat v = 3" by simp linarith
  then show "v \<noteq> 3 \<Longrightarrow> v = 0 \<or> v = 1 \<or> v = 2" by (auto simp: word_unat_eq_iff)
qed

lemma check_extension_fields:
  "check_extension i =
     (let op = sc_range 6 0 i in
      if (op = 0b0110011 \<or> op = 0b0111011) \<and> sc_range 30 25 i = 1 then M_EXTENSION
      else if op = 0b0101111 then A_EXTENSION
      else if take_bit 2 op \<noteq> 3 then C_EXTENSION
      else BASE_EXTENSION)"
  using low_two [of "sc_range 1 0 i" "sc_range 6 0 i", OF low_bits]
  unfolding check_extension_def mask_fields low_bits Let_def by auto

lemma class_base:
  "check_extension (encode ins) = (case ins of MULDIV _ _ _ _ \<Rightarrow> M_EXTENSION | _ \<Rightarrow> BASE_EXTENSION)"
proof -
  have f7: "take_bit 6 (ucast (alu_f7 k) :: 32 word) \<noteq> 1" "take_bit 6 (ucast (word_f7 w) :: 32 word) \<noteq> 1" for k w
    by (cases k; simp) (cases w; simp)
  show ?thesis
    using f7 by (cases ins) (simp_all add: check_extension_fields range_enc range_6 Let_def)
qed

lemma class_c: "check_extension (c_encode hi ci) = C_EXTENSION"
proof -
  have l: "sc_range 1 0 (c_encode hi ci) \<noteq> 3"
    by (cases ci) (simp_all add: cenc_fields)
  then have "sc_range 6 0 (c_encode hi ci) \<noteq> k" if "take_bit 2 k = 3" for k :: "32 word"
    using that unfolding low_bits by auto
  then show ?thesis
    using l unfolding low_bits by (simp add: check_extension_fields Let_def)
qed

lemma class_a: "check_extension (enc_A f5 aqrl rs2 rs1 rd) = A_EXTENSION"
  by (simp add: check_extension_fields Let_def range_A)

end
