(* ===== verification/ISA_Properties.thy ===== *)
theory ISA_Properties
  imports Examples Limits Foreign
begin

text \<open>
  The properties of single instructions: encodings and immediates, the three instruction sets
  and the atomics against the manual, and the results in which the code and
  the manual differ. The witnesses run on the processor a constructor has just built.
\<close>

section \<open>Encodings\<close>


section \<open>Instructions\<close>

text \<open>
  C12. The instructions of RV32I, RV64I and M, except \<open>FENCE\<close>, the environment and CSR instructions and
  the word multiplications and divisions: from its encoding, through the chain of decoders, an
  instruction the register width has gets the manual's effect on registers, program counter and
  memory, and touches neither CSRs, reservations, devices, time nor the count of instructions. Two
  cases are left out: loads and stores outside the memory, where \<open>isa_op\<close> has no result, and on
  64-bit registers the signed quotient and remainder of the most negative number by \<open>-1\<close>
  (\<open>host_traps\<close>), where the code does not do what the manual says.
\<close>

theorem instruction_refinement:
  assumes "LENGTH('a) = 32 \<or> LENGTH('a) = 64" and "hart_x0 s"
    and "has_insn LENGTH('a) ins" and "\<not> host_traps ins (abs_hart s)"
    and "isa_op 4 ins (abs_hart s) = Some a"
  shows "outcome (CPU_dispatch (encode ins)) (s :: 'a::len hart) False a"
  using assms by (intro dispatch_refines) (simp_all add: isa_exec_def)

theorem instruction_refinement_witness:
  "outcome (CPU_dispatch (encode (OP_IMM I_ADD 1 0 5))) (core demo_32) False
     (demo_mid (abs_hart (core demo_32)))"
proof (rule instruction_refinement [OF _ demo_x0(1)])
  show "isa_op 4 (OP_IMM I_ADD 1 0 5) (abs_hart (core demo_32)) = Some (demo_mid (abs_hart (core demo_32)))"
    using demo_first [of "abs_hart (core demo_32)"] by (simp add: isa_exec_def del: isa_op.simps)
qed simp_all

text \<open>
  C13. The compressed instructions without floating point, except \<open>C.EBREAK\<close>, with operands the
  manual does not reserve: an instruction the register width has gets the effect of the
  instruction it abbreviates, with the program counter advanced by 2. Left out are loads and stores
  outside the memory and, by \<open>c_limited\<close>, the cases in which the code on 64-bit registers does not
  do what the manual says: shifts by 32 and more, and \<open>C.J\<close>, \<open>C.JR\<close> and \<open>C.JALR\<close> when the target or
  the return address does not fit 32 bits.
\<close>

theorem compressed_refinement:
  assumes "LENGTH('a) = 32 \<or> LENGTH('a) = 64" and "hart_x0 s"
    and "has_cinsn LENGTH('a) ci" and "\<not> c_limited ci (abs_hart s)"
    and "isa_op 2 (c_expand ci) (abs_hart s) = Some a"
  shows "outcome (CPU_dispatch (c_encode hi ci)) (s :: 'a::len hart) False a"
  using assms by (intro dispatch_c_refines) (simp_all add: c_isa_exec_def)

theorem compressed_refinement_witness:
  "outcome (CPU_dispatch (c_encode 0 (C_ADD 2 1))) (state_64 5 7) False
     (seq_next 2 (wX 2 12 (abs_hart (state_64 5 7))))"
  by (rule compressed_refinement) simp_all

text \<open>
  C14. The atomic operations on an aligned word of the memory, with different registers (or \<open>x0\<close>) for
  result and operand. The eight that combine (\<open>amo_op\<close>: addition, the bitwise operations, minimum
  and maximum) have the manual's effect: they load the word, apply the operation to it and the low
  word of \<open>rs2\<close>, store the result and return the old word. The ninth, \<open>AMOSWAP\<close>, does what the
  manual says and in addition writes the old word to its operand register \<open>rs2\<close>, which the manual
  leaves unchanged.
\<close>

theorem atomic_refinement:
  fixes s :: "'a::len hart"
  assumes "LENGTH('a) = 32 \<or> LENGTH('a) = 64" and "hart_x0 s"
    and "unat (rX (abs_hart s) rs1) + 4 \<le> RAM_SIZE" and "4 dvd unat (rX (abs_hart s) rs1)"
    and "rd = rs2 \<longrightarrow> rd = 0"
  shows "outcome (CPU_dispatch (enc_A (amo_f5 k) aqrl rs2 rs1 rd)) s False
      (amo_result k rd rs1 rs2 (abs_hart s)) \<and>
    outcome (CPU_dispatch (enc_A 0b00001 aqrl rs2 rs1 rd)) s False
      (wX rs2 (scast (ram_word (word_addr rs1 (abs_hart s)) (abs_hart s)))
        (swap_manual rd rs1 rs2 (abs_hart s)))"
  using assms by (intro conjI dispatch_amo_refines dispatch_swap) (auto simp: amo_exec_def)

theorem atomic_refinement_witness:
  "outcome (CPU_dispatch (enc_A (amo_f5 AMO_MAX) 0 2 1 3)) (state_32 64 9) False
     (amo_result AMO_MAX 3 1 2 (abs_hart (state_32 64 9)))"
  by (rule atomic_refinement [THEN conjunct1]) (simp_all add: RAM_SIZE_def)

text \<open>
  C15. The word multiplications and divisions of RV64M have the manual's effect, except for one
  pair of operands of each of the two quotients (the last section).
\<close>

theorem word_division_refinement:
  assumes "hart_x0 s" and "mdw_exec k rd rs1 rs2 (abs_hart s) = Some a"
  shows "outcome (CPU_dispatch (enc_mdw k rd rs1 rs2)) (s :: 'a::len hart) False a"
  using assms by (rule refine_mdw)

theorem word_division_refinement_witness:
  "outcome (CPU_dispatch (enc_mdw MW_REM 3 1 2)) (state_64 7 0) False
     (seq_next 4 (wX 3 7 (abs_hart (state_64 7 0))))"
  by (rule word_division_refinement) (simp_all add: mdw_exec_def mdw_differs_def on_words_def)

section \<open>Where the code and the manual differ\<close>

text \<open>
  C36. On 64-bit registers the quotient or remainder of the most negative number by \<open>-1\<close> ends
  the simulator: the division of the host traps, where the manual defines the result.
\<close>

theorem division_ends_simulator:
  fixes s :: "'a::len hart"
  assumes "hart_x0 s" and "k = M_DIV \<or> k = M_REM"
    and "host_traps (MULDIV k rd rs1 rs2) (abs_hart s)"
  shows "CPU_dispatch (encode (MULDIV k rd rs1 rs2)) s = Inl Division_overflow"
  using assms by (rule host_trap)

theorem division_ends_simulator_witness:
  "CPU_dispatch (encode (MULDIV M_REM 3 1 2)) (state_64 0x8000000000000000 (- 1)) = Inl Division_overflow"
  by (rule division_ends_simulator) simp_all

text \<open>
  C34. Instructions of extensions the processor does not have are executed as others: a word with a
  foreign opcode and the \<open>funct3\<close> of a word multiplication or division as that one, with \<open>funct3\<close>
  1, 2 or 3 as the word atomic with the same top bits (but for a malformed \<open>LR\<close>), and a word with the opcode of register
  operations and a foreign \<open>funct7\<close> as a multiplication or division.
\<close>

theorem foreign_instructions:
  assumes "foreign_opcode op"
  shows "CPU_dispatch (enc_R f7 rs2 rs1 (md_f3 (mdw_md m)) rd op) =
      (CPU_dispatch (enc_mdw m rd rs1 rs2) :: ('a::len hart, bool) exec) \<and>
    (f3 \<in> {1, 2, 3} \<and> (drop_bit 2 f7 = 2 \<longrightarrow> rs2 = 0) \<longrightarrow> CPU_dispatch (enc_R f7 rs2 rs1 f3 rd op) =
      (CPU_dispatch (atomic_word f7 rs2 rs1 rd) :: ('a hart, bool) exec)) \<and>
    (g7 \<notin> {0, 0b0100000} \<longrightarrow> CPU_dispatch (enc_R g7 rs2 rs1 (md_f3 d) rd 0b0110011) =
      (CPU_dispatch (encode (MULDIV d rd rs1 rs2)) :: ('a hart, bool) exec))"
  using foreign_mdw [OF assms] foreign_amo [OF assms] foreign_md by blast

theorem foreign_instructions_witness:
  "outcome (CPU_dispatch (enc_R 0 2 1 0 3 0b1010011)) (state_64 5 7) False
     (seq_next 4 (wX 3 35 (abs_hart (state_64 5 7))))"
proof -
  have "foreign_opcode 0b1010011" by (simp add: foreign_opcode_def base_opcodes_def)
  from foreign_instructions [OF this, of 0 2 1 MW_MUL 3, where 'a = 64, THEN conjunct1]
  show ?thesis
    using refine_mdw [of "state_64 5 7" MW_MUL 3 1 2]
    by (simp add: mdw_exec_def mdw_differs_def on_words_def)
qed

text \<open>
  C35. The signed and the unsigned word quotient of \<open>0x80000000\<close> by all ones are both
  \<open>0x80000000\<close> without sign extension; the manual's are its sign extension and 0.
\<close>

theorem wrong_quotient:
  fixes s :: "'a::len hart"
  assumes "hart_x0 s" and "LENGTH('a) = 64"
    and "mdw_differs k (ucast (rX (abs_hart s) rs1)) (ucast (rX (abs_hart s) rs2))"
  shows "outcome (CPU_dispatch (enc_mdw k rd rs1 rs2)) s False
      (seq_next 4 (wX rd 0x80000000 (abs_hart s))) \<and>
    on_words (md (mdw_md k)) (rX (abs_hart s) rs1) (rX (abs_hart s) rs2) =
      (if k = MW_DIV then scast (0x80000000 :: 32 word) else 0)"
  using mdw_wrong_quotient [OF assms] manual_quotient [OF assms(3)] by (simp add: on_words_def)

theorem wrong_quotient_witness:
  "outcome (CPU_dispatch (enc_mdw MW_DIVU 3 1 2)) (state_64 0x80000000 0xFFFFFFFF) False
      (seq_next 4 (wX 3 0x80000000 (abs_hart (state_64 0x80000000 0xFFFFFFFF))))"
  using wrong_quotient [of "state_64 0x80000000 0xFFFFFFFF" MW_DIVU 1 2 3]
  by (simp add: mdw_differs_def)

text \<open>
  C37. On 64-bit registers a compressed shift by 32 or more shifts by 64 or more, because its
  amount is sign-extended: no value is defined for it.
\<close>

theorem compressed_shift_undefined:
  fixes s :: "'a::len hart"
  assumes "LENGTH('a) = 64" and "32 \<le> unat sh" and "unat sh < 64"
    and "ci = C_SRLI q sh \<or> ci = C_SRAI q sh \<or> ci = C_SLLI rd sh"
  shows "\<exists>n \<ge> 64. CPU_dispatch (c_encode hi ci) s = Inl (Shift_undefined n)"
  using assms by (rule c_shift_undefined)

theorem compressed_shift_undefined_witness:
  "\<exists>n \<ge> 64. CPU_dispatch (c_encode 0 (C_SLLI 1 40)) (state_64 1 0) = Inl (Shift_undefined n)"
  by (rule compressed_shift_undefined) simp_all

end
