(* ===== verification/Platform_Properties.thy ===== *)
theory Platform_Properties
  imports Examples Limits
begin

text \<open>
  The properties of the processor around its instructions and of what stands behind the bus:
  fetch, traps, the interrupt line, the map of addresses, memory, timer and terminal.
\<close>

section \<open>States for the witnesses\<close>

text \<open>A processor with interrupts enabled or not, and one being served or not.\<close>

definition with_flags :: "32 word \<Rightarrow> 32 word \<Rightarrow> bool \<Rightarrow> 32 cpu" where
  "with_flags mstatus mip irq = demo_32\<lparr>
     core := (core demo_32)\<lparr>regs := (regs (core demo_32))\<lparr>CSR :=
       [0x300 \<mapsto> mstatus, 0x344 \<mapsto> mip, 0x305 \<mapsto> 0x100]\<rparr>\<rparr>, interrupt := irq\<rparr>"

lemma with_flags_csr [simp]:
  "csr_at CSR_MSTATUS (regs (core (with_flags m p i))) = m"
  "csr_at CSR_MIP (regs (core (with_flags m p i))) = p"
  "csr_at CSR_MTVEC (regs (core (with_flags m p i))) = 0x100"
  "interrupt (with_flags m p i) = i"
  "getPC (regs (core (with_flags m p i))) = getPC (regs (core demo_32))"
  by (simp_all add: with_flags_def csr_at_def getPC_def)

lemma demo_pc [simp]: "getPC (regs (core demo_32)) = 0" "getPC (regs (core demo_64)) = 0"
  using demo_starts by (simp_all add: demo_start_def getPC_def)

section \<open>Fetch\<close>

text \<open>
  C20. Through the direct pointer or over the bus, the word fetched from an address inside the
  memory is the one the memory holds, and the fetch changes nothing the program can see.
\<close>

theorem fetch_reads_memory:
  fixes c :: "'a::len cpu"
  assumes "LENGTH('a) = 32 \<or> LENGTH('a) = 64" and "unat (getPC (regs (core c))) + 4 \<le> SIZE"
  shows "\<exists>c'. fetch c = Inr ((), c') \<and> core c' = core c \<and> interrupt c' = interrupt c \<and>
    INSTR c' = of_bytes (mem_bytes (unat (getPC (regs (core c)))) 4 (main_memory (plat (core c))))"
  using assms by (rule fetch_word)

theorem fetch_reads_memory_witness:
  "\<exists>c'. fetch demo_32 = Inr ((), c') \<and> INSTR c' = encode (OP_IMM I_ADD 1 0 5)"
  using fetch_reads_memory [of demo_32] demo_starts(1)
  by (auto simp: SIZE_def demo_start_def demo_bytes simp del: encode.simps le_bytes.simps)

section \<open>Traps\<close>

text \<open>
  C17. An exception saves the program counter, records its cause and value, and jumps to the
  trap vector; it also sets the bits of its cause in \<open>mstatus\<close>.
\<close>

theorem exception_effect:
  fixes s :: "'a::len hart"
  assumes "LENGTH('a) = 32 \<or> LENGTH('a) = 64"
  shows "\<exists>t. RaiseException cause i s = Inr ((), t) \<and>
    getPC (regs t) = ucast (csr_at CSR_MTVEC (regs s)) \<and>
    csr_at CSR_MEPC (regs t) = ucast (getPC (regs s)) \<and>
    csr_at CSR_MCAUSE (regs t) = cause_code cause \<and>
    csr_at CSR_MTVAL (regs t) = trap_value cause i (ucast (getPC (regs s))) (csr_at CSR_MTVAL (regs s)) \<and>
    csr_at CSR_MSTATUS (regs t) = csr_at CSR_MSTATUS (regs s) OR cause_code cause \<and>
    register_bank (regs t) = register_bank (regs s) \<and>
    plat t = (plat s)\<lparr>sc_stopped := sc_stopped (plat s) \<or> cause = BREAK\<rparr>"
  using assms by (rule raise_effects)

theorem exception_effect_witness:
  "\<exists>t. RaiseException CALL_FROM_M_MODE 0x73 (core (with_flags 0 0 False)) = Inr ((), t) \<and>
     getPC (regs t) = 0x100 \<and> csr_at CSR_MSTATUS (regs t) = 11"
  using exception_effect [of CALL_FROM_M_MODE "0x73" "core (with_flags 0 0 False)"] by auto

section \<open>Interrupts\<close>

text \<open>
  C16. \<open>cpu_process_IRQ\<close> is the state machine \<open>irq_next\<close> over the four flags of the interrupt
  line, and the program sees a jump to the trap vector exactly when an interrupt is taken.
\<close>

theorem interrupt_machine:
  fixes c :: "'a::len cpu"
  assumes "LENGTH('a) = 32 \<or> LENGTH('a) = 64"
  shows "\<exists>c'. cpu_process_IRQ c = Inr (fst (irq_next (irq_view_of c)), c') \<and>
    irq_view_of c' = snd (irq_next (irq_view_of c)) \<and>
    irq_visible (fst (irq_next (irq_view_of c))) (regs (core c)) (regs (core c')) \<and>
    plat (core c') = plat (core c)"
  using assms by (rule irq_refines)

theorem interrupt_machine_witness:
  "\<exists>c'. cpu_process_IRQ (with_flags 0 0 True) = Inr (False, c') \<and> interrupt c'"
  using interrupt_machine [of "with_flags 0 0 True"] by (auto simp: irq_next_def irq_view_of_def)

section \<open>The bus and the devices\<close>

text \<open>
  C18. The bus sends each transaction to the device the map of addresses \<open>route\<close> names and
  puts an OK over its answer; at and above \<open>0x90000000\<close> it stops the simulation.
\<close>

theorem bus_map:
  "BusCtrl_b_transport tr p =
     (case route (unat (address tr)) of
        To_host \<Rightarrow> Inr (tr, p\<lparr>sc_stopped := True\<rparr>)
      | To_timer \<Rightarrow> answered (\<lambda>t p. p\<lparr>timer := t\<rparr>) p (Timer_b_transport (sc_now p) tr (timer p))
      | To_trace \<Rightarrow> answered (\<lambda>t p. p\<lparr>trace := t\<rparr>) p (Trace_b_transport tr (trace p))
      | To_memory \<Rightarrow> answered (\<lambda>m p. p\<lparr>main_memory := m\<rparr>) p (Memory_b_transport tr (main_memory p)))"
  by (rule bus_routes)

text \<open>
  C19. Two words stored through the data port at places that do not overlap are both read back.
\<close>

theorem stores_then_loads:
  assumes "in_ram a 4" and "in_ram b 4" and "unat a + 4 \<le> unat b \<or> unat b + 4 \<le> unat a"
  shows "\<exists>t. bnd (writeDataMem a lo 4) (\<lambda>_. bnd (writeDataMem b hi 4) (\<lambda>_.
      bnd (readDataMem a 4) (\<lambda>l. bnd (readDataMem b 4) (\<lambda>h. ret (l, h))))) p = Inr ((lo, hi), t)"
  using assms by (rule bus_memory.doubleword_after_store)

theorem stores_then_loads_witness:
  "\<exists>t. bnd (writeDataMem 0x101 7 4) (\<lambda>_. bnd (writeDataMem 0x105 9 4) (\<lambda>_.
      bnd (readDataMem 0x101 4) (\<lambda>l. bnd (readDataMem 0x105 4) (\<lambda>h. ret (l, h)))))
      (plat (core demo_32)) = Inr ((7, 9), t)"
  by (rule stores_then_loads) (simp_all add: in_ram_def SIZE_def)

text \<open>
  C39. A store that ends the simulation is reported as an error of the transaction.
\<close>

theorem final_store:
  fixes s :: "'a::len hart"
  assumes "LENGTH('a) = 32 \<or> LENGTH('a) = 64" and "hart_x0 s"
    and "0x90000000 \<le> unat (rX (abs_hart s) rs1 + scast imm)"
  shows "CPU_dispatch (encode (STORE S_W rs1 rs2 imm)) s =
    Inl (SC_report_error (ucast (rX (abs_hart s) rs1 + scast imm)))"
  using assms by (rule store_to_host)

theorem final_store_witness:
  "CPU_dispatch (encode (STORE S_W 1 2 0)) (state_32 0x90000000 1) = Inl (SC_report_error 0x90000000)"
  using final_store [of "state_32 0x90000000 1" 1 0 2] by simp

text \<open>
  C22. No step of a simulation gives back a stop request, takes back terminal output, moves the
  start address, or grants direct access to a memory whose contents did not allow it.
\<close>

theorem platform_monotone:
  assumes "sim_step\<^sup>*\<^sup>* c c'"
  shows "platform_frame (plat (core c)) (plat (core c'))"
  using assms by (rule sim_platform)

theorem platform_monotone_witness:
  "\<exists>c' :: 64 cpu. rX (abs_hart (core c')) 4 = 10 \<and> platform_frame (plat (core demo_64)) (plat (core c'))"
  using demo_runs_64 platform_monotone by blast

end
