(* ===== verification/Debug_Correct.thy ===== *)
theory Debug_Correct
  imports Debug Examples
begin

text \<open>
  The debugger stub: packets against the protocol (checksum and framing), what the register and
  memory messages answer with, and the continue message as a run of the processor to the first
  breakpoint.
\<close>

section \<open>Checksum and framing\<close>

lemma checksum_total:
  "(ucast (foldl (\<lambda>n c. n + (scast (of_char c :: 8 word) :: 32 word)) a msg) :: 8 word) =
     ucast a + of_nat (sum_list (map of_char msg))"
proof (induction msg arbitrary: a)
  case (Cons c msg)
  have "(ucast (scast (of_char c :: 8 word) :: 32 word) :: 8 word) = of_char c"
    by (rule bit_word_eqI) (auto simp: bit_simps)
  then have "(ucast (a + scast (of_char c :: 8 word)) :: 8 word) = ucast a + of_char c"
    by (simp add: ucast_add)
  then show ?case using Cons by (simp add: algebra_simps of_nat_of_char)
qed simp

lemma hex_field_2: "hex_field 2 k = [nibble_to_hex (k div 16 mod 16), nibble_to_hex (k mod 16)]"
  by (simp add: numeral_2_eq_2)

lemma checksum_digits:
  "compute_checksum_string msg = hex_field 2 (sum_list (map of_char msg) mod 256)"
proof -
  let ?t = "foldl (\<lambda>n c. n + (scast (of_char c :: 8 word) :: 32 word)) 0 msg"
  have b: "?t mod 256 = ucast (ucast ?t :: 8 word)"
  proof -
    have "?t mod 256 = take_bit 8 ?t" by (simp add: take_bit_eq_mod)
    also have "\<dots> = ucast (ucast ?t :: 8 word)" by (rule bit_word_eqI) (auto simp: bit_simps)
    finally show ?thesis .
  qed
  have k: "unat (?t mod 256) = sum_list (map of_char msg) mod 256"
    unfolding b checksum_total by (simp add: unsigned_ucast_eq unat_of_nat take_bit_nat_eq_self)
  have low: "unat (w AND 0xf) = unat w mod 16" for w :: "32 word"
  proof -
    have "w AND 0xf = take_bit 4 w" by (simp add: take_bit_eq_mask mask_eq_exp_minus_1)
    then show ?thesis by (simp only: unsigned_take_bit_eq) (simp add: take_bit_eq_mod)
  qed
  have high: "unat (drop_bit 4 (w AND push_bit 4 0xf)) = unat w div 16 mod 16" for w :: "32 word"
  proof -
    have m: "(0xf :: 32 word) = mask 4" by (simp add: mask_eq_exp_minus_1)
    have "drop_bit 4 (w AND push_bit 4 0xf) = take_bit 4 (drop_bit 4 w)"
      unfolding m by (intro bit_word_eqI) (auto simp: bit_simps)
    then show ?thesis
      using unsigned_less [of w, where 'a = nat]
      by (simp only: unsigned_take_bit_eq unsigned_drop_bit_eq)
        (simp only: drop_bit_eq_div take_bit_eq_mod, simp)
  qed
  show ?thesis
    unfolding compute_checksum_string_def Let_def low high k hex_field_2 by simp
qed

lemma strchr_first:
  assumes "c \<notin> set xs" "CHR 0x00 \<notin> set xs" "c \<noteq> CHR 0x00"
  shows "strchr (xs @ c # ys) c = Some (length xs)"
proof -
  have "takeWhile (\<lambda>x. x \<noteq> CHR 0x00) (xs @ c # ys) = xs @ takeWhile (\<lambda>x. x \<noteq> CHR 0x00) (c # ys)"
    "takeWhile (\<lambda>x. x \<noteq> c) (xs @ c # ys) = xs"
    using assms by (auto simp: takeWhile_append)
  then show ?thesis using assms(3) by (simp add: strchr_def)
qed

definition plain_text :: "string \<Rightarrow> bool" where
  "plain_text s \<longleftrightarrow> CHR ''$'' \<notin> set s \<and> CHR ''#'' \<notin> set s \<and> CHR 0x00 \<notin> set s"

lemma receive_frame:
  assumes "plain_text pre" "plain_text msg"
    and "length (pre @ ''$'' @ msg @ ''#'' @ post) \<le> bufsize"
  shows "receive_packet (Some (pre @ ''$'' @ msg @ ''#'' @ post)) d = Inr (msg,
    d\<lparr>iobuf := pre @ ''$'' @ msg @ ''#'' @ post @ drop (length (pre @ ''$'' @ msg @ ''#'' @ post)) (iobuf d)\<rparr>)"
proof -
  have "strchr (pre @ ''$'' @ msg @ ''#'' @ post @ r) (CHR ''$'') = Some (length pre)"
    "strchr (pre @ ''$'' @ msg @ ''#'' @ post @ r) (CHR ''#'') = Some (length pre + 1 + length msg)" for r
    using assms(1,2) strchr_first [of "CHR ''$''" pre] strchr_first [of "CHR ''#''" "pre @ ''$'' @ msg"]
    by (simp_all add: plain_text_def)
  then show ?thesis
    using assms(3) by (simp add: receive_packet_def message_in_buffer_def Let_def bnd_run)
qed

lemma no_special_field: "plain_text (hex_field n v)"
proof -
  have "c \<in> set (hex_field n v) \<Longrightarrow> is_hex c" for c
    using hex_field_digits [of n v] by (simp add: list_all_iff)
  moreover have "\<not> is_hex (CHR ''$'')" "\<not> is_hex (CHR ''#'')" "\<not> is_hex (CHR 0x00)"
    by (simp_all add: is_hex_def hex_value_def)
  ultimately show ?thesis unfolding plain_text_def by blast
qed

lemma send_run:
  "length msg \<le> 8000 \<Longrightarrow> reply msg d = Inr (True, d\<lparr>sent := sent d @ [frame_of msg],
     iobuf := frame_of msg @ drop (length (frame_of msg)) (iobuf d)\<rparr>)"
  by (simp add: reply_def send_packet_def bnd_run Let_def bufsize_def frame_of_def checksum_digits
      del: hex_field.simps)

section \<open>Words as the stream writes them\<close>

lemma unat_of_bytes:
  "8 * length bs \<le> LENGTH('a) \<Longrightarrow>
     unat (of_bytes bs :: 'a::len word) = foldr (\<lambda>b n. unat b + 256 * n) bs 0 \<and>
     foldr (\<lambda>b n. unat b + 256 * n) bs 0 < 256 ^ length bs"
proof (induction bs)
  case (Cons b bs)
  define n where "n = foldr (\<lambda>b n. unat b + 256 * n) bs 0"
  have n: "unat (of_bytes bs :: 'a word) = n" "n < 256 ^ length bs"
    using Cons by (simp_all add: n_def)
  have b: "unat b < 256" using unsigned_less [of b, where 'a = nat] by simp
  have u: "unat (ucast b :: 'a word) = unat b"
    using b Cons.prems by (simp add: unsigned_ucast_eq take_bit_nat_eq_self less_le_trans [OF _ power_increasing [of 8 "LENGTH('a)" "2 :: nat"]])
  have bound: "unat b + 256 * n < 256 ^ Suc (length bs)" using b n(2) by simp
  have "(256 :: nat) ^ Suc (length bs) = 2 ^ (8 * length (b # bs))"
    by (simp only: power_mult length_Cons) simp
  also have "\<dots> \<le> 2 ^ LENGTH('a)" using Cons.prems by (intro power_increasing) simp_all
  finally have w: "unat b + 256 * n < 2 ^ LENGTH('a)" using bound by linarith
  have "(of_bytes (b # bs) :: 'a word) = ucast b + push_bit 8 (of_bytes bs)"
    unfolding of_bytes.simps
    by (rule disjunctive_add [symmetric]) (auto simp: bit_simps dest: bit_imp_le_length)
  then have "unat (of_bytes (b # bs) :: 'a word) = (unat b + 256 * n mod 2 ^ LENGTH('a)) mod 2 ^ LENGTH('a)"
    by (simp only: unat_word_ariths u unsigned_push_bit_eq n(1) take_bit_eq_mod)
      (simp add: push_bit_eq_mult mult.commute)
  then have "unat (of_bytes (b # bs) :: 'a word) = unat b + 256 * n"
    using w by simp
  then show ?case using bound by (simp add: n_def)
qed simp

lemma hex_field_bytes:
  "hex_field (2 * length bs) (foldr (\<lambda>b n. unat b + 256 * n) bs 0) =
     concat (map (\<lambda>b :: byte. hex_field 2 (unat b)) (rev bs))"
proof (induction bs)
  case (Cons b bs)
  define n where "n = foldr (\<lambda>b n. unat b + 256 * n) bs 0"
  have b: "unat b div 16 < 16" using unsigned_less [of b, where 'a = nat] by simp
  have "unat b + 256 * n = unat b + 16 * (16 * n)" by simp
  then have "(unat b + 256 * n) div 16 = unat b div 16 + 16 * n" "(unat b + 256 * n) mod 16 = unat b mod 16"
    by (simp_all only: div_mult_self2 mod_mult_self2 zero_neq_numeral not_False_eq_True)
  then have "hex_field (Suc (Suc (2 * length bs))) (unat b + 256 * n) =
      hex_field (2 * length bs) n @ hex_field 2 (unat b)"
    using b by (simp add: hex_field_2)
  then show ?case using Cons by (simp add: n_def)
qed simp

lemma word_text:
  "setw_hex 8 (unat (htonl v)) = concat (map (\<lambda>b. hex_field 2 (unat b)) (le_bytes 4 v))"
proof -
  have "unat (htonl v) < 16 ^ 8" using unsigned_less [of "htonl v", where 'a = nat] by simp
  then have "setw_hex 8 (unat (htonl v)) = hex_field 8 (unat (htonl v))" by (simp add: setw_hex_field del: hex_field.simps)
  moreover have "unat (htonl v) = foldr (\<lambda>b n. unat b + 256 * n) (rev (le_bytes 4 v)) 0"
    unfolding htonl_def by (subst unat_of_bytes [THEN conjunct1]) (simp_all del: le_bytes.simps)
  ultimately show ?thesis
    using hex_field_bytes [of "rev (le_bytes 4 v)"] by (simp del: le_bytes.simps hex_field.simps)
qed

section \<open>Registers and memory\<close>

lemma on_hart_run:
  "on_hart m d = (case m (core (dbg_cpu d)) of
     Inl e \<Rightarrow> Inl e
   | Inr (x, h) \<Rightarrow> Inr (x, d\<lparr>dbg_cpu := (dbg_cpu d)\<lparr>core := h\<rparr>\<rparr>))"
  by (simp add: on_hart_def on_cpu_def on_core_def onto_run split: sum.splits)

lemma regno_less: "unat r < 32" for r :: regno
  using unsigned_less [of r, where 'a = nat] by simp

text \<open>The parts of an answer the debugger and the program see.\<close>

definition answers :: "string \<Rightarrow> ('a::len arch \<Rightarrow> 'a arch) \<Rightarrow> 'a debug \<Rightarrow> (sim_error + bool \<times> 'a debug) option \<Rightarrow> bool" where
  "answers msg f d r \<longleftrightarrow> (\<exists>d'. r = Some (Inr (True, d')) \<and>
     sent d' = sent d @ [frame_of msg] \<and> breakpoints d' = breakpoints d \<and>
     abs_hart (core (dbg_cpu d')) = f (abs_hart (core (dbg_cpu d))))"

lemma length_digits [simp]:
  "length (concat (map (\<lambda>b :: byte. hex_field 2 (unat b)) bs)) = 2 * length bs"
  by (induction bs) simp_all

lemma gdb_message_p: "gdb_message (CHR ''p'' # s) d = Some (gdb_p (CHR ''p'' # s) d)"
  by (simp add: gdb_message_def)

lemma gdb_message_P: "gdb_message (CHR ''P'' # s) d = Some (gdb_P (CHR ''P'' # s) d)"
  by (simp add: gdb_message_def)

lemma gdb_message_m: "gdb_message (CHR ''m'' # s) d = Some (gdb_m (CHR ''m'' # s) d)"
  by (simp add: gdb_message_def)

lemma strtol_small:
  "no_digit r \<Longrightarrow> strtol (hex_field 2 n @ r) = (int (n mod 256), r)"
  "no_digit r \<Longrightarrow> strtol (hex_field 8 n @ r) = (int (n mod 2 ^ 32), r)"
  using strtol_field [of 2 r n] strtol_field [of 8 r n] by simp_all

lemma no_digit_simps [simp]: "no_digit []" "no_digit (CHR ''='' # s)" "no_digit (CHR '','' # s)"
  by (simp_all add: no_digit_def is_hex_def hex_value_def)

lemma to_unsigned_small: "0 \<le> k \<Longrightarrow> k < 2 ^ 32 \<Longrightarrow> to_unsigned k = nat k"
  by (cases k rule: int_cases3) (simp_all add: to_unsigned_def unat_of_nat)

lemma uint_regno: "uint r < 32" for r :: regno
  using unsigned_less [of r, where 'a = int] by simp

text \<open>
  The register message: the low four bytes of the register in the order the target has them; the
  32-bit conversion leaves zeroes before them on the 64-bit processor.
\<close>

lemma hex_field_add: "hex_field (m + n) v = hex_field m (v div 16 ^ n) @ hex_field n v"
  by (induction n arbitrary: v) (simp_all add: div_mult2_eq)

lemma setw_hex_pad:
  "v < 16 ^ n \<Longrightarrow> 0 < n \<Longrightarrow> setw_hex (m + n) v = replicate m (CHR ''0'') @ hex_field n v"
  by (subst setw_hex_field) (auto simp: hex_field_add hex_field_zero power_add intro: less_le_trans)

lemma word_text_pad:
  "setw_hex (m + 8) (unat (htonl v)) =
     replicate m (CHR ''0'') @ concat (map (\<lambda>b. hex_field 2 (unat b)) (le_bytes 4 v))"
proof -
  have v: "unat (htonl v) < 16 ^ 8" using unsigned_less [of "htonl v", where 'a = nat] by simp
  show ?thesis
    using setw_hex_pad [OF v, of m] setw_hex_pad [OF v, of 0] word_text [of v]
    by (simp del: hex_field.simps le_bytes.simps)
qed

lemma gdb_read_register:
  fixes d :: "'a::len debug"
  assumes xlen: "LENGTH('a) = 32 \<or> LENGTH('a) = 64" and x0: "hart_x0 (core (dbg_cpu d))"
  shows "answers (replicate (if LENGTH('a) = 32 then 0 else 8) (CHR ''0'') @
      concat (map (\<lambda>b. hex_field 2 (unat b)) (le_bytes 4 (rX (abs_hart (core (dbg_cpu d))) r)))) id d
     (gdb_message (''p'' @ hex_field 2 (unat r)) d)"
proof -
  have n: "strtol (hex_field 2 (unat r)) = (uint r, [])"
    using strtol_small(1) [of "[]" "unat r"] regno_less [of r] by simp
  have u: "to_unsigned (uint r) = unat r" "uint r < 32"
    using uint_regno [of r] by (simp_all add: to_unsigned_small)
  have v: "(ucast (ucast w :: 64 word) :: 32 word) = ucast w" for w :: "'a word"
    using xlen by (intro bit_word_eqI) (auto simp: bit_simps)
  have b: "le_bytes 4 (ucast w :: 32 word) = le_bytes 4 w" for w :: "'a word"
    by (rule nth_equalityI) (auto simp: nth_le_bytes intro!: bit_word_eqI simp: bit_simps dest: bit_imp_le_length)
  have t: "setw_hex (if LENGTH('a) = 32 then 8 else 16) (unat (htonl w)) =
      replicate (if LENGTH('a) = 32 then 0 else 8) (CHR ''0'') @
      concat (map (\<lambda>b. hex_field 2 (unat b)) (le_bytes 4 w))" for w
    using word_text_pad [of 0 w] word_text_pad [of 8 w] by (simp del: hex_field.simps le_bytes.simps)
  show ?thesis
    by (simp add: answers_def gdb_message_p gdb_p_def n u on_hart_run bnd_run rd_reg_run regno_less Let_def v
        t b send_run rX_bank [OF x0] del: hex_field.simps le_bytes.simps if_split)
qed

text \<open>
  The message for all registers leaves out \<open>x0\<close>, prints the words in the order of the host, and
  has no text at all on the 64-bit processor.
\<close>

lemma registers_text_run:
  assumes "\<forall>r \<in> set rs. r < 32" "hart_x0 (core (dbg_cpu d))"
  shows "\<exists>h. hart_x0 h \<and> abs_hart h = abs_hart (core (dbg_cpu d)) \<and>
    registers_text rs d =
      Inr (concat (map (\<lambda>r. setw_hex 8 (unat (rX (abs_hart (core (dbg_cpu d))) (of_nat r)))) rs),
           d\<lparr>dbg_cpu := (dbg_cpu d)\<lparr>core := h\<rparr>\<rparr>)"
  using assms
proof (induction rs arbitrary: d)
  case (Cons r rs)
  have r: "unat (of_nat r :: regno) = r" using Cons.prems(1) by (simp add: unat_of_nat)
  let ?h = "(core (dbg_cpu d))\<lparr>perf := registerRead (perf (core (dbg_cpu d)))\<rparr>"
  let ?d = "d\<lparr>dbg_cpu := (dbg_cpu d)\<lparr>core := ?h\<rparr>\<rparr>"
  have x0: "hart_x0 (core (dbg_cpu ?d))" and a: "abs_hart ?h = abs_hart (core (dbg_cpu d))"
    using Cons.prems(2) by (simp_all add: hart_x0_def abs_hart_def)
  have "\<forall>r \<in> set rs. r < 32" using Cons.prems(1) by simp
  from Cons.IH [OF this x0] obtain h where h: "hart_x0 h" "abs_hart h = abs_hart ?h"
    "registers_text rs ?d = Inr (concat (map (\<lambda>r. setw_hex 8 (unat (rX (abs_hart ?h) (of_nat r)))) rs),
      ?d\<lparr>dbg_cpu := (dbg_cpu ?d)\<lparr>core := h\<rparr>\<rparr>)" by auto
  show ?case
    using h Cons.prems by (intro exI [of _ h]) (simp add: bnd_run on_hart_run rd_reg_run r a rX_bank)
next
  case Nil
  then show ?case by (intro exI [of _ "core (dbg_cpu d)"]) (simp add: ret_def)
qed

lemma gdb_read_registers:
  fixes d :: "'a::len debug"
  assumes xlen: "LENGTH('a) = 32 \<or> LENGTH('a) = 64" and x0: "hart_x0 (core (dbg_cpu d))"
  shows "answers (if LENGTH('a) = 32
       then concat (map (\<lambda>r. hex_field 8 (unat (rX (abs_hart (core (dbg_cpu d))) (of_nat r)))) [1..<32])
       else []) id d (gdb_message ''g'' d)"
proof (cases "LENGTH('a) = 32")
  case True
  let ?t = "concat (map (\<lambda>r. setw_hex 8 (unat (rX (abs_hart (core (dbg_cpu d))) (of_nat r)))) [1..<32])"
  have w: "unat w < 16 ^ 8" for w :: "'a word" using unsigned_less [of w, where 'a = nat] True by simp
  have t: "?t = concat (map (\<lambda>r. hex_field 8 (unat (rX (abs_hart (core (dbg_cpu d))) (of_nat r)))) [1..<32])"
    using w by (simp add: setw_hex_field del: hex_field.simps upt_rec_numeral)
  have "length ?t \<le> 8 * 31"
    unfolding t by (simp add: length_concat comp_def sum_list_triv del: hex_field.simps upt_rec_numeral)
  then show ?thesis
    using registers_text_run [OF _ x0, of "[1..<32]"] True unfolding t
    by (auto simp: answers_def gdb_message_def gdb_g_def bnd_run send_run simp del: hex_field.simps upt_rec_numeral)
qed (simp add: answers_def gdb_message_def gdb_g_def bnd_run send_run ret_def)

lemma scast_same:
  assumes "LENGTH('a) = LENGTH('b)"
  shows "(scast (v :: 'b::len word) :: 'a::len word) = ucast v"
proof (rule bit_word_eqI)
  fix n assume n: "n < LENGTH('a)"
  then have "min (LENGTH('b) - 1) n = n" using assms by (simp add: min_absorb2)
  then show "bit (scast v :: 'a word) n \<longleftrightarrow> bit (ucast v :: 'a word) n"
    using n by (simp add: bit_simps)
qed

lemma gdb_write_register:
  fixes d :: "'a::len debug"
  assumes xlen: "LENGTH('a) = 32" and r: "unat r + 1 < 32"
  shows "answers ''OK'' (wX (r + 1) (ucast v)) d
     (gdb_message (''P'' @ hex_field 2 (unat r) @ ''='' @ hex_field 8 (unat (v :: 32 word))) d)"
proof -
  have n: "strtol (hex_field 2 (unat r) @ CHR ''='' # s) = (uint r, CHR ''='' # s)" for s
    using strtol_small(1) [of "CHR ''='' # s" "unat r"] r by simp
  have m: "strtol (hex_field 8 (unat v)) = (uint v, [])"
    using strtol_small(2) [of "[]" "unat v"] unsigned_less [of v, where 'a = nat] by simp
  have u: "to_unsigned (uint r + 1) = unat (r + 1)" "unat (r + 1) < 32" "r + 1 \<noteq> 0" "unat (r + 1) \<noteq> 0"
  proof -
    have e: "unat (r + 1) = unat r + 1" using r by (simp add: unat_word_ariths)
    then show "unat (r + 1) < 32" "unat (r + 1) \<noteq> 0" using r by simp_all
    then show "r + 1 \<noteq> 0" by auto
    show "to_unsigned (uint r + 1) = unat (r + 1)"
      using uint_regno [of r] e by (simp add: to_unsigned_small nat_add_distrib)
  qed
  have w: "(word_of_int (to_int (uint v)) :: 'a word) = ucast v"
  proof -
    have "(word_of_int (to_int (uint v)) :: 'a word) = scast v" by (simp add: to_int_def)
    also have "\<dots> = ucast v" by (rule scast_same) (simp add: xlen)
    finally show ?thesis .
  qed
  show ?thesis
    by (simp add: answers_def gdb_message_P gdb_P_def n m u on_hart_run bnd_run wr_reg_run Let_def past_def w
        send_run wX_def abs_hart_def del: hex_field.simps)
qed

lemma transport_dbg_read:
  assumes "command tr = TLM_READ_COMMAND" "unat (address tr) < SIZE" "unat (address tr) + data_length tr \<le> SIZE"
    and "data_length tr \<le> length (data tr)"
  shows "\<exists>k. transport_dbg tr m =
    Inr ((k, tr\<lparr>data := copy_into (mem_bytes (unat (address tr)) (data_length tr) m) (data tr)\<rparr>), m)"
  using assms by (simp add: transport_dbg_def below_SIZE Let_def bnd_run copy_command_def)

lemma gdb_read_memory:
  fixes d :: "'a::len debug" and a :: "32 word"
  assumes len: "n \<le> 128" and fits: "unat a < SIZE" "unat a + n \<le> SIZE" and buf: "length (pyld_array d) = 128"
  shows "answers (concat (map (\<lambda>b. hex_field 2 (unat b))
       (ram_bytes (unat a) n (abs_hart (core (dbg_cpu d))) @ drop n (pyld_array d)))) id d
     (gdb_message (''m'' @ hex_field 8 (unat a) @ '','' @ hex_field 2 n) d)"
proof -
  have s1: "strtol (hex_field 8 (unat a) @ CHR '','' # s) = (uint a, CHR '','' # s)" for s
    using strtol_small(2) [of "CHR '','' # s" "unat a"] unsigned_less [of a, where 'a = nat] by simp
  have s2: "strtol (hex_field 2 n) = (int n, [])"
    using strtol_small(1) [of "[]" n] len by simp
  have u: "to_unsigned (to_int (int n)) = n"
    using len by (simp add: to_int_def to_unsigned_def unat_of_nat)
  have a: "unat (word_of_int (uint a) :: 64 word) = unat a"
    by (simp add: ea)
  let ?tr = "\<lparr>command = TLM_READ_COMMAND, address = word_of_int (uint a), data = pyld_array d,
    data_length = n, streaming_width = 0, byte_enable = False,
    response_status = TLM_INCOMPLETE_RESPONSE, dmi_hint = False\<rparr>"
  obtain k where k: "transport_dbg ?tr (main_memory (plat (core (dbg_cpu d)))) =
      Inr ((k, ?tr\<lparr>data := copy_into (mem_bytes (unat a) n (main_memory (plat (core (dbg_cpu d))))) (pyld_array d)\<rparr>),
        main_memory (plat (core (dbg_cpu d))))"
    using transport_dbg_read [of ?tr "main_memory (plat (core (dbg_cpu d)))"] len fits buf a by auto
  have w: "setw_hex 2 (unat b) = hex_field 2 (unat b)" for b :: byte
    using unsigned_less [of b, where 'a = nat] by (simp add: setw_hex_field del: hex_field.simps)
  show ?thesis
    unfolding ram_mem_bytes using len buf
    by (simp add: answers_def gdb_message_m gdb_m_def s1 s2 past_def u on_hart_run on_plat_def on_memory_def
        onto_run bnd_run k [simplified] w copy_into_def send_run abs_hart_def
        del: hex_field.simps)
qed

section \<open>Continue\<close>

text \<open>A step after which the loop goes on, and the ways it ends.\<close>

definition gdb_quiet :: "32 word set \<Rightarrow> 'a::len cpu \<Rightarrow> 'a cpu \<Rightarrow> bool" where
  "gdb_quiet bps c d \<longleftrightarrow> CPU_step c = Inr (False, d) \<and> \<not> at_breakpoint bps d"

definition gdb_ends :: "32 word set \<Rightarrow> 'a::len cpu \<Rightarrow> sim_error + unit \<times> 'a cpu \<Rightarrow> bool" where
  "gdb_ends bps c r \<longleftrightarrow>
     (\<exists>e. CPU_step c = Inl e \<and> r = Inl e) \<or>
     (\<exists>b d. CPU_step c = Inr (b, d) \<and> (at_breakpoint bps d \<or> b) \<and> r = Inr ((), d))"

lemma gdb_step_cases: "(\<exists>d. gdb_quiet bps c d) \<or> (\<exists>r. gdb_ends bps c r)"
  by (cases "CPU_step c") (auto simp: gdb_quiet_def gdb_ends_def)

lemma gdb_continue_quiet: "gdb_quiet bps c d \<Longrightarrow> gdb_continue bps c = gdb_continue bps d"
  by (subst gdb_continue.simps) (simp add: gdb_quiet_def)

lemma gdb_continue_ends: "gdb_ends bps c r \<Longrightarrow> gdb_continue bps c = Some r"
  by (subst gdb_continue.simps) (auto simp: gdb_ends_def)

lemma gdb_continue_run:
  "(gdb_quiet bps ^^ n) c d \<Longrightarrow> gdb_continue bps c = gdb_continue bps d"
proof (induction n arbitrary: c)
  case (Suc n)
  from Suc.prems obtain e where "gdb_quiet bps c e" "(gdb_quiet bps ^^ n) e d" by (rule relpowp_Suc_E2)
  then show ?case using Suc.IH gdb_continue_quiet by metis
qed simp

lemma gdb_continue_some:
  "gdb_continue bps c = Some r \<Longrightarrow> \<exists>n d. (gdb_quiet bps ^^ n) c d \<and> gdb_ends bps d r"
proof (induction rule: gdb_continue.raw_induct [rotated, consumes 1])
  case (1 f bps c r)
  show ?case
  proof (cases "\<exists>d. gdb_quiet bps c d")
    case True
    then obtain d where d: "gdb_quiet bps c d" by blast
    then have "f bps d = Some r" using 1(2) by (simp add: gdb_quiet_def)
    then obtain n e where "(gdb_quiet bps ^^ n) d e" "gdb_ends bps e r" using 1(1) by blast
    then show ?thesis using d by (blast intro: relpowp_Suc_I2)
  next
    case False
    then have "gdb_ends bps c r"
      using 1(2) by (auto simp: gdb_quiet_def gdb_ends_def split: sum.splits if_splits)
    then show ?thesis by (meson relpowp_0_I)
  qed
qed

lemma gdb_continue_iff:
  "gdb_continue bps c = Some r \<longleftrightarrow> (\<exists>n d. (gdb_quiet bps ^^ n) c d \<and> gdb_ends bps d r)"
  using gdb_continue_some gdb_continue_run gdb_continue_ends by metis

lemma at_breakpoint_PC: "at_breakpoint bps c \<longleftrightarrow> ucast (PC (abs_hart (core c))) \<in> bps"
  by (simp add: at_breakpoint_def getPC_def abs_hart_def)

end
