(* ===== verification/Debug_Session.thy ===== *)
theory Debug_Session
  imports Debug_Correct
begin

text \<open>
  A session of the debugger: the loop over packets against the same messages handled one after
  the other without packets. The buffer that both directions share is the only thing in which
  the two may differ, because no message depends on it. Then what every session keeps of the
  state of the stub, whatever the client sends.
\<close>

section \<open>Operations that do not depend on the buffer\<close>

definition same_target :: "'a::len debug \<Rightarrow> 'a debug \<Rightarrow> bool" where
  "same_target d e \<longleftrightarrow> d\<lparr>iobuf := []\<rparr> = e\<lparr>iobuf := []\<rparr>"

abbreviation same_result ::
    "sim_error + 'b \<times> 'a::len debug \<Rightarrow> sim_error + 'b \<times> 'a debug \<Rightarrow> bool" where
  "same_result \<equiv> rel_sum (=) (rel_prod (=) same_target)"

definition blind :: "('a::len debug, 'b) exec \<Rightarrow> bool" where
  "blind m \<longleftrightarrow> (\<forall>d e. same_target d e \<longrightarrow> same_result (m d) (m e))"

named_theorems blind_intros "operations of the debugger that do not depend on its buffer"

lemma same_target_refl [simp]: "same_target d d"
  by (simp add: same_target_def)

lemma same_target_iff:
  "same_target d e \<longleftrightarrow> dbg_cpu d = dbg_cpu e \<and> pyld_array d = pyld_array e \<and>
     breakpoints d = breakpoints e \<and> sent d = sent e"
  by (cases d; cases e) (auto simp: same_target_def)

lemma blindD: "blind m \<Longrightarrow> same_target d e \<Longrightarrow> same_result (m d) (m e)"
  by (simp add: blind_def)

lemma blind_ret [blind_intros]: "blind (ret x)"
  and blind_fail [blind_intros]: "blind (fail err)"
  by (simp_all add: blind_def ret_def fail_def)

lemma blind_gets [blind_intros]: "(\<And>d b. f (d\<lparr>iobuf := b\<rparr>) = f d) \<Longrightarrow> blind (gets f)"
proof -
  assume f: "\<And>d b. f (d\<lparr>iobuf := b\<rparr>) = f d"
  have "f d = f e" if "same_target d e" for d e
    using that f [of "[]" d] f [of "[]" e] by (simp add: same_target_def)
  then show ?thesis by (simp add: blind_def gets_def)
qed

lemma blind_modify [blind_intros]:
  "(\<And>d e. same_target d e \<Longrightarrow> same_target (f d) (f e)) \<Longrightarrow> blind (modify f)"
  by (simp add: blind_def modify_def)

lemma blind_bnd [blind_intros]:
  assumes "blind m" "\<And>x. blind (f x)"
  shows "blind (bnd m f)"
proof -
  have "same_result (bnd m f d) (bnd m f e)" if "same_target d e" for d e
    using blindD [OF assms(1) that] blindD [OF assms(2)] by (cases rule: rel_sum.cases) (auto simp: bnd_run)
  then show ?thesis by (simp add: blind_def)
qed

lemma blind_if [blind_intros]: "blind m \<Longrightarrow> blind n \<Longrightarrow> blind (if c then m else n)"
  by simp

lemma blind_let [blind_intros]: "(\<And>y. blind (f y)) \<Longrightarrow> blind (let y = x in f y)"
  by (simp add: Let_def)

lemma blind_case_prod [blind_intros]: "(\<And>a b. blind (f a b)) \<Longrightarrow> blind (case_prod f p)"
  by (simp add: split: prod.splits)

lemma blind_past [blind_intros]: "blind (past n s)"
  by (auto simp: blind_def past_def ret_def fail_def)

lemma blind_on_cpu [blind_intros]: "blind (on_cpu m)"
  by (auto simp: blind_def same_target_iff on_cpu_def onto_run split: sum.splits)

lemma blind_on_hart [blind_intros]: "blind (on_hart m)"
  by (simp add: on_hart_def blind_on_cpu)

lemma blind_send [blind_intros]: "blind (send_packet msg)"
  by (auto simp: blind_def same_target_iff send_packet_def Let_def modify_def fail_def)

lemma blind_reply [blind_intros]: "blind (reply msg)"
  unfolding reply_def by (intro blind_intros)

section \<open>Messages\<close>

lemma blind_registers_text [blind_intros]: "blind (registers_text ns)"
  by (induction ns) (simp_all only: registers_text.simps blind_intros)

lemma blind_messages [blind_intros]:
  "blind gdb_g" "blind (gdb_p msg)" "blind (gdb_P msg)" "blind (gdb_m msg)" "blind gdb_s"
  "blind (gdb_breakpoint change confirm msg)"
  unfolding gdb_g_def gdb_p_def gdb_P_def gdb_m_def gdb_s_def gdb_breakpoint_def
  by (auto intro!: blind_intros simp: at_breakpoint_def same_target_iff)

lemma same_gdb_c:
  assumes "same_target d e"
  shows "rel_option same_result (gdb_c d) (gdb_c e)"
proof -
  have "same_target (d\<lparr>dbg_cpu := c\<rparr>) (e\<lparr>dbg_cpu := c\<rparr>)" for c
    using assms by (simp add: same_target_iff)
  moreover have "breakpoints d = breakpoints e" "dbg_cpu d = dbg_cpu e"
    using assms by (simp_all add: same_target_iff)
  ultimately show ?thesis
    by (simp add: gdb_c_def blindD [OF blind_reply] split: option.split sum.split prod.split)
qed

lemma same_message:
  assumes "same_target d e"
  shows "rel_option same_result (gdb_message msg d) (gdb_message msg e)"
proof -
  have s: "rel_option same_result (Some (m d)) (Some (m e))" if "blind m" for m :: "('a debug, bool) exec"
    using blindD [OF that assms] by simp
  have i: "rel_option same_result (if b then x else y) (if b then x' else y')"
    if "rel_option same_result x x'" "rel_option same_result y y'"
    for b and x x' y y' :: "(sim_error + bool \<times> 'a debug) option"
    using that by simp
  show ?thesis
    unfolding gdb_message_def by (intro i s same_gdb_c [OF assms] blind_intros)
qed

section \<open>Sessions\<close>

text \<open>The messages of a session in their order, without packets.\<close>

fun gdb_session :: "string list \<Rightarrow> 'a::len debug \<Rightarrow> (sim_error + unit \<times> 'a debug) option" where
  "gdb_session [] d = Some (Inr ((), d))"
| "gdb_session (msg # msgs) d =
     (case gdb_message msg d of
        None \<Rightarrow> None
      | Some (Inl e) \<Rightarrow> Some (Inl e)
      | Some (Inr (go_on, d)) \<Rightarrow> if go_on then gdb_session msgs d else Some (Inr ((), d)))"

lemma receive_frame_of:
  assumes "plain_text msg" "length msg \<le> 8000"
  shows "\<exists>b. receive_packet (Some (frame_of msg)) d = Inr (msg, d\<lparr>iobuf := b\<rparr>)"
  using receive_frame [of "''+''" msg "compute_checksum_string msg" d] assms
  by (auto simp: frame_of_def plain_text_def bufsize_def checksum_digits simp del: hex_field.simps)

definition packets :: "string list \<Rightarrow> string option list" where
  "packets msgs = map (\<lambda>msg. Some (frame_of msg)) msgs"

lemma packets_simps [simp]: "packets [] = []" "packets (msg # msgs) = Some (frame_of msg) # packets msgs"
  by (simp_all add: packets_def)

lemma session_packets:
  assumes "\<forall>msg \<in> set msgs. plain_text msg \<and> length msg \<le> 8000" "same_target d e"
  shows "rel_option same_result (handle_gdb_loop (packets msgs) d) (gdb_session msgs e)"
  using assms
proof (induction msgs arbitrary: d e)
  case (Cons msg msgs)
  obtain b where b: "receive_packet (Some (frame_of msg)) d = Inr (msg, d\<lparr>iobuf := b\<rparr>)"
    using receive_frame_of Cons.prems(1) by force
  have "same_target (d\<lparr>iobuf := b\<rparr>) e"
    using Cons.prems(2) by (simp add: same_target_iff)
  then have "rel_option same_result (gdb_message msg (d\<lparr>iobuf := b\<rparr>)) (gdb_message msg e)"
    by (rule same_message)
  then show ?case
    using Cons by (auto simp: b elim!: option.rel_cases rel_sum.cases)
qed simp

section \<open>Failed reads\<close>

text \<open>
  The buffer holds the last frame sent, so a failed read is answered as if the client had sent the
  stub's own answer back; before the first packet there is no frame to find.
\<close>

lemma read_own_answer:
  assumes "reply msg d = Inr (b, e)" "plain_text msg" "length msg \<le> 8000"
  shows "receive_packet None e = Inr (msg, e)" "receive_packet (Some (frame_of msg)) e = Inr (msg, e)"
proof -
  have e: "e = d\<lparr>sent := sent d @ [frame_of msg],
      iobuf := frame_of msg @ drop (length (frame_of msg)) (iobuf d)\<rparr>"
    using assms(1) send_run [OF assms(3), of d] by simp
  have f: "frame_of msg = ''+'' @ ''$'' @ msg @ ''#'' @ compute_checksum_string msg"
    by (simp add: frame_of_def)
  have l: "length (frame_of msg) \<le> bufsize" "length (frame_of msg) = length msg + 5"
    using assms(3) by (simp_all add: frame_of_def bufsize_def checksum_digits del: hex_field.simps)
  have "plain_text ''+''" by (simp add: plain_text_def)
  from receive_frame [OF this assms(2), of "compute_checksum_string msg" e] l(1)
  have r: "receive_packet (Some (frame_of msg)) e = Inr (msg, e\<lparr>iobuf := frame_of msg @ drop (length (frame_of msg)) (iobuf e)\<rparr>)"
    unfolding f by (simp add: frame_of_def)
  moreover have same: "e\<lparr>iobuf := frame_of msg @ drop (length (frame_of msg)) (iobuf e)\<rparr> = e"
    unfolding e by simp
  ultimately show s: "receive_packet (Some (frame_of msg)) e = Inr (msg, e)" by simp
  have "frame_of msg \<noteq> []" using l(2) by auto
  then have "receive_packet (Some (frame_of msg)) e = message_in_buffer e"
    using l same by (simp add: receive_packet_def Let_def bnd_run modify_def)
  then show "receive_packet None e = Inr (msg, e)" using s by (simp add: receive_packet_def)
qed

lemma failed_read:
  assumes "reply msg d = Inr (b, e)" "plain_text msg" "length msg \<le> 8000"
  shows "handle_gdb_loop (None # rs) e = handle_gdb_loop (Some (frame_of msg) # rs) e"
  using read_own_answer [OF assms] by simp

lemma failed_first_read: "handle_gdb_loop (None # rs) (Debug_init c) = Some (Inl String_overrun)"
  by (simp add: receive_packet_def message_in_buffer_def bnd_run gets_def Debug_init_def strchr_def fail_def
      bufsize_def)

lemma no_client: "accept_answer n = - 1 \<Longrightarrow> snd (Debug_new n c) = Some (Inl String_overrun)"
  unfolding Debug_new_def Debug_listen_def Let_def using failed_first_read [of "[]" c] by simp

section \<open>The state of the stub\<close>

text \<open>
  What every message keeps: the sizes of the two buffers, and register 0 of the processor. It is
  what the answers of the register and memory messages rely on.
\<close>

definition debug_ok :: "'a::len debug \<Rightarrow> bool" where
  "debug_ok d \<longleftrightarrow>
     length (iobuf d) = bufsize \<and> length (pyld_array d) = 128 \<and> hart_x0 (core (dbg_cpu d))"

lemma debug_ok_init: "hart_x0 (core c) \<Longrightarrow> debug_ok (Debug_init c)"
  by (simp add: debug_ok_def Debug_init_def)

lemma ok_on_cpu: "keeps (\<lambda>c. hart_x0 (core c)) m \<Longrightarrow> keeps debug_ok (on_cpu m)"
  unfolding on_cpu_def keeps_def onto_Inr_iff by (force simp: debug_ok_def)

lemma ok_on_hart: "keeps hart_x0 m \<Longrightarrow> keeps debug_ok (on_hart m)"
  unfolding on_hart_def by (intro ok_on_cpu x0.on_core)

lemma ok_send: "keeps debug_ok (send_packet msg)"
  by (rule keepsI)
    (auto simp: send_packet_def Let_def fail_def modify_def debug_ok_def split: if_splits)

lemma ok_reply: "keeps debug_ok (reply msg)"
  unfolding reply_def by (intro keeps_intros ok_send)

lemma ok_receive: "keeps debug_ok (receive_packet r)"
proof -
  have m: "keeps debug_ok message_in_buffer"
    unfolding message_in_buffer_def by (intro keeps_intros) (auto intro!: keeps_intros split: option.split)
  have "keeps debug_ok (modify (\<lambda>d. d\<lparr>iobuf := take bufsize s @ drop (length (take bufsize s)) (iobuf d)\<rparr>))" for s
    by (rule keepsI) (auto simp: modify_def debug_ok_def)
  then show ?thesis
    unfolding receive_packet_def Let_def
    by (cases r; simp only: option.case) (intro keeps_intros m)+
qed

lemma ok_past: "keeps debug_ok (past n s)"
  unfolding past_def by (intro keeps_intros)

lemma x0_rd_csr: "keeps hart_x0 (rd_csr n)"
  by (rule keepsI) (auto simp: rd_csr_def getCSR_def hart_x0_def x0_zero_def Let_def split: if_splits option.splits)

lemma ok_registers_text: "keeps debug_ok (registers_text ns)"
  by (induction ns) (simp_all only: registers_text.simps keeps_ret keeps_bnd ok_on_hart x0.rd_reg)

lemma transport_dbg_length:
  "transport_dbg tr m = Inr ((k, tr'), m') \<Longrightarrow> length (data tr') = length (data tr)"
  by (auto simp: transport_dbg_def copy_command_def copy_into_def Let_def bnd_Inr_iff ret_def fail_def
      gets_def modify_def split: if_splits)

lemma x0_on_plat: "keeps hart_x0 (on_plat m)"
  by (rule keepsI) (auto simp: on_plat_def onto_Inr_iff hart_x0_def)

lemma ok_read_memory:
  assumes "\<And>p. data (tr p) = p"
  shows "keeps debug_ok (bnd (gets pyld_array) (\<lambda>pyld.
    bnd (on_hart (on_plat (on_memory (transport_dbg (tr pyld))))) (\<lambda>(n, t).
    bnd (modify (\<lambda>d. d\<lparr>pyld_array := data t\<rparr>)) (\<lambda>_. reply (f t)))))"
proof (rule keepsI)
  fix d x e
  assume d: "debug_ok d" and m: "bnd (gets pyld_array) (\<lambda>pyld.
    bnd (on_hart (on_plat (on_memory (transport_dbg (tr pyld))))) (\<lambda>(n, t).
    bnd (modify (\<lambda>d. d\<lparr>pyld_array := data t\<rparr>)) (\<lambda>_. reply (f t)))) d = Inr (x, e)"
  from m obtain k t h where h: "on_hart (on_plat (on_memory (transport_dbg (tr (pyld_array d))))) d = Inr ((k, t), h)"
    and r: "reply (f t) (h\<lparr>pyld_array := data t\<rparr>) = Inr (x, e)"
    by (auto simp: bnd_Inr_iff gets_def modify_def)
  have "debug_ok h" using keepsD [OF ok_on_hart [OF x0_on_plat] d h] .
  moreover have "length (data t) = 128"
    using h d assms transport_dbg_length [of "tr (pyld_array d)"]
    by (auto simp: debug_ok_def on_hart_def on_cpu_def on_core_def on_plat_def on_memory_def onto_Inr_iff)
  ultimately show "debug_ok e"
    using keepsD [OF ok_reply _ r] by (simp add: debug_ok_def)
qed

lemma ok_gdb_m: "keeps debug_ok (gdb_m msg)"
  unfolding gdb_m_def Let_def case_prod_beta [of _ "strtol _"]
  by (intro keeps_intros ok_past ok_read_memory) simp

lemma ok_breakpoints: "keeps debug_ok (modify (\<lambda>d. d\<lparr>breakpoints := f (breakpoints d)\<rparr>))"
  by (rule keepsI) (auto simp: modify_def debug_ok_def)

lemma ok_messages:
  "keeps debug_ok gdb_g" "keeps debug_ok (gdb_p msg)" "keeps debug_ok (gdb_P msg)" "keeps debug_ok gdb_s"
  "keeps debug_ok (gdb_breakpoint change confirm msg)"
  unfolding gdb_g_def gdb_p_def gdb_P_def gdb_s_def gdb_breakpoint_def Let_def case_prod_beta
  by (intro keeps_intros ok_reply ok_registers_text ok_on_hart ok_on_cpu ok_past ok_breakpoints
      x0.rd_reg x0.wr_reg x0.get_pc x0_rd_csr x0.step)+

lemma step_x0: "CPU_step c = Inr (b, d) \<Longrightarrow> hart_x0 (core c) \<Longrightarrow> hart_x0 (core d)"
  using keepsD [OF x0.step, of c b d] by simp

lemma ok_gdb_c: "debug_ok d \<Longrightarrow> gdb_c d = Some (Inr (x, e)) \<Longrightarrow> debug_ok e"
proof -
  assume d: "debug_ok d" and "gdb_c d = Some (Inr (x, e))"
  then obtain c where c: "gdb_continue (breakpoints d) (dbg_cpu d) = Some (Inr ((), c))"
    and r: "reply ''S05'' (d\<lparr>dbg_cpu := c\<rparr>) = Inr (x, e)"
    by (auto simp: gdb_c_def split: option.splits sum.splits)
  have quiet: "hart_x0 (core b)" if "(gdb_quiet bps ^^ n) a b" "hart_x0 (core a)" for bps n and a b :: "'a cpu"
    using that
  proof (induction n arbitrary: b)
    case (Suc n)
    from Suc.prems(1) obtain d where "(gdb_quiet bps ^^ n) a d" "gdb_quiet bps d b" by (rule relpowp_Suc_E)
    then show ?case using Suc.IH Suc.prems(2) step_x0 unfolding gdb_quiet_def by blast
  qed simp
  obtain n b where "(gdb_quiet (breakpoints d) ^^ n) (dbg_cpu d) b" "gdb_ends (breakpoints d) b (Inr ((), c))"
    using gdb_continue_some [OF c] by blast
  then have "hart_x0 (core c)"
    using quiet d by (auto simp: gdb_ends_def debug_ok_def dest: step_x0)
  then show "debug_ok e" using keepsD [OF ok_reply _ r] d by (simp add: debug_ok_def)
qed

lemma ok_message:
  assumes "debug_ok d" "gdb_message msg d = Some (Inr (x, e))"
  shows "debug_ok e"
proof -
  let ?P = "\<lambda>r. r = Some (Inr (x, e)) \<longrightarrow> debug_ok e"
  have s: "?P (Some (m d))" if "keeps debug_ok m" for m using keepsD [OF that assms(1)] by auto
  have i: "?P (if c then p else q)" if "?P p" "?P q" for c p q using that by simp
  have c: "?P (gdb_c d)" using ok_gdb_c [OF assms(1)] by blast
  have "?P (gdb_message msg d)"
    unfolding gdb_message_def
    by (intro i s c keeps_ret keeps_bnd ok_reply ok_messages ok_gdb_m)
  then show ?thesis using assms(2) by blast
qed

lemma session_ok: "handle_gdb_loop chunks d = Some (Inr ((), e)) \<Longrightarrow> debug_ok d \<Longrightarrow> debug_ok e"
proof (induction chunks arbitrary: d)
  case (Cons chunk chunks)
  obtain msg d1 where r: "receive_packet chunk d = Inr (msg, d1)"
    using Cons.prems(1) by (auto split: sum.splits)
  obtain go_on d2 where m: "gdb_message msg d1 = Some (Inr (go_on, d2))"
    using Cons.prems(1) r by (auto split: option.splits sum.splits)
  have "debug_ok d2" using ok_message [OF keepsD [OF ok_receive Cons.prems(2) r] m] .
  then show ?case using Cons r m by (auto split: if_splits)
qed simp

end
