(* ===== verification/Debug_System.thy ===== *)
theory Debug_System
  imports Outcomes Debug_Correct
begin

text \<open>
  The continue message over the machine with privileged state and devices. Under the debugger
  only instructions are executed: no time passes and no interrupt is taken. The message answers
  in the state of the machine that ends its quiet steps, and while the machine can step it has no
  answer exactly when the quiet steps go on for ever.
\<close>

definition sys_quiet :: "32 word set \<Rightarrow> 'a::len sys \<Rightarrow> 'a sys \<Rightarrow> bool" where
  "sys_quiet bps p q \<longleftrightarrow> sys_insn_step False p q \<and> ucast (PC (prog q)) \<notin> bps"

lemma insn_forward:
  fixes c :: "'a::len cpu"
  assumes xlen: "LENGTH('a) = 32 \<or> LENGTH('a) = 64" and c: "cpu_rel c p" and p: "sys_insn_step b p q"
  shows "\<exists>c'. CPU_step c = Inr (b, c') \<and> cpu_rel c' q"
proof -
  obtain c' where c': "CPU_step c = Inr (b, c')" "abs_cpu c' = q"
    using step_sys [OF xlen, of c b q] c p by (auto simp: cpu_rel_def)
  moreover have "hart_x0 (core c')"
    using keepsD [OF x0.step _ c'(1)] c by (simp add: cpu_rel_def)
  ultimately show ?thesis by (simp add: cpu_rel_def)
qed

lemma insn_unique:
  fixes c :: "'a::len cpu"
  assumes "LENGTH('a) = 32 \<or> LENGTH('a) = 64" and "cpu_rel c p"
    and "sys_insn_step b p q" "sys_insn_step b' p q'"
  shows "b' = b \<and> q' = q"
  using insn_forward [OF assms(1,2,3)] insn_forward [OF assms(1,2,4)] by (auto simp: cpu_rel_def)

lemma breakpoint_rel: "cpu_rel c p \<Longrightarrow> at_breakpoint bps c \<longleftrightarrow> ucast (PC (prog p)) \<in> bps"
  by (auto simp: cpu_rel_def at_breakpoint_PC)

lemma sys_quiet_forward:
  fixes c :: "'a::len cpu"
  assumes "LENGTH('a) = 32 \<or> LENGTH('a) = 64" and "cpu_rel c p" and "sys_quiet bps p q"
  shows "\<exists>c'. gdb_quiet bps c c' \<and> cpu_rel c' q"
  using insn_forward [OF assms(1,2)] assms(3) breakpoint_rel
  unfolding sys_quiet_def gdb_quiet_def by blast

lemma gdb_simulation:
  assumes "LENGTH('a::len) = 32 \<or> LENGTH('a) = 64"
  shows "forward_simulation (sys_quiet bps) (gdb_quiet bps) (cpu_rel :: 'a cpu \<Rightarrow> 'a sys \<Rightarrow> bool)"
  by unfold_locales (rule sys_quiet_forward [OF assms])

interpretation gdbs32: forward_simulation "sys_quiet bps" "gdb_quiet bps" "cpu_rel :: 32 cpu \<Rightarrow> 32 sys \<Rightarrow> bool"
  by (rule gdb_simulation) simp

interpretation gdbs64: forward_simulation "sys_quiet bps" "gdb_quiet bps" "cpu_rel :: 64 cpu \<Rightarrow> 64 sys \<Rightarrow> bool"
  by (rule gdb_simulation) simp

text \<open>What the debugger sees of an answered continue message.\<close>

definition continues :: "'a::len debug \<Rightarrow> 'a sys \<Rightarrow> (sim_error + bool \<times> 'a debug) option \<Rightarrow> bool" where
  "continues d r out \<longleftrightarrow> (\<exists>d'. out = Some (Inr (True, d')) \<and> sent d' = sent d @ [frame_of ''S05''] \<and>
     breakpoints d' = breakpoints d \<and> cpu_rel (dbg_cpu d') r)"

lemma continue_sys:
  fixes d :: "'a::len debug"
  assumes xlen: "LENGTH('a) = 32 \<or> LENGTH('a) = 64" and p: "cpu_rel (dbg_cpu d) p"
    and run: "(sys_quiet (breakpoints d) ^^ n) p q"
    and last: "sys_insn_step b q r" "b \<or> ucast (PC (prog r)) \<in> breakpoints d"
  shows "continues d r (gdb_message ''c'' d)"
proof -
  obtain c where c: "(gdb_quiet (breakpoints d) ^^ n) (dbg_cpu d) c" "cpu_rel c q"
    using forward_simulation.runs [OF gdb_simulation [OF xlen] run p] by blast
  obtain c' where c': "CPU_step c = Inr (b, c')" "cpu_rel c' r"
    using insn_forward [OF xlen c(2) last(1)] by blast
  then have "gdb_ends (breakpoints d) c (Inr ((), c'))"
    using last(2) breakpoint_rel by (auto simp: gdb_ends_def)
  then have "gdb_continue (breakpoints d) (dbg_cpu d) = Some (Inr ((), c'))"
    using gdb_continue_run [OF c(1)] gdb_continue_ends by metis
  then show ?thesis using c'(2) by (simp add: continues_def gdb_message_def gdb_c_def send_run)
qed

text \<open>While the machine can step, every quiet run of the code is one of the machine.\<close>

lemma gdb_quiet_back:
  fixes c d :: "'a::len cpu"
  assumes xlen: "LENGTH('a) = 32 \<or> LENGTH('a) = 64" and p: "cpu_rel c p"
    and progress: "\<forall>n q. (sys_quiet bps ^^ n) p q \<longrightarrow> (\<exists>b r. sys_insn_step b q r)"
    and run: "(gdb_quiet bps ^^ n) c d"
  shows "\<exists>q. (sys_quiet bps ^^ n) p q \<and> cpu_rel d q"
  using run
proof (induction n arbitrary: d)
  case 0
  then show ?case using p by simp
next
  case (Suc n)
  obtain e where e: "(gdb_quiet bps ^^ n) c e" "gdb_quiet bps e d" using Suc.prems by auto
  obtain q where q: "(sys_quiet bps ^^ n) p q" "cpu_rel e q" using Suc.IH [OF e(1)] by blast
  obtain b r where r: "sys_insn_step b q r" using progress q(1) by blast
  obtain d' where d': "CPU_step e = Inr (b, d')" "cpu_rel d' r" using insn_forward [OF xlen q(2) r] by blast
  then have "\<not> b" "d' = d" "ucast (PC (prog r)) \<notin> bps"
    using e(2) breakpoint_rel [OF d'(2)] by (auto simp: gdb_quiet_def)
  then have "sys_quiet bps q r" using r by (simp add: sys_quiet_def)
  then show ?case using q(1) d'(2) \<open>d' = d\<close> by auto
qed

lemma continue_never:
  fixes d :: "'a::len debug"
  assumes xlen: "LENGTH('a) = 32 \<or> LENGTH('a) = 64" and p: "cpu_rel (dbg_cpu d) p"
    and progress: "\<forall>n q. (sys_quiet (breakpoints d) ^^ n) p q \<longrightarrow> (\<exists>b r. sys_insn_step b q r)"
  shows "gdb_message ''c'' d = None \<longleftrightarrow>
    (\<forall>n q b r. (sys_quiet (breakpoints d) ^^ n) p q \<longrightarrow> sys_insn_step b q r \<longrightarrow>
       \<not> b \<and> ucast (PC (prog r)) \<notin> breakpoints d)"
    (is "_ \<longleftrightarrow> ?quiet")
proof
  assume "gdb_message ''c'' d = None"
  then show ?quiet using continue_sys [OF xlen p] by (fastforce simp: continues_def)
next
  assume quiet: ?quiet
  show "gdb_message ''c'' d = None"
  proof (rule ccontr)
    assume "gdb_message ''c'' d \<noteq> None"
    then obtain x where "gdb_continue (breakpoints d) (dbg_cpu d) = Some x"
      by (auto simp: gdb_message_def gdb_c_def split: option.splits)
    then obtain n c where c: "(gdb_quiet (breakpoints d) ^^ n) (dbg_cpu d) c" "gdb_ends (breakpoints d) c x"
      using gdb_continue_some by blast
    obtain q where q: "(sys_quiet (breakpoints d) ^^ n) p q" "cpu_rel c q"
      using gdb_quiet_back [OF xlen p progress c(1)] by blast
    obtain b r where r: "sys_insn_step b q r" using progress q(1) by blast
    obtain c' where c': "CPU_step c = Inr (b, c')" "cpu_rel c' r" using insn_forward [OF xlen q(2) r] by blast
    have "\<not> b" "ucast (PC (prog r)) \<notin> breakpoints d" using quiet q(1) r by blast+
    then show False using c(2) c' breakpoint_rel [OF c'(2)] by (auto simp: gdb_ends_def)
  qed
qed

section \<open>A program that never answers\<close>

text \<open>
  The program that is one \<open>EBREAK\<close> at the address of its own trap handler, under the debugger
  and without a breakpoint: every step is the same trap.
\<close>

definition break_loop :: "64 sys \<Rightarrow> bool" where
  "break_loop p \<longleftrightarrow> PC (prog p) = 0 \<and> csrs p CSR_MTVEC = 0 \<and> RAM (prog p) = mem break_memory"

lemma break_loop_start: "break_loop break_start"
  by (simp add: break_loop_def break_start_def boot_sys_def boot_arch_def break_memory_def Memory_init_def
      mem_update_def)

lemma break_loop_step:
  assumes "break_loop p"
  shows "sys_insn_step False p (trap BREAK 0x00100073 p) \<and> break_loop (trap BREAK 0x00100073 p)"
proof -
  have "ram_bytes 0 4 (prog p) = mem_bytes 0 4 break_memory"
    using assms by (simp add: break_loop_def ram_bytes_def mem_bytes_def)
  then have "ram_bytes 0 4 (prog p) = le_bytes 4 (enc_sys S_EBREAK)"
    by (simp add: break_memory_def del: enc_sys.simps le_bytes.simps)
  then have "sys_insn_step (breaks S_EBREAK) p (trap BREAK 0x00100073 p)"
    using assms
    by (intro sys_privileged [where i = S_EBREAK]) (simp_all add: break_loop_def RAM_SIZE_def del: enc_sys.simps)
  moreover have "break_loop (trap BREAK 0x00100073 p)"
    using assms by (simp add: break_loop_def trap_def Let_def go_def)
  ultimately show ?thesis by simp
qed

lemma break_loop_forever:
  assumes c: "cpu_rel c break_start" and run: "(sys_quiet {} ^^ n) break_start q"
  shows "break_loop q \<and> (\<exists>e. cpu_rel e q)"
  using run
proof (induction n arbitrary: q)
  case 0
  then show ?case using c break_loop_start by auto
next
  case (Suc n)
  obtain p where p: "(sys_quiet {} ^^ n) break_start p" and "sys_quiet {} p q"
    using Suc.prems by (rule relpowp_Suc_E)
  then have s: "sys_insn_step False p q" by (simp add: sys_quiet_def)
  obtain e where e: "break_loop p" "cpu_rel e p" using Suc.IH [OF p] by blast
  then have "q = trap BREAK 0x00100073 p"
    using insn_unique [OF _ e(2) s] break_loop_step [OF e(1)] by auto
  then show ?case using break_loop_step [OF e(1)] insn_forward [OF _ e(2) s] by auto
qed

lemma break_loop_quiet:
  assumes c: "cpu_rel c break_start" and run: "(sys_quiet {} ^^ n) break_start q"
  shows "(\<exists>b r. sys_insn_step b q r) \<and> (\<forall>b r. sys_insn_step b q r \<longrightarrow> \<not> b)"
proof -
  obtain e where e: "break_loop q" "cpu_rel e q" using break_loop_forever [OF assms] by blast
  note step = break_loop_step [OF e(1), THEN conjunct1]
  have "\<not> b" if "sys_insn_step b q r" for b r using insn_unique [OF _ e(2) step that] by simp
  then show ?thesis using step by blast
qed

end
