(* ===== verification/Xterm.thy ===== *)
theory Xterm
  imports BusCtrl Report
begin

text \<open>
  The terminal behind the trace peripheral (inc/Trace.h, src/Trace.cpp): a pseudo terminal whose
  other end is shown by an xterm in a process of its own. What the operating system answers is a
  parameter (\<open>host\<close>); the calls the module makes are recorded in order. The process is split
  in two by \<open>fork\<close>: the child is the same code with answer 0. The trace of \<open>BusCtrl\<close>,
  a list of bytes, is what the module writes, whatever the descriptor.
\<close>

section \<open>State\<close>

datatype os_call =
    Open_call "string option" int
  | Grantpt_call int
  | Unlockpt_call int
  | Tcsetattr_call int "32 word"
  | Fork_call int
  | Execvp_call "string list"
  | Write_call int byte
  | Close_call int
  | Kill_call int
  | Waitpid_call int

text \<open>\<open>local_modes\<close> is the answer of \<open>tcgetattr\<close>, if it has one.\<close>

record host =
  ptmx_answer :: int
  slave_name :: "string option"
  slave_answer :: int
  local_modes :: "32 word option"
  fork_answer :: int
  execvp_fails :: bool

record pty =
  ptSlave :: int
  ptMaster :: int
  xtermPid :: int
  calls :: "os_call list"

definition os :: "os_call \<Rightarrow> pty \<Rightarrow> pty" where
  "os k p = p\<lparr>calls := calls p @ [k]\<rparr>"

text \<open>How a child ends: replaced by the terminal, or by an access outside a string.\<close>

datatype child_end =
    Became "string list"
  | Outside_string

section \<open>The child\<close>

definition int_dec :: "int \<Rightarrow> string" where
  "int_dec k = (if k < 0 then CHR ''-'' # to_dec (nat (- k)) else to_dec (nat k))"

definition basename :: "string \<Rightarrow> string" where
  "basename s = rev (takeWhile (\<lambda>c. c \<noteq> CHR ''/'') (rev s))"

definition last_two :: "string \<Rightarrow> string" where
  "last_two s = drop (length s - 2) s"

text \<open>The argument, and the size of the array it is printed to.\<close>

definition xterm_arg :: "string \<Rightarrow> int \<Rightarrow> string \<times> nat" where
  "xterm_arg s fd =
     (if CHR ''/'' \<notin> set (last_two s) then (''-S'' @ last_two s @ int_dec fd, 2 + 1 + 1 + 20 + 1)
      else (''-S'' @ basename s @ ''/'' @ int_dec fd, 2 + length (basename s) + 1 + 20 + 1))"

definition xtermLaunch :: "host \<Rightarrow> string option \<Rightarrow> pty \<Rightarrow> child_end + pty" where
  "xtermLaunch h slaveName p =
     (case slaveName of
        None \<Rightarrow> Inl Outside_string
      | Some s \<Rightarrow>
          (let (arg, size) = xterm_arg s (ptMaster p); argv = [''xterm'', arg] in
           if length s < 2 \<or> size < length arg + 1 then Inl Outside_string
           else if execvp_fails h then Inr (os (Execvp_call argv) p)
           else Inl (Became argv)))"

section \<open>The module\<close>

abbreviation (input) ECHO :: "32 word" where "ECHO \<equiv> 0x8"
abbreviation (input) ICANON :: "32 word" where "ICANON \<equiv> 0x2"

definition xtermKill :: "pty \<Rightarrow> pty" where
  "xtermKill p =
     (let p = if ptSlave p \<noteq> - 1 then os (Close_call (ptSlave p)) p\<lparr>ptSlave := - 1\<rparr> else p;
          p = if ptMaster p \<noteq> - 1 then os (Close_call (ptMaster p)) p\<lparr>ptMaster := - 1\<rparr> else p in
      if 0 < xtermPid p then os (Waitpid_call (xtermPid p)) (os (Kill_call (xtermPid p)) p) else p)"

definition xtermSetup :: "host \<Rightarrow> pty \<Rightarrow> child_end + pty" where
  "xtermSetup h p =
     (let p = os (Open_call (Some ''/dev/ptmx'') (ptmx_answer h)) p\<lparr>ptMaster := ptmx_answer h\<rparr> in
      if ptMaster p \<noteq> - 1 then
        let p = os (Unlockpt_call (ptMaster p)) (os (Grantpt_call (ptMaster p)) p);
            p = os (Open_call (slave_name h) (slave_answer h)) p\<lparr>ptSlave := slave_answer h\<rparr>;
            c_lflag = case local_modes h of None \<Rightarrow> 0 | Some w \<Rightarrow> w;
            c_lflag = c_lflag AND NOT ECHO;
            c_lflag = c_lflag AND NOT ICANON;
            p = os (Tcsetattr_call (ptSlave p) c_lflag) p;
            p = os (Fork_call (fork_answer h)) p\<lparr>xtermPid := fork_answer h\<rparr>
        in if xtermPid p = 0 then xtermLaunch h (slave_name h) p else Inr p
      else Inr p)"

definition Trace_fresh :: pty where
  "Trace_fresh = \<lparr>ptSlave = 0, ptMaster = 0, xtermPid = 0, calls = []\<rparr>"

definition Trace_new :: "host \<Rightarrow> child_end + pty" where
  "Trace_new h = xtermSetup h Trace_fresh"

definition Trace_transport :: "payload \<Rightarrow> (pty, payload) exec" where
  "Trace_transport tr = (\<lambda>p.
     case data tr of
       [] \<Rightarrow> Inl (Array_overrun (address tr) 1)
     | b # _ \<Rightarrow> Inr (tr\<lparr>response_status := TLM_OK_RESPONSE\<rparr>, os (Write_call (ptSlave p) b) p))"

interpretation pty_target: tlm_target Trace_transport
  by unfold_locales (auto simp: Trace_transport_def split: list.splits)

primrec Trace_serve :: "payload list \<Rightarrow> (pty, unit) exec" where
  "Trace_serve [] = ret ()"
| "Trace_serve (tr # trs) = bnd (Trace_transport tr) (\<lambda>_. Trace_serve trs)"

section \<open>What the calls amount to\<close>

definition opened :: "os_call list \<Rightarrow> int list" where
  "opened ks = concat (map (\<lambda>k. case k of Open_call _ fd \<Rightarrow> if fd = - 1 then [] else [fd] | _ \<Rightarrow> []) ks)"

definition closed :: "os_call list \<Rightarrow> int list" where
  "closed ks = concat (map (\<lambda>k. case k of Close_call fd \<Rightarrow> [fd] | _ \<Rightarrow> []) ks)"

definition killed :: "os_call list \<Rightarrow> int list" where
  "killed ks = concat (map (\<lambda>k. case k of Kill_call pid \<Rightarrow> [pid] | _ \<Rightarrow> []) ks)"

definition writes :: "os_call list \<Rightarrow> (int \<times> byte) list" where
  "writes ks = concat (map (\<lambda>k. case k of Write_call fd b \<Rightarrow> [(fd, b)] | _ \<Rightarrow> []) ks)"

lemmas calls_defs = opened_def closed_def killed_def writes_def

lemma calls_Nil [simp]: "opened [] = []" "closed [] = []" "killed [] = []" "writes [] = []"
  by (simp_all add: calls_defs)

lemma calls_Cons [simp]:
  "opened (k # ks) = (case k of Open_call _ fd \<Rightarrow> if fd = - 1 then [] else [fd] | _ \<Rightarrow> []) @ opened ks"
  "closed (k # ks) = (case k of Close_call fd \<Rightarrow> [fd] | _ \<Rightarrow> []) @ closed ks"
  "killed (k # ks) = (case k of Kill_call pid \<Rightarrow> [pid] | _ \<Rightarrow> []) @ killed ks"
  "writes (k # ks) = (case k of Write_call fd b \<Rightarrow> [(fd, b)] | _ \<Rightarrow> []) @ writes ks"
  by (simp_all add: calls_defs)

lemma calls_append [simp]:
  "opened (xs @ ys) = opened xs @ opened ys" "closed (xs @ ys) = closed xs @ closed ys"
  "killed (xs @ ys) = killed xs @ killed ys" "writes (xs @ ys) = writes xs @ writes ys"
  by (simp_all add: calls_defs)

lemma calls_os [simp]: "calls (os k p) = calls p @ [k]"
  "ptSlave (os k p) = ptSlave p" "ptMaster (os k p) = ptMaster p" "xtermPid (os k p) = xtermPid p"
  by (simp_all add: os_def)

text \<open>The module refines the trace of the platform.\<close>

definition abs_trace :: "pty \<Rightarrow> trace" where
  "abs_trace p = \<lparr>terminal = map snd (writes (calls p))\<rparr>"

lemma transport_refines:
  "Trace_b_transport tr (abs_trace p) = map_sum id (map_prod id abs_trace) (Trace_transport tr p)"
  by (auto simp: Trace_b_transport_def Trace_transport_def abs_trace_def split: list.split)

lemma serve_calls:
  assumes "\<forall>tr \<in> set trs. data tr \<noteq> []"
  shows "Trace_serve trs p =
    Inr ((), p\<lparr>calls := calls p @ map (\<lambda>tr. Write_call (ptSlave p) (hd (data tr))) trs\<rparr>)"
  using assms
proof (induction trs arbitrary: p)
  case (Cons tr trs)
  then obtain b bs where "data tr = b # bs" by (cases "data tr") auto
  then show ?case using Cons by (simp add: bnd_run Trace_transport_def os_def)
qed (simp add: ret_def)

lemma served_calls [simp]:
  "opened (map (\<lambda>tr. Write_call fd (f tr)) trs) = []"
  "closed (map (\<lambda>tr. Write_call fd (f tr)) trs) = []"
  "killed (map (\<lambda>tr. Write_call fd (f tr)) trs) = []"
  "writes (map (\<lambda>tr. Write_call fd (f tr)) trs) = map (\<lambda>tr. (fd, f tr)) trs"
  by (induction trs) simp_all

section \<open>The argument of the terminal\<close>

lemma length_to_dec: "n < 10 ^ k \<Longrightarrow> 0 < k \<Longrightarrow> length (to_dec n) \<le> k"
proof (induction n arbitrary: k rule: to_dec.induct)
  case (1 n)
  show ?case
  proof (cases "n < 10")
    case True
    then show ?thesis using 1 by (simp add: to_dec.simps [of n])
  next
    case False
    then obtain j where j: "k = Suc j" "0 < j" using 1 by (cases k; cases "k - 1") auto
    have "n div 10 < 10 ^ j" using 1 j by (simp add: less_mult_imp_div_less mult.commute)
    with 1(1) [OF False this j(2)] show ?thesis using False j by (simp add: to_dec.simps [of n])
  qed
qed

lemma length_int_dec:
  assumes "- (2 ^ 31) \<le> k" "k < 2 ^ 31"
  shows "length (int_dec k) \<le> 11"
proof -
  have "length (to_dec (nat \<bar>k\<bar>)) \<le> 10" by (rule length_to_dec) (use assms in auto)
  then show ?thesis by (simp add: int_dec_def abs_if split: if_splits)
qed

lemma xterm_arg_fits:
  assumes "- (2 ^ 31) \<le> fd" "fd < 2 ^ 31"
  shows "length (fst (xterm_arg s fd)) + 1 \<le> snd (xterm_arg s fd)"
  using length_int_dec [OF assms] by (auto simp: xterm_arg_def last_two_def)

text \<open>The child of a host with a name for the terminal: it never touches what is outside a string.\<close>

lemma child_new:
  assumes "fork_answer h = 0" and "ptmx_answer h \<noteq> - 1" "- (2 ^ 31) \<le> ptmx_answer h" "ptmx_answer h < 2 ^ 31"
    and "slave_name h = Some s" "2 \<le> length s"
  shows "Trace_new h =
    (let argv = [''xterm'', fst (xterm_arg s (ptmx_answer h))];
         ks = [Open_call (Some ''/dev/ptmx'') (ptmx_answer h), Grantpt_call (ptmx_answer h),
           Unlockpt_call (ptmx_answer h), Open_call (Some s) (slave_answer h),
           Tcsetattr_call (slave_answer h) ((case local_modes h of None \<Rightarrow> 0 | Some w \<Rightarrow> w) AND NOT 0xA),
           Fork_call 0] in
     if execvp_fails h
     then Inr \<lparr>ptSlave = slave_answer h, ptMaster = ptmx_answer h, xtermPid = 0, calls = ks @ [Execvp_call argv]\<rparr>
     else Inl (Became argv))"
proof -
  have m: "(w AND - 9) AND - 3 = w AND - 11" for w :: "32 word"
    by (simp add: and.assoc)
  show ?thesis
    using assms xterm_arg_fits [OF assms(3,4), of s]
    by (simp add: Trace_new_def xtermSetup_def xtermLaunch_def Let_def Trace_fresh_def os_def m split_beta)
qed

text \<open>The life of the module in the parent.\<close>

definition Trace_life :: "host \<Rightarrow> payload list \<Rightarrow> pty option" where
  "Trace_life h trs =
     (case Trace_new h of
        Inl _ \<Rightarrow> None
      | Inr p \<Rightarrow> (case Trace_serve trs p of Inl _ \<Rightarrow> None | Inr (_, p) \<Rightarrow> Some (xtermKill p)))"

lemma life_calls:
  assumes "fork_answer h \<noteq> 0" and "\<forall>tr \<in> set trs. data tr \<noteq> []"
  shows "\<exists>p. Trace_life h trs = Some p \<and>
    map snd (writes (calls p)) = map (\<lambda>tr. hd (data tr)) trs \<and>
    (if ptmx_answer h \<noteq> - 1 then
       closed (calls p) = rev (opened (calls p)) \<and>
       killed (calls p) = (if 0 < fork_answer h then [fork_answer h] else []) \<and>
       (\<forall>fd \<in> fst ` set (writes (calls p)). fd = slave_answer h)
     else
       opened (calls p) = [] \<and> closed (calls p) = [0] \<and> killed (calls p) = [] \<and>
       (\<forall>fd \<in> fst ` set (writes (calls p)). fd = 0))"
proof (cases "ptmx_answer h = - 1")
  case True
  then show ?thesis
    by (simp add: Trace_life_def Trace_new_def xtermSetup_def Let_def Trace_fresh_def serve_calls [OF assms(2)]
        xtermKill_def comp_def)
next
  case False
  then show ?thesis
    using assms(1)
    by (simp add: Trace_life_def Trace_new_def xtermSetup_def Let_def Trace_fresh_def serve_calls [OF assms(2)]
        xtermKill_def comp_def)
qed

text \<open>
  The argument names a terminal of one digit in full, and only the last two digits of any other.
\<close>

lemma pts_arg:
  assumes "n \<noteq> []" "CHR ''/'' \<notin> set n"
  shows "fst (xterm_arg (''/dev/pts/'' @ n) fd) =
    (if length n = 1 then ''-S'' @ n @ ''/'' @ int_dec fd else ''-S'' @ last_two n @ int_dec fd)"
proof -
  have b: "basename (''/dev/pts/'' @ n) = n"
    using assms(2) by (subst basename_def, simp only: rev_append, subst takeWhile_append2) auto
  show ?thesis
  proof (cases "length n = 1")
    case True
    then obtain c where "n = [c]" by (auto simp: length_Suc_conv)
    with b show ?thesis by (simp add: xterm_arg_def last_two_def)
  next
    case False
    then obtain k where k: "length n = Suc (Suc k)" using assms(1) by (cases n; cases "tl n") auto
    then have "last_two (''/dev/pts/'' @ n) = last_two n" by (simp add: last_two_def)
    moreover have "CHR ''/'' \<notin> set (last_two n)" using assms(2) by (auto simp: last_two_def dest: in_set_dropD)
    ultimately show ?thesis using False by (simp add: xterm_arg_def)
  qed
qed

lemma child_life:
  assumes h: "fork_answer h = 0" "ptmx_answer h \<noteq> - 1" "- (2 ^ 31) \<le> ptmx_answer h" "ptmx_answer h < 2 ^ 31"
    and n: "slave_name h = Some (''/dev/pts/'' @ n)" "n \<noteq> []" "CHR ''/'' \<notin> set n"
    and trs: "\<forall>tr \<in> set trs. data tr \<noteq> []"
  shows "if execvp_fails h
    then \<exists>p. Trace_life h trs = Some p \<and>
      writes (calls p) = map (\<lambda>tr. (slave_answer h, hd (data tr))) trs \<and> killed (calls p) = []
    else Trace_new h = Inl (Became [''xterm'',
      if length n = 1 then ''-S'' @ n @ ''/'' @ int_dec (ptmx_answer h)
      else ''-S'' @ last_two n @ int_dec (ptmx_answer h)])"
  using child_new [OF h n(1)]
  by (simp add: pts_arg [OF n(2,3)] Trace_life_def Let_def serve_calls [OF trs] xtermKill_def comp_def
      del: append_Cons)

end
