(* ===== verification/Host_Properties.thy ===== *)
theory Host_Properties
  imports HexFile Debug_Session Debug_System Xterm
begin

text \<open>
  The properties of the parts that talk to the host: the loader of program files, the debugger
  stub and the terminal.
\<close>

section \<open>Program files\<close>

text \<open>
  C21. A file of Intel HEX records, with whatever stands for the checksums, is loaded into the
  memory and the start address the records mean; direct access is granted unless the file ends
  with a linear base other than 0.
\<close>

theorem hex_file_loaded:
  assumes "\<forall>(r, ck) \<in> set rs. CHR 0x0A \<notin> set ck"
    and "hex_load (map fst rs) (Lin_base 0, m) = Some (b, m')"
  shows "readHexFile (Some (hex_file rs)) m =
    Inr ((), m'\<lparr>dmi_allowed := (\<forall>w. b = Lin_base w \<longrightarrow> w = 0)\<rparr>)"
  using assms by (rule readHexFile_records)

theorem hex_file_loaded_witness:
  "readHexFile (Some (hex_file [(Segment 0x10, ''EC''), (Data 4 [0x93, 0x00, 0x50], ''17''),
      (Start_linear 0x104, ''F2''), (End_of_file, ''FF'')])) Memory_init =
   Inr ((), (mem_update 0x104 [0x93, 0x00, 0x50] Memory_init)\<lparr>program_counter := 0x104, dmi_allowed := True\<rparr>)"
  using hex_file_loaded [of "[(Segment 0x10, ''EC''), (Data 4 [0x93, 0x00, 0x50], ''17''),
      (Start_linear 0x104, ''F2''), (End_of_file, ''FF'')]" Memory_init "Seg_base 0x10"]
  by (simp add: SIZE_def)

text \<open>
  C33. A file whose last line is a data record cut off in its data, after any records the format
  gives a meaning and with the bytes it still has inside the memory. When at least one announced byte
  is missing as a whole the loader ends with an exception: \<open>Invalid_argument\<close> after whole bytes,
  \<open>Out_of_range\<close> after half a byte. When every announced byte has at least one digit the record is
  read without an exception, though its checksum is missing, and a last byte of one digit is read as
  that digit.
\<close>

theorem cut_record:
  assumes "\<forall>(r, ck) \<in> set rs. CHR 0x0A \<notin> set ck"
    and "hex_load (map fst rs) (Lin_base 0, m) = Some (b, m')"
    and "n < 256" and "length bs + length h \<le> n" and "length h \<le> 1" and "\<forall>k \<in> set h. k < 16"
    and "base_addr b + unat a + length bs + length h \<le> SIZE"
  shows "readHexFile (Some (hex_file rs @ cut_line n a bs h)) m =
    (if length bs + length h < n then Inl (if h = [] then Invalid_argument else Out_of_range)
     else Inr ((), (mem_update (base_addr b + unat a) (bs @ map of_nat h) m')
       \<lparr>dmi_allowed := (\<forall>w. b = Lin_base w \<longrightarrow> w = 0)\<rparr>))"
  using assms by (rule readHexFile_cut)

theorem cut_record_witness:
  "readHexFile (Some (hex_file [(Segment 0x10, ''EC'')] @ cut_line 2 4 [0x93] [])) Memory_init =
     Inl Invalid_argument \<and>
   readHexFile (Some (hex_file [(Segment 0x10, ''EC'')] @ cut_line 2 4 [0x93] [9])) Memory_init =
     Inr ((), (mem_update 0x104 [0x93, 0x09] Memory_init)\<lparr>dmi_allowed := True\<rparr>)"
  using cut_record [of "[(Segment 0x10, ''EC'')]" Memory_init "Seg_base 0x10" Memory_init 2 "[0x93]" "[]" 4]
    cut_record [of "[(Segment 0x10, ''EC'')]" Memory_init "Seg_base 0x10" Memory_init 2 "[0x93]" "[9]" 4]
  by (simp add: SIZE_def)

section \<open>Debugger\<close>

text \<open>
  C26. The debugger's loop, fed the packets of messages, does what handling the messages one after
  the other does: the same answers, breakpoints and processor, the same error or none at all. Only
  the shared buffer differs.
\<close>

theorem debugger_session:
  assumes "\<forall>msg \<in> set msgs. plain_text msg \<and> length msg \<le> 8000"
  shows "rel_option (rel_sum (=) (rel_prod (=) same_target))
    (handle_gdb_loop (packets msgs) d) (gdb_session msgs d)"
  using assms by (rule session_packets) simp

theorem debugger_session_witness:
  "\<exists>e. handle_gdb_loop (packets [''?'', ''Z0,8'', ''vKill'']) (Debug_init demo_32) = Some (Inr ((), e)) \<and>
     breakpoints e = {8} \<and> sent e = [frame_of ''S05'', frame_of ''OK'', frame_of ''OK'']"
proof -
  have "strtol ''8'' = (8, [])"
    using strtol_field [of 1 "[]" 8] by (simp add: nibble_to_hex_def)
  then have "\<exists>e. gdb_session [''?'', ''Z0,8'', ''vKill''] (Debug_init demo_32) = Some (Inr ((), e)) \<and>
     breakpoints e = {8} \<and> sent e = [frame_of ''S05'', frame_of ''OK'', frame_of ''OK'']"
    by (simp add: gdb_message_def gdb_breakpoint_def past_def bnd_run send_run Debug_init_def)
  then show ?thesis
    using debugger_session [of "[''?'', ''Z0,8'', ''vKill'']" "Debug_init demo_32"]
    by (auto simp: plain_text_def same_target_iff elim!: option.rel_cases rel_sum.cases)
qed

text \<open>
  C27. Whatever a client sends, the debugger's loop keeps the sizes of its buffers and register 0,
  which the answers to register and memory messages rely on.
\<close>

theorem debugger_state:
  fixes d e :: "'a::len debug"
  assumes "handle_gdb_loop chunks d = Some (Inr ((), e))"
    and "length (iobuf d) = bufsize" and "length (pyld_array d) = 128" and "hart_x0 (core (dbg_cpu d))"
  shows "length (iobuf e) = bufsize \<and> length (pyld_array e) = 128 \<and> hart_x0 (core (dbg_cpu e))"
  using session_ok [OF assms(1)] assms(2-4) by (simp add: debug_ok_def)

theorem debugger_state_witness:
  "\<exists>e. handle_gdb_loop [Some (frame_of ''vKill'')] (Debug_init demo_64) = Some (Inr ((), e)) \<and>
     length (iobuf e) = bufsize \<and> length (pyld_array e) = 128 \<and> hart_x0 (core (dbg_cpu e))"
proof -
  obtain b where "receive_packet (Some (frame_of ''vKill'')) (Debug_init demo_64) =
      Inr (''vKill'', Debug_init demo_64\<lparr>iobuf := b\<rparr>)"
    using receive_frame_of [of "''vKill''" "Debug_init demo_64"] by (auto simp: plain_text_def)
  then have "\<exists>e. handle_gdb_loop [Some (frame_of ''vKill'')] (Debug_init demo_64) = Some (Inr ((), e))"
    by (simp add: gdb_message_def bnd_run send_run ret_def)
  then show ?thesis
    using debugger_state [of "[Some (frame_of ''vKill'')]" "Debug_init demo_64"] demo_x0(2) by (auto simp: Debug_init_def)
qed

text \<open>
  C28. Reading a register answers with its low four bytes in the order the target has them, after
  eight zeroes on the 64-bit processor, and leaves the program's state alone.
\<close>

theorem debugger_reads_register:
  fixes d :: "'a::len debug"
  assumes "LENGTH('a) = 32 \<or> LENGTH('a) = 64" and "hart_x0 (core (dbg_cpu d))"
  shows "answers (replicate (if LENGTH('a) = 32 then 0 else 8) (CHR ''0'') @
      concat (map (\<lambda>b. hex_field 2 (unat b)) (le_bytes 4 (rX (abs_hart (core (dbg_cpu d))) r)))) id d
     (gdb_message (''p'' @ hex_field 2 (unat r)) d)"
  using assms by (rule gdb_read_register)

theorem debugger_reads_register_witness:
  "answers (concat (map (\<lambda>b. hex_field 2 (unat b)) (le_bytes 4 (rX (abs_hart (core demo_32)) 2)))) id
     (Debug_init demo_32) (gdb_message (''p'' @ hex_field 2 2) (Debug_init demo_32)) \<and>
   answers (replicate 8 (CHR ''0'') @ concat (map (\<lambda>b. hex_field 2 (unat b)) (le_bytes 4 (rX (abs_hart (core demo_64)) 2)))) id
     (Debug_init demo_64) (gdb_message (''p'' @ hex_field 2 2) (Debug_init demo_64))"
  using debugger_reads_register [of "Debug_init demo_32" 2] debugger_reads_register [of "Debug_init demo_64" 2]
    demo_x0
  by (simp add: Debug_init_def del: hex_field.simps le_bytes.simps)

text \<open>
  C40. Writing register \<open>r\<close> changes register \<open>r + 1\<close>: the write is off by one against the read.
\<close>

theorem debugger_writes_next_register:
  fixes d :: "'a::len debug"
  assumes "LENGTH('a) = 32" and "unat r + 1 < 32"
  shows "answers ''OK'' (wX (r + 1) (ucast v)) d
     (gdb_message (''P'' @ hex_field 2 (unat r) @ ''='' @ hex_field 8 (unat (v :: 32 word))) d)"
  using assms by (rule gdb_write_register)

theorem debugger_writes_next_register_witness:
  "answers ''OK'' (wX 6 7) (Debug_init demo_32)
     (gdb_message (''P'' @ hex_field 2 5 @ ''='' @ hex_field 8 7) (Debug_init demo_32))"
  using debugger_writes_next_register [of 5 7 "Debug_init demo_32"] by simp

text \<open>
  C29. Reading at most 128 bytes of memory answers with them, followed by what is left in the
  rest of the 128-byte buffer, whatever length was asked for.
\<close>

theorem debugger_reads_memory:
  fixes d :: "'a::len debug" and a :: "32 word"
  assumes "n \<le> 128" and "unat a < SIZE" and "unat a + n \<le> SIZE" and "length (pyld_array d) = 128"
  shows "answers (concat (map (\<lambda>b. hex_field 2 (unat b))
       (ram_bytes (unat a) n (abs_hart (core (dbg_cpu d))) @ drop n (pyld_array d)))) id d
     (gdb_message (''m'' @ hex_field 8 (unat a) @ '','' @ hex_field 2 n) d)"
  using assms by (rule gdb_read_memory)

theorem debugger_reads_memory_witness:
  "answers (concat (map (\<lambda>b. hex_field 2 (unat b))
       (ram_bytes 4 8 (abs_hart (core demo_64)) @ replicate 120 0))) id (Debug_init demo_64)
     (gdb_message (''m'' @ hex_field 8 4 @ '','' @ hex_field 2 8) (Debug_init demo_64))"
  using debugger_reads_memory [of 8 4 "Debug_init demo_64"] by (simp add: Debug_init_def SIZE_def del: hex_field.simps)

text \<open>
  C23. When the continue message has no answer. Let the machine with privileged state and devices be
  able to take an instruction step after every run of quiet steps from the state of the processor:
  steps that report nothing and do not arrive at a breakpoint. Then the loop goes on for ever
  exactly when no step after such a run reports a breakpoint or arrives at one. An \<open>EBREAK\<close>
  reports nothing, so a program that only runs into it never answers (the witness).
\<close>

theorem continue_loop:
  fixes d :: "'a::len debug"
  assumes "LENGTH('a) = 32 \<or> LENGTH('a) = 64" and "cpu_rel (dbg_cpu d) p"
    and "\<forall>n q. (sys_quiet (breakpoints d) ^^ n) p q \<longrightarrow> (\<exists>b r. sys_insn_step b q r)"
  shows "gdb_message ''c'' d = None \<longleftrightarrow>
    (\<forall>n q b r. (sys_quiet (breakpoints d) ^^ n) p q \<longrightarrow> sys_insn_step b q r \<longrightarrow>
       \<not> b \<and> ucast (PC (prog r)) \<notin> breakpoints d)"
  using assms by (rule continue_never)

theorem continue_loop_witness:
  "gdb_message ''c'' (Debug_init (Simulator_RV64 break_memory (\<lambda>_. 0))) = None"
proof -
  let ?d = "Debug_init (Simulator_RV64 break_memory (\<lambda>_. 0))"
  have d: "breakpoints ?d = {}" "cpu_rel (dbg_cpu ?d) break_start"
    using break_rel by (simp_all add: Debug_init_def)
  from continue_loop [of ?d break_start] break_loop_quiet [OF break_rel] show ?thesis
    unfolding d by (auto simp: d)
qed

text \<open>
  C24. A program that, after n quiet instructions, arrives at a breakpoint or executes an
  instruction that reports one (an \<open>ECALL\<close> or a compressed break, but not an \<open>EBREAK\<close>) makes the
  continue message answer, in the state the machine with privileged state and devices has
  there. No time passes on the way and no interrupt is taken.
\<close>

theorem continue_to_breakpoint:
  fixes d :: "'a::len debug"
  assumes "LENGTH('a) = 32 \<or> LENGTH('a) = 64" and "cpu_rel (dbg_cpu d) p"
    and "(sys_quiet (breakpoints d) ^^ n) p q"
    and "sys_insn_step b q r" and "b \<or> ucast (PC (prog r)) \<in> breakpoints d"
  shows "continues d r (gdb_message ''c'' d)"
  using assms by (rule continue_sys)

theorem continue_to_breakpoint_witness:
  "continues ((Debug_init demo_32)\<lparr>breakpoints := {8}\<rparr>)
     ((abs_cpu demo_32)\<lparr>prog := demo_sum (abs_hart (core demo_32))\<rparr>)
     (gdb_message ''c'' ((Debug_init demo_32)\<lparr>breakpoints := {8}\<rparr>))"
proof (rule continue_to_breakpoint [where n = 1])
  let ?a = "abs_hart (core demo_32)" and ?d = "(Debug_init demo_32)\<lparr>breakpoints := {8}\<rparr>"
  let ?q = "(abs_cpu demo_32)\<lparr>prog := demo_mid ?a\<rparr>"
  have pc: "PC (demo_mid ?a) = 4" "PC (demo_sum ?a) = 8"
    using demo_PC [OF demo_starts(1)] by (simp_all add: demo_mid_def demo_sum_def seq_next_def go_def wX_def)
  show "cpu_rel (dbg_cpu ?d) (abs_cpu demo_32)"
    using demo_x0(1) by (simp add: cpu_rel_def Debug_init_def)
  have "sys_insn_step False (abs_cpu demo_32) ?q"
    using demo_steps(1) [OF _ demo_starts(1)] by (intro sys_user) simp
  then show "(sys_quiet (breakpoints ?d) ^^ 1) (abs_cpu demo_32) ?q"
    using pc by (auto simp: sys_quiet_def OO_def)
  show "sys_insn_step False ?q ((abs_cpu demo_32)\<lparr>prog := demo_sum ?a\<rparr>)"
    using sys_user [of ?q "demo_sum ?a"] demo_steps(2) [OF _ demo_starts(1)] by simp
  show "False \<or> ucast (PC (prog ((abs_cpu demo_32)\<lparr>prog := demo_sum ?a\<rparr>))) \<in> breakpoints ?d"
    using pc by simp
qed simp

text \<open>
  C30. A read that fails after the stub has sent an answer is taken for the answer itself: the loop
  does what it does when the client sends the stub's own frame back. A stub that got no
  connection reads nothing, and ends the program outside the buffer.
\<close>

theorem debugger_failed_read:
  fixes d e :: "'a::len debug"
  assumes "reply msg d = Inr (b, e)" and "plain_text msg" and "length msg \<le> 8000"
  shows "handle_gdb_loop (None # rs) e = handle_gdb_loop (Some (frame_of msg) # rs) e \<and>
    (\<forall>n c :: 'a cpu. accept_answer n \<noteq> - 1 \<or> snd (Debug_new n c) = Some (Inl String_overrun))"
  using failed_read [OF assms] no_client by blast

theorem debugger_failed_read_witness:
  "\<exists>e. reply ''S05'' (Debug_init demo_32) = Inr (True, e) \<and>
     handle_gdb_loop [None] e = handle_gdb_loop [Some (frame_of ''S05'')] e"
  using debugger_failed_read [of "''S05''" "Debug_init demo_32"] send_run [of "''S05''" "Debug_init demo_32"]
  by (fastforce simp: plain_text_def)

section \<open>The terminal\<close>

text \<open>
  C31. The life of the trace module in the parent process: every byte sent to it is written, in order,
  to one descriptor. With a pseudo terminal that is its slave, the descriptors opened are
  closed once each, the last one first, and the terminal's process is killed. Without one the
  bytes go to descriptor 0, the standard input of the simulator, which is closed though it was
  never opened.
\<close>

theorem terminal_life:
  assumes "fork_answer h \<noteq> 0" and "\<forall>tr \<in> set trs. data tr \<noteq> []"
  shows "\<exists>p. Trace_life h trs = Some p \<and>
    map snd (writes (calls p)) = map (\<lambda>tr. hd (data tr)) trs \<and>
    (if ptmx_answer h \<noteq> - 1 then
       closed (calls p) = rev (opened (calls p)) \<and>
       killed (calls p) = (if 0 < fork_answer h then [fork_answer h] else []) \<and>
       (\<forall>fd \<in> fst ` set (writes (calls p)). fd = slave_answer h)
     else
       opened (calls p) = [] \<and> closed (calls p) = [0] \<and> killed (calls p) = [] \<and>
       (\<forall>fd \<in> fst ` set (writes (calls p)). fd = 0))"
  using assms by (rule life_calls)

theorem terminal_life_witness:
  "\<exists>p. Trace_life \<lparr>ptmx_answer = - 1, slave_name = None, slave_answer = - 1, local_modes = None,
       fork_answer = 7, execvp_fails = False\<rparr> [data_payload TLM_WRITE_COMMAND 0x40000000 0x41 1] = Some p \<and>
     closed (calls p) = [0] \<and> map snd (writes (calls p)) = [0x41]"
  using terminal_life [of "\<lparr>ptmx_answer = - 1, slave_name = None, slave_answer = - 1, local_modes = None,
      fork_answer = 7, execvp_fails = False\<rparr>" "[data_payload TLM_WRITE_COMMAND 0x40000000 0x41 1]"]
  by (auto simp: le_bytes.simps(2) [of 3 "0x41 :: 32 word", simplified])

text \<open>
  C32. The child process of the trace module becomes the terminal, with an argument that fits its
  array and names the pseudo terminal (in full when its number has one digit, else by the last
  two). When the terminal cannot be executed the child goes on as a second simulator that
  serves every transaction too.
\<close>

theorem terminal_child:
  assumes "fork_answer h = 0" "ptmx_answer h \<noteq> - 1" "- (2 ^ 31) \<le> ptmx_answer h" "ptmx_answer h < 2 ^ 31"
    and "slave_name h = Some (''/dev/pts/'' @ n)" "n \<noteq> []" "CHR ''/'' \<notin> set n"
    and "\<forall>tr \<in> set trs. data tr \<noteq> []"
  shows "if execvp_fails h
    then \<exists>p. Trace_life h trs = Some p \<and>
      writes (calls p) = map (\<lambda>tr. (slave_answer h, hd (data tr))) trs \<and> killed (calls p) = []
    else Trace_new h = Inl (Became [''xterm'',
      if length n = 1 then ''-S'' @ n @ ''/'' @ int_dec (ptmx_answer h)
      else ''-S'' @ last_two n @ int_dec (ptmx_answer h)])"
  using assms by (rule child_life)

theorem terminal_child_witness:
  "Trace_new \<lparr>ptmx_answer = 3, slave_name = Some ''/dev/pts/107'', slave_answer = 4, local_modes = None,
     fork_answer = 0, execvp_fails = False\<rparr> = Inl (Became [''xterm'', ''-S073''])"
  using terminal_child [of "\<lparr>ptmx_answer = 3, slave_name = Some ''/dev/pts/107'', slave_answer = 4,
      local_modes = None, fork_answer = 0, execvp_fails = False\<rparr>" "''107''" "[]"]
  by (simp add: last_two_def int_dec_def to_dec.simps nibble_to_hex_def)

section \<open>The report of the registers\<close>

text \<open>
  C38. The report of the registers determines all 32 registers and the program counter, at both
  widths: reports of two states are equal exactly when the states agree in them.
\<close>

theorem register_report:
  "(Registers_dump_32 r = Registers_dump_32 s \<longleftrightarrow>
      (\<forall>n < 32. register_bank r n = register_bank s n) \<and> register_PC r = register_PC s) \<and>
   (Registers_dump_64 p = Registers_dump_64 q \<longleftrightarrow>
      (\<forall>n < 32. register_bank p n = register_bank q n) \<and> register_PC p = register_PC q)"
  unfolding Registers_dump_32_def Registers_dump_64_def
  by (intro conjI registers_report_iff) simp_all

theorem register_report_witness:
  "Registers_dump_32 (regs (core demo_32)\<lparr>register_PC := 4\<rparr>) \<noteq> Registers_dump_32 (regs (core demo_32)\<lparr>register_PC := 8\<rparr>)"
  using register_report [THEN conjunct1, of "regs (core demo_32)\<lparr>register_PC := 4\<rparr>" "regs (core demo_32)\<lparr>register_PC := 8\<rparr>"]
  by simp

end
