(* ===== verification/Spec2Isabelle.thy ===== *)
theory Spec2Isabelle
  imports Interrupted Report C_Fields ISA_Properties Platform_Properties Host_Properties
begin

text \<open>
  RISC-V-TLM simulates a RISC-V platform in SystemC: a processor (RV32 or RV64, IMAC), a memory
  loaded from an Intel HEX file, a timer and a trace output behind a bus, and a debugger stub that
  can drive the processor instead of the simulation. This library models the program from its
  sources under src/ and proves it against the instruction set manual, the file format and the
  debugger's protocol.

  \<^bold>\<open>The parts and their theories.\<close> A state is a record with the data members of its class; an
  operation is a function in \<open>exec\<close> from the state to an error or a value and the next state. The
  two instances of the class templates are the instances of one definition at word lengths 32 and
  64; where the sources specialise, the definitions end in \<open>_32\<close> and \<open>_64\<close>.
  \<^item> Prelude: \<open>exec\<close>, invariants of operations (\<open>keeps\<close>), fields of words, byte images of words.
    CString: the C++ string functions used on files and packets.
  \<^item> Performance, Registers (inc/Performance.h, inc/Registers.h, src/Registers.cpp): counters,
    registers, program counter, CSRs. \<open>register_file\<close> is the contract of the register bank.
  \<^item> TLM: the transaction object of the library, with the contract of a target (\<open>tlm_target\<close>).
    Memory, Timer, BusCtrl (with src/Trace.cpp) and MemoryInterface: the modules that receive and
    send transactions, and \<open>data_memory\<close>, the contract of the data port.
  \<^item> Extension_Base, BASE_ISA_Decode, BASE_ISA, M_Extension, A_Extension, C_Decode, C_Extension,
    Instruction: the decoders and one definition for each \<open>Exec_\<close> function.
  \<^item> CPU (src/CPU.cpp, src/RV32.cpp, src/RV64.cpp): fetch, dispatch, interrupts, the thread.
  \<^item> HexFile (\<open>Memory::readHexFile\<close>), Debug (src/Debug.cpp), and for src/Simulator.cpp: Options
    (the command line), System (construction, initial states, step relation), Dump (the memory
    dump), Program (\<open>sc_main\<close> as a relation from command line and files to the signature file) and
    Interrupted (the same with a signal of the keyboard).
  \<^item> Xterm (src/Trace.cpp): the pseudo terminal and the process behind the trace module, as calls
    of the operating system; the trace of BusCtrl is what these calls write.
  \<^item> Report (the texts of \<open>Registers::dump\<close> and \<open>Performance::dump\<close>) and C_Fields (accessors of
    inc/C_extension.h that nothing uses).

  \<^bold>\<open>The specifications.\<close> ISA_Spec, C_Spec and A_Spec write the instructions as datatypes with
  their encodings and effects on \<open>arch\<close>, the registers, program counter and memory a program
  sees; Machine is the abstract machine that executes what its memory holds (\<open>isa_step\<close>).
  System_Machine adds its privileged state and the devices (\<open>sys\<close>): traps and returns, CSRs,
  reservations, fences, all atomics, the timer, the console, foreign words, interrupts
  between instructions and the timer's notifications at any time, as a relation labelled with events
  (\<open>sys_step\<close>).
  HexFile holds the meaning of Intel HEX records, Traps the interrupt logic as a state machine.

  \<^bold>\<open>The proofs.\<close> Invariants carries a predicate kept by every access over all instructions and
  steps (\<open>hart_invariant\<close>, \<open>cpu_invariant\<close>). Encoding, Refinement, M_Correct, M_Word, C_Encoding,
  C_Compute, C_Memory, C_Correct and A_Correct prove each instruction's code equal to its
  specification; Simulation lifts this to processor steps and System to runs
  (\<open>forward_simulation\<close>) and reachable states (\<open>step_system\<close>). System_Correct proves each privileged
  instruction and each access to a device against System_Machine, System_Run carries this over
  sequences of events (\<open>labelled_simulation\<close>), and Outcomes turns it around: where the machine goes on
  until it halts, every run of the code is one of its runs, interrupted (Interrupted) or not. Debug_Correct proves the debugger's
  messages, Debug_System its continue loop against System_Machine, Debug_Session relates its packets
  to the messages they carry,
  Boot joins loader and processor, and Program follows a program file from the command line to the
  signature. Traps, Csr, Devices and Limits hold exceptions, CSR instructions, devices, and what
  crosses components; Foreign says what becomes of instructions of other extensions. The properties
  stand in ISA_Properties, Platform_Properties, Host_Properties and here; Examples and Alarm have the programs and states of their witnesses.

  \<^bold>\<open>Loops and bounds.\<close> \<open>CPU_thread n\<close> is the first n rounds of an endless loop, and the theorems
  hold for every n. The continue loop and the dump loop may not end: they are partial functions
  into options, and what is proved is when they return and, of the continue loop, when it does
  not. All other recursion is structural
  or over a decreasing number.
  Integers keep their widths; copies over the end of an array, undefined shifts, host traps and
  exceptions are errors of \<open>sim_error\<close>.

  \<^bold>\<open>Parameters.\<close> The values of the uninitialised locals of the data port are a function in the
  state (\<open>uninit\<close>); the contents of files, what \<open>getopt\<close> returns, whether the log library gives a
  log, the answers of the operating system to the trace module (\<open>host\<close>), what \<open>accept\<close> and \<open>recv\<close>
  return and the buffer of the dump are arguments; and the kernel's delivery of a timer notification is a step that may happen at any time (\<open>timer_event\<close>). The time stamp is a number of nanoseconds; the sources pass it through a \<open>double\<close>, which is exact below
  \<open>2 ^ 53\<close>.

  \<^bold>\<open>Where the code differs from the manual\<close> the specification leaves the case out and a separate
  theorem says what the code does: overflowing divisions, word quotients, compressed shifts and
  jumps on RV64, foreign instructions. So \<open>isa_exec\<close>, \<open>c_isa_exec\<close> and \<open>mdw_exec\<close> are the part of
  the manual the code has, and \<open>amo_op\<close> has the atomics without the exchange; the properties name
  what they leave out. Where the difference is in the privileged state (the status
  register of a trap, the cause of an interrupt, CSR instructions on \<open>x0\<close>, the set of
  reservations) or in the atomics (one register twice, the exchange), System_Machine states what
  the code does.

  \<^bold>\<open>Not modelled.\<close> Log and console messages, which only print (the register reads of log arguments
  are kept, because they count, and the two reports are functions of their own); the time
  report of \<open>sc_main\<close>; the empty F extension; the SystemC
  kernel and the TLM-2.0 library, of which only the documented behaviour of transactions, time and
  stop requests is used. What the kernel does with an error report thrown in a thread, and what a
  signal does to a program that has deleted its simulator, is left out: such a run has no result
  here. Neither is what the kernel does with a stop request beyond running no further step: a round
  that asks for the stop still adds its 10 ns to the clock of the stopped state, and a session under
  the debugger that asked for it has a result although \<open>sc_start\<close> would then report an error. A
  notification of the timer may fire at any time and more than once, whatever delay was asked for:
  more orders of events than the kernel has. System_Machine promises nothing for accesses that leave the memory and the devices, or to
  parts of a timer register, for the store that ends a simulation, and on the 32-bit processor for
  foreign words that run as operations on words of the 64-bit one.
\<close>

section \<open>Running programs\<close>

text \<open>
  C1. A program of n instructions, run by \<open>CPU_thread\<close> of the 32-bit processor from a state
  the abstract machine agrees with, ends in the state in which the abstract machine ends:
  the same registers, program counter and memory.
\<close>

theorem program_refinement_RV32:
  assumes "in_state (c :: 32 cpu) a" and "(isa_step ^^ n) a a'"
  shows "\<exists>c'. CPU_thread n c = Inr ((), c') \<and> in_state c' a'"
  using rv32.runs [OF assms(2,1)] thread_rounds by blast

theorem program_refinement_RV32_witness:
  "\<exists>c'. CPU_thread 3 demo_32 = Inr ((), c') \<and> rX (abs_hart (core c')) 4 = 10"
  using program_refinement_RV32 [OF demo_in_state [OF demo_starts(1)] demo_steps(4) [OF _ demo_starts(1)]]
  by (auto simp: in_state_def demo_end_4)

text \<open>
  C2. The same for the 64-bit processor.
\<close>

theorem program_refinement_RV64:
  assumes "in_state (c :: 64 cpu) a" and "(isa_step ^^ n) a a'"
  shows "\<exists>c'. CPU_thread n c = Inr ((), c') \<and> in_state c' a'"
  using rv64.runs [OF assms(2,1)] thread_rounds by blast

theorem program_refinement_RV64_witness:
  "\<exists>c'. CPU_thread 3 demo_64 = Inr ((), c') \<and> rX (abs_hart (core c')) 4 = 10"
  using program_refinement_RV64 [OF demo_in_state [OF demo_starts(2)] demo_steps(4) [OF _ demo_starts(2)]]
  by (auto simp: in_state_def demo_end_4)

section \<open>Running programs with traps, interrupts and devices\<close>

text \<open>
  C3. From a state of the 32-bit processor and its devices that the machine with privileged state
  agrees with, and for any sequence of rounds and timer notifications that this machine takes, the
  code takes it too, and in one way: it ends with the registers, memory, CSRs, reservations,
  interrupt flags, timer, console and clock of the machine.
\<close>

theorem system_refinement_RV32:
  assumes "cpu_rel (c :: 32 cpu) p" and "events sys_step es p p'"
  shows "(\<exists>c'. events sim_event es c c') \<and> (\<forall>c'. events sim_event es c c' \<longrightarrow> cpu_rel c' p')"
  using assms(2) unfolding sys_event_32 [symmetric] by (rule sys32.outcome_of_events) (rule assms(1))

theorem system_refinement_RV32_witness:
  "\<exists>c. events sim_event [Round, Round, Round, Timer_fires, Round] (Simulator_RV32 alarm_memory (\<lambda>_. 0)) c \<and>
     csrs (abs_cpu c) CSR_MCAUSE = 0x80000000 \<and> csrs (abs_cpu c) CSR_MEPC = 16 \<and> clock (abs_cpu c) = 40"
  using system_refinement_RV32 [OF boot_cpu_rel(1) alarm_events [unfolded alarm_start_def], of "\<lambda>_. 0"] alarm_end
  by (auto simp: cpu_rel_def simp del: events.simps)

text \<open>
  C4. The same for the 64-bit processor, for any number of rounds.
\<close>

theorem system_refinement_RV64:
  assumes "cpu_rel (c :: 64 cpu) p" and "events sys_step (replicate n Round) p p'"
  shows "(\<exists>c'. events sim_event (replicate n Round) c c') \<and>
    (\<forall>c'. events sim_event (replicate n Round) c c' \<longrightarrow> cpu_rel c' p')"
  using sys64.outcome_of_events [OF sys_event_rounds [OF assms(2)] assms(1)] .

theorem system_refinement_RV64_witness:
  "\<exists>c. events sim_event (replicate 1 Round) (Simulator_RV64 alarm_memory (\<lambda>_. 0)) c \<and>
     csrs (abs_cpu c) CSR_MSTATUS = 8 \<and> clock (abs_cpu c) = 10"
proof -
  have "events sys_step (replicate 1 Round) (boot_sys 0x80001105 alarm_memory)
      (alarm_enabled (boot_sys 0x80001105 alarm_memory) :: 64 sys)"
    using alarm_first by simp
  from system_refinement_RV64 [OF boot_cpu_rel(2) this, of "\<lambda>_. 0"] show ?thesis
    using alarm_first_state by (auto simp: cpu_rel_def simp del: events.simps replicate.simps)
qed

text \<open>
  C5. A program file of Intel HEX records is loaded, and the 32-bit simulation built on the loaded
  memory takes the events that the machine takes from the image and the start address the
  records describe, and ends in its state.
\<close>

theorem system_from_file:
  assumes "\<forall>(r, ck) \<in> set rs. CHR 0x0A \<notin> set ck"
    and "hex_load (map fst rs) (Lin_base 0, Memory_init) = Some (b, m)"
    and "events sys_step es (boot_sys 0x40001105 m) p"
  shows "\<exists>m'. Memory_file (Some (hex_file rs)) = Inr m' \<and>
    (\<exists>c. events sim_event es (Simulator_RV32 m' u) c) \<and>
    (\<forall>c. events sim_event es (Simulator_RV32 m' u) c \<longrightarrow> abs_cpu c = p)"
  using assms by (rule boot_events_32)

theorem system_from_file_witness:
  "\<exists>m c. Memory_file (Some (hex_file alarm_records)) = Inr m \<and>
     events sim_event [Round, Round, Round, Timer_fires, Round] (Simulator_RV32 m (\<lambda>_. 0)) c \<and>
     csrs (abs_cpu c) CSR_MCAUSE = 0x80000000"
  using system_from_file [OF alarm_records_ok alarm_records_load alarm_events [unfolded alarm_start_def], of "\<lambda>_. 0"]
    alarm_end(1) by (fastforce simp del: events.simps)

section \<open>The program\<close>

text \<open>
  C6. All results of the program: called with \<open>-T -B lo -E hi -R 32\<close> on a file whose program the
  machine with privileged state covers, the simulation may interleave the timer's notifications
  with the processor as it likes; the signature files it can write are exactly those with the
  words between the bounds of a halted state the machine reaches.
\<close>

theorem program_outcomes_RV32:
  assumes "create None = None" and "files name = Some (hex_file rs)"
    and "\<forall>(r, ck) \<in> set rs. CHR 0x0A \<notin> set ck"
    and "hex_load (map fst rs) (Lin_base 0, Memory_init) = Some (b, m)"
    and "covers (boot_sys 0x40001105 m :: 32 sys)" and "length buf = 16"
    and "lo \<noteq> 0" and "hi \<noteq> 0" and "unat lo + 4 * k \<le> SIZE" and "unat hi = unat lo + 4 * k"
  shows "sc_main create files chunks u buf (dump_command RV32 lo hi) (Some name) out \<longleftrightarrow>
    (\<exists>es p. events sys_step es (boot_sys 0x40001105 m :: 32 sys) p \<and> halted p \<and>
       out = Some (signature_name name, signature (unat lo) k (prog p)))"
  using assms by (rule outcomes_32)

theorem program_outcomes_RV32_witness:
  "\<forall>out. sc_main (\<lambda>_. None) [''dir/alarm.elf.hex'' \<mapsto> hex_file alarm_records] [] (\<lambda>_. 0) (replicate 16 0)
     (dump_command RV32 4 8) (Some ''dir/alarm.elf.hex'') out \<longleftrightarrow>
     out = Some (''alarm.signature.output'', ''400040b7'' @ [CHR 0x0A])"
proof -
  have n: "signature_name ''dir/alarm.elf.hex'' = ''alarm.signature.output''"
    by (simp add: signature_name_def)
  have "sc_main (\<lambda>_. None) [''dir/alarm.elf.hex'' \<mapsto> hex_file alarm_records] [] (\<lambda>_. 0) (replicate 16 0)
      (dump_command RV32 4 8) (Some ''dir/alarm.elf.hex'') out \<longleftrightarrow>
    (\<exists>es p. events sys_step es (alarm_start :: 32 sys) p \<and> halted p \<and>
      out = Some (signature_name ''dir/alarm.elf.hex'', signature (unat (4 :: 32 word)) 1 (prog p)))" for out
    unfolding alarm_start_def
    by (rule program_outcomes_RV32 [OF _ _ alarm_records_ok alarm_records_load alarm_covered [unfolded alarm_start_def]])
      (simp_all add: SIZE_def)
  moreover have "unat (4 :: 32 word) = 4" by simp
  ultimately show ?thesis by (simp only: n alarm_signatures simp_thms)
qed

text \<open>
  C7. The same with \<open>-R 64\<close>, where the only runs are those without a notification of the timer.
\<close>

theorem program_outcomes_RV64:
  assumes "create None = None" and "files name = Some (hex_file rs)"
    and "\<forall>(r, ck) \<in> set rs. CHR 0x0A \<notin> set ck"
    and "hex_load (map fst rs) (Lin_base 0, Memory_init) = Some (b, m)"
    and "covers (boot_sys 0x80001105 m :: 64 sys)" and "length buf = 16"
    and "lo \<noteq> 0" and "hi \<noteq> 0" and "unat lo + 4 * k \<le> SIZE" and "unat hi = unat lo + 4 * k"
  shows "sc_main create files chunks u buf (dump_command RV64 lo hi) (Some name) out \<longleftrightarrow>
    (\<exists>n p. events sys_step (replicate n Round) (boot_sys 0x80001105 m :: 64 sys) p \<and> halted p \<and>
       out = Some (signature_name name, signature (unat lo) k (prog p)))"
  using assms by (rule outcomes_64)

theorem program_outcomes_RV64_witness:
  "\<forall>out. sc_main (\<lambda>_. None) [''dir/break.elf.hex'' \<mapsto> hex_file break_records] [] (\<lambda>_. 0) (replicate 16 0)
     (dump_command RV64 4 8) (Some ''dir/break.elf.hex'') out \<longleftrightarrow>
     out = Some (''break.signature.output'', ''00000000'' @ [CHR 0x0A])"
proof -
  have n: "signature_name ''dir/break.elf.hex'' = ''break.signature.output''"
    by (simp add: signature_name_def)
  have "sc_main (\<lambda>_. None) [''dir/break.elf.hex'' \<mapsto> hex_file break_records] [] (\<lambda>_. 0) (replicate 16 0)
      (dump_command RV64 4 8) (Some ''dir/break.elf.hex'') out \<longleftrightarrow>
    (\<exists>n p. events sys_step (replicate n Round) break_start p \<and> halted p \<and>
      out = Some (signature_name ''dir/break.elf.hex'', signature (unat (4 :: 32 word)) 1 (prog p)))" for out
    unfolding break_start_def
    by (rule program_outcomes_RV64 [OF _ _ break_records_ok break_records_load break_covered [unfolded break_start_def]])
      (simp_all add: SIZE_def)
  moreover have "unat (4 :: 32 word) = 4" by simp
  ultimately show ?thesis by (simp only: n break_signatures simp_thms)
qed

text \<open>
  C9. The program as a whole: called with \<open>-T -B lo -E hi -R 32\<close> on a file whose program arrives at
  an \<open>EBREAK\<close> after n instructions, it has one result: it writes to the signature file the words
  between the bounds as the abstract machine leaves them. A bound given as 0 is taken from \<open>t0\<close>
  or \<open>t1\<close>.
\<close>

theorem signature_of_program:
  fixes a :: "32 arch"
  assumes "create None = None" and "files name = Some (hex_file rs)"
    and "\<forall>(r, ck) \<in> set rs. CHR 0x0A \<notin> set ck"
    and "hex_load (map fst rs) (Lin_base 0, Memory_init) = Some (b, m)"
    and "(isa_step ^^ n) (boot_arch m) a" and "at_ebreak a" and "length buf = 16"
    and "p = (if lo = 0 then ucast (rX a 5) else lo)" and "q = (if hi = 0 then ucast (rX a 6) else hi)"
    and "unat p + 4 * k \<le> SIZE" and "unat q = unat p + 4 * k"
  shows "sc_main create files chunks u buf (dump_command RV32 lo hi) (Some name) out \<longleftrightarrow>
    out = Some (signature_name name, signature (unat p) k a)"
  using assms by (rule dump_program_32)

theorem signature_of_program_witness:
  "\<forall>out. sc_main (\<lambda>_. None) [''dir/store.elf.hex'' \<mapsto> hex_file store_records] [] (\<lambda>_. 0) (replicate 16 0)
     (dump_command RV32 0x40 0x44) (Some ''dir/store.elf.hex'') out \<longleftrightarrow>
     out = Some (''store.signature.output'', ''003fffff'' @ [CHR 0x0A])"
proof -
  have "signature_name ''dir/store.elf.hex'' = ''store.signature.output''"
    by (simp add: signature_name_def)
  moreover have "(isa_step ^^ 1) (boot_arch store_image) store_end"
    using store_step by (simp add: eq_OO)
  note signature_of_program [OF _ _ _ store_records_load this store_breaks, where create = "\<lambda>_. None"
      and files = "[''dir/store.elf.hex'' \<mapsto> hex_file store_records]" and name = "''dir/store.elf.hex''"
      and buf = "replicate 16 0" and p = "0x40" and lo = "0x40" and q = "0x44" and hi = "0x44" and k = 1
      and chunks = "[]" and u = "\<lambda>_. 0"]
  ultimately show ?thesis
    by (simp add: store_signature [simplified] SIZE_def store_records_def
        del: le_bytes.simps encode.simps)
qed

text \<open>
  C8. The program ended by a signal, called for a memory dump: it leaves no file, or it writes the words between
  the bounds of a state the machine reaches, halted or not; and every reachable state can be
  what it writes.
\<close>

theorem interrupted_program:
  assumes "create None = None" and "files name = Some (hex_file rs)"
    and "\<forall>(r, ck) \<in> set rs. CHR 0x0A \<notin> set ck"
    and "hex_load (map fst rs) (Lin_base 0, Memory_init) = Some (b, m)"
    and "covers (boot_sys 0x40001105 m :: 32 sys)" and "length buf = 16"
    and "lo \<noteq> 0" and "hi \<noteq> 0" and "unat lo + 4 * k \<le> SIZE" and "unat hi = unat lo + 4 * k"
  shows "intHandler create files chunks u buf (dump_command RV32 lo hi) (Some name) out \<longleftrightarrow>
    out = None \<or> (\<exists>es p. events sys_step es (boot_sys 0x40001105 m :: 32 sys) p \<and>
       out = Some (signature_name name, signature (unat lo) k (prog p)))"
  using assms by (rule interrupted_32)

theorem interrupted_program_witness:
  "\<forall>out. intHandler (\<lambda>_. None) [''dir/alarm.elf.hex'' \<mapsto> hex_file alarm_records] [] (\<lambda>_. 0) (replicate 16 0)
     (dump_command RV32 4 8) (Some ''dir/alarm.elf.hex'') out \<longleftrightarrow>
     out = None \<or> out = Some (''alarm.signature.output'', ''400040b7'' @ [CHR 0x0A])"
proof -
  have n: "signature_name ''dir/alarm.elf.hex'' = ''alarm.signature.output''"
    by (simp add: signature_name_def)
  have "intHandler (\<lambda>_. None) [''dir/alarm.elf.hex'' \<mapsto> hex_file alarm_records] [] (\<lambda>_. 0) (replicate 16 0)
      (dump_command RV32 4 8) (Some ''dir/alarm.elf.hex'') out \<longleftrightarrow>
    out = None \<or> (\<exists>es p. events sys_step es (alarm_start :: 32 sys) p \<and>
      out = Some (signature_name ''dir/alarm.elf.hex'', signature (unat (4 :: 32 word)) 1 (prog p)))" for out
    unfolding alarm_start_def
    by (rule interrupted_program [OF _ _ alarm_records_ok alarm_records_load alarm_covered [unfolded alarm_start_def]])
      (simp_all add: SIZE_def)
  moreover have "unat (4 :: 32 word) = 4" by simp
  ultimately show ?thesis by (simp only: n alarm_interrupted simp_thms)
qed

section \<open>Reachable states\<close>

text \<open>
  C10. In every state the simulation of the 32-bit processor reaches, whatever the memory holds
  and whenever the timer interrupts: register 0 is zero, the processor reads through a direct
  pointer only if the memory grants it, MISA says RV32IMAC, and the time is 10 ns for each
  instruction counted.
\<close>

theorem reachable_RV32:
  assumes "sim_step\<^sup>*\<^sup>* (Simulator_RV32 m u) c"
  shows "register_bank (regs (core c)) 0 = 0 \<and>
    (dmi_ptr_valid c \<longrightarrow> dmi_allowed (main_memory (plat (core c)))) \<and>
    CSR (regs (core c)) (of_int CSR_MISA) = Some 0x40001105 \<and>
    sc_now (plat (core c)) = 10 * instructions_executed (perf (core c))"
  using sim32.reachable [OF assms] sim_init_RV32_def
  by (auto simp: sim_inv_def hart_x0_def x0_zero_def dmi_ok_def hart_misa_def)

theorem reachable_RV32_witness:
  "\<exists>c :: 32 cpu. rX (abs_hart (core c)) 4 = 10 \<and> register_bank (regs (core c)) 0 = 0 \<and>
     (dmi_ptr_valid c \<longrightarrow> dmi_allowed (main_memory (plat (core c)))) \<and>
     CSR (regs (core c)) (of_int CSR_MISA) = Some 0x40001105 \<and>
     sc_now (plat (core c)) = 10 * instructions_executed (perf (core c))"
  using demo_runs_32 reachable_RV32 [of demo_memory "\<lambda>_. 0"] unfolding demo_32_def by blast

text \<open>
  C11. The same for the 64-bit processor, whose MISA says RV64IMAC.
\<close>

theorem reachable_RV64:
  assumes "sim_step\<^sup>*\<^sup>* (Simulator_RV64 m u) c"
  shows "register_bank (regs (core c)) 0 = 0 \<and>
    (dmi_ptr_valid c \<longrightarrow> dmi_allowed (main_memory (plat (core c)))) \<and>
    CSR (regs (core c)) (of_int CSR_MISA) = Some 0x80001105 \<and>
    sc_now (plat (core c)) = 10 * instructions_executed (perf (core c))"
  using sim64.reachable [OF assms] sim_init_RV64_def
  by (auto simp: sim_inv_def hart_x0_def x0_zero_def dmi_ok_def hart_misa_def)

theorem reachable_RV64_witness:
  "\<exists>c :: 64 cpu. rX (abs_hart (core c)) 4 = 10 \<and> register_bank (regs (core c)) 0 = 0 \<and>
     (dmi_ptr_valid c \<longrightarrow> dmi_allowed (main_memory (plat (core c)))) \<and>
     CSR (regs (core c)) (of_int CSR_MISA) = Some 0x80001105 \<and>
     sc_now (plat (core c)) = 10 * instructions_executed (perf (core c))"
  using demo_runs_64 reachable_RV64 [of demo_memory "\<lambda>_. 0"] unfolding demo_64_def by blast

end
